(* ===== verification/Prelude.thy ===== *)
theory Prelude
  imports Main "HOL-Library.Word" "HOL-Library.Char_ord" "HOL-Library.List_Lexorder"
    "HOL-Library.Finite_Map"
begin

text \<open>
  Shared vocabulary of the development: results of fallible code, machine integers with
  Rust's overflow behaviour, the iterator combinators the contracts use, decimal printing
  and parsing of integers, and the ordered key-value store behind a contract's storage.

  A call of a contract ends in one of three ways: it returns a value, it returns an error
  (a value of the contract's error enum), or it panics (an overflow, an \<open>unwrap\<close> of
  nothing, an index out of range, an \<open>unimplemented!\<close>). The first is \<open>Inr\<close>, the other
  two are \<open>Inl\<close> of a \<open>fault\<close>. The workspace is built with \<open>overflow-checks = true\<close> and
  \<open>panic = 'abort'\<close> (src/Cargo.toml), so an overflow is a panic and a panic ends the call.
\<close>

named_theorems res_simps "inversion rules: when a piece of fallible code returns"

section \<open>Results\<close>

datatype 'e fault = Err 'e | Panic

type_synonym ('e, 'a) res = "'e fault + 'a"

definition and_then :: "('e, 'a) res \<Rightarrow> ('a \<Rightarrow> ('e, 'b) res) \<Rightarrow> ('e, 'b) res" where
  \<comment> \<open>Rust's question mark: go on with the value, return the fault\<close>
  "and_then m f = (case m of Inl e \<Rightarrow> Inl e | Inr x \<Rightarrow> f x)"

definition map_err :: "('e \<Rightarrow> 'f) \<Rightarrow> ('e, 'a) res \<Rightarrow> ('f, 'a) res" where
  "map_err g m = (case m of Inl (Err e) \<Rightarrow> Inl (Err (g e)) | Inl Panic \<Rightarrow> Inl Panic | Inr x \<Rightarrow> Inr x)"

definition fail_with :: "'e \<Rightarrow> ('e, 'a) res" where
  "fail_with e = Inl (Err e)"

definition ensure :: "bool \<Rightarrow> 'e \<Rightarrow> ('e, unit) res" where
  "ensure b e = (if b then Inr () else Inl (Err e))"

definition ok_or :: "'e \<Rightarrow> 'a option \<Rightarrow> ('e, 'a) res" where
  "ok_or e m = (case m of None \<Rightarrow> Inl (Err e) | Some x \<Rightarrow> Inr x)"

definition or_panic :: "'a option \<Rightarrow> ('e, 'a) res" where
  "or_panic m = (case m of None \<Rightarrow> Inl Panic | Some x \<Rightarrow> Inr x)"

lemma and_then_simps [simp]:
  "and_then (Inl e) f = Inl e"
  "and_then (Inr x) f = f x"
  by (simp_all add: and_then_def)

lemma map_err_simps [simp]:
  "map_err g (Inl (Err e)) = Inl (Err (g e))"
  "map_err g (Inl Panic) = Inl Panic"
  "map_err g (Inr x) = Inr x"
  by (simp_all add: map_err_def)

lemma ensure_simps [simp]:
  "ensure True e = Inr ()"
  "ensure False e = Inl (Err e)"
  by (simp_all add: ensure_def)

lemma ok_or_simps [simp]:
  "ok_or e None = Inl (Err e)"
  "ok_or e (Some x) = Inr x"
  by (simp_all add: ok_or_def)

lemma or_panic_simps [simp]:
  "or_panic None = Inl Panic"
  "or_panic (Some x) = Inr x"
  by (simp_all add: or_panic_def)

lemma fail_with_not_Inr [simp]: "fail_with e \<noteq> Inr x" "Inr x \<noteq> fail_with e"
  by (simp_all add: fail_with_def)

lemma and_then_returns [res_simps]:
  "and_then m f = Inr y \<longleftrightarrow> (\<exists>x. m = Inr x \<and> f x = Inr y)"
  by (cases m) auto

lemma map_err_returns [res_simps]: "map_err g m = Inr x \<longleftrightarrow> m = Inr x"
  by (auto simp: map_err_def split: sum.splits fault.splits)

lemma ensure_returns [res_simps]: "ensure b e = Inr u \<longleftrightarrow> b"
  by (auto simp: ensure_def)

lemma ok_or_returns [res_simps]: "ok_or e m = Inr x \<longleftrightarrow> m = Some x"
  by (auto simp: ok_or_def split: option.splits)

lemma or_panic_returns [res_simps]: "or_panic m = Inr x \<longleftrightarrow> m = Some x"
  by (auto simp: or_panic_def split: option.splits)

lemma fail_with_returns [res_simps]: "fail_with e = Inr x \<longleftrightarrow> False"
  by simp

lemma if_fail_returns [res_simps]:
  "(if b then fail_with e else m) = Inr x \<longleftrightarrow> \<not> b \<and> m = Inr x"
  by simp

lemma if_else_fail_returns [res_simps]:
  "(if b then m else fail_with e) = Inr x \<longleftrightarrow> b \<and> m = Inr x"
  by simp

lemma and_then_assoc: "and_then (and_then m f) g = and_then m (\<lambda>x. and_then (f x) g)"
  by (cases m) auto

lemma and_then_case_prod [simp]:
  "and_then (case p of (a, b) \<Rightarrow> f a b) g = (case p of (a, b) \<Rightarrow> and_then (f a b) g)"
  by (cases p) simp

lemma and_then_cong [fundef_cong]:
  "m = m' \<Longrightarrow> (\<And>x. m' = Inr x \<Longrightarrow> f x = f' x) \<Longrightarrow> and_then m f = and_then m' f'"
  by (cases m') auto

lemma and_then_eval_cong: "m = m' \<Longrightarrow> and_then m f = and_then m' f"
  \<comment> \<open>as a congruence rule it makes the simplifier evaluate from left to right\<close>
  by simp

section \<open>What a call yields\<close>

text \<open>
  \<open>yields P m\<close>: if \<open>m\<close> returns a value, it satisfies \<open>P\<close>. The introduction rules walk through a
  handler from the first step to the last and collect, as premises, what each step returned.
\<close>

definition yields :: "('a \<Rightarrow> bool) \<Rightarrow> ('e, 'a) res \<Rightarrow> bool" where
  "yields P m \<longleftrightarrow> (\<forall>y. m = Inr y \<longrightarrow> P y)"

lemma yieldsD: "yields P m \<Longrightarrow> m = Inr y \<Longrightarrow> P y"
  by (simp add: yields_def)

named_theorems yields_rules \<open>introduction rules for \<open>yields\<close>\<close>

lemma yields_and_then [yields_rules]:
  "(\<And>x. m = Inr x \<Longrightarrow> yields P (f x)) \<Longrightarrow> yields P (and_then m f)"
  by (cases m) (auto simp: yields_def)

lemma yields_Inr [yields_rules]: "P y \<Longrightarrow> yields P (Inr y)"
  by (simp add: yields_def)

lemma yields_Inl [yields_rules]: "yields P (Inl e)"
  by (simp add: yields_def)

lemma yields_fail_with [yields_rules]: "yields P (fail_with e)"
  by (simp add: yields_def)

lemma yields_if [yields_rules]:
  "(b \<Longrightarrow> yields P m) \<Longrightarrow> (\<not> b \<Longrightarrow> yields P m') \<Longrightarrow> yields P (if b then m else m')"
  by simp

lemma yields_case_prod [yields_rules]:
  "(\<And>a b. p = (a, b) \<Longrightarrow> yields P (f a b)) \<Longrightarrow> yields P (case p of (a, b) \<Rightarrow> f a b)"
  by (cases p) simp

lemma yields_case_option [yields_rules]:
  "(x = None \<Longrightarrow> yields P m) \<Longrightarrow> (\<And>a. x = Some a \<Longrightarrow> yields P (f a)) \<Longrightarrow>
     yields P (case x of None \<Rightarrow> m | Some a \<Rightarrow> f a)"
  by (cases x) simp_all

section \<open>Iterators over fallible code\<close>

text \<open>
  \<open>iter().map(f).collect::<Result<Vec<_>, _>>()\<close> stops at the first error;
  \<open>try_for_each\<close> is the same without the results.
\<close>

fun try_map :: "('a \<Rightarrow> ('e, 'b) res) \<Rightarrow> 'a list \<Rightarrow> ('e, 'b list) res" where
  "try_map f [] = Inr []"
| "try_map f (x # xs) = and_then (f x) (\<lambda>y. and_then (try_map f xs) (\<lambda>ys. Inr (y # ys)))"

fun try_for_each :: "('a \<Rightarrow> ('e, unit) res) \<Rightarrow> 'a list \<Rightarrow> ('e, unit) res" where
  "try_for_each f [] = Inr ()"
| "try_for_each f (x # xs) = and_then (f x) (\<lambda>_. try_for_each f xs)"

lemma try_map_returns: "try_map f xs = Inr ys \<longleftrightarrow> list_all2 (\<lambda>x y. f x = Inr y) xs ys"
  by (induction xs arbitrary: ys) (auto simp: res_simps list_all2_Cons1)

lemma try_map_length: "try_map f xs = Inr ys \<Longrightarrow> length ys = length xs"
  by (simp add: try_map_returns list_all2_lengthD)

lemma try_for_each_returns [res_simps]:
  "try_for_each f xs = Inr u \<longleftrightarrow> (\<forall>x \<in> set xs. f x = Inr ())"
  by (induction xs) (auto simp: res_simps)

fun find_position :: "('a \<Rightarrow> bool) \<Rightarrow> 'a list \<Rightarrow> nat option" where
  \<comment> \<open>the index part of \<open>Itertools::find_position\<close> and of \<open>Iterator::position\<close>\<close>
  "find_position P [] = None"
| "find_position P (x # xs) = (if P x then Some 0 else map_option Suc (find_position P xs))"

lemma find_position_Some:
  "find_position P xs = Some i \<Longrightarrow> i < length xs \<and> P (xs ! i) \<and> (\<forall>j < i. \<not> P (xs ! j))"
  by (induction xs arbitrary: i) (auto split: if_splits simp: less_Suc_eq_0_disj)

lemma find_position_None: "find_position P xs = None \<longleftrightarrow> (\<forall>x \<in> set xs. \<not> P x)"
  by (induction xs) auto

section \<open>Machine integers\<close>

type_synonym u8 = "8 word"
type_synonym u16 = "16 word"
type_synonym u32 = "32 word"
type_synonym u64 = "64 word"
type_synonym u128 = "128 word"

definition add_checked :: "'l::len word \<Rightarrow> 'l word \<Rightarrow> 'l word option" where
  "add_checked a b = (if unat a + unat b < 2 ^ LENGTH('l) then Some (a + b) else None)"

definition sub_checked :: "'l::len word \<Rightarrow> 'l word \<Rightarrow> 'l word option" where
  "sub_checked a b = (if b \<le> a then Some (a - b) else None)"

definition sub_saturating :: "'l::len word \<Rightarrow> 'l word \<Rightarrow> 'l word" where
  "sub_saturating a b = (if b \<le> a then a - b else 0)"

lemma add_checked_Some: "add_checked a b = Some c \<Longrightarrow> unat c = unat a + unat b"
  for a b c :: "'l::len word"
  by (auto simp: add_checked_def unat_word_ariths split: if_splits)

lemma add_checked_None: "add_checked a b = None \<longleftrightarrow> 2 ^ LENGTH('l) \<le> unat a + unat b"
  for a b :: "'l::len word"
  by (auto simp: add_checked_def)

lemma sub_checked_Some: "sub_checked a b = Some c \<Longrightarrow> unat c + unat b = unat a \<and> b \<le> a"
  for a b c :: "'l::len word"
  by (auto simp: sub_checked_def unat_sub word_le_nat_alt split: if_splits)

lemma sub_saturating_unat: "unat (sub_saturating a b) = unat a - unat b"
  for a b :: "'l::len word"
  by (auto simp: sub_saturating_def unat_sub word_le_nat_alt)

end
