(* ===== verification/Numerals.thy ===== *)
theory Numerals
  imports Prelude
begin

text \<open>
  Decimal text of unsigned integers, as Rust's standard library prints and parses it:
  \<open>Display\<close> for the integer types and \<open>FromStr\<close> for \<open>u128\<close>
  (\<open>str::parse\<close>, used on the amounts of pool creation fees). Strings are lists of bytes.
\<close>

definition digit_char :: "nat \<Rightarrow> char" where
  "digit_char d = char_of (48 + d)"

definition char_digit :: "char \<Rightarrow> nat option" where
  "char_digit c = (let n = of_char c in if 48 \<le> n \<and> n \<le> (57::nat) then Some (n - 48) else None)"

fun show_nat :: "nat \<Rightarrow> string" where
  "show_nat n = (if n < 10 then [digit_char n] else show_nat (n div 10) @ [digit_char (n mod 10)])"

declare show_nat.simps [simp del]

definition to_string :: "'l::len word \<Rightarrow> string" where
  "to_string w = show_nat (unat w)"

datatype parse_int_error = EmptyNumber | InvalidDigit | PosOverflow

fun parse_digits :: "string \<Rightarrow> nat \<Rightarrow> parse_int_error + nat" where
  "parse_digits [] acc = Inr acc"
| "parse_digits (c # cs) acc =
     (case char_digit c of
        None \<Rightarrow> Inl InvalidDigit
      | Some d \<Rightarrow> (if 2 ^ 128 \<le> 10 * acc + d then Inl PosOverflow else parse_digits cs (10 * acc + d)))"

definition parse_u128 :: "string \<Rightarrow> parse_int_error + u128" where
  "parse_u128 s =
     (case s of
        [] \<Rightarrow> Inl EmptyNumber
      | c # cs \<Rightarrow>
          (let ds = (if c = CHR ''+'' \<and> cs \<noteq> [] then cs else s)
           in case parse_digits ds 0 of Inl e \<Rightarrow> Inl e | Inr n \<Rightarrow> Inr (word_of_nat n)))"

lemma char_digit_digit_char [simp]: "d < 10 \<Longrightarrow> char_digit (digit_char d) = Some d"
  by (simp add: char_digit_def digit_char_def)

lemma digit_char_not_plus: "d < 10 \<Longrightarrow> digit_char d \<noteq> CHR ''+''"
proof
  assume d: "d < 10" and "digit_char d = CHR ''+''"
  then have "(of_char (digit_char d) :: nat) = of_char (CHR ''+'')" by simp
  with d show False by (simp add: digit_char_def)
qed

lemma show_nat_nonempty [simp]: "show_nat n \<noteq> []"
  by (subst show_nat.simps) simp

lemma hd_show_nat: "hd (show_nat n) \<noteq> CHR ''+''"
proof (induction n rule: show_nat.induct)
  case (1 n)
  show ?case
    using 1 by (cases "n < 10") (simp_all add: show_nat.simps [of n] digit_char_not_plus)
qed

lemma parse_digits_append:
  "parse_digits (xs @ ys) acc = (case parse_digits xs acc of Inl e \<Rightarrow> Inl e | Inr a \<Rightarrow> parse_digits ys a)"
  by (induction xs arbitrary: acc) (auto split: option.splits)

lemma parse_digits_show_nat: "n < 2 ^ 128 \<Longrightarrow> parse_digits (show_nat n) 0 = Inr n"
proof (induction n rule: show_nat.induct)
  case (1 n)
  show ?case
  proof (cases "n < 10")
    case True
    then show ?thesis by (simp add: show_nat.simps [of n])
  next
    case False
    with 1 have "parse_digits (show_nat (n div 10)) 0 = Inr (n div 10)" by simp
    moreover have "n div 10 * 10 + n mod 10 = n" by (rule div_mult_mod_eq)
    ultimately show ?thesis
      using False "1.prems" by (simp add: show_nat.simps [of n] parse_digits_append mult.commute)
  qed
qed

lemma parse_show_u128: "parse_u128 (to_string w) = Inr w" for w :: u128
proof -
  obtain c cs where s: "show_nat (unat w) = c # cs"
    by (cases "show_nat (unat w)") auto
  with hd_show_nat [of "unat w"] have "c \<noteq> CHR ''+''" by simp
  moreover have "unat w < 2 ^ 128" using unsigned_less [of w] by simp
  then have "parse_digits (c # cs) 0 = Inr (unat w)"
    using parse_digits_show_nat [of "unat w"] s by simp
  ultimately show ?thesis
    by (simp add: parse_u128_def to_string_def s del: parse_digits.simps)
qed

lemma to_string_inject [simp]: "to_string (v :: u128) = to_string w \<longleftrightarrow> v = w"
  by (metis parse_show_u128 sum.inject(2))

end
