(* ===== verification/Chain.thy ===== *)
theory Chain
  imports Numerals
begin

text \<open>
  The vocabulary of a CosmWasm call: coins, the sender and its funds, the block, the
  response a handler returns, and the record \<open>crates\<close> of the third-party functions that every
  contract of the repository calls (the \<open>astroport\<close> crate and the API of the virtual machine).
  Third-party code is never defined here: it is an argument of the definitions that use it,
  and what a theorem needs of it is a named hypothesis (\<open>ownership_laws\<close> below). A call of
  such a function may return, fail or panic.
\<close>

section \<open>Coins, messages, environment\<close>

type_synonym addr = string
type_synonym attribute = "string \<times> string"

record coin =
  coin_denom :: string
  coin_amount :: u128

record message_info =
  mi_sender :: addr
  mi_funds :: "coin list"

record env =
  env_time :: u64          \<comment> \<open>\<open>env.block.time.seconds()\<close>\<close>
  env_height :: u64        \<comment> \<open>\<open>env.block.height\<close>\<close>
  env_contract :: addr     \<comment> \<open>\<open>env.contract.address\<close>\<close>

datatype std_error = GenericErr string | NotFound string | OtherStdErr string

datatype payment_error = MissingDenom string | ExtraDenom string | MultipleDenoms | NoFunds | NonPayable

datatype reply_on = Always | OnError | OnSuccess | Never

record 'm submsg =
  sub_id :: u64
  sub_msg :: 'm
  sub_reply_on :: reply_on

record 'm response =
  resp_attrs :: "attribute list"
  resp_msgs :: "'m submsg list"

definition submsg_new :: "'m \<Rightarrow> 'm submsg" where
  "submsg_new m = \<lparr>sub_id = 0, sub_msg = m, sub_reply_on = Never\<rparr>"

definition attrs_response :: "attribute list \<Rightarrow> 'm response" where
  \<comment> \<open>\<open>Response::new().add_attributes(attrs)\<close>\<close>
  "attrs_response as = \<lparr>resp_attrs = as, resp_msgs = []\<rparr>"

lemma attrs_response_sel [simp]:
  "resp_attrs (attrs_response as) = as"
  "resp_msgs (attrs_response as) = []"
  by (simp_all add: attrs_response_def)

definition coin_to_string :: "coin \<Rightarrow> string" where
  "coin_to_string c = to_string (coin_amount c) @ coin_denom c"

definition load_item :: "string \<Rightarrow> 'a option \<Rightarrow> (std_error, 'a) res" where
  \<comment> \<open>\<open>Item::load\<close>: an error when nothing is stored\<close>
  "load_item name i = ok_or (NotFound name) i"

lemma load_item_Some [simp]: "load_item name (Some x) = Inr x"
  by (simp add: load_item_def)

lemma load_item_None [simp]: "load_item name None = Inl (Err (NotFound name))"
  by (simp add: load_item_def)

lemma load_item_returns [res_simps]: "load_item name i = Inr x \<longleftrightarrow> i = Some x"
  by (simp add: load_item_def res_simps)

section \<open>Assets\<close>

text \<open>
  The asset types of the \<open>astroport\<close> crate that the contracts match on: a cw20 token or a
  native denom. \<open>binary\<close> is a serialised payload that the contract only passes on.
\<close>

type_synonym binary = string

datatype asset_info = Token addr | NativeToken string

record asset =
  as_info :: asset_info
  as_amount :: u128

datatype pair_type = Xyk | Stable | Custom string

record pair_info =
  pi_asset_infos :: "asset_info list"
  pi_contract_addr :: addr
  pi_liquidity_token :: addr
  pi_pair_type :: pair_type

record pair_instantiate_msg =
  pim_asset_infos :: "asset_info list"
  pim_token_code_id :: u64
  pim_factory_addr :: string
  pim_init_params :: "binary option"

section \<open>Fixed-point numbers\<close>

text \<open>
  \<open>Decimal\<close> and \<open>Decimal256\<close> are newtypes over a 128-bit and a 256-bit integer, the number of
  atomics (units of 10 to the power -18). The data and its order are those of the integers;
  the arithmetic is third-party and comes with the parameters of each contract.
\<close>

datatype decimal = Decimal (atomics: u128)
datatype decimal256 = Decimal256 (atomics256: "256 word")

instantiation decimal :: linorder
begin

definition less_eq_decimal :: "decimal \<Rightarrow> decimal \<Rightarrow> bool" where
  "less_eq_decimal a b \<longleftrightarrow> atomics a \<le> atomics b"

definition less_decimal :: "decimal \<Rightarrow> decimal \<Rightarrow> bool" where
  "less_decimal a b \<longleftrightarrow> atomics a < atomics b"

instance
  by standard (auto simp: less_eq_decimal_def less_decimal_def decimal.expand)

end

instantiation decimal256 :: linorder
begin

definition less_eq_decimal256 :: "decimal256 \<Rightarrow> decimal256 \<Rightarrow> bool" where
  "less_eq_decimal256 a b \<longleftrightarrow> atomics256 a \<le> atomics256 b"

definition less_decimal256 :: "decimal256 \<Rightarrow> decimal256 \<Rightarrow> bool" where
  "less_decimal256 a b \<longleftrightarrow> atomics256 a < atomics256 b"

instance
  by standard (auto simp: less_eq_decimal256_def less_decimal256_def decimal256.expand)

end

lemma Decimal_le [simp]: "Decimal a \<le> Decimal b \<longleftrightarrow> a \<le> b"
  by (simp add: less_eq_decimal_def)

lemma Decimal_less [simp]: "Decimal a < Decimal b \<longleftrightarrow> a < b"
  by (simp add: less_decimal_def)

lemma Decimal256_le [simp]: "Decimal256 a \<le> Decimal256 b \<longleftrightarrow> a \<le> b"
  by (simp add: less_eq_decimal256_def)

lemma Decimal256_less [simp]: "Decimal256 a < Decimal256 b \<longleftrightarrow> a < b"
  by (simp add: less_decimal256_def)

abbreviation decimal_one :: decimal where
  "decimal_one \<equiv> Decimal 1000000000000000000"

abbreviation decimal_zero :: decimal where
  "decimal_zero \<equiv> Decimal 0"

abbreviation decimal256_one :: decimal256 where
  "decimal256_one \<equiv> Decimal256 1000000000000000000"

abbreviation decimal256_zero :: decimal256 where
  "decimal256_zero \<equiv> Decimal256 0"

section \<open>Third-party functions every contract calls\<close>

record ownership_proposal =
  op_owner :: addr
  op_ttl :: u64

record crates =
  addr_validate :: "string \<Rightarrow> (std_error, addr) res"
    \<comment> \<open>\<open>deps.api.addr_validate\<close>\<close>
  addr_opt_validate :: "string option \<Rightarrow> (std_error, addr option) res"
    \<comment> \<open>\<open>astroport::asset::addr_opt_validate\<close>: validates the address when there is one\<close>
  propose_new_owner :: "message_info \<Rightarrow> env \<Rightarrow> string \<Rightarrow> u64 \<Rightarrow> addr \<Rightarrow> ownership_proposal option
      \<Rightarrow> (std_error, ownership_proposal option \<times> attribute list) res"
    \<comment> \<open>\<open>astroport::common::propose_new_owner\<close>: info, env, new owner, expires in, current owner
        and the stored proposal; the new stored proposal and the attributes\<close>
  drop_ownership_proposal :: "message_info \<Rightarrow> addr \<Rightarrow> ownership_proposal option
      \<Rightarrow> (std_error, ownership_proposal option \<times> attribute list) res"
  claim_ownership :: "message_info \<Rightarrow> env \<Rightarrow> ownership_proposal option
      \<Rightarrow> (std_error, addr \<times> ownership_proposal option \<times> attribute list) res"
    \<comment> \<open>the address it hands to the contract's callback, the stored proposal, the attributes\<close>

text \<open>
  The documented behaviour of the two-step ownership transfer: only the current owner
  proposes or drops, a claim is made by the proposed address while the proposal is valid,
  hands that address to the callback and removes the proposal.
\<close>

definition ownership_laws :: "'a crates_scheme \<Rightarrow> bool" where
  "ownership_laws L \<longleftrightarrow>
     (\<forall>info env new exp cur p p' as. propose_new_owner L info env new exp cur p = Inr (p', as)
        \<longrightarrow> mi_sender info = cur \<and> p' \<noteq> None) \<and>
     (\<forall>info cur p p' as. drop_ownership_proposal L info cur p = Inr (p', as)
        \<longrightarrow> mi_sender info = cur \<and> p' = None) \<and>
     (\<forall>info env p n p' as. claim_ownership L info env p = Inr (n, p', as)
        \<longrightarrow> p' = None \<and> (\<exists>q. p = Some q \<and> op_owner q = n \<and> mi_sender info = n \<and> env_time env \<le> op_ttl q))"

lemma ownership_lawsD:
  assumes "ownership_laws L"
  shows "propose_new_owner L info env new exp cur p = Inr (p', as) \<Longrightarrow> mi_sender info = cur \<and> p' \<noteq> None"
    and "drop_ownership_proposal L info cur p = Inr (p', as) \<Longrightarrow> mi_sender info = cur \<and> p' = None"
    and "claim_ownership L info env p = Inr (n, p', as) \<Longrightarrow>
           p' = None \<and> (\<exists>q. p = Some q \<and> op_owner q = n \<and> mi_sender info = n \<and> env_time env \<le> op_ttl q)"
  using assms unfolding ownership_laws_def by blast+

end
