(* ===== verification/Runs.thy ===== *)
theory Runs
  imports Chain
begin

text \<open>
  Sequences of calls of a contract, as the chain runs them: a call that fails or panics is
  reverted and leaves the state as it was. The locale \<open>kept_invariant\<close> lifts a fact that every
  admitted successful call keeps to whole sequences; which calls are admitted may depend on the
  time and height of their block, on the sender and on the message.
\<close>

fun run_calls :: "('c \<Rightarrow> env \<Rightarrow> message_info \<Rightarrow> 'm \<Rightarrow> 's \<Rightarrow> ('e, 's \<times> 'r) res) \<Rightarrow>
    ('c \<times> env \<times> message_info \<times> 'm) list \<Rightarrow> 's \<Rightarrow> 's" where
  "run_calls exec [] s = s"
| "run_calls exec ((c, env, info, m) # calls) s =
     (case exec c env info m s of
        Inl e \<Rightarrow> run_calls exec calls s
      | Inr (s', r) \<Rightarrow> run_calls exec calls s')"

lemma run_calls_append:
  "run_calls exec (xs @ ys) s = run_calls exec ys (run_calls exec xs s)"
  by (induction xs arbitrary: s) (auto split: sum.splits)

locale kept_invariant =
  fixes guard :: "'c \<Rightarrow> env \<Rightarrow> message_info \<Rightarrow> 'm \<Rightarrow> bool"
    and exec :: "'c \<Rightarrow> env \<Rightarrow> message_info \<Rightarrow> 'm \<Rightarrow> 's \<Rightarrow> ('e, 's \<times> 'r) res"
    and inv :: "'s \<Rightarrow> bool"
  assumes kept: "guard c env info m \<Longrightarrow> exec c env info m s = Inr (s', r) \<Longrightarrow> inv s \<Longrightarrow> inv s'"
begin

lemma run_kept:
  assumes "inv s" and "\<forall>(c, env, info, m) \<in> set calls. guard c env info m"
  shows "inv (run_calls exec calls s)"
  using assms
proof (induction calls arbitrary: s)
  case Nil
  then show ?case by simp
next
  case (Cons call calls)
  obtain c env info m where call: "call = (c, env, info, m)" by (cases call)
  show ?case
  proof (cases "exec c env info m s")
    case (Inl e)
    with Cons call show ?thesis by simp
  next
    case (Inr res)
    obtain s' r where res: "res = (s', r)" by (cases res)
    with kept [of c env info m s s' r] Inr Cons.prems call have "inv s'" by auto
    with Cons call Inr res show ?thesis by simp
  qed
qed

end

end
