(* ===== verification/Ownership.thy ===== *)
theory Ownership
  imports Runs
begin

text \<open>
  The contract of the two-step ownership transfer that the maker, the factory and the pair
  share, stated once for any contract: its calls, the owner and the pending proposal in its
  state. It extends \<open>kept_invariant\<close>, and two further invariants are instances of it: while nobody
  but outsiders calls, the owner stays, and whoever becomes owner has called the contract.
\<close>

definition acting_owner :: "('c \<Rightarrow> addr) \<Rightarrow> ('s \<Rightarrow> addr option) \<Rightarrow> 'c \<Rightarrow> 's \<Rightarrow> addr" where
  \<comment> \<open>the stored owner, or the default one of the environment\<close>
  "acting_owner dflt owner c s = (case owner s of None \<Rightarrow> dflt c | Some a \<Rightarrow> a)"

locale two_step_ownership = kept_invariant "\<lambda>_ _ _ _. True" exec inv
  for exec :: "'c \<Rightarrow> env \<Rightarrow> message_info \<Rightarrow> 'm \<Rightarrow> 's \<Rightarrow> ('e, 's \<times> 'r) res"
    and inv :: "'s \<Rightarrow> bool" +
  fixes ok :: "'c \<Rightarrow> bool"
    and owner :: "'s \<Rightarrow> addr option"
    and dflt :: "'c \<Rightarrow> addr"
    and proposal :: "'s \<Rightarrow> ownership_proposal option"
  assumes owner_change:
    "inv s \<Longrightarrow> ok c \<Longrightarrow> exec c env info m s = Inr (s', r) \<Longrightarrow> owner s' \<noteq> owner s \<Longrightarrow>
       \<exists>p. proposal s = Some p \<and> op_owner p = mi_sender info \<and> env_time env \<le> op_ttl p \<and>
           owner s' = Some (mi_sender info) \<and> proposal s' = None"
    and proposal_change:
    "inv s \<Longrightarrow> ok c \<Longrightarrow> exec c env info m s = Inr (s', r) \<Longrightarrow> proposal s' \<noteq> proposal s \<Longrightarrow>
       proposal s' \<noteq> None \<Longrightarrow> mi_sender info = acting_owner dflt owner c s"

sublocale two_step_ownership \<subseteq> outsiders: kept_invariant
    "\<lambda>c _ info _. ok c \<and> mi_sender info \<noteq> (case h of None \<Rightarrow> dflt c | Some a \<Rightarrow> a)" exec
    "\<lambda>s. inv s \<and> owner s = h \<and> proposal s = None" for h
proof unfold_locales
  fix c env info m s s' r
  assume "ok c \<and> mi_sender info \<noteq> (case h of None \<Rightarrow> dflt c | Some a \<Rightarrow> a)"
    and ex: "exec c env info m s = Inr (s', r)" and s: "inv s \<and> owner s = h \<and> proposal s = None"
  with owner_change [of s c env info m s' r] proposal_change [of s c env info m s' r] kept [OF _ ex]
  show "inv s' \<and> owner s' = h \<and> proposal s' = None" by (cases "proposal s'") (auto simp: acting_owner_def)
qed

sublocale two_step_ownership \<subseteq> silent: kept_invariant "\<lambda>c _ info _. ok c \<and> mi_sender info \<noteq> a" exec
    "\<lambda>s. inv s \<and> owner s \<noteq> Some a" for a
proof unfold_locales
  fix c env info m s s' r
  assume "ok c \<and> mi_sender info \<noteq> a" and ex: "exec c env info m s = Inr (s', r)"
    and s: "inv s \<and> owner s \<noteq> Some a"
  with owner_change [of s c env info m s' r] kept [OF _ ex] show "inv s' \<and> owner s' \<noteq> Some a"
    by (cases "owner s' = owner s") auto
qed

context two_step_ownership
begin

lemma outsiders_never_own:
  assumes "inv s" and "proposal s = None"
    and "\<forall>(c, env, info, m) \<in> set calls. ok c \<and> mi_sender info \<noteq> acting_owner dflt owner c s"
  shows "owner (run_calls exec calls s) = owner s \<and> proposal (run_calls exec calls s) = None"
  using outsiders.run_kept [of s "owner s" calls] assms by (simp add: acting_owner_def)

lemma new_owner_called:
  assumes "inv s" and "\<forall>(c, env, info, m) \<in> set calls. ok c"
    and "owner (run_calls exec calls s) = Some a" and "owner s \<noteq> Some a"
  shows "\<exists>(c, env, info, m) \<in> set calls. mi_sender info = a"
proof (rule ccontr)
  assume "\<not> ?thesis"
  with assms(2) have "\<forall>(c, env, info, m) \<in> set calls. ok c \<and> mi_sender info \<noteq> a" by fastforce
  with silent.run_kept [of s a calls] assms(1,3,4) show False by simp
qed

end

end
