(* ===== verification/Storage.thy ===== *)
theory Storage
  imports Prelude
begin

text \<open>
  A contract's storage maps (\<open>cw_storage_plus::Map\<close>): finite maps read in the byte order of
  their keys, from an exclusive lower bound, ascending. The locale \<open>paged_listing\<close> states
  what a paginated query promises (a page is the next entries after a given key), and shows
  that walking the pages visits every entry once, in order.
\<close>

definition store_entries :: "('k::linorder, 'v) fmap \<Rightarrow> ('k \<times> 'v) list" where
  "store_entries m = map (\<lambda>k. (k, the (fmlookup m k))) (sorted_list_of_fset (fmdom m))"

definition store_range :: "('k::linorder, 'v) fmap \<Rightarrow> 'k option \<Rightarrow> ('k \<times> 'v) list" where
  "store_range m start =
     (case start of None \<Rightarrow> store_entries m
      | Some s \<Rightarrow> filter (\<lambda>(k, _). s < k) (store_entries m))"

lemma keys_store_entries: "map fst (store_entries m) = sorted_list_of_fset (fmdom m)"
  by (simp add: store_entries_def comp_def)

lemma sorted_store_entries: "sorted_wrt (<) (map fst (store_entries m))"
  by (simp add: keys_store_entries sorted_list_of_fset.rep_eq strict_sorted_list_of_set)

lemma set_store_entries: "set (store_entries m) = {(k, v). fmlookup m k = Some v}"
  by (auto simp: store_entries_def fmdom_notI fmdomI)

lemma store_entries_key:
  assumes "i < length (store_entries m)"
  shows "fst (store_entries m ! i) \<in> fmdom' m"
proof -
  obtain k v where e: "store_entries m ! i = (k, v)" by (rule prod.exhaust)
  have "store_entries m ! i \<in> set (store_entries m)" using assms by simp
  then have "fmlookup m k = Some v" by (simp add: e set_store_entries)
  then show ?thesis by (simp add: e fmdom'I)
qed

lemma distinct_store_entries: "distinct (store_entries m)"
  using sorted_store_entries [of m]
  by (metis distinct_map strict_sorted_iff)

lemma store_range_None [simp]: "store_range m None = store_entries m"
  by (simp add: store_range_def)

lemma sorted_store_range: "sorted_wrt (<) (map fst (store_range m s))"
  using sorted_store_entries [of m]
  by (auto simp: store_range_def sorted_wrt_map intro: sorted_wrt_filter split: option.splits)

section \<open>Walking the pages of a sorted listing\<close>

lemma filter_above_nth:
  fixes es :: "('k::linorder \<times> 'v) list"
  assumes "sorted_wrt (<) (map fst es)" and "i < length es"
  shows "filter (\<lambda>(k, _). fst (es ! i) < k) es = drop (Suc i) es"
  using assms
proof (induction es arbitrary: i)
  case Nil
  then show ?case by simp
next
  case (Cons e es)
  show ?case
  proof (cases i)
    case 0
    with Cons.prems show ?thesis by (auto simp: filter_id_conv case_prod_unfold)
  next
    case (Suc j)
    with Cons.prems have j: "j < length es" by simp
    with Cons.prems have "fst e < fst (es ! j)" by simp
    then have "\<not> fst (es ! j) < fst e" by simp
    with Suc j Cons show ?thesis by (simp add: case_prod_unfold)
  qed
qed

lemma blocks_tile:
  "concat (map (\<lambda>j. map f (take n (drop (j * n) xs))) [0..<k]) = map f (take (k * n) xs)"
proof (induction k)
  case 0
  show ?case by simp
next
  case (Suc k)
  have "take (Suc k * n) xs = take (k * n) xs @ take n (drop (k * n) xs)"
    by (simp add: take_add [symmetric] ac_simps)
  with Suc show ?case by simp
qed

locale paged_listing =
  fixes inv :: "'s \<Rightarrow> bool"
    and entries :: "'s \<Rightarrow> ('k::linorder \<times> 'v) list"
    and page :: "'s \<Rightarrow> 'k option \<Rightarrow> nat \<Rightarrow> 'r list"
    and row :: "'k \<times> 'v \<Rightarrow> 'r"
  assumes entries_sorted: "inv s \<Longrightarrow> sorted_wrt (<) (map fst (entries s))"
    and page_first: "inv s \<Longrightarrow> page s None n = map row (take n (entries s))"
    and page_after: "inv s \<Longrightarrow> k \<in> fst ` set (entries s) \<Longrightarrow>
           page s (Some k) n = map row (take n (filter (\<lambda>(k', _). k < k') (entries s)))"
begin

lemma page_after_nth:
  assumes "inv s" and "i < length (entries s)"
  shows "page s (Some (fst (entries s ! i))) n = map row (take n (drop (Suc i) (entries s)))"
proof -
  have "fst (entries s ! i) \<in> fst ` set (entries s)" using assms(2) by simp
  with assms show ?thesis
    by (simp add: page_after filter_above_nth entries_sorted)
qed

lemma page_nth:
  assumes "inv s" and "0 < n" and "k * n \<le> length (entries s)"
  shows "page s (if k = 0 then None else Some (fst (entries s ! (k * n - 1)))) n
         = map row (take n (drop (k * n) (entries s)))"
proof (cases k)
  case 0
  then show ?thesis by (simp add: page_first [OF assms(1)])
next
  case (Suc j)
  let ?i = "k * n - 1"
  from assms(2) Suc have S: "Suc ?i = k * n" by simp
  with assms(3) have "?i < length (entries s)" by linarith
  from page_after_nth [OF assms(1) this, of n] S Suc show ?thesis by simp
qed

lemma pages_tile:
  assumes "inv s" and "0 < n" and "k * n \<le> length (entries s)"
  shows "concat (map (\<lambda>j. page s (if j = 0 then None else Some (fst (entries s ! (j * n - 1)))) n) [0..<Suc k])
         = map row (take (Suc k * n) (entries s))"
proof -
  have "page s (if j = 0 then None else Some (fst (entries s ! (j * n - 1)))) n
      = map row (take n (drop (j * n) (entries s)))" if "j \<in> set [0..<Suc k]" for j
  proof (rule page_nth [OF assms(1,2)])
    from that have "j * n \<le> k * n" by auto
    then show "j * n \<le> length (entries s)" using assms(3) by (rule le_trans)
  qed
  then have "map (\<lambda>j. page s (if j = 0 then None else Some (fst (entries s ! (j * n - 1)))) n) [0..<Suc k]
      = map (\<lambda>j. map row (take n (drop (j * n) (entries s)))) [0..<Suc k]"
    by (rule map_cong [OF refl])
  then show ?thesis by (simp only: blocks_tile)
qed

end

end
