(* ===== verification/Maker_State.thy ===== *)
theory Maker_State
  imports Ownership Storage
begin

text \<open>
  The maker contract (src/contracts/maker): its messages (src/packages/astroport_on_osmosis/src/maker.rs),
  its error enum, its storage, and the third-party functions and chain queries it calls, as two
  records: \<open>maker_crates\<close> (functions of the crates) and \<open>maker_chain\<close> (the answers of the
  chain during one call).
\<close>

section \<open>Messages and constants of the package\<close>

definition MAX_ALLOWED_SPREAD :: decimal where
  "MAX_ALLOWED_SPREAD = Decimal 500000000000000000"

definition COOLDOWN_START :: u64 where "COOLDOWN_START = 30"
definition COOLDOWN_END :: u64 where "COOLDOWN_END = 600"

definition MAX_SWAPS_DEPTH :: nat where "MAX_SWAPS_DEPTH = 5"
definition DEFAULT_PAGINATION_LIMIT :: u32 where "DEFAULT_PAGINATION_LIMIT = 50"

lemmas maker_constants = MAX_ALLOWED_SPREAD_def COOLDOWN_START_def COOLDOWN_END_def
  MAX_SWAPS_DEPTH_def DEFAULT_PAGINATION_LIMIT_def

record maker_instantiate_msg =
  im_owner :: string
  im_astro_denom :: string
  im_satellite :: string
  im_max_spread :: decimal
  im_collect_cooldown :: "u64 option"

record pool_route =
  pr_denom_in :: string
  pr_denom_out :: string
  pr_pool_id :: u64

record coin_with_limit =
  cl_denom :: string
  cl_amount :: "u128 option"

datatype maker_execute_msg =
    Collect "coin_with_limit list"
  | UpdateConfig "string option" "string option" "decimal option" "u64 option"
      \<comment> \<open>astro denom, fee receiver, max spread, collect cooldown\<close>
  | SetPoolRoutes "pool_route list"
  | ProposeNewOwner string u64
  | DropOwnershipProposal
  | ClaimOwnership

record maker_config =
  mc_owner :: addr
  mc_astro_denom :: string
  mc_satellite :: addr
  mc_max_spread :: decimal
  mc_collect_cooldown :: "u64 option"

record swap_route_response =
  sr_pool_id :: u64
  sr_token_out_denom :: string

section \<open>Storage\<close>

record route_step =
  rs_denom_out :: string
  rs_pool_id :: u64

record maker_state =
  mk_routes :: "(string, route_step) fmap"
  mk_config :: "maker_config option"
  mk_last_collect_ts :: "u64 option"
  mk_ownership_proposal :: "ownership_proposal option"
  mk_cw2 :: "(string \<times> string) option"      \<comment> \<open>the cw2 contract name and version\<close>
  mk_bridges :: "(string, string) fmap"      \<comment> \<open>what the migrated contract stored under \<open>bridges\<close>\<close>

section \<open>Errors\<close>

datatype maker_error =
    Std std_error
  | OverflowError
  | PaymentError payment_error
  | CheckedMultiplyRatioError
  | VersionError
  | Unauthorized
  | MaxSpreadTooHigh
  | IncorrectCooldown u64 u64
  | EmptyRoutes
  | InvalidPoolDenom u64 string
  | DuplicatedRoutes
  | AstroInRoute pool_route
  | RouteNotFound string
  | Cooldown u64
  | FailedToBuildRoute string string
  | InvalidReplyId
  | EmptyAssets
  | NothingToCollect

section \<open>Messages to the chain, third-party code, chain queries\<close>

record swap_amount_in_route =
  sa_pool_id :: u64
  sa_token_out_denom :: string

datatype maker_msg =
    MsgSwapExactAmountIn (swap_sender: addr) (swap_routes: "swap_amount_in_route list")
      (swap_token_in: coin) (swap_token_out_min_amount: string)
  | TransferAstro addr "coin list"     \<comment> \<open>executed on the satellite, with these funds\<close>

record maker_crates = crates +
  validate_native_denom :: "string \<Rightarrow> (std_error, unit) res"
  nonpayable :: "message_info \<Rightarrow> (payment_error, unit) res"
  assert_contract_version :: "(string \<times> string) option \<Rightarrow> string \<Rightarrow> string \<Rightarrow> (maker_error, unit) res"
    \<comment> \<open>\<open>cw2\<close>: the stored name and version, the expected ones\<close>
  decimal_from_str :: "string \<Rightarrow> (std_error, decimal) res"
  decimal_to_string :: "decimal \<Rightarrow> string"
  decimal_checked_mul :: "decimal \<Rightarrow> decimal \<Rightarrow> decimal option"
  decimal_sub :: "decimal \<Rightarrow> decimal \<Rightarrow> decimal option"
    \<comment> \<open>the operator: \<open>None\<close> is its panic\<close>
  decimal_mul_uint :: "decimal \<Rightarrow> u128 \<Rightarrow> u128 option"
    \<comment> \<open>the operator \<open>Decimal * Uint128\<close>: \<open>None\<close> is its panic\<close>
  checked_multiply_ratio :: "u128 \<Rightarrow> u128 \<Rightarrow> u128 \<Rightarrow> u128 option"
    \<comment> \<open>amount, numerator, denominator\<close>

record maker_chain =
  ch_balance :: "addr \<Rightarrow> string \<Rightarrow> (std_error, coin) res"
  ch_total_pool_liquidity :: "u64 \<Rightarrow> (std_error, coin list) res"
  ch_spot_price :: "u64 \<Rightarrow> string \<Rightarrow> string \<Rightarrow> (std_error, string) res"
    \<comment> \<open>pool, base denom, quote denom; the price as text\<close>
  ch_contract_admin :: "addr \<Rightarrow> (std_error, addr option) res"

definition DECIMAL_FRACTIONAL :: u128 where
  \<comment> \<open>\<open>Decimal::denominator\<close>\<close>
  "DECIMAL_FRACTIONAL = 1000000000000000000"

text \<open>
  The documented arithmetic the swap amounts rely on: subtraction is exact and panics below
  zero, \<open>Decimal * Uint128\<close> rounds down, \<open>checked_multiply_ratio\<close> rounds down and fails on an
  overflow or a zero denominator.
\<close>

definition decimal_laws :: "'a maker_crates_scheme \<Rightarrow> bool" where
  "decimal_laws L \<longleftrightarrow>
     (\<forall>a b. decimal_sub L a b = map_option Decimal (sub_checked (atomics a) (atomics b))) \<and>
     (\<forall>d n m. decimal_mul_uint L d n = Some m \<longrightarrow>
        unat m = unat n * unat (atomics d) div unat DECIMAL_FRACTIONAL) \<and>
     (\<forall>n p q m. checked_multiply_ratio L n p q = Some m \<longrightarrow> q \<noteq> 0 \<and> unat m = unat n * unat p div unat q)"

lemma decimal_lawsD:
  assumes "decimal_laws L"
  shows "decimal_sub L a b = map_option Decimal (sub_checked (atomics a) (atomics b))"
    and "decimal_mul_uint L d n = Some m \<Longrightarrow> unat m = unat n * unat (atomics d) div unat DECIMAL_FRACTIONAL"
    and "checked_multiply_ratio L n p q = Some m \<Longrightarrow> q \<noteq> 0 \<and> unat m = unat n * unat p div unat q"
  using assms unfolding decimal_laws_def by blast+

end
