(* ===== verification/Maker_Routes.thy ===== *)
theory Maker_Routes
  imports Maker_State
begin

text \<open>
  \<open>RoutesBuilder\<close> of src/contracts/maker/src/utils.rs: following the stored route steps from a
  denom to ASTRO, at most \<open>MAX_SWAPS_DEPTH\<close> hops, with a cache of the steps read so far. The
  locale \<open>step_source\<close> is the interface between the loop and where its steps come from; it is
  interpreted on the cached lookup of the code and on the storage read alone, which gives that
  the cache never changes a result.
\<close>

section \<open>The code\<close>

fun join :: "string \<Rightarrow> string list \<Rightarrow> string" where
  "join sep [] = []"
| "join sep [x] = x"
| "join sep (x # xs) = x @ sep @ join sep xs"

definition hop :: "route_step \<Rightarrow> swap_amount_in_route" where
  "hop s = \<lparr>sa_pool_id = rs_pool_id s, sa_token_out_denom = rs_denom_out s\<rparr>"

lemma hop_sel [simp]:
  "sa_pool_id (hop s) = rs_pool_id s"
  "sa_token_out_denom (hop s) = rs_denom_out s"
  by (simp_all add: hop_def)

type_synonym routes_cache = "string \<rightharpoonup> route_step"

definition cached_step :: "(string, route_step) fmap \<Rightarrow> routes_cache \<Rightarrow> string
    \<Rightarrow> (maker_error, routes_cache \<times> route_step) res" where
  "cached_step routes cache d =
     (case cache d of
        Some found \<Rightarrow> Inr (cache, found)
      | None \<Rightarrow> and_then (ok_or (RouteNotFound d) (fmlookup routes d))
                  (\<lambda>step. Inr (cache(d \<mapsto> step), step)))"

fun build_loop :: "('c \<Rightarrow> string \<Rightarrow> (maker_error, 'c \<times> route_step) res) \<Rightarrow> nat \<Rightarrow> string \<Rightarrow> 'c \<Rightarrow> string
    \<Rightarrow> swap_amount_in_route list \<Rightarrow> (maker_error, 'c \<times> string \<times> swap_amount_in_route list) res" where
  "build_loop fetch 0 astro_denom cache prev_denom routes = Inr (cache, prev_denom, routes)"
| "build_loop fetch (Suc n) astro_denom cache prev_denom routes =
     (if prev_denom = astro_denom then Inr (cache, prev_denom, routes)
      else and_then (fetch cache prev_denom) (\<lambda>(cache', step).
             build_loop fetch n astro_denom cache' (rs_denom_out step) (routes @ [hop step])))"

record built_routes =
  br_routes :: "swap_amount_in_route list"
  br_route_taken :: string

definition route_text :: "string \<Rightarrow> swap_amount_in_route list \<Rightarrow> string" where
  "route_text denom_in routes = join '' -> '' ([denom_in] @ map sa_token_out_denom routes)"

definition build_routes :: "(string, route_step) fmap \<Rightarrow> routes_cache \<Rightarrow> string \<Rightarrow> string
    \<Rightarrow> (maker_error, routes_cache \<times> built_routes) res" where
  "build_routes stored cache denom_in astro_denom =
     and_then (build_loop (cached_step stored) MAX_SWAPS_DEPTH astro_denom cache denom_in [])
       (\<lambda>(cache', prev_denom, routes).
          and_then (ensure (prev_denom = astro_denom)
                      (FailedToBuildRoute denom_in (route_text denom_in routes)))
            (\<lambda>_. Inr (cache', \<lparr>br_routes = routes, br_route_taken = route_text denom_in routes\<rparr>)))"

section \<open>The abstract walk and the interface of its steps\<close>

fun walk :: "(string \<Rightarrow> route_step option) \<Rightarrow> string \<Rightarrow> nat \<Rightarrow> string
    \<Rightarrow> (maker_error, string \<times> swap_amount_in_route list) res" where
  "walk table astro 0 d = Inr (d, [])"
| "walk table astro (Suc n) d =
     (if d = astro then Inr (d, [])
      else case table d of
             None \<Rightarrow> Inl (Err (RouteNotFound d))
           | Some s \<Rightarrow> and_then (walk table astro n (rs_denom_out s)) (\<lambda>(e, rs). Inr (e, hop s # rs)))"

fun route_path :: "(string \<Rightarrow> route_step option) \<Rightarrow> string \<Rightarrow> string \<Rightarrow> swap_amount_in_route list \<Rightarrow> bool" where
  \<comment> \<open>the hops follow the table from \<open>d\<close>, stop at ASTRO and do not pass through it before\<close>
  "route_path table astro d [] \<longleftrightarrow> d = astro"
| "route_path table astro d (r # rs) \<longleftrightarrow>
     d \<noteq> astro \<and> (case table d of None \<Rightarrow> False
                  | Some s \<Rightarrow> r = hop s \<and> route_path table astro (rs_denom_out s) rs)"

lemma walk_bound: "walk table astro n d = Inr (e, rs) \<Longrightarrow> length rs \<le> n \<and> (e = astro \<or> length rs = n)"
  by (induction n arbitrary: d rs) (fastforce simp: res_simps split: if_splits option.splits)+

lemma walk_to_astro:
  "walk table astro n d = Inr (astro, rs) \<longleftrightarrow> route_path table astro d rs \<and> length rs \<le> n"
proof (induction n arbitrary: d rs)
  case 0
  then show ?case by (cases rs) auto
next
  case (Suc n)
  then show ?case
    by (cases rs) (auto simp: res_simps split: option.splits)
qed

lemma route_path_unique:
  "route_path table astro d rs \<Longrightarrow> route_path table astro d rs' \<Longrightarrow> rs = rs'"
proof (induction rs arbitrary: d rs')
  case Nil
  then show ?case by (cases rs') auto
next
  case (Cons r rs)
  then show ?case by (cases rs') (auto split: option.splits)
qed

lemma route_path_last:
  "route_path table astro d rs \<Longrightarrow> last (d # map sa_token_out_denom rs) = astro"
  by (induction rs arbitrary: d) (auto split: option.splits)

locale step_source =
  fixes fetch :: "'c \<Rightarrow> string \<Rightarrow> (maker_error, 'c \<times> route_step) res"
    and inv :: "'c \<Rightarrow> bool"
    and table :: "string \<Rightarrow> route_step option"
  assumes fetch_hit: "inv c \<Longrightarrow> table d = Some s \<Longrightarrow> \<exists>c'. fetch c d = Inr (c', s) \<and> inv c'"
    and fetch_miss: "inv c \<Longrightarrow> table d = None \<Longrightarrow> fetch c d = Inl (Err (RouteNotFound d))"
begin

lemma build_loop_walk:
  assumes "inv c"
  shows "case walk table astro n d of
           Inl f \<Rightarrow> build_loop fetch n astro c d rs = Inl f
         | Inr (e, hops) \<Rightarrow> \<exists>c'. build_loop fetch n astro c d rs = Inr (c', e, rs @ hops) \<and> inv c'"
  using assms
proof (induction n arbitrary: c d rs)
  case 0
  then show ?case by simp
next
  case (Suc n)
  show ?case
  proof (cases "d = astro")
    case True
    with Suc.prems show ?thesis by simp
  next
    case False
    show ?thesis
    proof (cases "table d")
      case None
      with False Suc.prems show ?thesis by (simp add: fetch_miss)
    next
      case (Some s)
      from fetch_hit [OF Suc.prems Some] obtain c' where "fetch c d = Inr (c', s)" and "inv c'" by blast
      with Suc.IH [of c' "rs_denom_out s" "rs @ [hop s]"] False Some show ?thesis
        by (auto split: sum.splits)
    qed
  qed
qed

lemma build_loop_reaches:
  assumes "inv c"
  shows "(\<exists>c'. build_loop fetch n astro c d [] = Inr (c', astro, rs))
         \<longleftrightarrow> route_path table astro d rs \<and> length rs \<le> n"
  using build_loop_walk [OF assms, where astro = astro and n = n and d = d and rs = "[]"]
  by (auto simp: walk_to_astro [symmetric] split: sum.splits)

end

definition coherent :: "(string, route_step) fmap \<Rightarrow> routes_cache \<Rightarrow> bool" where
  "coherent stored cache \<longleftrightarrow> cache \<subseteq>\<^sub>m fmlookup stored"

definition stored_step :: "(string, route_step) fmap \<Rightarrow> unit \<Rightarrow> string
    \<Rightarrow> (maker_error, unit \<times> route_step) res" where
  \<comment> \<open>the storage read alone, without a cache\<close>
  "stored_step stored u d = and_then (ok_or (RouteNotFound d) (fmlookup stored d)) (\<lambda>s. Inr ((), s))"

lemma coherent_empty [simp]: "coherent stored Map.empty"
  by (simp add: coherent_def)

lemma coherent_hit: "coherent stored cache \<Longrightarrow> cache d = Some s \<Longrightarrow> fmlookup stored d = Some s"
  by (auto simp: coherent_def map_le_def dom_def)

lemma coherent_insert:
  "coherent stored cache \<Longrightarrow> fmlookup stored d = Some s \<Longrightarrow> coherent stored (cache(d \<mapsto> s))"
  by (auto simp: coherent_def map_le_def)

interpretation cached: step_source "cached_step stored" "coherent stored" "fmlookup stored"
  for stored
proof unfold_locales
  fix c d s
  assume c: "coherent stored c"
  show "fmlookup stored d = Some s \<Longrightarrow> \<exists>c'. cached_step stored c d = Inr (c', s) \<and> coherent stored c'"
    using c by (cases "c d") (auto simp: cached_step_def coherent_insert dest: coherent_hit)
  show "fmlookup stored d = None \<Longrightarrow> cached_step stored c d = Inl (Err (RouteNotFound d))"
    using c by (cases "c d") (auto simp: cached_step_def dest: coherent_hit)
qed

interpretation uncached: step_source "stored_step stored" "\<lambda>_. True" "fmlookup stored"
  for stored
  by unfold_locales (auto simp: stored_step_def)

section \<open>What \<open>build_routes\<close> returns\<close>

lemma build_routes_coherent:
  assumes "coherent stored cache" and "build_routes stored cache d astro = Inr (cache', b)"
  shows "coherent stored cache'"
  using assms(2) cached.build_loop_walk [OF assms(1), where astro = astro and n = MAX_SWAPS_DEPTH
      and d = d and rs = "[]"]
  by (auto simp: build_routes_def res_simps split: sum.splits)

lemma build_routes_iff:
  assumes "coherent stored cache"
  shows "(\<exists>cache'. build_routes stored cache d astro = Inr (cache', b)) \<longleftrightarrow>
         route_path (fmlookup stored) astro d (br_routes b) \<and> length (br_routes b) \<le> MAX_SWAPS_DEPTH
         \<and> br_route_taken b = route_text d (br_routes b)"
proof -
  have "(\<exists>cache'. build_routes stored cache d astro = Inr (cache', b)) \<longleftrightarrow>
        (\<exists>cache'. build_loop (cached_step stored) MAX_SWAPS_DEPTH astro cache d [] = Inr (cache', astro, br_routes b))
        \<and> br_route_taken b = route_text d (br_routes b)"
    by (cases b) (auto simp: build_routes_def res_simps)
  then show ?thesis by (simp add: cached.build_loop_reaches [OF assms])
qed

definition build_uncached :: "(string, route_step) fmap \<Rightarrow> string \<Rightarrow> string \<Rightarrow> (maker_error, built_routes) res" where
  \<comment> \<open>the same loop reading the storage for every hop\<close>
  "build_uncached stored denom_in astro_denom =
     and_then (build_loop (stored_step stored) MAX_SWAPS_DEPTH astro_denom () denom_in [])
       (\<lambda>(_, prev_denom, routes).
          and_then (ensure (prev_denom = astro_denom)
                      (FailedToBuildRoute denom_in (route_text denom_in routes)))
            (\<lambda>_. Inr \<lparr>br_routes = routes, br_route_taken = route_text denom_in routes\<rparr>))"

lemma build_routes_uncached:
  assumes "coherent stored cache"
  shows "and_then (build_routes stored cache d astro) (\<lambda>(_, b). Inr b) = build_uncached stored d astro"
  using cached.build_loop_walk [OF assms, where astro = astro and n = MAX_SWAPS_DEPTH
      and d = d and rs = "[]"]
    uncached.build_loop_walk [where c = "()" and stored = stored and astro = astro and n = MAX_SWAPS_DEPTH
      and d = d and rs = "[]"]
  by (auto simp: build_routes_def build_uncached_def ensure_def split: sum.splits)

end
