(* ===== verification/Maker.thy ===== *)
theory Maker
  imports Maker_Routes
begin

text \<open>
  The maker contract's entry points (src/contracts/maker/src: instantiate.rs, execute.rs,
  utils.rs, reply.rs, query.rs, migrate.rs). Every handler takes the third-party functions
  \<open>L\<close>, the chain's answers \<open>Q\<close> where it queries, the environment, the message and the state,
  and returns the new state with the response, or the fault that makes the chain revert the
  call. Queries return their answer before the JSON encoding.
\<close>

definition maker_contract_name :: string where
  "maker_contract_name = ''astroport-maker-osmosis''"

definition maker_contract_version :: string where
  "maker_contract_version = ''1.0.0''"

definition POST_COLLECT_REPLY_ID :: u64 where "POST_COLLECT_REPLY_ID = 1"

type_synonym maker_result = "(maker_error, maker_state \<times> maker_msg response) res"

section \<open>Instantiation\<close>

definition validate_cooldown :: "u64 option \<Rightarrow> (maker_error, unit) res" where
  "validate_cooldown maybe_cooldown =
     (case maybe_cooldown of
        None \<Rightarrow> Inr ()
      | Some collect_cooldown \<Rightarrow>
          ensure (COOLDOWN_START \<le> collect_cooldown \<and> collect_cooldown \<le> COOLDOWN_END)
            (IncorrectCooldown COOLDOWN_START COOLDOWN_END))"

definition maker_instantiate :: "'a maker_crates_scheme \<Rightarrow> env \<Rightarrow> maker_instantiate_msg \<Rightarrow> maker_state
    \<Rightarrow> maker_result" where
  "maker_instantiate L env msg st =
     (let st1 = st\<lparr>mk_cw2 := Some (maker_contract_name, maker_contract_version)\<rparr> in
      and_then (map_err Std (validate_native_denom L (im_astro_denom msg))) (\<lambda>_.
      and_then (ensure (im_max_spread msg \<le> MAX_ALLOWED_SPREAD) MaxSpreadTooHigh) (\<lambda>_.
      and_then (validate_cooldown (im_collect_cooldown msg)) (\<lambda>_.
      let st2 = st1\<lparr>mk_last_collect_ts := Some (env_time env)\<rparr> in
      and_then (map_err Std (addr_validate L (im_owner msg))) (\<lambda>owner.
      and_then (map_err Std (addr_validate L (im_satellite msg))) (\<lambda>satellite.
      Inr (st2\<lparr>mk_config := Some \<lparr>mc_owner = owner, mc_astro_denom = im_astro_denom msg,
                mc_satellite = satellite, mc_max_spread = im_max_spread msg,
                mc_collect_cooldown = None\<rparr>\<rparr>,
           attrs_response [])))))))"

section \<open>Configuration\<close>

definition maker_update_config :: "'a maker_crates_scheme \<Rightarrow> message_info \<Rightarrow> string option \<Rightarrow> string option
    \<Rightarrow> decimal option \<Rightarrow> u64 option \<Rightarrow> maker_state \<Rightarrow> maker_result" where
  "maker_update_config L info astro_denom fee_receiver max_spread collect_cooldown st =
     and_then (map_err Std (load_item ''config'' (mk_config st))) (\<lambda>config0.
     and_then (ensure (mi_sender info = mc_owner config0) Unauthorized) (\<lambda>_.
     and_then (case astro_denom of
         None \<Rightarrow> Inr (config0, [])
       | Some d \<Rightarrow> and_then (map_err Std (validate_native_denom L d)) (\<lambda>_.
           Inr (config0\<lparr>mc_astro_denom := d\<rparr>, [(''new_astro_denom'', d)]))) (\<lambda>(config1, attrs1).
     and_then (case fee_receiver of
         None \<Rightarrow> Inr (config1, attrs1)
       | Some r \<Rightarrow> and_then (map_err Std (addr_validate L r)) (\<lambda>satellite.
           Inr (config1\<lparr>mc_satellite := satellite\<rparr>, attrs1 @ [(''new_fee_receiver'', r)]))) (\<lambda>(config2, attrs2).
     and_then (case max_spread of
         None \<Rightarrow> Inr (config2, attrs2)
       | Some s \<Rightarrow> and_then (ensure (s \<le> MAX_ALLOWED_SPREAD) MaxSpreadTooHigh) (\<lambda>_.
           Inr (config2\<lparr>mc_max_spread := s\<rparr>, attrs2 @ [(''new_max_spread'', decimal_to_string L s)]))) (\<lambda>(config3, attrs3).
     and_then (case collect_cooldown of
         None \<Rightarrow> Inr (config3, attrs3)
       | Some cd \<Rightarrow> and_then (validate_cooldown collect_cooldown) (\<lambda>_.
           Inr (config3\<lparr>mc_collect_cooldown := Some cd\<rparr>,
                attrs3 @ [(''new_collect_cooldown'', to_string cd)]))) (\<lambda>(config4, attrs4).
     Inr (st\<lparr>mk_config := Some config4\<rparr>, attrs_response attrs4)))))))"

section \<open>Routes\<close>

fun save_routes :: "maker_chain \<Rightarrow> string \<Rightarrow> pool_route list
    \<Rightarrow> (string, route_step) fmap \<Rightarrow> routes_cache \<Rightarrow> attribute list
    \<Rightarrow> (maker_error, (string, route_step) fmap \<times> routes_cache \<times> attribute list) res" where
  "save_routes Q astro_denom [] stored cache attrs = Inr (stored, cache, attrs)"
| "save_routes Q astro_denom (route # routes) stored cache attrs =
     and_then (ensure (pr_denom_in route \<noteq> astro_denom) (AstroInRoute route)) (\<lambda>_.
     and_then (map_err Std (ch_total_pool_liquidity Q (pr_pool_id route))) (\<lambda>liquidity.
     let pool_denoms = map coin_denom liquidity in
     and_then (ensure (pr_denom_in route \<in> set pool_denoms)
                 (InvalidPoolDenom (pr_pool_id route) (pr_denom_in route))) (\<lambda>_.
     and_then (ensure (pr_denom_out route \<in> set pool_denoms)
                 (InvalidPoolDenom (pr_pool_id route) (pr_denom_out route))) (\<lambda>_.
     let attrs' = (if fmlookup stored (pr_denom_in route) \<noteq> None
                   then attrs @ [(''updated_route'', pr_denom_in route)] else attrs);
         step = \<lparr>rs_denom_out = pr_denom_out route, rs_pool_id = pr_pool_id route\<rparr>
     in save_routes Q astro_denom routes (fmupd (pr_denom_in route) step stored)
          (cache(pr_denom_in route \<mapsto> step)) attrs'))))"

fun check_routes :: "(string, route_step) fmap \<Rightarrow> string \<Rightarrow> pool_route list \<Rightarrow> routes_cache
    \<Rightarrow> (maker_error, routes_cache) res" where
  "check_routes stored astro_denom [] cache = Inr cache"
| "check_routes stored astro_denom (route # routes) cache =
     and_then (build_routes stored cache (pr_denom_in route) astro_denom)
       (\<lambda>(cache', _). check_routes stored astro_denom routes cache')"

definition set_pool_routes :: "maker_chain \<Rightarrow> message_info \<Rightarrow> pool_route list \<Rightarrow> maker_state \<Rightarrow> maker_result" where
  "set_pool_routes Q info routes st =
     and_then (ensure (routes \<noteq> []) EmptyRoutes) (\<lambda>_.
     and_then (ensure (distinct (map pr_denom_in routes)) DuplicatedRoutes) (\<lambda>_.
     and_then (map_err Std (load_item ''config'' (mk_config st))) (\<lambda>config.
     and_then (ensure (mi_sender info = mc_owner config) Unauthorized) (\<lambda>_.
     and_then (save_routes Q (mc_astro_denom config) routes (mk_routes st) Map.empty
                 [(''action'', ''set_pool_routes'')]) (\<lambda>(stored, cache, attrs).
     and_then (check_routes stored (mc_astro_denom config) routes cache) (\<lambda>_.
     Inr (st\<lparr>mk_routes := stored\<rparr>, attrs_response attrs)))))))"

section \<open>Collecting fees\<close>

definition query_spot_price :: "'a maker_crates_scheme \<Rightarrow> maker_chain \<Rightarrow> u64 \<Rightarrow> string \<Rightarrow> string
    \<Rightarrow> (std_error, decimal) res" where
  "query_spot_price L Q pool_id base_denom quote_denom =
     and_then (ch_spot_price Q pool_id base_denom quote_denom) (\<lambda>spot_price.
     and_then (decimal_from_str L spot_price) (\<lambda>price.
     if price = decimal_zero
     then fail_with (GenericErr (''Zero spot price. pool_id '' @ to_string pool_id @
            '' base_denom '' @ base_denom @ '' quote_denom '' @ quote_denom))
     else Inr price))"

fun route_price :: "'a maker_crates_scheme \<Rightarrow> maker_chain \<Rightarrow> string \<Rightarrow> swap_amount_in_route list \<Rightarrow> decimal
    \<Rightarrow> (maker_error, decimal) res" where
  "route_price L Q denom_in [] price = Inr price"
| "route_price L Q denom_in (step # steps) price =
     and_then (map_err Std (query_spot_price L Q (sa_pool_id step) denom_in (sa_token_out_denom step))) (\<lambda>step_price.
     and_then (ok_or OverflowError (decimal_checked_mul L price step_price)) (\<lambda>price'.
     route_price L Q (sa_token_out_denom step) steps price'))"

definition query_out_amount :: "'a maker_crates_scheme \<Rightarrow> maker_chain \<Rightarrow> coin \<Rightarrow> swap_amount_in_route list
    \<Rightarrow> (maker_error, u128) res" where
  "query_out_amount L Q coin_in steps =
     and_then (route_price L Q (coin_denom coin_in) steps decimal_one) (\<lambda>price.
     ok_or CheckedMultiplyRatioError
       (checked_multiply_ratio L (coin_amount coin_in) (atomics price) DECIMAL_FRACTIONAL))"

definition limited_balance :: "maker_chain \<Rightarrow> addr \<Rightarrow> coin_with_limit \<Rightarrow> (maker_error, coin) res" where
  "limited_balance Q contract asset =
     and_then (map_err Std (ch_balance Q contract (cl_denom asset))) (\<lambda>coin.
     Inr (case cl_amount asset of
            None \<Rightarrow> coin
          | Some amount \<Rightarrow> \<lparr>coin_denom = coin_denom coin, coin_amount = min amount (coin_amount coin)\<rparr>))"

definition swap_submsg :: "'a maker_crates_scheme \<Rightarrow> addr \<Rightarrow> decimal \<Rightarrow> coin \<Rightarrow> built_routes \<Rightarrow> u128
    \<Rightarrow> (maker_error, maker_msg submsg) res" where
  "swap_submsg L contract max_spread balance built out_amount =
     and_then (or_panic (decimal_sub L decimal_one max_spread)) (\<lambda>factor.
     and_then (or_panic (decimal_mul_uint L factor out_amount)) (\<lambda>min_out_amount.
     Inr (submsg_new (MsgSwapExactAmountIn contract (br_routes built)
       \<lparr>coin_denom = coin_denom balance, coin_amount = coin_amount balance\<rparr> (to_string min_out_amount)))))"

fun collect_loop :: "'a maker_crates_scheme \<Rightarrow> maker_chain \<Rightarrow> addr \<Rightarrow> maker_config \<Rightarrow> (string, route_step) fmap
    \<Rightarrow> coin_with_limit list \<Rightarrow> routes_cache \<Rightarrow> maker_msg submsg list \<Rightarrow> attribute list
    \<Rightarrow> (maker_error, maker_msg submsg list \<times> attribute list) res" where
  "collect_loop L Q contract config stored [] cache messages attrs = Inr (messages, attrs)"
| "collect_loop L Q contract config stored (asset # assets) cache messages attrs =
     and_then (limited_balance Q contract asset) (\<lambda>balance.
     if coin_amount balance = 0
     then collect_loop L Q contract config stored assets cache messages attrs
     else and_then (build_routes stored cache (coin_denom balance) (mc_astro_denom config)) (\<lambda>(cache', built).
          and_then (query_out_amount L Q balance (br_routes built)) (\<lambda>out_amount.
          and_then (swap_submsg L contract (mc_max_spread config) balance built out_amount) (\<lambda>swap_msg.
          collect_loop L Q contract config stored assets cache' (messages @ [swap_msg])
            (attrs @ [(''collected_asset'', coin_to_string balance), (''route_taken'', br_route_taken built)])))))"

definition next_collect_ts :: "maker_config \<Rightarrow> u64 \<Rightarrow> u64 \<Rightarrow> (maker_error, u64) res" where
  \<comment> \<open>the closure given to \<open>LAST_COLLECT_TS.update\<close>\<close>
  "next_collect_ts config now last_ts =
     (case mc_collect_cooldown config of
        None \<Rightarrow> Inr now
      | Some cd_period \<Rightarrow> and_then (or_panic (add_checked last_ts cd_period)) (\<lambda>next.
          if now < next then fail_with (Cooldown next) else Inr now))"

definition mark_last :: "maker_msg submsg list \<Rightarrow> (maker_error, maker_msg submsg list) res" where
  "mark_last messages =
     (if messages = [] then fail_with NothingToCollect
      else Inr (butlast messages @
             [(last messages)\<lparr>sub_id := POST_COLLECT_REPLY_ID, sub_reply_on := OnSuccess\<rparr>]))"

definition collect :: "'a maker_crates_scheme \<Rightarrow> maker_chain \<Rightarrow> env \<Rightarrow> coin_with_limit list \<Rightarrow> maker_state
    \<Rightarrow> maker_result" where
  "collect L Q env assets st =
     and_then (ensure (assets \<noteq> []) EmptyAssets) (\<lambda>_.
     and_then (map_err Std (load_item ''config'' (mk_config st))) (\<lambda>config.
     and_then (map_err Std (load_item ''last_collect_ts'' (mk_last_collect_ts st))) (\<lambda>last_ts.
     and_then (next_collect_ts config (env_time env) last_ts) (\<lambda>ts.
     and_then (collect_loop L Q (env_contract env) config (mk_routes st) assets Map.empty []
                 [(''action'', ''collect'')]) (\<lambda>(messages, attrs).
     and_then (mark_last messages) (\<lambda>messages'.
     Inr (st\<lparr>mk_last_collect_ts := Some ts\<rparr>, \<lparr>resp_attrs = attrs, resp_msgs = messages'\<rparr>)))))))"

definition maker_reply :: "maker_chain \<Rightarrow> env \<Rightarrow> u64 \<Rightarrow> maker_state \<Rightarrow> maker_result" where
  "maker_reply Q env reply_id st =
     (if reply_id = POST_COLLECT_REPLY_ID then
        and_then (map_err Std (load_item ''config'' (mk_config st))) (\<lambda>config.
        and_then (map_err Std (ch_balance Q (env_contract env) (mc_astro_denom config))) (\<lambda>astro_balance.
        Inr (st, \<lparr>resp_attrs = [(''action'', ''post_collect_reply''), (''astro'', coin_to_string astro_balance)],
                  resp_msgs = [submsg_new (TransferAstro (mc_satellite config) [astro_balance])]\<rparr>)))
      else fail_with InvalidReplyId)"

section \<open>The execute entry point\<close>

definition maker_execute :: "'a maker_crates_scheme \<Rightarrow> maker_chain \<Rightarrow> env \<Rightarrow> message_info \<Rightarrow> maker_execute_msg
    \<Rightarrow> maker_state \<Rightarrow> maker_result" where
  "maker_execute L Q env info msg st =
     and_then (map_err PaymentError (nonpayable L info)) (\<lambda>_.
     case msg of
       Collect assets \<Rightarrow> collect L Q env assets st
     | UpdateConfig astro_denom fee_receiver max_spread collect_cooldown \<Rightarrow>
         maker_update_config L info astro_denom fee_receiver max_spread collect_cooldown st
     | SetPoolRoutes routes \<Rightarrow> set_pool_routes Q info routes st
     | ProposeNewOwner owner expires_in \<Rightarrow>
         and_then (map_err Std (load_item ''config'' (mk_config st))) (\<lambda>config.
         and_then (map_err Std (propose_new_owner L info env owner expires_in (mc_owner config)
                     (mk_ownership_proposal st))) (\<lambda>(p, attrs).
         Inr (st\<lparr>mk_ownership_proposal := p\<rparr>, attrs_response attrs)))
     | DropOwnershipProposal \<Rightarrow>
         and_then (map_err Std (load_item ''config'' (mk_config st))) (\<lambda>config.
         and_then (map_err Std (drop_ownership_proposal L info (mc_owner config)
                     (mk_ownership_proposal st))) (\<lambda>(p, attrs).
         Inr (st\<lparr>mk_ownership_proposal := p\<rparr>, attrs_response attrs)))
     | ClaimOwnership \<Rightarrow>
         and_then (map_err Std (claim_ownership L info env (mk_ownership_proposal st))) (\<lambda>(new_owner, p, attrs).
         and_then (map_err Std (load_item ''config'' (mk_config st))) (\<lambda>config.
         Inr (st\<lparr>mk_ownership_proposal := p, mk_config := Some (config\<lparr>mc_owner := new_owner\<rparr>)\<rparr>,
              attrs_response attrs))))"

section \<open>Migration\<close>

definition EXPECTED_CONTRACT_NAME :: string where "EXPECTED_CONTRACT_NAME = ''astroport-maker''"
definition EXPECTED_CONTRACT_VERSION :: string where "EXPECTED_CONTRACT_VERSION = ''1.4.0''"

definition maker_migrate :: "'a maker_crates_scheme \<Rightarrow> maker_chain \<Rightarrow> env \<Rightarrow> maker_instantiate_msg
    \<Rightarrow> maker_state \<Rightarrow> maker_result" where
  "maker_migrate L Q env msg st =
     and_then (assert_contract_version L (mk_cw2 st) EXPECTED_CONTRACT_NAME EXPECTED_CONTRACT_VERSION) (\<lambda>_.
     let st1 = st\<lparr>mk_bridges := fmempty\<rparr> in
     and_then (map_err Std (ch_contract_admin Q (env_contract env))) (\<lambda>admin.
     and_then (or_panic admin) (\<lambda>cw_admin.
     and_then (map_err Std (load_item ''contract_info'' (mk_cw2 st1))) (\<lambda>(contract, version).
     and_then (maker_instantiate L env msg st1) (\<lambda>(st2, resp).
     Inr (st2, resp\<lparr>resp_attrs := resp_attrs resp @
       [(''previous_contract_name'', contract), (''previous_contract_version'', version),
        (''new_contract_name'', maker_contract_name), (''new_contract_version'', maker_contract_version)]\<rparr>))))))"

section \<open>Queries\<close>

definition query_route :: "maker_state \<Rightarrow> string \<Rightarrow> string \<Rightarrow> (maker_error, swap_route_response list) res" where
  "query_route st denom_in denom_out =
     and_then (build_routes (mk_routes st) Map.empty denom_in denom_out) (\<lambda>(_, built).
     Inr (map (\<lambda>route. \<lparr>sr_pool_id = sa_pool_id route, sr_token_out_denom = sa_token_out_denom route\<rparr>)
           (br_routes built)))"

definition query_routes :: "maker_state \<Rightarrow> string option \<Rightarrow> u32 option \<Rightarrow> (std_error, pool_route list) res" where
  "query_routes st start_after limit =
     (let limit = unat (case limit of None \<Rightarrow> DEFAULT_PAGINATION_LIMIT | Some l \<Rightarrow> l)
      in Inr (take limit (map (\<lambda>(denom_in, route_step).
                \<lparr>pr_denom_in = denom_in, pr_denom_out = rs_denom_out route_step,
                 pr_pool_id = rs_pool_id route_step\<rparr>) (store_range (mk_routes st) start_after))))"

definition estimate_exact_swap_in :: "'a maker_crates_scheme \<Rightarrow> maker_chain \<Rightarrow> coin \<Rightarrow> maker_state
    \<Rightarrow> (maker_error, u128) res" where
  "estimate_exact_swap_in L Q coin_in st =
     and_then (map_err Std (load_item ''config'' (mk_config st))) (\<lambda>config.
     and_then (build_routes (mk_routes st) Map.empty (coin_denom coin_in) (mc_astro_denom config)) (\<lambda>(_, built).
     query_out_amount L Q coin_in (br_routes built)))"

datatype maker_query_msg =
    QueryConfig
  | QueryRoute string string
  | QueryRoutes "string option" "u32 option"
  | EstimateExactInSwap coin

datatype maker_answer =
    ConfigAnswer maker_config
  | RouteAnswer "swap_route_response list"
  | RoutesAnswer "pool_route list"
  | AmountAnswer u128

definition maker_query :: "'a maker_crates_scheme \<Rightarrow> maker_chain \<Rightarrow> maker_query_msg \<Rightarrow> maker_state
    \<Rightarrow> (maker_error, maker_answer) res" where
  "maker_query L Q msg st =
     (case msg of
        QueryConfig \<Rightarrow> and_then (map_err Std (load_item ''config'' (mk_config st))) (\<lambda>c. Inr (ConfigAnswer c))
      | QueryRoute denom_in denom_out \<Rightarrow>
          and_then (query_route st denom_in denom_out) (\<lambda>r. Inr (RouteAnswer r))
      | QueryRoutes start_after limit \<Rightarrow>
          and_then (map_err Std (query_routes st start_after limit)) (\<lambda>r. Inr (RoutesAnswer r))
      | EstimateExactInSwap coin_in \<Rightarrow>
          and_then (estimate_exact_swap_in L Q coin_in st) (\<lambda>a. Inr (AmountAnswer a)))"

end
