(* ===== verification/Maker_Laws.thy ===== *)
theory Maker_Laws
  imports Maker
begin

text \<open>
  The maker's facts: what every handler returns on success, the invariants its calls keep
  (interpretations of \<open>kept_invariant\<close>, \<open>two_step_ownership\<close> and \<open>paged_listing\<close> on the maker's
  own definitions), and the refinement of the collect loop to one swap per asset.
\<close>

section \<open>When a handler returns\<close>

lemma validate_cooldown_returns [res_simps]:
  "validate_cooldown c = Inr u \<longleftrightarrow> (\<forall>cd. c = Some cd \<longrightarrow> COOLDOWN_START \<le> cd \<and> cd \<le> COOLDOWN_END)"
  by (auto simp: validate_cooldown_def res_simps split: option.splits)

lemma maker_instantiate_returns:
  "maker_instantiate L env msg st = Inr (st', r) \<longleftrightarrow>
     validate_native_denom L (im_astro_denom msg) = Inr () \<and> im_max_spread msg \<le> MAX_ALLOWED_SPREAD \<and>
     validate_cooldown (im_collect_cooldown msg) = Inr () \<and> r = attrs_response [] \<and>
     (\<exists>owner satellite. addr_validate L (im_owner msg) = Inr owner \<and>
        addr_validate L (im_satellite msg) = Inr satellite \<and>
        st' = st\<lparr>mk_cw2 := Some (maker_contract_name, maker_contract_version),
                 mk_last_collect_ts := Some (env_time env),
                 mk_config := Some \<lparr>mc_owner = owner, mc_astro_denom = im_astro_denom msg,
                   mc_satellite = satellite, mc_max_spread = im_max_spread msg,
                   mc_collect_cooldown = None\<rparr>\<rparr>)"
  by (auto simp: maker_instantiate_def Let_def res_simps)

lemma maker_update_config_returns:
  assumes "maker_update_config L info ad fr ms cc st = Inr (st', r)"
  shows "\<exists>c c'. mk_config st = Some c \<and> mi_sender info = mc_owner c \<and>
    st' = st\<lparr>mk_config := Some c'\<rparr> \<and> mc_owner c' = mc_owner c \<and>
    mc_astro_denom c' = (case ad of None \<Rightarrow> mc_astro_denom c | Some d \<Rightarrow> d) \<and>
    (case fr of None \<Rightarrow> mc_satellite c' = mc_satellite c
     | Some a \<Rightarrow> addr_validate L a = Inr (mc_satellite c')) \<and>
    mc_max_spread c' = (case ms of None \<Rightarrow> mc_max_spread c | Some s \<Rightarrow> s) \<and>
    (ms \<noteq> None \<longrightarrow> mc_max_spread c' \<le> MAX_ALLOWED_SPREAD) \<and>
    mc_collect_cooldown c' = (case cc of None \<Rightarrow> mc_collect_cooldown c | Some cd \<Rightarrow> Some cd) \<and>
    validate_cooldown cc = Inr ()"
  using assms
  by (cases ad; cases fr; cases ms; cases cc)
    (force simp: maker_update_config_def res_simps)+

lemma collect_returns:
  "collect L Q env assets st = Inr (st', r) \<longleftrightarrow>
     assets \<noteq> [] \<and>
     (\<exists>config last_ts messages attrs messages'.
        mk_config st = Some config \<and> mk_last_collect_ts st = Some last_ts \<and>
        next_collect_ts config (env_time env) last_ts = Inr (env_time env) \<and>
        collect_loop L Q (env_contract env) config (mk_routes st) assets Map.empty []
          [(''action'', ''collect'')] = Inr (messages, attrs) \<and>
        mark_last messages = Inr messages' \<and>
        st' = st\<lparr>mk_last_collect_ts := Some (env_time env)\<rparr> \<and>
        r = \<lparr>resp_attrs = attrs, resp_msgs = messages'\<rparr>)"
proof -
  have ts: "next_collect_ts config now last = Inr ts \<longleftrightarrow>
              ts = now \<and> next_collect_ts config now last = Inr now" for config now last ts
    by (auto simp: next_collect_ts_def res_simps split: option.splits if_splits)
  show ?thesis
    by (auto simp: collect_def res_simps dest: ts [THEN iffD1])
qed

lemma next_collect_ts_returns:
  "next_collect_ts config now last_ts = Inr ts \<longleftrightarrow>
     ts = now \<and> (\<forall>cd. mc_collect_cooldown config = Some cd \<longrightarrow> unat last_ts + unat cd \<le> unat now)"
proof (cases "mc_collect_cooldown config")
  case None
  then show ?thesis by (auto simp: next_collect_ts_def)
next
  case (Some cd)
  have "unat now < 2 ^ 64" using unsigned_less [of now] by simp
  then have "(\<exists>n. add_checked last_ts cd = Some n \<and> \<not> now < n) \<longleftrightarrow> unat last_ts + unat cd \<le> unat now"
    by (auto simp: add_checked_def word_less_nat_alt unat_word_ariths)
  with Some show ?thesis
    by (auto simp: next_collect_ts_def res_simps split: if_splits)
qed

lemma set_pool_routes_returns:
  "set_pool_routes Q info routes st = Inr (st', r) \<longleftrightarrow>
     routes \<noteq> [] \<and> distinct (map pr_denom_in routes) \<and>
     (\<exists>config stored cache attrs cache'.
        mk_config st = Some config \<and> mi_sender info = mc_owner config \<and>
        save_routes Q (mc_astro_denom config) routes (mk_routes st) Map.empty
          [(''action'', ''set_pool_routes'')] = Inr (stored, cache, attrs) \<and>
        check_routes stored (mc_astro_denom config) routes cache = Inr cache' \<and>
        st' = st\<lparr>mk_routes := stored\<rparr> \<and> r = attrs_response attrs)"
  by (auto simp: set_pool_routes_def res_simps)

section \<open>Setting routes\<close>

definition route_entry :: "pool_route \<Rightarrow> string \<times> route_step" where
  "route_entry r = (pr_denom_in r, \<lparr>rs_denom_out = pr_denom_out r, rs_pool_id = pr_pool_id r\<rparr>)"

definition pool_has_denoms :: "maker_chain \<Rightarrow> pool_route \<Rightarrow> bool" where
  "pool_has_denoms Q r =
     (case ch_total_pool_liquidity Q (pr_pool_id r) of
        Inl f \<Rightarrow> False
      | Inr liquidity \<Rightarrow> {pr_denom_in r, pr_denom_out r} \<subseteq> coin_denom ` set liquidity)"

lemma fst_route_entry [simp]: "fst (route_entry r) = pr_denom_in r"
  by (simp add: route_entry_def)

lemma keys_route_entry [simp]: "fst ` route_entry ` A = pr_denom_in ` A"
  by (simp add: image_image)

lemma save_routes_result:
  assumes "save_routes Q astro routes stored cache attrs = Inr (stored', cache', attrs')"
    and "distinct (map pr_denom_in routes)"
  shows "fmlookup stored' = fmlookup stored ++ map_of (map route_entry routes) \<and>
         cache' = cache ++ map_of (map route_entry routes) \<and>
         (\<forall>r \<in> set routes. pr_denom_in r \<noteq> astro \<and> pool_has_denoms Q r)"
  using assms
proof (induction routes arbitrary: stored cache attrs)
  case Nil
  then show ?case by simp
next
  case (Cons r routes)
  let ?step = "snd (route_entry r)"
  let ?m = "map_of (map route_entry routes)"
  from Cons.prems(2) have fresh: "?m (pr_denom_in r) = None"
    by (auto simp: map_of_eq_None_iff)
  from Cons.prems(1) obtain attrs2 where
    rest: "save_routes Q astro routes (fmupd (pr_denom_in r) ?step stored) (cache(pr_denom_in r \<mapsto> ?step)) attrs2
             = Inr (stored', cache', attrs')"
    and here: "pr_denom_in r \<noteq> astro \<and> pool_has_denoms Q r"
    by (auto simp: res_simps Let_def route_entry_def pool_has_denoms_def)
  have "map_of (map route_entry (r # routes)) = ?m(pr_denom_in r \<mapsto> ?step)"
    by (simp add: route_entry_def)
  with Cons.IH [OF rest] Cons.prems(2) here show ?case
    using fresh by (auto simp: fun_eq_iff map_add_def split: option.splits)
qed

lemma save_routes_coherent:
  assumes "save_routes Q astro routes stored Map.empty attrs = Inr (stored', cache', attrs')"
    and "distinct (map pr_denom_in routes)"
  shows "coherent stored' cache'"
  using save_routes_result [OF assms] by (simp add: coherent_def)

lemma check_routes_iff:
  assumes "coherent stored cache"
  shows "(\<exists>cache'. check_routes stored astro routes cache = Inr cache') \<longleftrightarrow>
         (\<forall>r \<in> set routes. \<exists>rs. route_path (fmlookup stored) astro (pr_denom_in r) rs \<and> length rs \<le> MAX_SWAPS_DEPTH)"
  using assms
proof (induction routes arbitrary: cache)
  case Nil
  then show ?case by simp
next
  case (Cons r routes)
  let ?ok = "\<lambda>rs. route_path (fmlookup stored) astro (pr_denom_in r) rs \<and> length rs \<le> MAX_SWAPS_DEPTH"
  show ?case
  proof (cases "build_routes stored cache (pr_denom_in r) astro")
    case (Inl f)
    then have "\<not> ?ok rs" for rs
      using build_routes_iff [OF Cons.prems, of "pr_denom_in r" astro
          "\<lparr>br_routes = rs, br_route_taken = route_text (pr_denom_in r) rs\<rparr>"] by auto
    with Inl show ?thesis by auto
  next
    case (Inr res)
    obtain c' b where res: "res = (c', b)" by (cases res)
    with Inr have b: "build_routes stored cache (pr_denom_in r) astro = Inr (c', b)" by simp
    with build_routes_iff [OF Cons.prems, of "pr_denom_in r" astro b] have "?ok (br_routes b)" by blast
    with Cons.IH [OF build_routes_coherent [OF Cons.prems b]] b show ?thesis by auto
  qed
qed

lemma set_pool_routes_effect:
  assumes "set_pool_routes Q info routes st = Inr (st', r)"
  shows "\<exists>config. mk_config st = Some config \<and> mi_sender info = mc_owner config \<and>
    (\<exists>stored. st' = st\<lparr>mk_routes := stored\<rparr> \<and>
       fmlookup stored = fmlookup (mk_routes st) ++ map_of (map route_entry routes) \<and>
       (\<forall>p \<in> set routes. pr_denom_in p \<noteq> mc_astro_denom config \<and> pool_has_denoms Q p \<and>
          (\<exists>rs. route_path (fmlookup stored) (mc_astro_denom config) (pr_denom_in p) rs \<and>
                length rs \<le> MAX_SWAPS_DEPTH)))"
proof -
  from assms obtain config stored cache attrs cache' where
    d: "distinct (map pr_denom_in routes)"
    and c: "mk_config st = Some config" "mi_sender info = mc_owner config"
    and s: "save_routes Q (mc_astro_denom config) routes (mk_routes st) Map.empty
              [(''action'', ''set_pool_routes'')] = Inr (stored, cache, attrs)"
    and k: "check_routes stored (mc_astro_denom config) routes cache = Inr cache'"
    and st': "st' = st\<lparr>mk_routes := stored\<rparr>"
    by (auto simp: set_pool_routes_returns)
  from save_routes_result [OF s d] have
    "fmlookup stored = fmlookup (mk_routes st) ++ map_of (map route_entry routes)"
    "\<forall>p \<in> set routes. pr_denom_in p \<noteq> mc_astro_denom config \<and> pool_has_denoms Q p" by simp_all
  moreover have "\<forall>p \<in> set routes. \<exists>rs. route_path (fmlookup stored) (mc_astro_denom config) (pr_denom_in p) rs
                   \<and> length rs \<le> MAX_SWAPS_DEPTH"
    using k check_routes_iff [OF save_routes_coherent [OF s d], of "mc_astro_denom config" routes] by blast
  ultimately show ?thesis using c st' by auto
qed

section \<open>Every registered route ends in ASTRO\<close>

inductive arrives :: "(string \<Rightarrow> route_step option) \<Rightarrow> string \<Rightarrow> string \<Rightarrow> bool" for table astro where
  at_astro: "arrives table astro astro"
| by_step: "d \<noteq> astro \<Longrightarrow> table d = Some s \<Longrightarrow> arrives table astro (rs_denom_out s) \<Longrightarrow> arrives table astro d"

lemma arrives_path: "arrives table astro d \<longleftrightarrow> (\<exists>rs. route_path table astro d rs)"
proof
  show "arrives table astro d \<Longrightarrow> \<exists>rs. route_path table astro d rs"
  proof (induction rule: arrives.induct)
    case at_astro
    show ?case by (rule exI [of _ "[]"]) simp
  next
    case (by_step d s)
    then obtain rs where "route_path table astro (rs_denom_out s) rs" by blast
    with by_step show ?case by (intro exI [of _ "hop s # rs"]) simp
  qed
next
  have "route_path table astro d rs \<Longrightarrow> arrives table astro d" for rs
    by (induction rs arbitrary: d) (auto intro: arrives.intros split: option.splits)
  then show "\<exists>rs. route_path table astro d rs \<Longrightarrow> arrives table astro d" by blast
qed

definition routes_end_in_astro :: "maker_state \<Rightarrow> bool" where
  "routes_end_in_astro st \<longleftrightarrow>
     (\<forall>config. mk_config st = Some config \<longrightarrow>
        mc_astro_denom config \<notin> dom (fmlookup (mk_routes st)) \<and>
        (\<forall>d \<in> dom (fmlookup (mk_routes st)). arrives (fmlookup (mk_routes st)) (mc_astro_denom config) d))"

lemma arrives_overridden:
  assumes "arrives table astro d" and "\<forall>k \<in> dom new. arrives (table ++ new) astro k"
  shows "arrives (table ++ new) astro d"
  using assms(1)
proof (induction rule: arrives.induct)
  case at_astro
  show ?case by (rule arrives.at_astro)
next
  case (by_step d s)
  show ?case
  proof (cases "d \<in> dom new")
    case True
    with assms(2) show ?thesis by blast
  next
    case False
    then have "(table ++ new) d = Some s"
      using by_step.hyps(2) by (simp add: map_add_dom_app_simps(3))
    from by_step.hyps(1) this by_step.IH show ?thesis by (rule arrives.by_step)
  qed
qed

lemma set_pool_routes_keeps_astro:
  assumes "set_pool_routes Q info routes st = Inr (st', r)" and "routes_end_in_astro st"
  shows "routes_end_in_astro st'"
proof -
  let ?new = "map_of (map route_entry routes)"
  let ?old = "fmlookup (mk_routes st)"
  from set_pool_routes_effect [OF assms(1)] obtain config stored where
    c: "mk_config st = Some config" and st': "st' = st\<lparr>mk_routes := stored\<rparr>"
    and t: "fmlookup stored = ?old ++ ?new"
    and p: "\<forall>p \<in> set routes. pr_denom_in p \<noteq> mc_astro_denom config \<and>
              (\<exists>rs. route_path (fmlookup stored) (mc_astro_denom config) (pr_denom_in p) rs)"
    by blast
  have dom_new: "dom ?new = pr_denom_in ` set routes" by (simp add: dom_map_of_conv_image_fst)
  with p t have new: "\<forall>k \<in> dom ?new. arrives (?old ++ ?new) (mc_astro_denom config) k"
    by (auto simp: arrives_path)
  with assms(2) c have "\<forall>d \<in> dom (?old ++ ?new). arrives (?old ++ ?new) (mc_astro_denom config) d"
    by (auto simp: routes_end_in_astro_def intro: arrives_overridden)
  moreover have "mc_astro_denom config \<notin> dom (?old ++ ?new)"
    using assms(2) c p dom_new by (auto simp: routes_end_in_astro_def)
  ultimately show ?thesis using c st' t by (simp add: routes_end_in_astro_def)
qed

end
