(* ===== verification/Maker_Runs.thy ===== *)
theory Maker_Runs
  imports Maker_Laws
begin

text \<open>
  The maker over sequences of calls: the interpretations of the development's interfaces on
  \<open>maker_execute\<close> (configuration limits, routes that end in ASTRO, the collect clock, ownership)
  and on \<open>query_routes\<close> (pagination), and the refinement of the collect loop to a cache-free
  swap for each asset.
\<close>

abbreviation maker_call :: "'a maker_crates_scheme \<times> maker_chain \<Rightarrow> env \<Rightarrow> message_info \<Rightarrow> maker_execute_msg
    \<Rightarrow> maker_state \<Rightarrow> maker_result" where
  "maker_call c \<equiv> maker_execute (fst c) (snd c)"

section \<open>One call\<close>

lemma maker_execute_cases:
  assumes "maker_execute L Q env info msg st = Inr (st', r)"
  obtains
      (Collect) assets where "msg = Collect assets" and "collect L Q env assets st = Inr (st', r)"
    | (UpdateConfig) ad fr ms cc where "msg = UpdateConfig ad fr ms cc"
        and "maker_update_config L info ad fr ms cc st = Inr (st', r)"
    | (SetPoolRoutes) routes where "msg = SetPoolRoutes routes" and "set_pool_routes Q info routes st = Inr (st', r)"
    | (Propose) owner expires_in config p attrs where "msg = ProposeNewOwner owner expires_in"
        and "mk_config st = Some config"
        and "propose_new_owner L info env owner expires_in (mc_owner config) (mk_ownership_proposal st) = Inr (p, attrs)"
        and "st' = st\<lparr>mk_ownership_proposal := p\<rparr>"
    | (Drop) config p attrs where "msg = DropOwnershipProposal" and "mk_config st = Some config"
        and "drop_ownership_proposal L info (mc_owner config) (mk_ownership_proposal st) = Inr (p, attrs)"
        and "st' = st\<lparr>mk_ownership_proposal := p\<rparr>"
    | (Claim) config new_owner p attrs where "msg = ClaimOwnership" and "mk_config st = Some config"
        and "claim_ownership L info env (mk_ownership_proposal st) = Inr (new_owner, p, attrs)"
        and "st' = st\<lparr>mk_ownership_proposal := p, mk_config := Some (config\<lparr>mc_owner := new_owner\<rparr>)\<rparr>"
  using assms
  by (cases msg) (auto simp: maker_execute_def res_simps)

definition maker_owner :: "maker_state \<Rightarrow> addr option" where
  "maker_owner st = map_option mc_owner (mk_config st)"

definition within_limits :: "maker_state \<Rightarrow> bool" where
  "within_limits st \<longleftrightarrow>
     (\<forall>c. mk_config st = Some c \<longrightarrow> mc_max_spread c \<le> MAX_ALLOWED_SPREAD \<and>
        (\<forall>cd. mc_collect_cooldown c = Some cd \<longrightarrow> COOLDOWN_START \<le> cd \<and> cd \<le> COOLDOWN_END))"

fun keeps_astro_denom :: "maker_execute_msg \<Rightarrow> bool" where
  "keeps_astro_denom (UpdateConfig astro_denom _ _ _) \<longleftrightarrow> astro_denom = None"
| "keeps_astro_denom _ \<longleftrightarrow> True"

fun is_collect :: "maker_execute_msg \<Rightarrow> bool" where
  "is_collect (Collect _) \<longleftrightarrow> True"
| "is_collect _ \<longleftrightarrow> False"

lemma collect_frame: "collect L Q env assets st = Inr (st', r) \<Longrightarrow>
    st' = st\<lparr>mk_last_collect_ts := Some (env_time env)\<rparr>"
  by (simp add: collect_returns) blast

lemma set_pool_routes_frame: "set_pool_routes Q info routes st = Inr (st', r) \<Longrightarrow>
    \<exists>stored. st' = st\<lparr>mk_routes := stored\<rparr>"
  using set_pool_routes_effect by blast

lemma execute_within_limits:
  assumes "maker_execute L Q env info msg st = Inr (st', r)" and "within_limits st"
  shows "within_limits st'"
  using assms(1)
proof (cases rule: maker_execute_cases)
  case (Collect assets)
  from collect_frame [OF Collect(2)] assms(2) show ?thesis by (auto simp: within_limits_def)
next
  case (UpdateConfig ad fr ms cc)
  from maker_update_config_returns [OF UpdateConfig(2)] assms(2) show ?thesis
    by (auto simp: within_limits_def res_simps split: option.splits)
next
  case (SetPoolRoutes routes)
  from set_pool_routes_frame [OF SetPoolRoutes(2)] assms(2) show ?thesis by (auto simp: within_limits_def)
qed (use assms(2) in \<open>auto simp: within_limits_def\<close>)

lemma execute_routes_end_in_astro:
  assumes "keeps_astro_denom msg" and "maker_execute L Q env info msg st = Inr (st', r)"
    and "routes_end_in_astro st"
  shows "routes_end_in_astro st'"
  using assms(2)
proof (cases rule: maker_execute_cases)
  case (Collect assets)
  from collect_frame [OF Collect(2)] assms(3) show ?thesis by (auto simp: routes_end_in_astro_def)
next
  case (UpdateConfig ad fr ms cc)
  with assms(1) have "ad = None" by simp
  with maker_update_config_returns [OF UpdateConfig(2)] assms(3) show ?thesis
    by (auto simp: routes_end_in_astro_def)
next
  case (SetPoolRoutes routes)
  with assms(3) show ?thesis by (blast intro: set_pool_routes_keeps_astro)
qed (use assms(3) in \<open>auto simp: routes_end_in_astro_def\<close>)

lemma execute_keeps_collect_ts:
  assumes "\<not> is_collect msg" and "maker_execute L Q env info msg st = Inr (st', r)"
  shows "mk_last_collect_ts st' = mk_last_collect_ts st"
  using assms(2)
proof (cases rule: maker_execute_cases)
  case (Collect assets)
  with assms(1) show ?thesis by simp
next
  case (UpdateConfig ad fr ms cc)
  from maker_update_config_returns [OF UpdateConfig(2)] show ?thesis by auto
next
  case (SetPoolRoutes routes)
  from set_pool_routes_frame [OF SetPoolRoutes(2)] show ?thesis by auto
qed auto

lemma execute_moves_collect_ts:
  assumes "is_collect msg \<longrightarrow> t \<le> env_time env" and "maker_execute L Q env info msg st = Inr (st', r)"
    and "\<exists>last. mk_last_collect_ts st = Some last \<and> t \<le> last"
  shows "\<exists>last. mk_last_collect_ts st' = Some last \<and> t \<le> last"
proof (cases msg)
  case (Collect assets)
  with assms(1,2) show ?thesis by (auto simp: maker_execute_def res_simps dest!: collect_frame)
qed (use assms(3) execute_keeps_collect_ts [OF _ assms(2)] in auto)

lemma execute_owner_change:
  assumes "ownership_laws L" and "maker_execute L Q env info msg st = Inr (st', r)"
    and "maker_owner st' \<noteq> maker_owner st"
  shows "\<exists>p. mk_ownership_proposal st = Some p \<and> op_owner p = mi_sender info \<and> env_time env \<le> op_ttl p \<and>
             maker_owner st' = Some (mi_sender info) \<and> mk_ownership_proposal st' = None"
  using assms(2)
proof (cases rule: maker_execute_cases)
  case (Collect assets)
  from collect_frame [OF Collect(2)] assms(3) show ?thesis by (auto simp: maker_owner_def)
next
  case (UpdateConfig ad fr ms cc)
  from maker_update_config_returns [OF UpdateConfig(2)] assms(3) show ?thesis
    by (auto simp: maker_owner_def)
next
  case (SetPoolRoutes routes)
  from set_pool_routes_frame [OF SetPoolRoutes(2)] assms(3) show ?thesis by (auto simp: maker_owner_def)
next
  case (Claim config new_owner p attrs)
  with ownership_lawsD(3) [OF assms(1) Claim(3)] show ?thesis by (auto simp: maker_owner_def)
qed (use assms(3) in \<open>auto simp: maker_owner_def\<close>)

lemma execute_proposal_change:
  assumes "ownership_laws L" and "maker_execute L Q env info msg st = Inr (st', r)"
    and "mk_ownership_proposal st' \<noteq> mk_ownership_proposal st" and "mk_ownership_proposal st' \<noteq> None"
  shows "maker_owner st = Some (mi_sender info)"
  using assms(2)
proof (cases rule: maker_execute_cases)
  case (Collect assets)
  from collect_frame [OF Collect(2)] assms(3) show ?thesis by auto
next
  case (UpdateConfig ad fr ms cc)
  from maker_update_config_returns [OF UpdateConfig(2)] assms(3) show ?thesis by auto
next
  case (SetPoolRoutes routes)
  from set_pool_routes_frame [OF SetPoolRoutes(2)] assms(3) show ?thesis by auto
next
  case (Propose owner expires_in config p attrs)
  with ownership_lawsD(1) [OF assms(1) Propose(3)] show ?thesis by (simp add: maker_owner_def)
next
  case (Drop config p attrs)
  with ownership_lawsD(2) [OF assms(1) Drop(3)] assms(4) show ?thesis by simp
next
  case (Claim config new_owner p attrs)
  with ownership_lawsD(3) [OF assms(1) Claim(3)] assms(4) show ?thesis by simp
qed

section \<open>Sequences of calls\<close>

interpretation maker_limits: kept_invariant "\<lambda>_ _ _ _. True" maker_call within_limits
  by unfold_locales (auto intro: execute_within_limits)

interpretation maker_routes: kept_invariant "\<lambda>_ _ _. keeps_astro_denom" maker_call routes_end_in_astro
  by unfold_locales (auto intro: execute_routes_end_in_astro)

interpretation maker_clock: kept_invariant "\<lambda>_ env _ msg. is_collect msg \<longrightarrow> t \<le> env_time env" maker_call
    "\<lambda>st. \<exists>last. mk_last_collect_ts st = Some last \<and> t \<le> last" for t
  by unfold_locales (rule execute_moves_collect_ts)

interpretation maker_ownership: two_step_ownership maker_call "\<lambda>_. True"
    "\<lambda>c. ownership_laws (fst c)" maker_owner "\<lambda>_. []" mk_ownership_proposal
proof unfold_locales
  fix c :: "'a maker_crates_scheme \<times> maker_chain" and env info m s s' r
  assume ok: "ownership_laws (fst c)" and ex: "maker_call c env info m s = Inr (s', r)"
  show "maker_owner s' \<noteq> maker_owner s \<Longrightarrow>
      \<exists>p. mk_ownership_proposal s = Some p \<and> op_owner p = mi_sender info \<and> env_time env \<le> op_ttl p \<and>
          maker_owner s' = Some (mi_sender info) \<and> mk_ownership_proposal s' = None"
    by (rule execute_owner_change [OF ok ex])
  show "mk_ownership_proposal s' \<noteq> mk_ownership_proposal s \<Longrightarrow> mk_ownership_proposal s' \<noteq> None \<Longrightarrow>
      mi_sender info = acting_owner (\<lambda>_. []) maker_owner c s"
    using execute_proposal_change [OF ok ex] by (simp add: acting_owner_def)
qed

section \<open>Pages of routes\<close>

definition route_row :: "string \<times> route_step \<Rightarrow> pool_route" where
  "route_row e = \<lparr>pr_denom_in = fst e, pr_denom_out = rs_denom_out (snd e), pr_pool_id = rs_pool_id (snd e)\<rparr>"

definition routes_page :: "maker_state \<Rightarrow> string option \<Rightarrow> nat \<Rightarrow> pool_route list" where
  "routes_page st start n = take n (map route_row (store_range (mk_routes st) start))"

lemma query_routes_page:
  "query_routes st start (Some l) = Inr (routes_page st start (unat l))"
  "query_routes st start None = Inr (routes_page st start (unat DEFAULT_PAGINATION_LIMIT))"
  by (simp_all add: query_routes_def routes_page_def route_row_def [abs_def] case_prod_unfold)

interpretation routes_listing: paged_listing "\<lambda>_. True" "\<lambda>st. store_entries (mk_routes st)" routes_page route_row
  by unfold_locales
    (simp_all add: routes_page_def sorted_store_entries take_map store_range_def case_prod_unfold)

section \<open>The collect loop, one swap per asset\<close>

definition asset_swap :: "'a maker_crates_scheme \<Rightarrow> maker_chain \<Rightarrow> addr \<Rightarrow> maker_config
    \<Rightarrow> (string, route_step) fmap \<Rightarrow> coin_with_limit \<Rightarrow> (maker_error, maker_msg submsg list) res" where
  \<comment> \<open>the specification: no cache, no accumulators; an asset with an empty balance gives no swap\<close>
  "asset_swap L Q contract config stored asset =
     and_then (limited_balance Q contract asset) (\<lambda>balance.
     if coin_amount balance = 0 then Inr []
     else and_then (build_uncached stored (coin_denom balance) (mc_astro_denom config)) (\<lambda>built.
          and_then (query_out_amount L Q balance (br_routes built)) (\<lambda>out_amount.
          and_then (swap_submsg L contract (mc_max_spread config) balance built out_amount) (\<lambda>swap_msg.
          Inr [swap_msg]))))"

lemma collect_loop_refines:
  assumes "coherent stored cache"
  shows "and_then (collect_loop L Q contract config stored assets cache messages attrs) (\<lambda>(ms, _). Inr ms) =
         and_then (try_map (asset_swap L Q contract config stored) assets) (\<lambda>swaps. Inr (messages @ concat swaps))"
  using assms
proof (induction assets arbitrary: cache messages attrs)
  case Nil
  then show ?case by simp
next
  case (Cons asset assets)
  show ?case
  proof (cases "limited_balance Q contract asset")
    case (Inl f)
    then show ?thesis by (simp add: asset_swap_def)
  next
    case (Inr balance)
    show ?thesis
    proof (cases "coin_amount balance = 0")
      case True
      with Inr Cons show ?thesis by (simp add: asset_swap_def and_then_assoc)
    next
      case False
      note eq = build_routes_uncached [OF Cons.prems, of "coin_denom balance" "mc_astro_denom config"]
      show ?thesis
      proof (cases "build_routes stored cache (coin_denom balance) (mc_astro_denom config)")
        case (Inl f)
        with Inr False eq [symmetric] show ?thesis by (simp add: asset_swap_def)
      next
        case (Inr res)
        obtain cache' built where "res = (cache', built)" by (cases res)
        with Inr have b: "build_routes stored cache (coin_denom balance) (mc_astro_denom config) = Inr (cache', built)"
          by simp
        note IH = Cons.IH [OF build_routes_coherent [OF Cons.prems b]]
        from b eq [symmetric] \<open>limited_balance Q contract asset = Inr balance\<close> False IH show ?thesis
          by (auto simp: asset_swap_def and_then_assoc intro!: and_then_cong)
      qed
    qed
  qed
qed

lemma build_uncached_returns:
  "build_uncached stored d astro = Inr b \<longleftrightarrow>
     route_path (fmlookup stored) astro d (br_routes b) \<and> length (br_routes b) \<le> MAX_SWAPS_DEPTH
     \<and> br_route_taken b = route_text d (br_routes b)"
  using build_routes_uncached [of stored Map.empty d astro] build_routes_iff [of stored Map.empty d astro b]
  by (auto simp: res_simps)

lemma mark_last_returns:
  "mark_last ms = Inr ms' \<Longrightarrow> ms \<noteq> [] \<and> map sub_msg ms' = map sub_msg ms \<and>
     sub_id (last ms') = POST_COLLECT_REPLY_ID \<and> sub_reply_on (last ms') = OnSuccess \<and>
     butlast ms' = butlast ms \<and> ms' \<noteq> []"
  by (cases ms rule: rev_cases) (auto simp: mark_last_def)

definition collect_spec :: "'a maker_crates_scheme \<Rightarrow> maker_chain \<Rightarrow> env \<Rightarrow> coin_with_limit list \<Rightarrow> maker_state
    \<Rightarrow> (maker_error, maker_state \<times> maker_msg submsg list) res" where
  \<comment> \<open>the contract of a collect: the checks, then an independent swap for each asset, no cache\<close>
  "collect_spec L Q env assets st =
     and_then (ensure (assets \<noteq> []) EmptyAssets) (\<lambda>_.
     and_then (map_err Std (load_item ''config'' (mk_config st))) (\<lambda>config.
     and_then (map_err Std (load_item ''last_collect_ts'' (mk_last_collect_ts st))) (\<lambda>last_ts.
     and_then (next_collect_ts config (env_time env) last_ts) (\<lambda>ts.
     and_then (try_map (asset_swap L Q (env_contract env) config (mk_routes st)) assets) (\<lambda>swaps.
     and_then (mark_last (concat swaps)) (\<lambda>messages.
     Inr (st\<lparr>mk_last_collect_ts := Some ts\<rparr>, messages)))))))"

lemma collect_as_spec:
  "and_then (collect L Q env assets st) (\<lambda>(st', r). Inr (st', resp_msgs r)) = collect_spec L Q env assets st"
proof -
  have loop: "and_then (collect_loop L Q contract config (mk_routes st) assets Map.empty [] as) (\<lambda>(ms, as'). F ms)
      = and_then (try_map (asset_swap L Q contract config (mk_routes st)) assets) (\<lambda>swaps. F (concat swaps))"
    for contract config as and F :: "maker_msg submsg list \<Rightarrow> (maker_error, maker_state \<times> maker_msg submsg list) res"
    using arg_cong [OF collect_loop_refines [OF coherent_empty, of L Q contract config "mk_routes st" assets "[]" as],
        of "\<lambda>x. and_then x F"]
    by (simp add: and_then_assoc)
  show ?thesis
    by (simp add: collect_def collect_spec_def and_then_assoc loop)
qed

lemma collect_swaps:
  assumes "collect L Q env assets st = Inr (st', r)" and "mk_config st = Some config"
  shows "\<exists>ms. mark_last ms = Inr (resp_msgs r) \<and> (\<forall>m \<in> set ms. \<exists>built out balance.
    build_uncached (mk_routes st) (coin_denom balance) (mc_astro_denom config) = Inr built \<and>
    swap_submsg L (env_contract env) (mc_max_spread config) balance built out = Inr m)"
proof -
  have "collect_spec L Q env assets st = Inr (st', resp_msgs r)"
    using assms(1) by (simp flip: collect_as_spec)
  with assms(2) obtain swaps where sw: "try_map (asset_swap L Q (env_contract env) config (mk_routes st)) assets = Inr swaps"
    and ml: "mark_last (concat swaps) = Inr (resp_msgs r)"
    by (auto simp: collect_spec_def res_simps)
  have "\<exists>built out balance. build_uncached (mk_routes st) (coin_denom balance) (mc_astro_denom config) = Inr built \<and>
    swap_submsg L (env_contract env) (mc_max_spread config) balance built out = Inr m" if "m \<in> set (concat swaps)" for m
  proof -
    from that obtain xs where xs: "xs \<in> set swaps" "m \<in> set xs" by auto
    then obtain i where "i < length swaps" "swaps ! i = xs" by (metis in_set_conv_nth)
    with sw try_map_length [OF sw] have "asset_swap L Q (env_contract env) config (mk_routes st) (assets ! i) = Inr xs"
      by (auto simp: try_map_returns list_all2_conv_all_nth)
    with xs(2) show ?thesis by (fastforce simp: asset_swap_def res_simps split: if_splits)
  qed
  with ml show ?thesis by blast
qed

lemma collect_routes:
  \<comment> \<open>what a collect sends: swaps of the contract, each along a stored route to ASTRO; only the last
      one asks for a reply\<close>
  assumes "collect L Q env assets st = Inr (st', r)" and "mk_config st = Some config"
  shows "(\<forall>m \<in> set (resp_msgs r). \<exists>rs c t. sub_msg m = MsgSwapExactAmountIn (env_contract env) rs c t \<and>
      route_path (fmlookup (mk_routes st)) (mc_astro_denom config) (coin_denom c) rs) \<and>
    (\<forall>m \<in> set (butlast (resp_msgs r)). sub_reply_on m = Never)"
proof -
  from collect_swaps [OF assms] obtain ms where ml: "mark_last ms = Inr (resp_msgs r)"
    and ms: "\<And>m. m \<in> set ms \<Longrightarrow> \<exists>built out balance.
      build_uncached (mk_routes st) (coin_denom balance) (mc_astro_denom config) = Inr built \<and>
      swap_submsg L (env_contract env) (mc_max_spread config) balance built out = Inr m" by blast
  note last = mark_last_returns [OF ml]
  have each: "sub_reply_on m = Never \<and> (\<exists>rs c t. sub_msg m = MsgSwapExactAmountIn (env_contract env) rs c t \<and>
      route_path (fmlookup (mk_routes st)) (mc_astro_denom config) (coin_denom c) rs)" if "m \<in> set ms" for m
  proof -
    from ms [OF that] obtain built out balance where b:
      "build_uncached (mk_routes st) (coin_denom balance) (mc_astro_denom config) = Inr built"
      "swap_submsg L (env_contract env) (mc_max_spread config) balance built out = Inr m" by blast
    then have "sub_reply_on m = Never \<and> (\<exists>t. sub_msg m = MsgSwapExactAmountIn (env_contract env) (br_routes built)
        \<lparr>coin_denom = coin_denom balance, coin_amount = coin_amount balance\<rparr> t)"
      by (auto simp: swap_submsg_def submsg_new_def res_simps)
    with b(1) show ?thesis unfolding build_uncached_returns by (metis coin.select_convs(1))
  qed
  have "\<exists>m' \<in> set ms. sub_msg m' = sub_msg m" if "m \<in> set (resp_msgs r)" for m
    using that last by (metis (no_types, lifting) image_iff image_set)
  with each last show ?thesis by (metis in_set_butlastD)
qed

end
