(* ===== verification/Samples.thy ===== *)
theory Samples
  imports Chain
begin

text \<open>
  One concrete instance of the third-party functions shared by the contracts, with the
  documented behaviour. The theorems never use it; the witnesses do, to evaluate the
  definitions on a concrete input and to show that the named hypotheses can hold.
\<close>

definition u128_of :: "nat \<Rightarrow> u128 option" where
  "u128_of n = (if n < 2 ^ 128 then Some (word_of_nat n) else None)"

lemma u128_of_Some: "u128_of n = Some w \<Longrightarrow> unat w = n"
  by (auto simp: u128_of_def unsigned_of_nat take_bit_nat_eq_self split: if_splits)

definition sample_addr_validate :: "string \<Rightarrow> (std_error, addr) res" where
  "sample_addr_validate s =
     (if length s < 3 then fail_with (GenericErr ''human address too short'') else Inr s)"

definition sample_addr_opt_validate :: "string option \<Rightarrow> (std_error, addr option) res" where
  "sample_addr_opt_validate a =
     (case a of None \<Rightarrow> Inr None | Some s \<Rightarrow> and_then (sample_addr_validate s) (\<lambda>v. Inr (Some v)))"

definition sample_propose :: "message_info \<Rightarrow> env \<Rightarrow> string \<Rightarrow> u64 \<Rightarrow> addr \<Rightarrow> ownership_proposal option
    \<Rightarrow> (std_error, ownership_proposal option \<times> attribute list) res" where
  "sample_propose info env new exp cur p =
     (if mi_sender info \<noteq> cur then fail_with (GenericErr ''Unauthorized'')
      else and_then (sample_addr_validate new) (\<lambda>o_new.
           and_then (or_panic (add_checked (env_time env) exp)) (\<lambda>ttl.
           Inr (Some \<lparr>op_owner = o_new, op_ttl = ttl\<rparr>, [(''action'', ''propose_new_owner'')]))))"

definition sample_drop :: "message_info \<Rightarrow> addr \<Rightarrow> ownership_proposal option
    \<Rightarrow> (std_error, ownership_proposal option \<times> attribute list) res" where
  "sample_drop info cur p =
     (if mi_sender info \<noteq> cur then fail_with (GenericErr ''Unauthorized'')
      else Inr (None, [(''action'', ''drop_ownership_proposal'')]))"

definition sample_claim :: "message_info \<Rightarrow> env \<Rightarrow> ownership_proposal option
    \<Rightarrow> (std_error, addr \<times> ownership_proposal option \<times> attribute list) res" where
  "sample_claim info env p =
     (case p of
        None \<Rightarrow> fail_with (GenericErr ''Ownership proposal not found'')
      | Some q \<Rightarrow>
          (if mi_sender info \<noteq> op_owner q then fail_with (GenericErr ''Unauthorized'')
           else if op_ttl q < env_time env then fail_with (GenericErr ''Ownership proposal expired'')
           else Inr (op_owner q, None, [(''action'', ''claim_ownership'')])))"

definition sample_crates :: crates where
  "sample_crates = \<lparr>addr_validate = sample_addr_validate, addr_opt_validate = sample_addr_opt_validate,
     propose_new_owner = sample_propose, drop_ownership_proposal = sample_drop,
     claim_ownership = sample_claim\<rparr>"

lemmas sample_defs = sample_addr_validate_def sample_addr_opt_validate_def sample_propose_def
  sample_drop_def sample_claim_def

lemma sample_ownership:
  assumes "propose_new_owner L = sample_propose" and "drop_ownership_proposal L = sample_drop"
    and "claim_ownership L = sample_claim"
  shows "ownership_laws L"
  unfolding ownership_laws_def assms sample_defs
  by (auto simp: res_simps fail_with_def split: if_splits option.splits)

definition sample_env :: "u64 \<Rightarrow> env" where
  "sample_env t = \<lparr>env_time = t, env_height = 100, env_contract = ''contract''\<rparr>"

definition sent_by :: "addr \<Rightarrow> message_info" where
  "sent_by a = \<lparr>mi_sender = a, mi_funds = []\<rparr>"

lemma sample_env_sel [simp]:
  "env_time (sample_env t) = t" "env_height (sample_env t) = 100" "env_contract (sample_env t) = ''contract''"
  by (simp_all add: sample_env_def)

lemma sent_by_sel [simp]: "mi_sender (sent_by a) = a" "mi_funds (sent_by a) = []"
  by (simp_all add: sent_by_def)

end
