(* ===== verification/Maker_Samples.thy ===== *)
theory Maker_Samples
  imports Maker_Runs Samples
begin

text \<open>
  A concrete instance of the maker's third-party functions and chain answers, for the
  witnesses of the maker's properties.
\<close>

definition sample_maker_crates :: maker_crates where
  "sample_maker_crates = \<lparr>addr_validate = sample_addr_validate, addr_opt_validate = sample_addr_opt_validate,
     propose_new_owner = sample_propose, drop_ownership_proposal = sample_drop,
     claim_ownership = sample_claim,
     validate_native_denom = (\<lambda>d. if 3 \<le> length d then Inr () else fail_with (GenericErr ''Invalid denom length'')),
     nonpayable = (\<lambda>info. if mi_funds info = [] then Inr () else fail_with NonPayable),
     assert_contract_version = (\<lambda>v n w. if v = Some (n, w) then Inr () else fail_with VersionError),
     decimal_from_str = (\<lambda>s. case parse_u128 s of Inl e \<Rightarrow> fail_with (GenericErr ''Error parsing whole'')
        | Inr n \<Rightarrow> map_err id (ok_or (GenericErr ''Value too big'')
            (map_option Decimal (u128_of (unat n * 1000000000000000000))))),
     decimal_to_string = (\<lambda>d. to_string (atomics d)),
     decimal_checked_mul = (\<lambda>a b. map_option Decimal
        (u128_of (unat (atomics a) * unat (atomics b) div 1000000000000000000))),
     decimal_sub = (\<lambda>a b. map_option Decimal (sub_checked (atomics a) (atomics b))),
     decimal_mul_uint = (\<lambda>d n. u128_of (unat n * unat (atomics d) div 1000000000000000000)),
     checked_multiply_ratio = (\<lambda>n p q. if q = 0 then None else u128_of (unat n * unat p div unat q))\<rparr>"

definition sample_denoms :: "string list" where
  "sample_denoms = [''aaa'', ''bbb'', ''ccc'', ''ddd'', ''eee'', ''fff'', ''astro'']"

definition sample_chain :: maker_chain where
  "sample_chain = \<lparr>
     ch_balance = (\<lambda>a d. Inr \<lparr>coin_denom = d, coin_amount = (if d = ''bbb'' then 0 else 1000)\<rparr>),
     ch_total_pool_liquidity = (\<lambda>p. Inr (map (\<lambda>d. \<lparr>coin_denom = d, coin_amount = 1\<rparr>) sample_denoms)),
     ch_spot_price = (\<lambda>p b q. Inr ''2''),
     ch_contract_admin = (\<lambda>a. Inr (Some ''admin''))\<rparr>"

definition sample_config :: "u64 option \<Rightarrow> maker_config" where
  "sample_config cd = \<lparr>mc_owner = ''owner'', mc_astro_denom = ''astro'', mc_satellite = ''satellite'',
     mc_max_spread = Decimal 100000000000000000, mc_collect_cooldown = cd\<rparr>"

definition blank_maker :: maker_state where
  "blank_maker = \<lparr>mk_routes = fmempty, mk_config = None, mk_last_collect_ts = None,
     mk_ownership_proposal = None, mk_cw2 = None, mk_bridges = fmempty\<rparr>"

definition sample_maker :: "u64 option \<Rightarrow> (string \<times> string) list \<Rightarrow> maker_state" where
  \<comment> \<open>a configured maker with one route step for each pair of denoms, all through pool 1\<close>
  "sample_maker cd steps = blank_maker\<lparr>mk_config := Some (sample_config cd), mk_last_collect_ts := Some 1000,
     mk_cw2 := Some (maker_contract_name, maker_contract_version),
     mk_routes := fmap_of_list (map (\<lambda>(i, d). (i, \<lparr>rs_denom_out = d, rs_pool_id = 1\<rparr>)) steps)\<rparr>"

definition sample_route :: "string \<Rightarrow> string \<Rightarrow> pool_route" where
  "sample_route i d = \<lparr>pr_denom_in = i, pr_denom_out = d, pr_pool_id = 1\<rparr>"

definition sample_init :: maker_instantiate_msg where
  "sample_init = \<lparr>im_owner = ''owner'', im_astro_denom = ''astro'', im_satellite = ''satellite'',
     im_max_spread = Decimal 100000000000000000, im_collect_cooldown = Some 60\<rparr>"

lemma sample_maker_crates_sel [simp]:
  "addr_validate sample_maker_crates = sample_addr_validate"
  "propose_new_owner sample_maker_crates = sample_propose"
  "drop_ownership_proposal sample_maker_crates = sample_drop"
  "claim_ownership sample_maker_crates = sample_claim"
  by (simp_all add: sample_maker_crates_def)

lemmas maker_sample_defs = sample_maker_crates_def sample_chain_def sample_config_def blank_maker_def
  sample_maker_def sample_route_def sample_init_def sample_denoms_def u128_of_def sample_addr_validate_def

lemma max_depth_Suc: "MAX_SWAPS_DEPTH = Suc (Suc (Suc (Suc (Suc 0))))"
  by (simp add: MAX_SWAPS_DEPTH_def)

lemmas maker_eval_defs = set_pool_routes_def maker_sample_defs build_routes_def max_depth_Suc
  cached_step_def hop_def route_text_def Let_def

lemmas collect_eval_defs = collect_def next_collect_ts_def limited_balance_def query_out_amount_def
  query_spot_price_def swap_submsg_def DECIMAL_FRACTIONAL_def parse_u128_def char_digit_def
  sub_checked_def mark_last_def

lemma sample_maker_ownership: "ownership_laws sample_maker_crates"
  by (rule sample_ownership) simp_all

lemma sample_maker_decimals: "decimal_laws sample_maker_crates"
  unfolding decimal_laws_def sample_maker_crates_def DECIMAL_FRACTIONAL_def
  by (auto dest!: u128_of_Some split: if_splits)

end
