(* ===== verification/Maker_Properties.thy ===== *)
theory Maker_Properties
  imports Maker_Samples
begin

text \<open>
  The properties of the maker contract, each with a witness on the sample instance: route
  building and its cache, the routes an owner may register, the swaps a collect sends, the
  collect clock, the configuration limits, ownership, pagination and the one-shot migration.
\<close>

section \<open>Paths without loops\<close>

lemma route_path_suffix:
  "route_path table astro d rs \<Longrightarrow> e \<in> set (d # map sa_token_out_denom rs) \<Longrightarrow>
     \<exists>ys. route_path table astro e ys \<and> length ys \<le> length rs \<and> (e \<noteq> d \<longrightarrow> length ys < length rs)"
proof (induction rs arbitrary: d)
  case Nil
  then show ?case by (intro exI [of _ "[]"]) simp
next
  case (Cons r rs)
  show ?case
  proof (cases "e = d")
    case True
    with Cons.prems(1) show ?thesis by (intro exI [of _ "r # rs"]) simp
  next
    case False
    from Cons.prems(1) obtain s where s: "table d = Some s" "r = hop s"
      and rest: "route_path table astro (rs_denom_out s) rs" by (auto split: option.splits)
    with False Cons.prems(2) have "e \<in> set (rs_denom_out s # map sa_token_out_denom rs)" by auto
    from Cons.IH [OF rest this] show ?thesis by (auto intro: le_SucI)
  qed
qed

lemma route_path_distinct:
  "route_path table astro d rs \<Longrightarrow> distinct (d # map sa_token_out_denom rs)"
proof (induction rs arbitrary: d)
  case Nil
  then show ?case by simp
next
  case (Cons r rs)
  from Cons.prems obtain s where s: "r = hop s"
    and rest: "route_path table astro (rs_denom_out s) rs" by (auto split: option.splits)
  have "d \<notin> set (rs_denom_out s # map sa_token_out_denom rs)"
  proof
    assume "d \<in> set (rs_denom_out s # map sa_token_out_denom rs)"
    from route_path_suffix [OF rest this] obtain ys
      where ys: "route_path table astro d ys" and len: "length ys \<le> length rs" by blast
    from route_path_unique [OF ys Cons.prems] len show False by simp
  qed
  with Cons.IH [OF rest] s show ?case by simp
qed

section \<open>Routes\<close>

text \<open>
  C21. Building a route, with its cache and its error paths, is the bounded walk through the
  stored steps: whatever steps of the storage the cache already holds, \<open>build_routes\<close> returns
  the hops of the walk of at most five steps when that walk stands at ASTRO, fails with
  \<open>FailedToBuildRoute\<close> (naming the denoms passed) when it does not, and with \<open>RouteNotFound\<close>
  when a denom on the way has no step.
\<close>

theorem build_routes_is_walk:
  assumes "coherent stored cache"
  shows "and_then (build_routes stored cache d astro) (\<lambda>(_, b). Inr b) =
         and_then (walk (fmlookup stored) astro MAX_SWAPS_DEPTH d) (\<lambda>(e, hops).
           if e = astro then Inr \<lparr>br_routes = hops, br_route_taken = route_text d hops\<rparr>
           else fail_with (FailedToBuildRoute d (route_text d hops)))"
  using cached.build_loop_walk [OF assms, where astro = astro and n = MAX_SWAPS_DEPTH
      and d = d and rs = "[]"]
  by (auto simp: build_routes_def ensure_def fail_with_def split: sum.splits)

theorem build_routes_is_walk_witness:
  "coherent (mk_routes (sample_maker None [(''aaa'', ''bbb''), (''bbb'', ''astro'')]))
     [''bbb'' \<mapsto> \<lparr>rs_denom_out = ''astro'', rs_pool_id = 1\<rparr>] \<and>
   and_then (build_routes (mk_routes (sample_maker None [(''aaa'', ''bbb''), (''bbb'', ''astro'')]))
       [''bbb'' \<mapsto> \<lparr>rs_denom_out = ''astro'', rs_pool_id = 1\<rparr>] ''aaa'' ''astro'') (\<lambda>(_, b). Inr b)
     = Inr \<lparr>br_routes = [\<lparr>sa_pool_id = 1, sa_token_out_denom = ''bbb''\<rparr>, \<lparr>sa_pool_id = 1, sa_token_out_denom = ''astro''\<rparr>],
            br_route_taken = ''aaa -> bbb -> astro''\<rparr>"
proof -
  let ?R = "mk_routes (sample_maker None [(''aaa'', ''bbb''), (''bbb'', ''astro'')])"
  let ?c = "[''bbb'' \<mapsto> \<lparr>rs_denom_out = ''astro'', rs_pool_id = 1\<rparr>] :: routes_cache"
  have h: "coherent ?R ?c" by (simp add: coherent_def maker_sample_defs map_le_def)
  show ?thesis
    using h build_routes_is_walk [OF h, of "''aaa''" "''astro''"]
    by (simp add: maker_sample_defs maker_constants hop_def route_text_def numeral_eq_Suc)
qed

lemma walk_inside:
  assumes "d \<in> D" and "astro \<notin> D" and "\<And>x. x \<in> D \<Longrightarrow> \<exists>s. table x = Some s \<and> rs_denom_out s \<in> D"
  shows "\<exists>e hops. walk table astro n d = Inr (e, hops) \<and> e \<in> D \<and> length hops = n"
  using assms(1)
proof (induction n arbitrary: d)
  case 0
  then show ?case by simp
next
  case (Suc n)
  from assms(3) [OF Suc.prems] obtain s where s: "table d = Some s" "rs_denom_out s \<in> D" by blast
  from Suc.IH [OF s(2)] assms(2) Suc.prems s(1) show ?case by (auto simp: and_then_def)
qed

text \<open>
  C37. The search for a route ends on tables where following the steps does not. If the steps
  from a denom never leave a set of denoms without ASTRO (so that every denom in it has a
  next one, forever: the table has a cycle), \<open>build_routes\<close> takes exactly \<open>MAX_SWAPS_DEPTH\<close> hops and
  returns the error \<open>FailedToBuildRoute\<close>, naming them.
\<close>

theorem route_search_ends:
  assumes "coherent stored cache" and "d \<in> D" and "astro \<notin> D"
    and "\<forall>x \<in> D. \<exists>s. fmlookup stored x = Some s \<and> rs_denom_out s \<in> D"
  shows "\<exists>hops. length hops = MAX_SWAPS_DEPTH \<and>
    build_routes stored cache d astro = fail_with (FailedToBuildRoute d (route_text d hops))"
proof -
  from walk_inside [OF assms(2,3), of "fmlookup stored" MAX_SWAPS_DEPTH] assms(4) obtain e hops where
    w: "walk (fmlookup stored) astro MAX_SWAPS_DEPTH d = Inr (e, hops)" "e \<noteq> astro" "length hops = MAX_SWAPS_DEPTH"
    using assms(3) by blast
  with cached.build_loop_walk [OF assms(1), where astro = astro and n = MAX_SWAPS_DEPTH and d = d and rs = "[]"]
  have "build_routes stored cache d astro = fail_with (FailedToBuildRoute d (route_text d hops))"
    by (auto simp: build_routes_def ensure_def fail_with_def)
  with w(3) show ?thesis by blast
qed

theorem route_search_ends_witness:
  "\<exists>hops. length hops = MAX_SWAPS_DEPTH \<and>
    build_routes (mk_routes (sample_maker None [(''aaa'', ''bbb''), (''bbb'', ''aaa'')])) Map.empty ''aaa'' ''astro''
      = fail_with (FailedToBuildRoute ''aaa'' (route_text ''aaa'' hops))"
  by (rule route_search_ends [where D = "{''aaa'', ''bbb''}"]) (simp_all add: maker_sample_defs)

text \<open>
  C23. What a successful \<open>SetPoolRoutes\<close> does: the sender is the owner; the stored table is the
  old one overridden by exactly the routes of the message; no new step starts at ASTRO; the pool
  of each new step holds both its denoms; and from every denom of the message the new table
  leads to ASTRO in at most five hops. Nothing else of the state changes.
\<close>

theorem set_pool_routes_sound:
  assumes "set_pool_routes Q info routes st = Inr (st', r)"
  shows "\<exists>config stored. mk_config st = Some config \<and> mi_sender info = mc_owner config \<and>
    st' = st\<lparr>mk_routes := stored\<rparr> \<and>
    fmlookup stored = fmlookup (mk_routes st) ++ map_of (map route_entry routes) \<and>
    (\<forall>p \<in> set routes. pr_denom_in p \<noteq> mc_astro_denom config \<and> pool_has_denoms Q p \<and>
       (\<exists>cache b. build_routes stored Map.empty (pr_denom_in p) (mc_astro_denom config) = Inr (cache, b) \<and>
          route_path (fmlookup stored) (mc_astro_denom config) (pr_denom_in p) (br_routes b) \<and>
          length (br_routes b) \<le> 5))"
proof -
  from set_pool_routes_effect [OF assms] obtain config stored where
    c: "mk_config st = Some config" "mi_sender info = mc_owner config" "st' = st\<lparr>mk_routes := stored\<rparr>"
      "fmlookup stored = fmlookup (mk_routes st) ++ map_of (map route_entry routes)"
    and p: "\<forall>p \<in> set routes. pr_denom_in p \<noteq> mc_astro_denom config \<and> pool_has_denoms Q p \<and>
       (\<exists>rs. route_path (fmlookup stored) (mc_astro_denom config) (pr_denom_in p) rs \<and> length rs \<le> MAX_SWAPS_DEPTH)"
    by blast
  have "\<exists>cache b. build_routes stored Map.empty d astro = Inr (cache, b) \<and>
          route_path (fmlookup stored) astro d (br_routes b) \<and> length (br_routes b) \<le> 5"
    if "route_path (fmlookup stored) astro d rs" "length rs \<le> MAX_SWAPS_DEPTH" for d astro rs
    using that build_routes_iff [of stored Map.empty d astro "\<lparr>br_routes = rs, br_route_taken = route_text d rs\<rparr>"]
    by (auto simp: MAX_SWAPS_DEPTH_def)
  with c p show ?thesis by blast
qed

definition sample_set_result :: "maker_state" where
  "sample_set_result = sample_maker None [(''aaa'', ''bbb''), (''bbb'', ''astro'')]"

lemma sample_set_routes:
  "\<exists>r. set_pool_routes sample_chain (sent_by ''owner'') [sample_route ''aaa'' ''bbb'']
     (sample_maker None [(''bbb'', ''astro'')]) = Inr (sample_set_result, r)"
  by (simp add: set_pool_routes_def sample_set_result_def maker_sample_defs build_routes_def
      maker_constants cached_step_def hop_def route_text_def numeral_eq_Suc Let_def)

theorem set_pool_routes_sound_witness:
  "\<exists>config stored. mk_config (sample_maker None [(''bbb'', ''astro'')]) = Some config \<and>
     sample_set_result = (sample_maker None [(''bbb'', ''astro'')])\<lparr>mk_routes := stored\<rparr> \<and>
     fmlookup stored ''aaa'' = Some \<lparr>rs_denom_out = ''bbb'', rs_pool_id = 1\<rparr>"
proof -
  from sample_set_routes obtain r where
    "set_pool_routes sample_chain (sent_by ''owner'') [sample_route ''aaa'' ''bbb'']
       (sample_maker None [(''bbb'', ''astro'')]) = Inr (sample_set_result, r)" by blast
  from set_pool_routes_sound [OF this] show ?thesis
    by (auto simp: route_entry_def sample_route_def map_add_def)
qed

text \<open>
  C24. The route table stays sound for the whole life of the contract: after an instantiation
  on a storage without routes, and any calls by anyone that do not change the ASTRO denom,
  every registered denom leads to ASTRO along the stored steps without visiting a denom twice.
\<close>

theorem registered_routes_reach_astro:
  assumes "maker_instantiate L0 env msg st0 = Inr (st1, r)" and "mk_routes st0 = fmempty"
    and "\<forall>(c, env, info, m) \<in> set calls. keeps_astro_denom m"
    and "st = run_calls maker_call calls st1" and "mk_config st = Some config"
    and "fmlookup (mk_routes st) d \<noteq> None"
  shows "\<exists>rs. route_path (fmlookup (mk_routes st)) (mc_astro_denom config) d rs \<and>
              distinct (d # map sa_token_out_denom rs)"
proof -
  from assms(1,2) have "routes_end_in_astro st1"
    by (auto simp: maker_instantiate_returns routes_end_in_astro_def)
  from maker_routes.run_kept [OF this assms(3)] have "routes_end_in_astro st" by (simp add: assms(4))
  with assms(5,6) have "arrives (fmlookup (mk_routes st)) (mc_astro_denom config) d"
    by (auto simp: routes_end_in_astro_def fmdom'I)
  then obtain rs where "route_path (fmlookup (mk_routes st)) (mc_astro_denom config) d rs"
    by (auto simp: arrives_path)
  from this route_path_distinct [OF this] show ?thesis by blast
qed

definition sample_started :: maker_state where
  "sample_started = blank_maker\<lparr>mk_cw2 := Some (maker_contract_name, maker_contract_version),
     mk_last_collect_ts := Some 7, mk_config := Some (sample_config None)\<rparr>"

lemma sample_instantiates:
  "maker_instantiate sample_maker_crates (sample_env 7) sample_init blank_maker
     = Inr (sample_started, attrs_response [])"
  by (simp add: maker_instantiate_returns sample_started_def maker_sample_defs maker_constants
      validate_cooldown_returns)

definition sample_routed :: maker_state where
  "sample_routed = sample_started\<lparr>mk_routes := fmap_of_list
     [(''bbb'', \<lparr>rs_denom_out = ''astro'', rs_pool_id = 1\<rparr>), (''aaa'', \<lparr>rs_denom_out = ''bbb'', rs_pool_id = 1\<rparr>)]\<rparr>"

abbreviation sample_routing :: "((maker_crates \<times> maker_chain) \<times> env \<times> message_info \<times> maker_execute_msg) list" where
  "sample_routing \<equiv> [((sample_maker_crates, sample_chain), sample_env 8, sent_by ''owner'',
     SetPoolRoutes [sample_route ''aaa'' ''bbb'', sample_route ''bbb'' ''astro''])]"

lemma sample_routing_run: "sample_routed = run_calls maker_call sample_routing sample_started"
proof -
  have "\<exists>r. set_pool_routes sample_chain (sent_by ''owner'')
        [sample_route ''aaa'' ''bbb'', sample_route ''bbb'' ''astro''] sample_started = Inr (sample_routed, r)"
    by (simp add: set_pool_routes_def sample_started_def sample_routed_def maker_sample_defs build_routes_def
        maker_constants cached_step_def hop_def route_text_def numeral_eq_Suc Let_def)
  then show ?thesis by (auto simp: maker_execute_def sample_maker_crates_def)
qed

theorem registered_routes_reach_astro_witness:
  "sample_routed = run_calls maker_call sample_routing sample_started \<and>
   (\<exists>rs. route_path (fmlookup (mk_routes sample_routed)) ''astro'' ''aaa'' rs \<and>
         distinct (''aaa'' # map sa_token_out_denom rs))"
proof -
  have "mk_config sample_routed = Some (sample_config None)" and "mk_routes blank_maker = fmempty"
    and "fmlookup (mk_routes sample_routed) ''aaa'' \<noteq> None" and "mc_astro_denom (sample_config None) = ''astro''"
    by (simp_all add: sample_routed_def sample_started_def blank_maker_def sample_config_def)
  with registered_routes_reach_astro [OF sample_instantiates _ _ sample_routing_run, of "sample_config None" "''aaa''"]
  show ?thesis using sample_routing_run by simp
qed

definition long_message :: "pool_route list" where
  "long_message = [sample_route ''bbb'' ''ccc'', sample_route ''ccc'' ''ddd'', sample_route ''ddd'' ''eee'',
     sample_route ''eee'' ''fff'', sample_route ''fff'' ''astro'']"

definition long_routed :: maker_state where
  "long_routed = sample_maker None [(''fff'', ''astro''), (''eee'', ''fff''), (''ddd'', ''eee''),
     (''ccc'', ''ddd''), (''bbb'', ''ccc''), (''aaa'', ''bbb''), (''bbb'', ''astro'')]"

text \<open>
  The depth limit is not part of that invariant: the owner can register routes that are
  each within the limit and thereby put an older registered route beyond it. Here \<open>aaa\<close> is
  registered with two hops; a second accepted message lengthens the route of \<open>bbb\<close> to five
  hops; afterwards building the route of \<open>aaa\<close>, still registered, fails, and a collect that
  includes it fails with it.
\<close>

theorem depth_limit_not_kept:
  "(\<exists>r. set_pool_routes sample_chain (sent_by ''owner'') long_message
         (sample_maker None [(''aaa'', ''bbb''), (''bbb'', ''astro'')]) = Inr (long_routed, r)) \<and>
   fmlookup (mk_routes long_routed) ''aaa'' = Some \<lparr>rs_denom_out = ''bbb'', rs_pool_id = 1\<rparr> \<and>
   build_routes (mk_routes long_routed) Map.empty ''aaa'' ''astro''
     = fail_with (FailedToBuildRoute ''aaa'' ''aaa -> bbb -> ccc -> ddd -> eee -> fff'') \<and>
   collect sample_maker_crates sample_chain (sample_env 2000)
     [\<lparr>cl_denom = ''fff'', cl_amount = None\<rparr>, \<lparr>cl_denom = ''aaa'', cl_amount = None\<rparr>] long_routed
     = fail_with (FailedToBuildRoute ''aaa'' ''aaa -> bbb -> ccc -> ddd -> eee -> fff'')"
proof (intro conjI)
  show "\<exists>r. set_pool_routes sample_chain (sent_by ''owner'') long_message
         (sample_maker None [(''aaa'', ''bbb''), (''bbb'', ''astro'')]) = Inr (long_routed, r)"
    by (simp add: long_message_def long_routed_def maker_eval_defs cong: and_then_eval_cong)
  show "fmlookup (mk_routes long_routed) ''aaa'' = Some \<lparr>rs_denom_out = ''bbb'', rs_pool_id = 1\<rparr>"
    by (simp add: long_routed_def maker_sample_defs)
  show "build_routes (mk_routes long_routed) Map.empty ''aaa'' ''astro''
     = fail_with (FailedToBuildRoute ''aaa'' ''aaa -> bbb -> ccc -> ddd -> eee -> fff'')"
    by (simp add: long_routed_def maker_eval_defs fail_with_def cong: and_then_eval_cong)
  show "collect sample_maker_crates sample_chain (sample_env 2000)
     [\<lparr>cl_denom = ''fff'', cl_amount = None\<rparr>, \<lparr>cl_denom = ''aaa'', cl_amount = None\<rparr>] long_routed
     = fail_with (FailedToBuildRoute ''aaa'' ''aaa -> bbb -> ccc -> ddd -> eee -> fff'')"
    by (simp add: long_routed_def maker_eval_defs collect_eval_defs fail_with_def cong: and_then_eval_cong)
qed

section \<open>Collecting\<close>

lemma estimate_uncached:
  "mk_config st = Some config \<Longrightarrow> estimate_exact_swap_in L Q coin_in st =
     and_then (build_uncached (mk_routes st) (coin_denom coin_in) (mc_astro_denom config))
       (\<lambda>built. query_out_amount L Q coin_in (br_routes built))"
  by (simp add: estimate_exact_swap_in_def build_routes_uncached [of _ Map.empty, symmetric]
      and_then_assoc case_prod_unfold)

definition swap_of_asset :: "'a maker_crates_scheme \<Rightarrow> maker_chain \<Rightarrow> addr \<Rightarrow> maker_config \<Rightarrow> maker_state
    \<Rightarrow> coin_with_limit \<Rightarrow> maker_msg \<Rightarrow> bool" where
  \<comment> \<open>the swap spends a non-zero part of the contract's balance, within the caller's limit, along
      a stored route to ASTRO, for at least the estimate less the configured spread\<close>
  "swap_of_asset L Q contract config st asset m \<longleftrightarrow>
     (\<exists>balance amount out (floor_out :: u128).
        ch_balance Q contract (cl_denom asset) = Inr balance \<and>
        m = MsgSwapExactAmountIn contract (swap_routes m)
              \<lparr>coin_denom = coin_denom balance, coin_amount = amount\<rparr> (to_string floor_out) \<and>
        amount \<noteq> 0 \<and> amount \<le> coin_amount balance \<and>
        (\<forall>limit. cl_amount asset = Some limit \<longrightarrow> amount \<le> limit) \<and>
        route_path (fmlookup (mk_routes st)) (mc_astro_denom config) (coin_denom balance) (swap_routes m) \<and>
        length (swap_routes m) \<le> 5 \<and>
        estimate_exact_swap_in L Q \<lparr>coin_denom = coin_denom balance, coin_amount = amount\<rparr> st = Inr out \<and>
        unat floor_out = unat out * (10 ^ 18 - unat (atomics (mc_max_spread config))) div 10 ^ 18)"

lemma swap_submsg_returns:
  assumes "decimal_laws L" and "swap_submsg L contract spread balance built out = Inr m"
  shows "\<exists>w :: u128. m = submsg_new (MsgSwapExactAmountIn contract (br_routes built)
           \<lparr>coin_denom = coin_denom balance, coin_amount = coin_amount balance\<rparr> (to_string w)) \<and>
           unat w = unat out * (10 ^ 18 - unat (atomics spread)) div 10 ^ 18"
proof -
  from assms(2) obtain f w where f: "decimal_sub L decimal_one spread = Some f"
    and w: "decimal_mul_uint L f out = Some w"
    and m: "m = submsg_new (MsgSwapExactAmountIn contract (br_routes built)
           \<lparr>coin_denom = coin_denom balance, coin_amount = coin_amount balance\<rparr> (to_string w))"
    by (auto simp: swap_submsg_def res_simps)
  from f decimal_lawsD(1) [OF assms(1)] have "sub_checked 1000000000000000000 (atomics spread) = Some (atomics f)"
    by auto
  from sub_checked_Some [OF this] have "unat (atomics f) = 10 ^ 18 - unat (atomics spread)" by simp linarith
  with decimal_lawsD(2) [OF assms(1) w]
  have "unat w = unat out * (10 ^ 18 - unat (atomics spread)) div 10 ^ 18" by (simp add: DECIMAL_FRACTIONAL_def)
  with m show ?thesis by blast
qed

lemma asset_swap_sound:
  assumes "decimal_laws L" and "mk_config st = Some config"
    and "asset_swap L Q contract config (mk_routes st) asset = Inr ms" and "m \<in> set ms"
  shows "swap_of_asset L Q contract config st asset (sub_msg m) \<and> sub_id m = 0 \<and> sub_reply_on m = Never"
proof -
  from assms(3,4) obtain balance0 balance built out where
    b0: "ch_balance Q contract (cl_denom asset) = Inr balance0"
    and b: "limited_balance Q contract asset = Inr balance" "coin_amount balance \<noteq> 0"
    and built: "build_uncached (mk_routes st) (coin_denom balance) (mc_astro_denom config) = Inr built"
    and out: "query_out_amount L Q balance (br_routes built) = Inr out"
    and sm: "swap_submsg L contract (mc_max_spread config) balance built out = Inr m"
    by (auto simp: asset_swap_def limited_balance_def res_simps split: if_splits)
  from b0 b(1) have bal: "coin_denom balance = coin_denom balance0" "coin_amount balance \<le> coin_amount balance0"
    "\<forall>limit. cl_amount asset = Some limit \<longrightarrow> coin_amount balance \<le> limit"
    by (auto simp: limited_balance_def split: option.splits)
  have "\<lparr>coin_denom = coin_denom balance0, coin_amount = coin_amount balance\<rparr> = balance" using bal(1) by simp
  with built out have est: "estimate_exact_swap_in L Q
      \<lparr>coin_denom = coin_denom balance0, coin_amount = coin_amount balance\<rparr> st = Inr out"
    by (simp only: estimate_uncached [OF assms(2)] and_then_simps)
  from swap_submsg_returns [OF assms(1) sm] b0 b(2) bal built est show ?thesis
    by (fastforce simp: swap_of_asset_def submsg_new_def build_uncached_returns MAX_SWAPS_DEPTH_def)
qed

text \<open>
  C22. The collect handler refines its specification on every input, errors included: with the
  route cache and the accumulating loop it sends the same messages and fails in the same way as
  the cache-free handler that swaps every asset on its own.
\<close>

theorem collect_refines_spec:
  "and_then (collect L Q env assets st) (\<lambda>(st', r). Inr (st', resp_msgs r)) = collect_spec L Q env assets st"
  by (rule collect_as_spec)

text \<open>
  C25. Safety of a collect: every message of a successful collect is a swap of one of the
  requested assets. It spends a non-zero amount, at most the contract's balance and at most the
  caller's limit, along a stored route of at most five hops that ends in ASTRO, and demands at
  least the estimate of \<open>EstimateExactInSwap\<close> less the configured spread, rounded down. Only the
  last message asks for the reply that forwards the proceeds.
\<close>

theorem collect_swaps_safe:
  assumes "decimal_laws L" and "mk_config st = Some config" and "collect L Q env assets st = Inr (st', r)"
  shows "resp_msgs r \<noteq> [] \<and>
    (\<forall>m \<in> set (resp_msgs r). \<exists>asset \<in> set assets. swap_of_asset L Q (env_contract env) config st asset (sub_msg m)) \<and>
    sub_id (last (resp_msgs r)) = POST_COLLECT_REPLY_ID \<and> sub_reply_on (last (resp_msgs r)) = OnSuccess \<and>
    (\<forall>m \<in> set (butlast (resp_msgs r)). sub_id m = 0 \<and> sub_reply_on m = Never)"
proof -
  have "collect_spec L Q env assets st = Inr (st', resp_msgs r)"
    using assms(3) by (simp flip: collect_as_spec)
  with assms(2) obtain swaps where sw: "try_map (asset_swap L Q (env_contract env) config (mk_routes st)) assets = Inr swaps"
    and ml: "mark_last (concat swaps) = Inr (resp_msgs r)"
    by (auto simp: collect_spec_def res_simps)
  have each: "\<exists>asset \<in> set assets. swap_of_asset L Q (env_contract env) config st asset (sub_msg m)
                \<and> sub_id m = 0 \<and> sub_reply_on m = Never" if "m \<in> set (concat swaps)" for m
  proof -
    from that obtain ms where "ms \<in> set swaps" "m \<in> set ms" by auto
    with try_map_length [OF sw] obtain i where "i < length assets" "m \<in> set (swaps ! i)"
      by (metis in_set_conv_nth)
    moreover from this sw have "asset_swap L Q (env_contract env) config (mk_routes st) (assets ! i) = Inr (swaps ! i)"
      by (simp add: try_map_returns list_all2_conv_all_nth)
    ultimately show ?thesis using asset_swap_sound [OF assms(1,2)] by (meson nth_mem)
  qed
  note ms = mark_last_returns [OF ml]
  have "\<exists>m' \<in> set (concat swaps). sub_msg m' = sub_msg m" if "m \<in> set (resp_msgs r)" for m
    using that ms by (metis (no_types, lifting) image_iff image_set)
  moreover have "m \<in> set (concat swaps)" if "m \<in> set (butlast (resp_msgs r))" for m
    using that ms by (metis in_set_butlastD)
  ultimately show ?thesis using each ms by metis
qed

lemma sample_collect:
  "collect sample_maker_crates sample_chain (sample_env 2000)
     [\<lparr>cl_denom = ''bbb'', cl_amount = None\<rparr>, \<lparr>cl_denom = ''aaa'', cl_amount = Some 400\<rparr>]
     (sample_maker None [(''aaa'', ''astro'')])
   = Inr ((sample_maker None [(''aaa'', ''astro'')])\<lparr>mk_last_collect_ts := Some 2000\<rparr>,
      \<lparr>resp_attrs = [(''action'', ''collect''), (''collected_asset'', to_string (400 :: u128) @ ''aaa''),
         (''route_taken'', ''aaa -> astro'')],
       resp_msgs = [\<lparr>sub_id = 1,
         sub_msg = MsgSwapExactAmountIn ''contract'' [\<lparr>sa_pool_id = 1, sa_token_out_denom = ''astro''\<rparr>]
            \<lparr>coin_denom = ''aaa'', coin_amount = 400\<rparr> (to_string (720 :: u128)), sub_reply_on = OnSuccess\<rparr>]\<rparr>)"
  by (simp add: maker_eval_defs collect_eval_defs coin_to_string_def submsg_new_def
      POST_COLLECT_REPLY_ID_def min_def cong: and_then_eval_cong)

theorem collect_swaps_safe_witness:
  "mk_config (sample_maker None [(''aaa'', ''astro'')]) = Some (sample_config None) \<and>
   (\<exists>asset \<in> set [\<lparr>cl_denom = ''bbb'', cl_amount = None\<rparr>, \<lparr>cl_denom = ''aaa'', cl_amount = Some 400\<rparr>].
      swap_of_asset sample_maker_crates sample_chain ''contract'' (sample_config None)
        (sample_maker None [(''aaa'', ''astro'')]) asset
        (MsgSwapExactAmountIn ''contract'' [\<lparr>sa_pool_id = 1, sa_token_out_denom = ''astro''\<rparr>]
            \<lparr>coin_denom = ''aaa'', coin_amount = 400\<rparr> (to_string (720 :: u128))))"
proof -
  have c: "mk_config (sample_maker None [(''aaa'', ''astro'')]) = Some (sample_config None)"
    by (simp add: sample_maker_def)
  from collect_swaps_safe [OF sample_maker_decimals c sample_collect] c show ?thesis by simp
qed

text \<open>
  C26. The cooldown holds across any calls between two collects: when the contract's cooldown is
  \<open>cd\<close> at the second collect, at least \<open>cd\<close> seconds have passed since the first one, whatever
  calls by anyone came in between, other collects included, failed and successful ones (no sum
  of timestamps wraps around). The only hypothesis on the calls in between is that a \<open>Collect\<close>
  among them is not in a block with a time before that of the first one.
\<close>

theorem collects_are_apart:
  assumes "maker_execute L1 Q1 env1 info1 (Collect assets1) st0 = Inr (st1, r1)"
    and "\<forall>(c, env, info, m) \<in> set calls. is_collect m \<longrightarrow> env_time env1 \<le> env_time env"
    and "st2 = run_calls maker_call calls st1"
    and "maker_execute L2 Q2 env2 info2 (Collect assets2) st2 = Inr (st3, r2)"
    and "mk_config st2 = Some config" and "mc_collect_cooldown config = Some cd"
  shows "unat (env_time env1) + unat cd \<le> unat (env_time env2)"
proof -
  from assms(1) have "mk_last_collect_ts st1 = Some (env_time env1)"
    by (auto simp: maker_execute_def collect_returns res_simps)
  with maker_clock.run_kept [OF _ assms(2)] obtain last where "mk_last_collect_ts st2 = Some last" "env_time env1 \<le> last"
    unfolding assms(3) by blast
  with assms(4-6) show ?thesis
    by (auto simp: maker_execute_def collect_returns res_simps next_collect_ts_returns word_le_nat_alt)
qed

theorem collects_are_apart_witness:
  "unat (env_time (sample_env 2000)) + unat (60 :: u64) \<le> unat (env_time (sample_env 2060))"
proof -
  let ?a = "[\<lparr>cl_denom = ''bbb'', cl_amount = None\<rparr>, \<lparr>cl_denom = ''aaa'', cl_amount = Some 400\<rparr>]"
  let ?st = "sample_maker (Some 60) [(''aaa'', ''astro'')]"
  let ?L = sample_maker_crates and ?Q = sample_chain and ?i = "sent_by ''anyone''"
  have one: "\<exists>r. maker_execute ?L ?Q (sample_env 2000) ?i (Collect ?a) ?st
      = Inr (?st\<lparr>mk_last_collect_ts := Some 2000\<rparr>, r)"
    and between: "run_calls maker_call [((?L, ?Q), sample_env 2030, ?i, Collect ?a)] (?st\<lparr>mk_last_collect_ts := Some 2000\<rparr>)
      = ?st\<lparr>mk_last_collect_ts := Some 2000\<rparr>"
    and two: "\<exists>st3 r. maker_execute ?L ?Q (sample_env 2060) ?i (Collect ?a) (?st\<lparr>mk_last_collect_ts := Some 2000\<rparr>)
      = Inr (st3, r)"
    by (simp_all add: maker_execute_def maker_eval_defs collect_eval_defs coin_to_string_def submsg_new_def
      POST_COLLECT_REPLY_ID_def min_def add_checked_def fail_with_def cong: and_then_eval_cong)
  from one two obtain r1 st3 r2 where
    1: "maker_execute ?L ?Q (sample_env 2000) ?i (Collect ?a) ?st = Inr (?st\<lparr>mk_last_collect_ts := Some 2000\<rparr>, r1)"
    and 2: "maker_execute ?L ?Q (sample_env 2060) ?i (Collect ?a) (?st\<lparr>mk_last_collect_ts := Some 2000\<rparr>) = Inr (st3, r2)"
    by blast
  show ?thesis
    by (rule collects_are_apart [OF 1 _ between [symmetric] 2, where config = "sample_config (Some 60)"])
      (simp_all add: sample_maker_def sample_config_def)
qed

section \<open>Configuration\<close>

text \<open>
  C27. The configured limits hold for the whole life of the contract: after an instantiation and
  any calls by anyone, the maximum spread is at most one half and a cooldown, when there is one,
  lies between 30 and 600 seconds.
\<close>

theorem limits_always_hold:
  assumes "maker_instantiate L0 env msg st0 = Inr (st1, r)"
    and "mk_config (run_calls maker_call calls st1) = Some config"
  shows "atomics (mc_max_spread config) \<le> 500000000000000000 \<and>
    (\<forall>cd. mc_collect_cooldown config = Some cd \<longrightarrow> 30 \<le> cd \<and> cd \<le> 600)"
proof -
  from assms(1) have "within_limits st1"
    by (auto simp: maker_instantiate_returns within_limits_def)
  from maker_limits.run_kept [OF this] assms(2) show ?thesis
    by (auto simp: within_limits_def maker_constants less_eq_decimal_def)
qed

theorem limits_always_hold_witness:
  "mk_config sample_routed = Some (sample_config None) \<and>
   atomics (mc_max_spread (sample_config None)) \<le> 500000000000000000"
proof -
  have c: "mk_config sample_routed = Some (sample_config None)"
    by (simp add: sample_routed_def sample_started_def)
  then have "mk_config (run_calls maker_call sample_routing sample_started) = Some (sample_config None)"
    by (simp only: sample_routing_run [symmetric])
  from limits_always_hold [OF sample_instantiates this] c show ?thesis by blast
qed

text \<open>
  An instantiation forgets the cooldown it was given: \<open>collect_cooldown\<close> of the message is
  validated and then \<open>None\<close> is stored, so the collect clock admits a collect at any time until
  the owner sets the cooldown again with \<open>UpdateConfig\<close>.
\<close>

theorem instantiate_forgets_cooldown:
  assumes "maker_instantiate L env msg st = Inr (st', r)"
  shows "\<exists>config. mk_config st' = Some config \<and> mc_collect_cooldown config = None \<and>
    (\<forall>now last_ts. next_collect_ts config now last_ts = Inr now)"
  using assms by (auto simp: maker_instantiate_returns next_collect_ts_def)

theorem instantiate_forgets_cooldown_witness:
  "im_collect_cooldown sample_init = Some 60 \<and>
   (\<exists>config. mk_config sample_started = Some config \<and> mc_collect_cooldown config = None)"
  using instantiate_forgets_cooldown [OF sample_instantiates] by (auto simp: sample_init_def)

text \<open>
  C32. Who may change what: two calls of anyone but the owner can succeed. A \<open>Collect\<close> changes the
  time of the last collect and nothing else: neither the configuration, nor the routes, nor the
  ownership proposal. A \<open>ClaimOwnership\<close> by the proposed owner, before the proposal expires, sets
  the owner to the sender and removes the proposal, and changes nothing else.
\<close>

theorem maker_authorisation:
  assumes "ownership_laws L" and "maker_execute L Q env info msg st = Inr (st', r)"
    and "maker_owner st \<noteq> Some (mi_sender info)"
  shows "(\<exists>assets. msg = Collect assets \<and> st' = st\<lparr>mk_last_collect_ts := Some (env_time env)\<rparr>) \<or>
    (msg = ClaimOwnership \<and>
      (\<exists>config p. mk_config st = Some config \<and> mk_ownership_proposal st = Some p \<and>
         op_owner p = mi_sender info \<and> env_time env \<le> op_ttl p \<and>
         st' = st\<lparr>mk_ownership_proposal := None, mk_config := Some (config\<lparr>mc_owner := mi_sender info\<rparr>)\<rparr>))"
  using assms(2)
proof (cases rule: maker_execute_cases)
  case (Collect assets)
  from Collect(1) collect_frame [OF Collect(2)] show ?thesis by simp
next
  case (UpdateConfig ad fr ms cc)
  from maker_update_config_returns [OF UpdateConfig(2)] assms(3) show ?thesis by (auto simp: maker_owner_def)
next
  case (SetPoolRoutes routes)
  from set_pool_routes_effect [OF SetPoolRoutes(2)] assms(3) show ?thesis by (auto simp: maker_owner_def)
next
  case (Propose owner expires_in config p attrs)
  with ownership_lawsD(1) [OF assms(1) Propose(3)] assms(3) show ?thesis by (simp add: maker_owner_def)
next
  case (Drop config p attrs)
  with ownership_lawsD(2) [OF assms(1) Drop(3)] assms(3) show ?thesis by (simp add: maker_owner_def)
next
  case (Claim config new_owner p attrs)
  with ownership_lawsD(3) [OF assms(1) Claim(3)] show ?thesis by auto
qed

theorem maker_authorisation_witness:
  "\<exists>st' r. maker_execute sample_maker_crates sample_chain (sample_env 50) (sent_by ''newbie'') ClaimOwnership
      ((sample_maker None [])\<lparr>mk_ownership_proposal := Some \<lparr>op_owner = ''newbie'', op_ttl = 60\<rparr>\<rparr>) = Inr (st', r) \<and>
    mk_config st' = Some ((sample_config None)\<lparr>mc_owner := ''newbie''\<rparr>) \<and>
    mk_routes st' = mk_routes (sample_maker None [])"
proof -
  let ?st = "(sample_maker None [])\<lparr>mk_ownership_proposal := Some \<lparr>op_owner = ''newbie'', op_ttl = 60\<rparr>\<rparr>"
  have "\<exists>st' r. maker_execute sample_maker_crates sample_chain (sample_env 50) (sent_by ''newbie'') ClaimOwnership ?st
      = Inr (st', r) \<and> mk_config st' \<noteq> mk_config ?st"
    by (simp add: maker_execute_def maker_sample_defs sample_claim_def)
  then obtain st' r where 1: "maker_execute sample_maker_crates sample_chain (sample_env 50) (sent_by ''newbie'')
      ClaimOwnership ?st = Inr (st', r)" and 2: "mk_config st' \<noteq> mk_config ?st" by blast
  have "maker_owner ?st \<noteq> Some (mi_sender (sent_by ''newbie''))"
    by (simp add: maker_owner_def maker_sample_defs)
  from maker_authorisation [OF sample_maker_ownership 1 this] 1 2 show ?thesis
    by (auto simp: sample_maker_def)
qed

text \<open>
  Ownership cannot be taken: over any sequence of calls in which the owner of the maker
  sends none, starting without a pending proposal, the owner stays the same; and over any
  sequence at all, an address that ends up owner has called the contract itself.
\<close>

theorem maker_ownership_safe:
  assumes "\<forall>(c, env, info, m) \<in> set calls. ownership_laws (fst c)"
    and "mk_ownership_proposal st = None" and "maker_owner st = Some a"
  shows "((\<forall>(c, env, info, m) \<in> set calls. mi_sender info \<noteq> a) \<longrightarrow>
            maker_owner (run_calls maker_call calls st) = Some a) \<and>
         (\<forall>b. maker_owner (run_calls maker_call calls st) = Some b \<longrightarrow> b \<noteq> a \<longrightarrow>
            (\<exists>(c, env, info, m) \<in> set calls. mi_sender info = b))"
proof (intro conjI impI allI)
  assume "\<forall>(c, env, info, m) \<in> set calls. mi_sender info \<noteq> a"
  with assms have "\<forall>(c, env, info, m) \<in> set calls. ownership_laws (fst c) \<and>
      mi_sender info \<noteq> acting_owner (\<lambda>_. []) maker_owner c st"
    by (auto simp: acting_owner_def)
  from maker_ownership.outsiders_never_own [OF TrueI assms(2) this] assms(3)
  show "maker_owner (run_calls maker_call calls st) = Some a" by simp
next
  fix b
  assume "maker_owner (run_calls maker_call calls st) = Some b" and "b \<noteq> a"
  with maker_ownership.new_owner_called [OF TrueI assms(1)] assms(3)
  show "\<exists>(c, env, info, m) \<in> set calls. mi_sender info = b" by simp
qed

theorem maker_ownership_safe_witness:
  "maker_owner (run_calls maker_call
     [((sample_maker_crates, sample_chain), sample_env 5, sent_by ''mallory'', ProposeNewOwner ''mallory'' 10),
      ((sample_maker_crates, sample_chain), sample_env 6, sent_by ''mallory'', ClaimOwnership)] (sample_maker None []))
   = Some ''owner''"
proof -
  let ?calls = "[((sample_maker_crates, sample_chain), sample_env 5, sent_by ''mallory'', ProposeNewOwner ''mallory'' 10),
      ((sample_maker_crates, sample_chain), sample_env 6, sent_by ''mallory'', ClaimOwnership)]"
  have "\<forall>(c, env, info, m) \<in> set ?calls. ownership_laws (fst c)"
    by (simp add: sample_maker_ownership)
  moreover have "\<forall>(c, env, info, m) \<in> set ?calls. mi_sender info \<noteq> ''owner''" by simp
  moreover have "mk_ownership_proposal (sample_maker None []) = None" "maker_owner (sample_maker None []) = Some ''owner''"
    by (simp_all add: maker_owner_def sample_maker_def sample_config_def blank_maker_def)
  ultimately show ?thesis
    using maker_ownership_safe [of ?calls "sample_maker None []" "''owner''"] by blast
qed

section \<open>Listing the routes, migrating\<close>

text \<open>
  Walking \<open>Routes\<close> page by page lists every registered route exactly once, in the order of
  the denoms: with a limit \<open>l > 0\<close>, the \<open>j\<close>-th page, asked for with the last denom of the page
  before, is the \<open>j\<close>-th block of \<open>l\<close> rows of the table, and the blocks joined are the table.
\<close>

theorem routes_pages:
  assumes "0 < l" and "k * unat l \<le> length (store_entries (mk_routes st))"
  shows "(\<forall>j \<le> k. query_routes st (if j = 0 then None else Some (fst (store_entries (mk_routes st) ! (j * unat l - 1)))) (Some l)
            = Inr (map route_row (take (unat l) (drop (j * unat l) (store_entries (mk_routes st)))))) \<and>
         concat (map (\<lambda>j. map route_row (take (unat l) (drop (j * unat l) (store_entries (mk_routes st))))) [0..<Suc k])
            = map route_row (take (Suc k * unat l) (store_entries (mk_routes st))) \<and>
         sorted_wrt (<) (map fst (store_entries (mk_routes st))) \<and>
         set (store_entries (mk_routes st)) = {(d, s). fmlookup (mk_routes st) d = Some s}"
proof -
  let ?es = "store_entries (mk_routes st)"
  from assms(1) have pos: "0 < unat l" by (simp add: word_less_nat_alt)
  have le: "j * unat l \<le> length ?es" if "j \<le> k" for j
    using that assms(2) by (meson le_trans mult_le_mono1)
  have page: "routes_page st (if j = 0 then None else Some (fst (?es ! (j * unat l - 1)))) (unat l)
      = map route_row (take (unat l) (drop (j * unat l) ?es))" if "j \<le> k" for j
    by (rule routes_listing.page_nth [OF TrueI pos le [OF that]])
  moreover have "concat (map (\<lambda>j. map route_row (take (unat l) (drop (j * unat l) ?es))) [0..<Suc k])
      = map route_row (take (Suc k * unat l) ?es)"
    by (rule blocks_tile)
  ultimately show ?thesis
    by (simp add: query_routes_page sorted_store_entries set_store_entries)
qed

theorem routes_pages_witness:
  "(1::nat) * unat (1 :: u32) \<le> length (store_entries (mk_routes sample_routed)) \<and>
   query_routes sample_routed (Some (fst (store_entries (mk_routes sample_routed) ! 0))) (Some 1)
     = Inr (map route_row (take 1 (drop 1 (store_entries (mk_routes sample_routed)))))"
proof -
  have "length (store_entries (mk_routes sample_routed)) = 2"
    by (simp add: store_entries_def sample_routed_def sorted_list_of_fset.rep_eq)
  then have h: "(1::nat) * unat (1 :: u32) \<le> length (store_entries (mk_routes sample_routed))" by simp
  have p: "(0 :: u32) < 1" by simp
  show ?thesis using h routes_pages [OF p h] by (auto dest: spec [of _ 1])
qed

text \<open>
  Migration is possible once: it succeeds only on the dummy maker (name and version as
  expected), clears its bridges, leaves what an instantiation with the same message leaves, and
  afterwards every further migration fails.
\<close>

definition version_laws :: "'a maker_crates_scheme \<Rightarrow> bool" where
  "version_laws L \<longleftrightarrow> (\<forall>stored name version.
     assert_contract_version L stored name version = Inr () \<longleftrightarrow> stored = Some (name, version))"

theorem migrate_once:
  assumes "version_laws L" and "maker_migrate L Q env msg st = Inr (st', r)"
  shows "mk_cw2 st = Some (''astroport-maker'', ''1.4.0'') \<and>
    (\<exists>r0. maker_instantiate L env msg (st\<lparr>mk_bridges := fmempty\<rparr>) = Inr (st', r0)) \<and>
    mk_routes st' = mk_routes st \<and> mk_bridges st' = fmempty \<and>
    (\<forall>Q' env' msg' res. maker_migrate L Q' env' msg' st' \<noteq> Inr res)"
proof -
  from assms obtain resp where v: "mk_cw2 st = Some (EXPECTED_CONTRACT_NAME, EXPECTED_CONTRACT_VERSION)"
    and i: "maker_instantiate L env msg (st\<lparr>mk_bridges := fmempty\<rparr>) = Inr (st', resp)"
    by (auto simp: maker_migrate_def version_laws_def Let_def res_simps)
  have "mk_cw2 st' = Some (maker_contract_name, maker_contract_version)"
    and "mk_routes st' = mk_routes st" and "mk_bridges st' = fmempty"
    using i by (auto simp: maker_instantiate_returns)
  moreover from this(1) assms(1) have "assert_contract_version L (mk_cw2 st') EXPECTED_CONTRACT_NAME EXPECTED_CONTRACT_VERSION \<noteq> Inr ()"
    by (simp add: version_laws_def maker_contract_name_def EXPECTED_CONTRACT_NAME_def)
  then have "maker_migrate L Q' env' msg' st' \<noteq> Inr res" for Q' env' msg' res
    by (auto simp: maker_migrate_def res_simps)
  ultimately show ?thesis
    using v i by (auto simp: EXPECTED_CONTRACT_NAME_def EXPECTED_CONTRACT_VERSION_def)
qed

theorem migrate_once_witness:
  "version_laws sample_maker_crates \<and>
   (\<exists>st' r. maker_migrate sample_maker_crates sample_chain (sample_env 9) sample_init
        (blank_maker\<lparr>mk_cw2 := Some (''astroport-maker'', ''1.4.0''), mk_bridges := fmupd ''a'' ''b'' fmempty\<rparr>) = Inr (st', r) \<and>
      mk_bridges st' = fmempty)"
proof -
  have v: "version_laws sample_maker_crates" by (simp add: version_laws_def sample_maker_crates_def)
  obtain st' r where m: "maker_migrate sample_maker_crates sample_chain (sample_env 9) sample_init
        (blank_maker\<lparr>mk_cw2 := Some (''astroport-maker'', ''1.4.0''), mk_bridges := fmupd ''a'' ''b'' fmempty\<rparr>) = Inr (st', r)"
    by (simp add: maker_migrate_def maker_instantiate_def maker_sample_defs maker_constants validate_cooldown_def
        EXPECTED_CONTRACT_NAME_def EXPECTED_CONTRACT_VERSION_def Let_def)
  from v m migrate_once [OF v m] show ?thesis by blast
qed

end
