(* ===== verification/Factory.thy ===== *)
theory Factory
  imports Ownership Storage
begin

text \<open>
  The factory contract (src/contracts/factory/src: state.rs, error.rs, contract.rs): the
  registry of pairs, the pair type configurations and the two-phase creation of a pair (the
  create call stores the key and asks the chain for a pool, the reply registers it). As for the
  maker, third-party functions and chain queries are arguments (\<open>factory_crates\<close>,
  \<open>factory_chain\<close>).
\<close>

section \<open>Storage and messages\<close>

record pair_config =
  pc_code_id :: u64
  pc_pair_type :: pair_type
  pc_total_fee_bps :: u16
  pc_maker_fee_bps :: u16
  pc_is_disabled :: bool
  pc_is_generator_disabled :: bool
  pc_permissioned :: bool

record factory_config =
  fc_owner :: addr
  fc_token_code_id :: u64
  fc_fee_address :: "addr option"
  fc_generator_address :: "addr option"
  fc_whitelist_code_id :: u64
  fc_coin_registry_address :: addr

record tmp_pair_info =
  tp_pair_key :: string

record factory_state =
  fs_tmp_pair_info :: "tmp_pair_info option"
  fs_config :: "factory_config option"
  fs_pairs :: "(string, addr) fmap"
  fs_pair_configs :: "(string, pair_config) fmap"
  fs_ownership_proposal :: "ownership_proposal option"
  fs_cw2 :: "(string \<times> string) option"

datatype factory_error =
    Std std_error
  | PaymentError payment_error
  | ParseIntError parse_int_error
  | Unauthorized
  | PairWasCreated
  | PairWasRegistered
  | PairConfigDuplicate
  | PairConfigInvalidFeeBps
  | PairConfigNotFound
  | PairConfigDisabled
  | DoublingAssets
  | FailedToParseReply
  | NonNativeToken

record factory_instantiate_msg =
  fim_pair_configs :: "pair_config list"
  fim_token_code_id :: u64
  fim_fee_address :: "string option"
  fim_generator_address :: "string option"
  fim_owner :: string
  fim_whitelist_code_id :: u64
  fim_coin_registry_address :: string

datatype factory_execute_msg =
    UpdateConfig "u64 option" "string option" "string option" "u64 option" "string option"
      \<comment> \<open>token code id, fee address, generator address, whitelist code id, coin registry address\<close>
  | UpdatePairConfig pair_config
  | CreatePair pair_type "asset_info list" "binary option"
  | Deregister "asset_info list"
  | ProposeNewOwner string u64
  | DropOwnershipProposal
  | ClaimOwnership

datatype factory_msg =
    MsgCreateCosmWasmPool u64 pair_instantiate_msg addr    \<comment> \<open>code id, message, sender\<close>
  | ExecuteSetPoolId addr u64                              \<comment> \<open>executed on the pair\<close>
  | DeactivatePool addr string                             \<comment> \<open>executed on the generator: LP token\<close>

record factory_crates = crates +
  as_bytes :: "asset_info \<Rightarrow> string"
  asset_info_to_string :: "asset_info \<Rightarrow> string"
  pair_type_to_string :: "pair_type \<Rightarrow> string"
  valid_fee_bps :: "pair_config \<Rightarrow> bool"
  one_coin :: "message_info \<Rightarrow> (payment_error, coin) res"
  decode_create_pool :: "binary \<Rightarrow> (std_error, u64) res"
    \<comment> \<open>the pool id of a \<open>MsgCreateCosmWasmPoolResponse\<close>\<close>

record factory_chain =
  fq_pool_creation_fee :: "(std_error, (string \<times> string) list option) res"
    \<comment> \<open>poolmanager params: \<open>None\<close> when not set, else the fee coins (amount as text, denom)\<close>
  fq_supply :: "string \<Rightarrow> (std_error, coin) res"
  fq_contract_by_pool_id :: "u64 \<Rightarrow> (std_error, string) res"
  fq_pair_info :: "addr \<Rightarrow> (std_error, pair_info) res"
    \<comment> \<open>the answer of a pair contract to its \<open>Pair\<close> query\<close>

type_synonym factory_result = "(factory_error, factory_state \<times> factory_msg response) res"

definition factory_contract_name :: string where "factory_contract_name = ''astroport-factory-osmosis''"
definition factory_contract_version :: string where "factory_contract_version = ''1.0.0''"
definition INSTANTIATE_PAIR_REPLY_ID :: u64 where "INSTANTIATE_PAIR_REPLY_ID = 1"
definition SET_POOL_ID_FAILED_REPLY_ID :: u64 where "SET_POOL_ID_FAILED_REPLY_ID = 2"
definition MAX_LIMIT :: u32 where "MAX_LIMIT = 30"
definition DEFAULT_LIMIT :: u32 where "DEFAULT_LIMIT = 10"

section \<open>state.rs\<close>

definition pair_key :: "'a factory_crates_scheme \<Rightarrow> asset_info list \<Rightarrow> string" where
  "pair_key L asset_infos = concat (sort (map (as_bytes L) asset_infos))"

definition calc_range_start :: "'a factory_crates_scheme \<Rightarrow> asset_info list option \<Rightarrow> string option" where
  "calc_range_start L start_after = map_option (\<lambda>asset. pair_key L asset @ [CHR 0x01]) start_after"

definition read_pairs :: "'a factory_crates_scheme \<Rightarrow> factory_state \<Rightarrow> asset_info list option \<Rightarrow> u32 option
    \<Rightarrow> addr list" where
  "read_pairs L st start_after limit =
     (let limit = unat (min (case limit of None \<Rightarrow> DEFAULT_LIMIT | Some l \<Rightarrow> l) MAX_LIMIT)
      in map snd (take limit (store_range (fs_pairs st) (calc_range_start L start_after))))"

definition check_asset_infos :: "factory_chain \<Rightarrow> asset_info list \<Rightarrow> (factory_error, unit) res" where
  "check_asset_infos Q asset_infos =
     (if \<not> distinct asset_infos then fail_with DoublingAssets
      else try_for_each (\<lambda>asset_info. case asset_info of
             NativeToken denom \<Rightarrow> and_then (map_err Std (fq_supply Q denom)) (\<lambda>_. Inr ())
           | Token a \<Rightarrow> fail_with NonNativeToken) asset_infos)"

section \<open>contract.rs: instantiation and configuration\<close>

fun save_pair_configs :: "'a factory_crates_scheme \<Rightarrow> pair_config list \<Rightarrow> (string, pair_config) fmap
    \<Rightarrow> attribute list \<Rightarrow> (factory_error, (string, pair_config) fmap \<times> attribute list) res" where
  "save_pair_configs L [] stored attrs = Inr (stored, attrs)"
| "save_pair_configs L (pc # pcs) stored attrs =
     and_then (ensure (valid_fee_bps L pc) PairConfigInvalidFeeBps) (\<lambda>_.
     save_pair_configs L pcs (fmupd (pair_type_to_string L (pc_pair_type pc)) pc stored)
       (attrs @ [(''pair_type'', pair_type_to_string L (pc_pair_type pc))]))"

definition factory_instantiate :: "'a factory_crates_scheme \<Rightarrow> factory_instantiate_msg \<Rightarrow> factory_state
    \<Rightarrow> factory_result" where
  "factory_instantiate L msg st =
     (let st1 = st\<lparr>fs_cw2 := Some (factory_contract_name, factory_contract_version)\<rparr> in
      and_then (map_err Std (addr_validate L (fim_owner msg))) (\<lambda>owner.
      and_then (map_err Std (addr_validate L (fim_coin_registry_address msg))) (\<lambda>coin_registry.
      and_then (map_err Std (addr_opt_validate L (fim_generator_address msg))) (\<lambda>generator.
      and_then (map_err Std (addr_opt_validate L (fim_fee_address msg))) (\<lambda>fee_address.
      let names = map (\<lambda>pc. pair_type_to_string L (pc_pair_type pc)) (fim_pair_configs msg) in
      and_then (ensure (card (set names) = length (fim_pair_configs msg)) PairConfigDuplicate) (\<lambda>_.
      and_then (save_pair_configs L (fim_pair_configs msg) (fs_pair_configs st1)
                  [(''instantiate'', factory_contract_name)]) (\<lambda>(stored, attrs).
      Inr (st1\<lparr>fs_pair_configs := stored,
               fs_config := Some \<lparr>fc_owner = owner, fc_token_code_id = fim_token_code_id msg,
                 fc_fee_address = fee_address, fc_generator_address = generator,
                 fc_whitelist_code_id = fim_whitelist_code_id msg,
                 fc_coin_registry_address = coin_registry\<rparr>\<rparr>,
           attrs_response attrs))))))))"

definition execute_update_config :: "'a factory_crates_scheme \<Rightarrow> message_info \<Rightarrow> string option \<Rightarrow> string option
    \<Rightarrow> string option \<Rightarrow> factory_state \<Rightarrow> factory_result" where
  "execute_update_config L info fee_address generator_address coin_registry_address st =
     and_then (map_err Std (load_item ''config'' (fs_config st))) (\<lambda>config0.
     if mi_sender info \<noteq> fc_owner config0 then fail_with Unauthorized else
     and_then (case fee_address of
         None \<Rightarrow> Inr (config0, [(''action'', ''update_config'')])
       | Some a \<Rightarrow> and_then (map_err Std (addr_validate L a)) (\<lambda>v.
           Inr (config0\<lparr>fc_fee_address := Some v\<rparr>, [(''action'', ''update_config''), (''fee_address'', a)])))
       (\<lambda>(config1, attrs1).
     and_then (case generator_address of
         None \<Rightarrow> Inr (config1, attrs1)
       | Some a \<Rightarrow> and_then (map_err Std (addr_validate L a)) (\<lambda>v.
           Inr (config1\<lparr>fc_generator_address := Some v\<rparr>, attrs1 @ [(''generator_address'', a)])))
       (\<lambda>(config2, attrs2).
     and_then (case coin_registry_address of
         None \<Rightarrow> Inr (config2, attrs2)
       | Some a \<Rightarrow> and_then (map_err Std (addr_validate L a)) (\<lambda>v.
           Inr (config2\<lparr>fc_coin_registry_address := v\<rparr>, attrs2 @ [(''coin_registry_address'', a)])))
       (\<lambda>(config3, attrs3).
     Inr (st\<lparr>fs_config := Some config3\<rparr>, attrs_response attrs3)))))"

definition execute_update_pair_config :: "'a factory_crates_scheme \<Rightarrow> message_info \<Rightarrow> pair_config \<Rightarrow> factory_state
    \<Rightarrow> factory_result" where
  "execute_update_pair_config L info pair_config st =
     and_then (map_err Std (load_item ''config'' (fs_config st))) (\<lambda>config.
     if mi_sender info \<noteq> fc_owner config then fail_with Unauthorized else
     if \<not> valid_fee_bps L pair_config then fail_with PairConfigInvalidFeeBps else
     Inr (st\<lparr>fs_pair_configs := fmupd (pair_type_to_string L (pc_pair_type pair_config)) pair_config (fs_pair_configs st)\<rparr>,
          attrs_response [(''action'', ''update_pair_config'')]))"

section \<open>contract.rs: creating and registering a pair\<close>

definition parse_fee :: "string \<times> string \<Rightarrow> (factory_error, coin) res" where
  "parse_fee fee =
     (case parse_u128 (fst fee) of
        Inl e \<Rightarrow> fail_with (ParseIntError e)
      | Inr amount \<Rightarrow> Inr \<lparr>coin_denom = snd fee, coin_amount = amount\<rparr>)"

definition join_with :: "string \<Rightarrow> string list \<Rightarrow> string" where
  "join_with sep xs = (case xs of [] \<Rightarrow> [] | y # ys \<Rightarrow> y @ concat (map (\<lambda>z. sep @ z) ys))"

definition execute_create_pair :: "'a factory_crates_scheme \<Rightarrow> factory_chain \<Rightarrow> env \<Rightarrow> message_info \<Rightarrow> pair_type
    \<Rightarrow> asset_info list \<Rightarrow> binary option \<Rightarrow> factory_state \<Rightarrow> factory_result" where
  "execute_create_pair L Q env info pair_type asset_infos init_params st =
     and_then (map_err Std (fq_pool_creation_fee Q)) (\<lambda>params.
     and_then (case params of None \<Rightarrow> Inr [] | Some pool_creation_fee \<Rightarrow> try_map parse_fee pool_creation_fee)
       (\<lambda>allowed_creation_fee.
     and_then (map_err PaymentError (one_coin L info)) (\<lambda>maybe_fee_coin.
     and_then (ensure (find (\<lambda>fee. maybe_fee_coin = fee) allowed_creation_fee \<noteq> None)
        (Std (GenericErr ''Not enough funds to create a pool. Check pool_creation_fee in poolmanager params.''))) (\<lambda>_.
     and_then (check_asset_infos Q asset_infos) (\<lambda>_.
     if fmlookup (fs_pairs st) (pair_key L asset_infos) \<noteq> None then fail_with PairWasCreated else
     and_then (ok_or PairConfigNotFound (fmlookup (fs_pair_configs st) (pair_type_to_string L pair_type))) (\<lambda>pair_config.
     and_then (map_err Std (load_item ''config'' (fs_config st))) (\<lambda>config.
     if pc_permissioned pair_config \<and> mi_sender info \<noteq> fc_owner config then fail_with Unauthorized else
     if pc_is_disabled pair_config then fail_with PairConfigDisabled else
     Inr (st\<lparr>fs_tmp_pair_info := Some \<lparr>tp_pair_key = pair_key L asset_infos\<rparr>\<rparr>,
          \<lparr>resp_attrs = [(''action'', ''create_pair''),
             (''pair'', join_with ''-'' (map (asset_info_to_string L) asset_infos))],
           resp_msgs = [\<lparr>sub_id = INSTANTIATE_PAIR_REPLY_ID,
             sub_msg = MsgCreateCosmWasmPool (pc_code_id pair_config)
               \<lparr>pim_asset_infos = asset_infos, pim_token_code_id = 0,
                pim_factory_addr = env_contract env, pim_init_params = init_params\<rparr> (env_contract env),
             sub_reply_on = OnSuccess\<rparr>]\<rparr>))))))))"

definition factory_reply :: "'a factory_crates_scheme \<Rightarrow> factory_chain \<Rightarrow> u64 \<Rightarrow> binary \<Rightarrow> factory_state
    \<Rightarrow> factory_result" where
  "factory_reply L Q reply_id result st =
     (if reply_id = INSTANTIATE_PAIR_REPLY_ID then
        and_then (map_err Std (load_item ''tmp_pair_info'' (fs_tmp_pair_info st))) (\<lambda>tmp.
        if fmlookup (fs_pairs st) (tp_pair_key tmp) \<noteq> None then fail_with PairWasRegistered else
        and_then (map_err Std (decode_create_pool L result)) (\<lambda>pool_id.
        and_then (map_err Std (fq_contract_by_pool_id Q pool_id)) (\<lambda>contract_address.
        and_then (map_err Std (addr_validate L contract_address)) (\<lambda>pair_contract.
        Inr (st\<lparr>fs_pairs := fmupd (tp_pair_key tmp) pair_contract (fs_pairs st)\<rparr>,
             \<lparr>resp_attrs = [(''action'', ''register''), (''pair_contract_addr'', pair_contract)],
              resp_msgs = [\<lparr>sub_id = SET_POOL_ID_FAILED_REPLY_ID,
                sub_msg = ExecuteSetPoolId pair_contract pool_id, sub_reply_on = OnError\<rparr>]\<rparr>)))))
      else if reply_id = SET_POOL_ID_FAILED_REPLY_ID then
        Inr (st, attrs_response [(''action'', ''set_pool_id_reply''), (''state'', ''failed''), (''solution'', ''pass'')])
      else fail_with FailedToParseReply)"

definition deregister :: "'a factory_crates_scheme \<Rightarrow> factory_chain \<Rightarrow> message_info \<Rightarrow> asset_info list
    \<Rightarrow> factory_state \<Rightarrow> factory_result" where
  "deregister L Q info asset_infos st =
     and_then (check_asset_infos Q asset_infos) (\<lambda>_.
     and_then (map_err Std (load_item ''config'' (fs_config st))) (\<lambda>config.
     if mi_sender info \<noteq> fc_owner config then fail_with Unauthorized else
     and_then (map_err Std (load_item ''pair_info'' (fmlookup (fs_pairs st) (pair_key L asset_infos)))) (\<lambda>pair_addr.
     let st' = st\<lparr>fs_pairs := fmdrop (pair_key L asset_infos) (fs_pairs st)\<rparr>;
         attrs = [(''action'', ''deregister''), (''pair_contract_addr'', pair_addr)]
     in case fc_generator_address config of
          None \<Rightarrow> Inr (st', attrs_response attrs)
        | Some generator \<Rightarrow> and_then (map_err Std (fq_pair_info Q pair_addr)) (\<lambda>pair_info.
            Inr (st', \<lparr>resp_attrs = attrs,
                      resp_msgs = [submsg_new (DeactivatePool generator (pi_liquidity_token pair_info))]\<rparr>)))))"

definition factory_execute :: "'a factory_crates_scheme \<Rightarrow> factory_chain \<Rightarrow> env \<Rightarrow> message_info
    \<Rightarrow> factory_execute_msg \<Rightarrow> factory_state \<Rightarrow> factory_result" where
  "factory_execute L Q env info msg st =
     (case msg of
       UpdateConfig _ fee_address generator_address _ coin_registry_address \<Rightarrow>
         execute_update_config L info fee_address generator_address coin_registry_address st
     | UpdatePairConfig config \<Rightarrow> execute_update_pair_config L info config st
     | CreatePair pair_type asset_infos init_params \<Rightarrow>
         execute_create_pair L Q env info pair_type asset_infos init_params st
     | Deregister asset_infos \<Rightarrow> deregister L Q info asset_infos st
     | ProposeNewOwner owner expires_in \<Rightarrow>
         and_then (map_err Std (load_item ''config'' (fs_config st))) (\<lambda>config.
         and_then (map_err Std (propose_new_owner L info env owner expires_in (fc_owner config)
                     (fs_ownership_proposal st))) (\<lambda>(p, attrs).
         Inr (st\<lparr>fs_ownership_proposal := p\<rparr>, attrs_response attrs)))
     | DropOwnershipProposal \<Rightarrow>
         and_then (map_err Std (load_item ''config'' (fs_config st))) (\<lambda>config.
         and_then (map_err Std (drop_ownership_proposal L info (fc_owner config)
                     (fs_ownership_proposal st))) (\<lambda>(p, attrs).
         Inr (st\<lparr>fs_ownership_proposal := p\<rparr>, attrs_response attrs)))
     | ClaimOwnership \<Rightarrow>
         and_then (map_err Std (claim_ownership L info env (fs_ownership_proposal st))) (\<lambda>(new_owner, p, attrs).
         and_then (map_err Std (load_item ''config'' (fs_config st))) (\<lambda>config.
         Inr (st\<lparr>fs_ownership_proposal := p, fs_config := Some (config\<lparr>fc_owner := new_owner\<rparr>)\<rparr>,
              attrs_response attrs))))"

definition factory_migrate :: "(std_error, factory_state \<times> factory_msg response) res" where
  "factory_migrate = fail_with (GenericErr ''Migration is not implemented yet'')"

section \<open>contract.rs: queries\<close>

definition query_blacklisted_pair_types :: "factory_state \<Rightarrow> pair_type list" where
  "query_blacklisted_pair_types st =
     map (\<lambda>v. pc_pair_type (snd v)) (filter (\<lambda>v. pc_is_disabled (snd v) \<or> pc_is_generator_disabled (snd v))
       (store_range (fs_pair_configs st) None))"

record factory_config_response =
  fcr_config :: factory_config        \<comment> \<open>every field of the config is copied into the answer\<close>
  fcr_pair_configs :: "pair_config list"

definition factory_query_config :: "factory_state \<Rightarrow> (std_error, factory_config_response) res" where
  "factory_query_config st =
     and_then (load_item ''config'' (fs_config st)) (\<lambda>config.
     Inr \<lparr>fcr_config = config, fcr_pair_configs = map snd (store_range (fs_pair_configs st) None)\<rparr>)"

definition query_pair :: "'a factory_crates_scheme \<Rightarrow> factory_chain \<Rightarrow> asset_info list \<Rightarrow> factory_state
    \<Rightarrow> (std_error, pair_info) res" where
  "query_pair L Q asset_infos st =
     and_then (load_item ''pair_info'' (fmlookup (fs_pairs st) (pair_key L asset_infos))) (\<lambda>pair_addr.
     fq_pair_info Q pair_addr)"

definition query_pairs :: "'a factory_crates_scheme \<Rightarrow> factory_chain \<Rightarrow> asset_info list option \<Rightarrow> u32 option
    \<Rightarrow> factory_state \<Rightarrow> (std_error, pair_info list) res" where
  "query_pairs L Q start_after limit st = try_map (fq_pair_info Q) (read_pairs L st start_after limit)"

record fee_info_response =
  fir_fee_address :: "addr option"
  fir_total_fee_bps :: u16
  fir_maker_fee_bps :: u16

definition factory_query_fee_info :: "'a factory_crates_scheme \<Rightarrow> pair_type \<Rightarrow> factory_state
    \<Rightarrow> (std_error, fee_info_response) res" where
  "factory_query_fee_info L pair_type st =
     and_then (load_item ''config'' (fs_config st)) (\<lambda>config.
     and_then (load_item ''pair_configs'' (fmlookup (fs_pair_configs st) (pair_type_to_string L pair_type))) (\<lambda>pair_config.
     Inr \<lparr>fir_fee_address = fc_fee_address config, fir_total_fee_bps = pc_total_fee_bps pair_config,
          fir_maker_fee_bps = pc_maker_fee_bps pair_config\<rparr>))"

datatype factory_query_msg =
    QueryConfig
  | QueryPair "asset_info list"
  | QueryPairs "asset_info list option" "u32 option"
  | QueryFeeInfo pair_type
  | QueryBlacklistedPairTypes

datatype factory_answer =
    ConfigAnswer factory_config_response
  | PairAnswer pair_info
  | PairsAnswer "pair_info list"
  | FeeInfoAnswer fee_info_response
  | PairTypesAnswer "pair_type list"

definition factory_query :: "'a factory_crates_scheme \<Rightarrow> factory_chain \<Rightarrow> factory_query_msg \<Rightarrow> factory_state
    \<Rightarrow> (std_error, factory_answer) res" where
  "factory_query L Q msg st =
     (case msg of
        QueryConfig \<Rightarrow> and_then (factory_query_config st) (\<lambda>r. Inr (ConfigAnswer r))
      | QueryPair asset_infos \<Rightarrow> and_then (query_pair L Q asset_infos st) (\<lambda>r. Inr (PairAnswer r))
      | QueryPairs start_after limit \<Rightarrow> and_then (query_pairs L Q start_after limit st) (\<lambda>r. Inr (PairsAnswer r))
      | QueryFeeInfo pair_type \<Rightarrow> and_then (factory_query_fee_info L pair_type st) (\<lambda>r. Inr (FeeInfoAnswer r))
      | QueryBlacklistedPairTypes \<Rightarrow> Inr (PairTypesAnswer (query_blacklisted_pair_types st)))"

end
