(* ===== verification/Factory_Laws.thy ===== *)
theory Factory_Laws
  imports Factory "HOL-Library.Multiset"
begin

text \<open>
  The factory's facts: when each handler returns and what it changes, the pair key and its
  order, and the interpretations of the development's interfaces on the factory (the pair
  configurations, the registry, ownership, the paginated listing). Executions and replies are
  the events of one machine, \<open>factory_call\<close>.
\<close>

section \<open>The pair key\<close>

lemma pair_key_perm: "mset xs = mset ys \<Longrightarrow> pair_key L xs = pair_key L ys"
proof -
  assume "mset xs = mset ys"
  then have "mset (map (as_bytes L) xs) = mset (map (as_bytes L) ys)" by simp
  then have "sort (map (as_bytes L) xs) = sort (map (as_bytes L) ys)"
    by (intro properties_for_sort) simp_all
  then show ?thesis by (simp add: pair_key_def)
qed

section \<open>When a handler returns\<close>

lemma check_asset_infos_returns [res_simps]:
  "check_asset_infos Q infos = Inr u \<longleftrightarrow>
     distinct infos \<and> (\<forall>i \<in> set infos. \<exists>denom c. i = NativeToken denom \<and> fq_supply Q denom = Inr c)"
  by (auto simp: check_asset_infos_def res_simps split: asset_info.splits) (metis asset_info.exhaust)

definition fee_accepted :: "'a factory_crates_scheme \<Rightarrow> factory_chain \<Rightarrow> message_info \<Rightarrow> bool" where
  \<comment> \<open>the funds are one coin, equal to one of the poolmanager's creation fees\<close>
  "fee_accepted L Q info \<longleftrightarrow>
     (case (fq_pool_creation_fee Q, one_coin L info) of
        (Inr (Some fees), Inr paid) \<Rightarrow>
          (\<forall>fee \<in> set fees. \<exists>c. parse_fee fee = Inr c) \<and> (\<exists>fee \<in> set fees. parse_fee fee = Inr paid)
      | _ \<Rightarrow> False)"

lemma find_eq_coin: "find (\<lambda>fee. x = fee) xs = None \<longleftrightarrow> x \<notin> set xs"
  by (auto simp: find_None_iff)

lemma try_map_parse:
  "try_map f xs = Inr ys \<Longrightarrow> (\<forall>x \<in> set xs. \<exists>y. f x = Inr y) \<and> (y \<in> set ys \<longleftrightarrow> (\<exists>x \<in> set xs. f x = Inr y))"
  by (induction xs arbitrary: ys) (auto simp: res_simps)

lemma try_map_total: "\<forall>x \<in> set xs. \<exists>y. f x = Inr y \<Longrightarrow> \<exists>ys. try_map f xs = Inr ys"
  by (induction xs) auto

lemma fee_accepted_iff:
  "fee_accepted L Q info \<longleftrightarrow>
     (\<exists>params allowed paid. fq_pool_creation_fee Q = Inr params \<and>
        (case params of None \<Rightarrow> Inr [] | Some fees \<Rightarrow> try_map parse_fee fees) = Inr allowed \<and>
        one_coin L info = Inr paid \<and> paid \<in> set allowed)" (is "_ = ?rhs")
proof
  assume "fee_accepted L Q info"
  then obtain fees paid fee where q: "fq_pool_creation_fee Q = Inr (Some fees)" "one_coin L info = Inr paid"
    and all: "\<forall>fee \<in> set fees. \<exists>c. parse_fee fee = Inr c" and fee: "fee \<in> set fees" "parse_fee fee = Inr paid"
    by (cases "fq_pool_creation_fee Q"; cases "one_coin L info")
      (fastforce simp: fee_accepted_def split: option.splits)+
  from try_map_total [OF all] obtain ys where "try_map parse_fee fees = Inr ys" by blast
  with try_map_parse [OF this, of paid] q fee show ?rhs by auto
next
  assume ?rhs
  then show "fee_accepted L Q info"
    using try_map_parse [where f = parse_fee] by (fastforce simp: fee_accepted_def split: option.splits)
qed

lemma create_pair_returns:
  "execute_create_pair L Q env info pt infos ip st = Inr (st', r) \<longleftrightarrow>
     fee_accepted L Q info \<and> distinct infos \<and>
     (\<forall>i \<in> set infos. \<exists>denom c. i = NativeToken denom \<and> fq_supply Q denom = Inr c) \<and>
     fmlookup (fs_pairs st) (pair_key L infos) = None \<and>
     (\<exists>pc config. fmlookup (fs_pair_configs st) (pair_type_to_string L pt) = Some pc \<and>
        fs_config st = Some config \<and> (pc_permissioned pc \<longrightarrow> mi_sender info = fc_owner config) \<and>
        \<not> pc_is_disabled pc \<and>
        st' = st\<lparr>fs_tmp_pair_info := Some \<lparr>tp_pair_key = pair_key L infos\<rparr>\<rparr> \<and>
        r = \<lparr>resp_attrs = [(''action'', ''create_pair''), (''pair'', join_with ''-'' (map (asset_info_to_string L) infos))],
             resp_msgs = [\<lparr>sub_id = INSTANTIATE_PAIR_REPLY_ID,
               sub_msg = MsgCreateCosmWasmPool (pc_code_id pc)
                 \<lparr>pim_asset_infos = infos, pim_token_code_id = 0,
                  pim_factory_addr = env_contract env, pim_init_params = ip\<rparr> (env_contract env),
               sub_reply_on = OnSuccess\<rparr>]\<rparr>)"
  unfolding fee_accepted_iff
  by (simp add: execute_create_pair_def res_simps find_eq_coin) blast

lemma factory_reply_returns:
  assumes "factory_reply L Q i result st = Inr (st', r)"
  shows "(i = INSTANTIATE_PAIR_REPLY_ID \<and>
      (\<exists>tmp pool_id addr pair_contract. fs_tmp_pair_info st = Some tmp \<and>
         fmlookup (fs_pairs st) (tp_pair_key tmp) = None \<and> decode_create_pool L result = Inr pool_id \<and>
         fq_contract_by_pool_id Q pool_id = Inr addr \<and> addr_validate L addr = Inr pair_contract \<and>
         st' = st\<lparr>fs_pairs := fmupd (tp_pair_key tmp) pair_contract (fs_pairs st)\<rparr> \<and>
         resp_msgs r = [\<lparr>sub_id = SET_POOL_ID_FAILED_REPLY_ID,
             sub_msg = ExecuteSetPoolId pair_contract pool_id, sub_reply_on = OnError\<rparr>])) \<or>
    (i = SET_POOL_ID_FAILED_REPLY_ID \<and> st' = st \<and> resp_msgs r = [])"
  using assms
  by (auto simp: factory_reply_def res_simps split: if_splits)

lemma deregister_returns:
  assumes "deregister L Q info infos st = Inr (st', r)"
  shows "\<exists>config pair_addr. fs_config st = Some config \<and> mi_sender info = fc_owner config \<and>
    fmlookup (fs_pairs st) (pair_key L infos) = Some pair_addr \<and>
    st' = st\<lparr>fs_pairs := fmdrop (pair_key L infos) (fs_pairs st)\<rparr> \<and>
    (case fc_generator_address config of None \<Rightarrow> resp_msgs r = []
     | Some g \<Rightarrow> \<exists>pi. fq_pair_info Q pair_addr = Inr pi \<and>
         resp_msgs r = [submsg_new (DeactivatePool g (pi_liquidity_token pi))])"
  using assms
  by (auto simp: deregister_def res_simps Let_def split: option.splits)
    (auto simp: res_simps attrs_response_def)

lemma update_config_returns_full:
  assumes "execute_update_config L info fa ga ca st = Inr (st', r)"
  shows "\<exists>c c'. fs_config st = Some c \<and> mi_sender info = fc_owner c \<and> st' = st\<lparr>fs_config := Some c'\<rparr> \<and>
    c' = c\<lparr>fc_fee_address := fc_fee_address c', fc_generator_address := fc_generator_address c',
            fc_coin_registry_address := fc_coin_registry_address c'\<rparr>"
  using assms
  by (cases fa; cases ga; cases ca) (force simp: execute_update_config_def res_simps)+

lemma update_config_returns:
  assumes "execute_update_config L info fa ga ca st = Inr (st', r)"
  shows "\<exists>c c'. fs_config st = Some c \<and> mi_sender info = fc_owner c \<and> st' = st\<lparr>fs_config := Some c'\<rparr> \<and>
    fc_owner c' = fc_owner c \<and> fc_token_code_id c' = fc_token_code_id c \<and>
    fc_whitelist_code_id c' = fc_whitelist_code_id c"
proof -
  from update_config_returns_full [OF assms] obtain c c' where
    c: "fs_config st = Some c" "mi_sender info = fc_owner c" "st' = st\<lparr>fs_config := Some c'\<rparr>"
    and c': "c' = c\<lparr>fc_fee_address := fc_fee_address c', fc_generator_address := fc_generator_address c',
            fc_coin_registry_address := fc_coin_registry_address c'\<rparr>" by blast
  have "fc_owner c' = fc_owner c \<and> fc_token_code_id c' = fc_token_code_id c \<and>
    fc_whitelist_code_id c' = fc_whitelist_code_id c" by (subst (1 2 3) c') simp
  with c show ?thesis by blast
qed

lemma update_pair_config_returns:
  "execute_update_pair_config L info pc st = Inr (st', r) \<longleftrightarrow>
     (\<exists>c. fs_config st = Some c \<and> mi_sender info = fc_owner c) \<and> valid_fee_bps L pc \<and>
     st' = st\<lparr>fs_pair_configs := fmupd (pair_type_to_string L (pc_pair_type pc)) pc (fs_pair_configs st)\<rparr> \<and>
     r = attrs_response [(''action'', ''update_pair_config'')]"
  by (auto simp: execute_update_pair_config_def res_simps)

lemma save_pair_configs_returns:
  assumes "save_pair_configs L pcs stored attrs = Inr (stored', attrs')"
  shows "(\<forall>pc \<in> set pcs. valid_fee_bps L pc) \<and>
    (\<forall>k v. fmlookup stored' k = Some v \<longrightarrow>
       fmlookup stored k = Some v \<or> (v \<in> set pcs \<and> k = pair_type_to_string L (pc_pair_type v)))"
  using assms
proof (induction pcs arbitrary: stored attrs)
  case Nil
  then show ?case by simp
next
  case (Cons pc pcs)
  from Cons.prems have v: "valid_fee_bps L pc"
    and rest: "save_pair_configs L pcs (fmupd (pair_type_to_string L (pc_pair_type pc)) pc stored)
      (attrs @ [(''pair_type'', pair_type_to_string L (pc_pair_type pc))]) = Inr (stored', attrs')"
    by (auto simp: res_simps)
  from Cons.IH [OF rest] v show ?case by (auto split: if_splits)
qed

section \<open>The factory as a machine\<close>

datatype factory_event = Exec factory_execute_msg | PoolReply u64 binary

definition factory_call :: "'a factory_crates_scheme \<times> factory_chain \<Rightarrow> env \<Rightarrow> message_info \<Rightarrow> factory_event
    \<Rightarrow> factory_state \<Rightarrow> factory_result" where
  "factory_call c env info ev st =
     (case ev of
        Exec msg \<Rightarrow> factory_execute (fst c) (snd c) env info msg st
      | PoolReply i result \<Rightarrow> factory_reply (fst c) (snd c) i result st)"

lemma factory_call_cases:
  assumes "factory_call c env info ev st = Inr (st', r)"
  obtains
      (UpdateConfig) ti fa ga wi ca where "ev = Exec (UpdateConfig ti fa ga wi ca)"
        and "execute_update_config (fst c) info fa ga ca st = Inr (st', r)"
    | (UpdatePairConfig) pc where "ev = Exec (UpdatePairConfig pc)"
        and "execute_update_pair_config (fst c) info pc st = Inr (st', r)"
    | (CreatePair) pt infos ip where "ev = Exec (CreatePair pt infos ip)"
        and "execute_create_pair (fst c) (snd c) env info pt infos ip st = Inr (st', r)"
    | (Deregister) infos where "ev = Exec (Deregister infos)"
        and "deregister (fst c) (snd c) info infos st = Inr (st', r)"
    | (Propose) owner exp config p attrs where "ev = Exec (ProposeNewOwner owner exp)"
        and "fs_config st = Some config"
        and "propose_new_owner (fst c) info env owner exp (fc_owner config) (fs_ownership_proposal st) = Inr (p, attrs)"
        and "st' = st\<lparr>fs_ownership_proposal := p\<rparr>"
    | (Drop) config p attrs where "ev = Exec DropOwnershipProposal" and "fs_config st = Some config"
        and "drop_ownership_proposal (fst c) info (fc_owner config) (fs_ownership_proposal st) = Inr (p, attrs)"
        and "st' = st\<lparr>fs_ownership_proposal := p\<rparr>"
    | (Claim) config new_owner p attrs where "ev = Exec ClaimOwnership" and "fs_config st = Some config"
        and "claim_ownership (fst c) info env (fs_ownership_proposal st) = Inr (new_owner, p, attrs)"
        and "st' = st\<lparr>fs_ownership_proposal := p, fs_config := Some (config\<lparr>fc_owner := new_owner\<rparr>)\<rparr>"
    | (Reply) i result where "ev = PoolReply i result"
        and "factory_reply (fst c) (snd c) i result st = Inr (st', r)"
  using assms
  by (cases ev; cases "case ev of Exec m \<Rightarrow> m")
    (auto simp: factory_call_def factory_execute_def res_simps split: factory_execute_msg.splits)

definition factory_owner :: "factory_state \<Rightarrow> addr option" where
  "factory_owner st = map_option fc_owner (fs_config st)"

definition pair_configs_ok :: "'a factory_crates_scheme \<Rightarrow> factory_state \<Rightarrow> bool" where
  "pair_configs_ok L st \<longleftrightarrow>
     (\<forall>k pc. fmlookup (fs_pair_configs st) k = Some pc \<longrightarrow>
        k = pair_type_to_string L (pc_pair_type pc) \<and> valid_fee_bps L pc)"

fun is_deregister :: "factory_event \<Rightarrow> bool" where
  "is_deregister (Exec (Deregister _)) \<longleftrightarrow> True"
| "is_deregister _ \<longleftrightarrow> False"

lemma call_pair_configs_ok:
  assumes "fst c = L" and "factory_call c env info ev st = Inr (st', r)" and "pair_configs_ok L st"
  shows "pair_configs_ok L st'"
  using assms(2)
proof (cases rule: factory_call_cases)
  case (UpdateConfig ti fa ga wi ca)
  from update_config_returns [OF UpdateConfig(2)] assms(3) show ?thesis by (auto simp: pair_configs_ok_def)
next
  case (UpdatePairConfig pc)
  with assms(1,3) show ?thesis by (auto simp: update_pair_config_returns pair_configs_ok_def)
next
  case (CreatePair pt infos ip)
  with assms(3) show ?thesis by (auto simp: create_pair_returns pair_configs_ok_def)
next
  case (Deregister infos)
  from deregister_returns [OF Deregister(2)] assms(3) show ?thesis by (auto simp: pair_configs_ok_def)
next
  case (Reply i result)
  from factory_reply_returns [OF Reply(2)] assms(3) show ?thesis by (auto simp: pair_configs_ok_def)
qed (use assms(3) in \<open>auto simp: pair_configs_ok_def\<close>)

text \<open>
  The registry changes in two ways only: the reply to a pool creation adds the pending key when
  it is free, and the owner's \<open>Deregister\<close> removes one key.
\<close>

lemma call_pairs:
  assumes "factory_call c env info ev st = Inr (st', r)" and "fs_pairs st' \<noteq> fs_pairs st"
  shows "(\<exists>tmp a result. ev = PoolReply INSTANTIATE_PAIR_REPLY_ID result \<and> fs_tmp_pair_info st = Some tmp \<and>
            fmlookup (fs_pairs st) (tp_pair_key tmp) = None \<and> fs_pairs st' = fmupd (tp_pair_key tmp) a (fs_pairs st)) \<or>
         (\<exists>infos a. ev = Exec (Deregister infos) \<and> factory_owner st = Some (mi_sender info) \<and>
            fmlookup (fs_pairs st) (pair_key (fst c) infos) = Some a \<and>
            fs_pairs st' = fmdrop (pair_key (fst c) infos) (fs_pairs st))"
  using assms(1)
proof (cases rule: factory_call_cases)
  case (UpdateConfig ti fa ga wi ca)
  from update_config_returns [OF UpdateConfig(2)] assms(2) show ?thesis by auto
next
  case (UpdatePairConfig pc)
  with assms(2) show ?thesis by (auto simp: update_pair_config_returns)
next
  case (CreatePair pt infos ip)
  with assms(2) show ?thesis by (auto simp: create_pair_returns)
next
  case (Deregister infos)
  from deregister_returns [OF Deregister(2)] Deregister(1) show ?thesis by (auto simp: factory_owner_def)
next
  case (Reply i result)
  from factory_reply_returns [OF Reply(2)] assms(2) Reply(1) show ?thesis by auto
qed (use assms(2) in auto)

lemma call_keeps_pair:
  assumes "\<not> is_deregister ev" and "factory_call c env info ev st = Inr (st', r)"
    and "fmlookup (fs_pairs st) k = Some a"
  shows "fmlookup (fs_pairs st') k = Some a"
proof (cases "fs_pairs st' = fs_pairs st")
  case True
  with assms(3) show ?thesis by simp
next
  case False
  from call_pairs [OF assms(2) False] assms(1,3) show ?thesis by auto
qed

lemma call_owner_change:
  assumes "ownership_laws (fst c)" and "factory_call c env info ev st = Inr (st', r)"
    and "factory_owner st' \<noteq> factory_owner st"
  shows "\<exists>p. fs_ownership_proposal st = Some p \<and> op_owner p = mi_sender info \<and> env_time env \<le> op_ttl p \<and>
             factory_owner st' = Some (mi_sender info) \<and> fs_ownership_proposal st' = None"
  using assms(2)
proof (cases rule: factory_call_cases)
  case (UpdateConfig ti fa ga wi ca)
  from update_config_returns [OF UpdateConfig(2)] assms(3) show ?thesis by (auto simp: factory_owner_def)
next
  case (UpdatePairConfig pc)
  with assms(3) show ?thesis by (auto simp: update_pair_config_returns factory_owner_def)
next
  case (CreatePair pt infos ip)
  with assms(3) show ?thesis by (auto simp: create_pair_returns factory_owner_def)
next
  case (Deregister infos)
  from deregister_returns [OF Deregister(2)] assms(3) show ?thesis by (auto simp: factory_owner_def)
next
  case (Claim config new_owner p attrs)
  with ownership_lawsD(3) [OF assms(1) Claim(3)] show ?thesis by (auto simp: factory_owner_def)
next
  case (Reply i result)
  from factory_reply_returns [OF Reply(2)] assms(3) show ?thesis by (auto simp: factory_owner_def)
qed (use assms(3) in \<open>auto simp: factory_owner_def\<close>)

lemma call_proposal_change:
  assumes "ownership_laws (fst c)" and "factory_call c env info ev st = Inr (st', r)"
    and "fs_ownership_proposal st' \<noteq> fs_ownership_proposal st" and "fs_ownership_proposal st' \<noteq> None"
  shows "factory_owner st = Some (mi_sender info)"
  using assms(2)
proof (cases rule: factory_call_cases)
  case (UpdateConfig ti fa ga wi ca)
  from update_config_returns [OF UpdateConfig(2)] assms(3) show ?thesis by auto
next
  case (UpdatePairConfig pc)
  with assms(3) show ?thesis by (auto simp: update_pair_config_returns)
next
  case (CreatePair pt infos ip)
  with assms(3) show ?thesis by (auto simp: create_pair_returns)
next
  case (Deregister infos)
  from deregister_returns [OF Deregister(2)] assms(3) show ?thesis by auto
next
  case (Propose owner exp config p attrs)
  with ownership_lawsD(1) [OF assms(1) Propose(3)] show ?thesis by (simp add: factory_owner_def)
next
  case (Drop config p attrs)
  with ownership_lawsD(2) [OF assms(1) Drop(3)] assms(4) show ?thesis by simp
next
  case (Claim config new_owner p attrs)
  with ownership_lawsD(3) [OF assms(1) Claim(3)] assms(4) show ?thesis by simp
next
  case (Reply i result)
  from factory_reply_returns [OF Reply(2)] assms(3) show ?thesis by auto
qed

text \<open>
  What one call of anybody but the owner can do: nothing to the configuration, the pair types
  and a pending transfer, and to the registry only add pairs. The second lemma is about the two
  code ids of the configuration, which no call changes.
\<close>

definition only_adds :: "factory_state \<Rightarrow> factory_state \<Rightarrow> bool" where
  "only_adds st st' \<longleftrightarrow> fs_config st' = fs_config st \<and> fs_pair_configs st' = fs_pair_configs st \<and>
     fs_ownership_proposal st' = fs_ownership_proposal st \<and>
     (\<forall>k a. fmlookup (fs_pairs st) k = Some a \<longrightarrow> fmlookup (fs_pairs st') k = Some a)"

lemma outsider_call:
  assumes "ownership_laws (fst c)" and "factory_call c env info ev st = Inr (st', r)"
    and "fs_ownership_proposal st = None" and "factory_owner st \<noteq> Some (mi_sender info)"
  shows "only_adds st st'"
  using assms(2)
proof (cases rule: factory_call_cases)
  case (UpdateConfig ti fa ga wi ca)
  from update_config_returns [OF UpdateConfig(2)] assms(4) show ?thesis by (auto simp: factory_owner_def)
next
  case (UpdatePairConfig pc)
  with assms(4) show ?thesis by (auto simp: update_pair_config_returns factory_owner_def)
next
  case (CreatePair pt infos ip)
  then show ?thesis by (auto simp: create_pair_returns only_adds_def)
next
  case (Deregister infos)
  from deregister_returns [OF Deregister(2)] assms(4) show ?thesis by (auto simp: factory_owner_def)
next
  case (Propose owner exp config p attrs)
  with ownership_lawsD(1) [OF assms(1) Propose(3)] assms(4) show ?thesis by (simp add: factory_owner_def)
next
  case (Drop config p attrs)
  with ownership_lawsD(2) [OF assms(1) Drop(3)] assms(4) show ?thesis by (simp add: factory_owner_def)
next
  case (Claim config new_owner p attrs)
  with ownership_lawsD(3) [OF assms(1) Claim(3)] assms(3) show ?thesis by auto
next
  case (Reply i result)
  from factory_reply_returns [OF Reply(2)] show ?thesis by (auto simp: only_adds_def)
qed

definition code_ids :: "factory_state \<Rightarrow> (u64 \<times> u64) option" where
  "code_ids st = map_option (\<lambda>c. (fc_token_code_id c, fc_whitelist_code_id c)) (fs_config st)"

lemma call_keeps_code_ids:
  assumes "factory_call c env info ev st = Inr (st', r)"
  shows "code_ids st' = code_ids st"
  using assms
proof (cases rule: factory_call_cases)
  case (UpdateConfig ti fa ga wi ca)
  from update_config_returns [OF UpdateConfig(2)] show ?thesis by (auto simp: code_ids_def)
next
  case (UpdatePairConfig pc)
  then show ?thesis by (auto simp: update_pair_config_returns code_ids_def)
next
  case (CreatePair pt infos ip)
  then show ?thesis by (auto simp: create_pair_returns code_ids_def)
next
  case (Deregister infos)
  from deregister_returns [OF Deregister(2)] show ?thesis by (auto simp: code_ids_def)
next
  case (Reply i result)
  from factory_reply_returns [OF Reply(2)] show ?thesis by (auto simp: code_ids_def)
qed (auto simp: code_ids_def)

interpretation factory_outsiders: kept_invariant
    "\<lambda>c _ info ev. ownership_laws (fst c) \<and> factory_owner st0 \<noteq> Some (mi_sender info)" factory_call
    "\<lambda>st. fs_ownership_proposal st0 = None \<and> only_adds st0 st" for st0
proof unfold_locales
  fix c :: "'a factory_crates_scheme \<times> factory_chain" and info ev env s s' r
  assume g: "ownership_laws (fst c) \<and> factory_owner st0 \<noteq> Some (mi_sender info)"
    and ex: "factory_call c env info ev s = Inr (s', r)"
    and i: "fs_ownership_proposal st0 = None \<and> only_adds st0 s"
  then have "only_adds s s'"
    by (intro outsider_call [OF _ ex]) (auto simp: only_adds_def factory_owner_def)
  with i show "fs_ownership_proposal st0 = None \<and> only_adds st0 s'" by (simp add: only_adds_def)
qed

interpretation factory_code_ids: kept_invariant "\<lambda>_ _ _ _. True" factory_call "\<lambda>st. code_ids st = ids" for ids
  by unfold_locales (simp add: call_keeps_code_ids)

interpretation factory_configs: kept_invariant "\<lambda>c _ _ _. fst c = L" factory_call "pair_configs_ok L" for L
  by unfold_locales (rule call_pair_configs_ok)

interpretation factory_registry: kept_invariant "\<lambda>_ _ _ ev. \<not> is_deregister ev" factory_call
    "\<lambda>st. fmlookup (fs_pairs st) k = Some a" for k a
  by unfold_locales (rule call_keeps_pair)

interpretation factory_ownership: two_step_ownership factory_call "\<lambda>_. True"
    "\<lambda>c. ownership_laws (fst c)" factory_owner "\<lambda>_. []" fs_ownership_proposal
proof unfold_locales
  fix c :: "'a factory_crates_scheme \<times> factory_chain" and env info m s s' r
  assume ok: "ownership_laws (fst c)" and ex: "factory_call c env info m s = Inr (s', r)"
  show "factory_owner s' \<noteq> factory_owner s \<Longrightarrow>
      \<exists>p. fs_ownership_proposal s = Some p \<and> op_owner p = mi_sender info \<and> env_time env \<le> op_ttl p \<and>
          factory_owner s' = Some (mi_sender info) \<and> fs_ownership_proposal s' = None"
    by (rule call_owner_change [OF ok ex])
  show "fs_ownership_proposal s' \<noteq> fs_ownership_proposal s \<Longrightarrow> fs_ownership_proposal s' \<noteq> None \<Longrightarrow>
      mi_sender info = acting_owner (\<lambda>_. []) factory_owner c s"
    using call_proposal_change [OF ok ex] by (simp add: acting_owner_def)
qed

section \<open>The paginated listing of pairs\<close>

definition pairs_page :: "factory_state \<Rightarrow> string option \<Rightarrow> nat \<Rightarrow> addr list" where
  "pairs_page st start n =
     map snd (take n (store_range (fs_pairs st) (map_option (\<lambda>k. k @ [CHR 0x01]) start)))"

definition keys_printable :: "factory_state \<Rightarrow> bool" where
  \<comment> \<open>no stored key holds a byte below 2, as no denom does\<close>
  "keys_printable st \<longleftrightarrow> (\<forall>k \<in> fmdom' (fs_pairs st). \<forall>c \<in> set k. CHR 0x01 < c)"

lemma read_pairs_page:
  "read_pairs L st start limit = pairs_page st (map_option (pair_key L) start)
     (unat (min (case limit of None \<Rightarrow> DEFAULT_LIMIT | Some l \<Rightarrow> l) MAX_LIMIT))"
  by (cases start) (simp_all add: read_pairs_def pairs_page_def calc_range_start_def Let_def)

lemma after_key_and_one:
  fixes k k' :: string
  assumes "\<forall>c \<in> set k'. CHR 0x01 < c"
  shows "k @ [CHR 0x01] < k' \<longleftrightarrow> k < k'"
  using assms
proof (induction k arbitrary: k')
  case Nil
  then show ?case by (cases k') auto
next
  case (Cons x k)
  then show ?case by (cases k') auto
qed

interpretation pairs_listing: paged_listing keys_printable "\<lambda>st. store_entries (fs_pairs st)" pairs_page snd
proof unfold_locales
  fix st :: factory_state and k n
  assume ok: "keys_printable st"
  have "filter (\<lambda>(k', _). k @ [CHR 0x01] < k') (store_entries (fs_pairs st))
      = filter (\<lambda>(k', _). k < k') (store_entries (fs_pairs st))"
  proof (intro filter_cong refl)
    fix e assume e: "e \<in> set (store_entries (fs_pairs st))"
    obtain k' a where k': "e = (k', a)" by (rule prod.exhaust)
    with e have "k' \<in> fmdom' (fs_pairs st)" by (simp add: set_store_entries fmdom'I)
    with ok have "k @ [CHR 0x01] < k' \<longleftrightarrow> k < k'" by (simp add: keys_printable_def after_key_and_one)
    with k' show "(case e of (k', _) \<Rightarrow> k @ [CHR 0x01] < k') = (case e of (k', _) \<Rightarrow> k < k')" by simp
  qed
  then show "pairs_page st (Some k) n = map snd (take n (filter (\<lambda>(k', _). k < k') (store_entries (fs_pairs st))))"
    by (simp add: pairs_page_def store_range_def)
qed (simp_all add: pairs_page_def sorted_store_entries)

end
