(* ===== verification/Factory_Samples.thy ===== *)
theory Factory_Samples
  imports Factory_Laws Samples
begin

text \<open>
  A concrete instance of the factory's third-party functions and chain answers, for the
  witnesses of the factory's properties: a denom is its own bytes, the creation fee is 1000
  \<open>uosmo\<close>, every denom has a supply and pool 7 is the contract \<open>pair7\<close>.
\<close>

definition sample_factory_crates :: factory_crates where
  "sample_factory_crates = \<lparr>addr_validate = sample_addr_validate, addr_opt_validate = sample_addr_opt_validate,
     propose_new_owner = sample_propose, drop_ownership_proposal = sample_drop,
     claim_ownership = sample_claim,
     as_bytes = (\<lambda>i. case i of Token a \<Rightarrow> a | NativeToken d \<Rightarrow> d),
     asset_info_to_string = (\<lambda>i. case i of Token a \<Rightarrow> a | NativeToken d \<Rightarrow> d),
     pair_type_to_string = (\<lambda>t. case t of Xyk \<Rightarrow> ''xyk'' | Stable \<Rightarrow> ''stable'' | Custom s \<Rightarrow> ''custom-'' @ s),
     valid_fee_bps = (\<lambda>pc. pc_total_fee_bps pc \<le> 10000 \<and> pc_maker_fee_bps pc \<le> 10000),
     one_coin = (\<lambda>info. case mi_funds info of [] \<Rightarrow> fail_with NoFunds
        | [c] \<Rightarrow> (if coin_amount c = 0 then fail_with NoFunds else Inr c) | _ \<Rightarrow> fail_with MultipleDenoms),
     decode_create_pool = (\<lambda>b. if b = [] then fail_with (OtherStdErr ''empty data'') else Inr 7)\<rparr>"

definition sample_pair_info :: "string list \<Rightarrow> pair_info" where
  "sample_pair_info denoms = \<lparr>pi_asset_infos = map NativeToken denoms, pi_contract_addr = ''pair7'',
     pi_liquidity_token = ''factory/pair7/astroport/share'', pi_pair_type = Custom ''concentrated''\<rparr>"

definition sample_factory_chain :: factory_chain where
  "sample_factory_chain = \<lparr>
     fq_pool_creation_fee = Inr (Some [(''1000'', ''uosmo'')]),
     fq_supply = (\<lambda>d. Inr \<lparr>coin_denom = d, coin_amount = 1000000\<rparr>),
     fq_contract_by_pool_id = (\<lambda>i. if i = 7 then Inr ''pair7'' else fail_with (GenericErr ''no pool'')),
     fq_pair_info = (\<lambda>a. if a = ''pair7'' then Inr (sample_pair_info [''uatom'', ''uosmo''])
                        else fail_with (GenericErr ''no contract''))\<rparr>"

definition sample_pair_config :: pair_config where
  "sample_pair_config = \<lparr>pc_code_id = 11, pc_pair_type = Custom ''concentrated'', pc_total_fee_bps = 0,
     pc_maker_fee_bps = 5000, pc_is_disabled = False, pc_is_generator_disabled = False, pc_permissioned = False\<rparr>"

definition sample_factory_init :: factory_instantiate_msg where
  "sample_factory_init = \<lparr>fim_pair_configs = [sample_pair_config], fim_token_code_id = 5,
     fim_fee_address = Some ''maker'', fim_generator_address = Some ''incentives'', fim_owner = ''owner'',
     fim_whitelist_code_id = 6, fim_coin_registry_address = ''registry''\<rparr>"

definition blank_factory :: factory_state where
  "blank_factory = \<lparr>fs_tmp_pair_info = None, fs_config = None, fs_pairs = fmempty,
     fs_pair_configs = fmempty, fs_ownership_proposal = None, fs_cw2 = None\<rparr>"

definition sample_factory_config :: factory_config where
  "sample_factory_config = \<lparr>fc_owner = ''owner'', fc_token_code_id = 5, fc_fee_address = Some ''maker'',
     fc_generator_address = Some ''incentives'', fc_whitelist_code_id = 6, fc_coin_registry_address = ''registry''\<rparr>"

definition sample_factory :: "(string \<times> addr) list \<Rightarrow> factory_state" where
  \<comment> \<open>a configured factory with the given registered keys\<close>
  "sample_factory pairs = blank_factory\<lparr>fs_config := Some sample_factory_config,
     fs_pairs := fmap_of_list pairs,
     fs_pair_configs := fmap_of_list [(''custom-concentrated'', sample_pair_config)],
     fs_cw2 := Some (factory_contract_name, factory_contract_version)\<rparr>"

definition creator :: message_info where
  "creator = \<lparr>mi_sender = ''creator'', mi_funds = [\<lparr>coin_denom = ''uosmo'', coin_amount = 1000\<rparr>]\<rparr>"

abbreviation native_pair :: "string \<Rightarrow> string \<Rightarrow> asset_info list" where
  "native_pair a b \<equiv> [NativeToken a, NativeToken b]"

lemma sample_factory_crates_sel [simp]:
  "addr_validate sample_factory_crates = sample_addr_validate"
  "propose_new_owner sample_factory_crates = sample_propose"
  "drop_ownership_proposal sample_factory_crates = sample_drop"
  "claim_ownership sample_factory_crates = sample_claim"
  by (simp_all add: sample_factory_crates_def)

lemmas factory_sample_defs = sample_factory_crates_def sample_factory_chain_def sample_pair_config_def
  sample_factory_config_def blank_factory_def sample_factory_def creator_def sample_addr_validate_def
  sample_pair_info_def sample_factory_init_def

lemma sample_factory_ownership: "ownership_laws sample_factory_crates"
  by (rule sample_ownership) simp_all

lemma sample_parse_1000: "parse_u128 ''1000'' = Inr 1000"
  by (simp add: parse_u128_def char_digit_def)

lemma sample_fee_accepted: "fee_accepted sample_factory_crates sample_factory_chain creator"
  by (simp add: fee_accepted_def factory_sample_defs parse_fee_def sample_parse_1000)

definition creating :: "string \<Rightarrow> string \<Rightarrow> factory_state \<Rightarrow> factory_state" where
  \<comment> \<open>the state after a creation has been accepted\<close>
  "creating a b st = st\<lparr>fs_tmp_pair_info := Some \<lparr>tp_pair_key = pair_key sample_factory_crates (native_pair a b)\<rparr>\<rparr>"

end
