(* ===== verification/Factory_Properties.thy ===== *)
theory Factory_Properties
  imports Factory_Samples
begin

text \<open>
  The properties of the factory contract, each with a witness on the sample instance: when a
  pair can be created, the round trip from the creation over the reply to the query, what
  outsiders can do to the registry, deregistration, the pair configurations, the pair key, the
  listing and ownership.
\<close>

section \<open>Creating and registering a pair\<close>

text \<open>
  C28. A pair can be created exactly when: the funds are one coin equal to one of the
  poolmanager's creation fees (all of which parse), the assets are distinct native denoms with
  a supply, their key is free, the pair type is configured and enabled, and a permissioned type
  is created by the owner. Then only the pending key is stored, and the one message asks the
  chain for a pool of the configured code, with the reply that registers it.
\<close>

theorem create_pair_succeeds_iff:
  "(\<exists>r. factory_execute L Q env info (CreatePair pt infos ip) st = Inr (st', r) \<and> resp_msgs r = msgs) \<longleftrightarrow>
     fee_accepted L Q info \<and> distinct infos \<and>
     (\<forall>i \<in> set infos. \<exists>denom c. i = NativeToken denom \<and> fq_supply Q denom = Inr c) \<and>
     fmlookup (fs_pairs st) (pair_key L infos) = None \<and>
     (\<exists>pc config. fmlookup (fs_pair_configs st) (pair_type_to_string L pt) = Some pc \<and> \<not> pc_is_disabled pc \<and>
        fs_config st = Some config \<and> (pc_permissioned pc \<longrightarrow> mi_sender info = fc_owner config) \<and>
        st' = st\<lparr>fs_tmp_pair_info := Some \<lparr>tp_pair_key = pair_key L infos\<rparr>\<rparr> \<and>
        msgs = [\<lparr>sub_id = INSTANTIATE_PAIR_REPLY_ID,
          sub_msg = MsgCreateCosmWasmPool (pc_code_id pc)
            \<lparr>pim_asset_infos = infos, pim_token_code_id = 0,
             pim_factory_addr = env_contract env, pim_init_params = ip\<rparr> (env_contract env),
          sub_reply_on = OnSuccess\<rparr>])"
  by (auto simp: factory_execute_def create_pair_returns)

theorem create_pair_succeeds_iff_witness:
  "\<exists>r. factory_execute sample_factory_crates sample_factory_chain (sample_env 5) creator
         (CreatePair (Custom ''concentrated'') (native_pair ''uosmo'' ''uatom'') None) (sample_factory [])
       = Inr (creating ''uosmo'' ''uatom'' (sample_factory []), r) \<and>
     resp_msgs r = [\<lparr>sub_id = 1, sub_msg = MsgCreateCosmWasmPool 11
        \<lparr>pim_asset_infos = native_pair ''uosmo'' ''uatom'', pim_token_code_id = 0,
         pim_factory_addr = ''contract'', pim_init_params = None\<rparr> ''contract'', sub_reply_on = OnSuccess\<rparr>]"
  unfolding create_pair_succeeds_iff
  using sample_fee_accepted
  by (auto simp: factory_sample_defs creating_def INSTANTIATE_PAIR_REPLY_ID_def)

text \<open>
  C29. Creation is a round trip: once a creation of some assets has been accepted and the reply to
  its pool creation has registered contract \<open>a\<close>, a query for these assets in any order asks that
  contract; every other pair is registered as before; the pool id is sent to exactly that
  contract; a second reply cannot register again; and nobody can create the pair again, in any
  order of its assets.
\<close>

theorem created_pair_is_found:
  assumes "execute_create_pair L Q env info pt infos ip st = Inr (st1, r1)"
    and "factory_reply L Q INSTANTIATE_PAIR_REPLY_ID result st1 = Inr (st2, r2)"
  shows "\<exists>pool_id reported a. decode_create_pool L result = Inr pool_id \<and> fq_contract_by_pool_id Q pool_id = Inr reported \<and>
     addr_validate L reported = Inr a \<and>
     resp_msgs r2 = [\<lparr>sub_id = SET_POOL_ID_FAILED_REPLY_ID, sub_msg = ExecuteSetPoolId a pool_id, sub_reply_on = OnError\<rparr>] \<and>
     (\<forall>infos' Q'. mset infos' = mset infos \<longrightarrow> query_pair L Q' infos' st2 = fq_pair_info Q' a) \<and>
     (\<forall>infos' Q'. pair_key L infos' \<noteq> pair_key L infos \<longrightarrow> query_pair L Q' infos' st2 = query_pair L Q' infos' st) \<and>
     (\<forall>Q' result'. factory_reply L Q' INSTANTIATE_PAIR_REPLY_ID result' st2 = fail_with PairWasRegistered) \<and>
     (\<forall>Q' env' info' pt' infos' ip' x. mset infos' = mset infos \<longrightarrow>
        execute_create_pair L Q' env' info' pt' infos' ip' st2 \<noteq> Inr x)"
proof -
  from assms(1) have st1: "st1 = st\<lparr>fs_tmp_pair_info := Some \<lparr>tp_pair_key = pair_key L infos\<rparr>\<rparr>"
    by (auto simp: create_pair_returns)
  from factory_reply_returns [OF assms(2)] obtain pool_id reported a where
    a: "decode_create_pool L result = Inr pool_id" "fq_contract_by_pool_id Q pool_id = Inr reported"
      "addr_validate L reported = Inr a"
    and st2: "st2 = st1\<lparr>fs_pairs := fmupd (pair_key L infos) a (fs_pairs st1)\<rparr>"
    and msgs: "resp_msgs r2 = [\<lparr>sub_id = SET_POOL_ID_FAILED_REPLY_ID,
        sub_msg = ExecuteSetPoolId a pool_id, sub_reply_on = OnError\<rparr>]"
    using st1 by (auto simp: INSTANTIATE_PAIR_REPLY_ID_def SET_POOL_ID_FAILED_REPLY_ID_def)
  have "query_pair L Q' infos' st2 = fq_pair_info Q' a" if "mset infos' = mset infos" for infos' Q'
    using st2 pair_key_perm [OF that, of L] by (simp add: query_pair_def)
  moreover have "query_pair L Q' infos' st2 = query_pair L Q' infos' st"
    if "pair_key L infos' \<noteq> pair_key L infos" for infos' Q'
    using st1 st2 that by (simp add: query_pair_def)
  moreover have "factory_reply L Q' INSTANTIATE_PAIR_REPLY_ID result' st2 = fail_with PairWasRegistered" for Q' result'
    using st1 st2 by (simp add: factory_reply_def)
  moreover have "execute_create_pair L Q' env' info' pt' infos' ip' st2 \<noteq> Inr x"
    if "mset infos' = mset infos" for Q' env' info' pt' infos' ip' x
    using st2 pair_key_perm [OF that, of L] by (cases x) (simp add: create_pair_returns)
  ultimately show ?thesis using a msgs by blast
qed

lemma sample_create:
  "execute_create_pair sample_factory_crates sample_factory_chain (sample_env 5) creator
     (Custom ''concentrated'') (native_pair ''uosmo'' ''uatom'') None (sample_factory [])
   = Inr (creating ''uosmo'' ''uatom'' (sample_factory []),
       \<lparr>resp_attrs = [(''action'', ''create_pair''), (''pair'', ''uosmo-uatom'')],
        resp_msgs = [\<lparr>sub_id = 1, sub_msg = MsgCreateCosmWasmPool 11
          \<lparr>pim_asset_infos = native_pair ''uosmo'' ''uatom'', pim_token_code_id = 0,
           pim_factory_addr = ''contract'', pim_init_params = None\<rparr> ''contract'', sub_reply_on = OnSuccess\<rparr>]\<rparr>)"
  unfolding create_pair_returns
  using sample_fee_accepted
  by (auto simp: factory_sample_defs creating_def INSTANTIATE_PAIR_REPLY_ID_def join_with_def)

lemma sample_reply:
  "factory_reply sample_factory_crates sample_factory_chain 1 ''x'' (creating ''uosmo'' ''uatom'' (sample_factory []))
   = Inr ((creating ''uosmo'' ''uatom'' (sample_factory []))\<lparr>fs_pairs := fmap_of_list [(''uatomuosmo'', ''pair7'')]\<rparr>,
       \<lparr>resp_attrs = [(''action'', ''register''), (''pair_contract_addr'', ''pair7'')],
        resp_msgs = [\<lparr>sub_id = 2, sub_msg = ExecuteSetPoolId ''pair7'' 7, sub_reply_on = OnError\<rparr>]\<rparr>)"
  by (simp add: factory_reply_def creating_def factory_sample_defs pair_key_def
      INSTANTIATE_PAIR_REPLY_ID_def SET_POOL_ID_FAILED_REPLY_ID_def)

theorem created_pair_is_found_witness:
  "query_pair sample_factory_crates sample_factory_chain (native_pair ''uatom'' ''uosmo'')
     ((creating ''uosmo'' ''uatom'' (sample_factory []))\<lparr>fs_pairs := fmap_of_list [(''uatomuosmo'', ''pair7'')]\<rparr>)
   = Inr (sample_pair_info [''uatom'', ''uosmo''])"
proof -
  have one: "(1::u64) = INSTANTIATE_PAIR_REPLY_ID" by (simp add: INSTANTIATE_PAIR_REPLY_ID_def)
  have "\<exists>pool_id reported a. decode_create_pool sample_factory_crates ''x'' = Inr pool_id \<and>
      fq_contract_by_pool_id sample_factory_chain pool_id = Inr reported \<and> addr_validate sample_factory_crates reported = Inr a \<and>
      query_pair sample_factory_crates sample_factory_chain (native_pair ''uatom'' ''uosmo'')
        ((creating ''uosmo'' ''uatom'' (sample_factory []))\<lparr>fs_pairs := fmap_of_list [(''uatomuosmo'', ''pair7'')]\<rparr>)
      = fq_pair_info sample_factory_chain a"
    using created_pair_is_found [OF sample_create sample_reply [unfolded one]] by (auto simp: add_mset_commute)
  then show ?thesis by (auto simp: factory_sample_defs res_simps)
qed

section \<open>The registry over the life of the contract\<close>

text \<open>
  C30. Outsiders can only add pairs: over any sequence of executions and replies, none of them
  sent by the owner and with no ownership transfer pending, the configuration, the pair types
  and the owner stay as they are and every registered pair stays registered with its contract;
  in particular no reply overwrites a pair and nobody else can deregister one.
\<close>

theorem outsiders_only_add_pairs:
  assumes "fs_config st = Some config" and "fs_ownership_proposal st = None"
    and "\<forall>(c, env, info, ev) \<in> set calls. ownership_laws (fst c) \<and> mi_sender info \<noteq> fc_owner config"
  shows "fs_config (run_calls factory_call calls st) = Some config \<and>
    fs_pair_configs (run_calls factory_call calls st) = fs_pair_configs st \<and>
    (\<forall>k a. fmlookup (fs_pairs st) k = Some a \<longrightarrow> fmlookup (fs_pairs (run_calls factory_call calls st)) k = Some a)"
proof -
  have "fs_ownership_proposal st = None \<and> only_adds st st"
    using assms(2) by (simp add: only_adds_def)
  moreover have "\<forall>(c, env, info, ev) \<in> set calls.
      ownership_laws (fst c) \<and> factory_owner st \<noteq> Some (mi_sender info)"
    using assms(1,3) by (fastforce simp: factory_owner_def)
  ultimately have "only_adds st (run_calls factory_call calls st)"
    using factory_outsiders.run_kept by blast
  with assms(1) show ?thesis by (simp add: only_adds_def)
qed

theorem outsiders_only_add_pairs_witness:
  "fmlookup (fs_pairs (run_calls factory_call
     [((sample_factory_crates, sample_factory_chain), sample_env 5, sent_by ''mallory'', Exec (Deregister (native_pair ''uatom'' ''uosmo''))),
      ((sample_factory_crates, sample_factory_chain), sample_env 6, sent_by ''mallory'', PoolReply 1 ''x'')]
     (sample_factory [(''uatomuosmo'', ''pair7'')]))) ''uatomuosmo'' = Some ''pair7''"
proof -
  let ?calls = "[((sample_factory_crates, sample_factory_chain), sample_env 5, sent_by ''mallory'', Exec (Deregister (native_pair ''uatom'' ''uosmo''))),
      ((sample_factory_crates, sample_factory_chain), sample_env 6, sent_by ''mallory'', PoolReply 1 ''x'')]"
  let ?st = "sample_factory [(''uatomuosmo'', ''pair7'')]"
  have "\<forall>(c, env, info, ev) \<in> set ?calls. ownership_laws (fst c) \<and> mi_sender info \<noteq> fc_owner sample_factory_config"
    by (simp add: sample_factory_ownership) (simp add: sample_factory_config_def)
  moreover have "fs_config ?st = Some sample_factory_config" "fs_ownership_proposal ?st = None"
    "fmlookup (fs_pairs ?st) ''uatomuosmo'' = Some ''pair7''"
    by (simp_all add: sample_factory_def blank_factory_def)
  ultimately show ?thesis
    using outsiders_only_add_pairs [of ?st sample_factory_config ?calls] by blast
qed

text \<open>
  C39. Deregistering: a successful \<open>Deregister\<close> is the owner's, frees exactly the pair's key (a
  query for it fails, other pairs are registered as before), and, when a generator is
  configured, tells the generator to deactivate the liquidity token the pair reported, nothing
  else. A pair of these assets, in any order, can then be created again whenever the other
  conditions of a creation hold.
\<close>

theorem deregister_frees_pair:
  assumes "factory_execute L Q env info (Deregister infos) st = Inr (st', r)"
  shows "factory_owner st = Some (mi_sender info) \<and>
    query_pair L Q infos st' = fail_with (NotFound ''pair_info'') \<and>
    (\<forall>k. k \<noteq> pair_key L infos \<longrightarrow> fmlookup (fs_pairs st') k = fmlookup (fs_pairs st) k) \<and>
    (\<exists>config a. fs_config st = Some config \<and> fmlookup (fs_pairs st) (pair_key L infos) = Some a \<and>
       (case fc_generator_address config of None \<Rightarrow> resp_msgs r = []
        | Some g \<Rightarrow> \<exists>pi. fq_pair_info Q a = Inr pi \<and>
            resp_msgs r = [submsg_new (DeactivatePool g (pi_liquidity_token pi))])) \<and>
    (\<forall>Q' env' info' pt infos' ip pc.
       mset infos' = mset infos \<longrightarrow> fee_accepted L Q' info' \<longrightarrow> check_asset_infos Q' infos' = Inr () \<longrightarrow>
       fmlookup (fs_pair_configs st') (pair_type_to_string L pt) = Some pc \<longrightarrow>
       \<not> pc_permissioned pc \<longrightarrow> \<not> pc_is_disabled pc \<longrightarrow>
       (\<exists>res. execute_create_pair L Q' env' info' pt infos' ip st' = Inr res))"
proof -
  from assms have "deregister L Q info infos st = Inr (st', r)" by (simp add: factory_execute_def)
  from deregister_returns [OF this] obtain config a where
    c: "fs_config st = Some config" "mi_sender info = fc_owner config"
      "fmlookup (fs_pairs st) (pair_key L infos) = Some a"
    and st': "st' = st\<lparr>fs_pairs := fmdrop (pair_key L infos) (fs_pairs st)\<rparr>"
    and gen: "case fc_generator_address config of None \<Rightarrow> resp_msgs r = []
        | Some g \<Rightarrow> \<exists>pi. fq_pair_info Q a = Inr pi \<and> resp_msgs r = [submsg_new (DeactivatePool g (pi_liquidity_token pi))]"
    by blast
  have "\<exists>res. execute_create_pair L Q' env' info' pt infos' ip st' = Inr res"
    if "mset infos' = mset infos" and "fee_accepted L Q' info'" and "check_asset_infos Q' infos' = Inr ()"
      and "fmlookup (fs_pair_configs st') (pair_type_to_string L pt) = Some pc"
      and "\<not> pc_permissioned pc" "\<not> pc_is_disabled pc" for Q' env' info' pt infos' ip pc
  proof -
    from st' c(1) pair_key_perm [OF that(1), of L] that(2-) have "execute_create_pair L Q' env' info' pt infos' ip st' =
      Inr (st'\<lparr>fs_tmp_pair_info := Some \<lparr>tp_pair_key = pair_key L infos'\<rparr>\<rparr>,
        \<lparr>resp_attrs = [(''action'', ''create_pair''), (''pair'', join_with ''-'' (map (asset_info_to_string L) infos'))],
         resp_msgs = [\<lparr>sub_id = INSTANTIATE_PAIR_REPLY_ID,
           sub_msg = MsgCreateCosmWasmPool (pc_code_id pc)
             \<lparr>pim_asset_infos = infos', pim_token_code_id = 0,
              pim_factory_addr = env_contract env', pim_init_params = ip\<rparr> (env_contract env'),
           sub_reply_on = OnSuccess\<rparr>]\<rparr>)"
      unfolding create_pair_returns by (simp add: check_asset_infos_returns)
    then show ?thesis by blast
  qed
  with c st' gen show ?thesis by (auto simp: factory_owner_def query_pair_def fail_with_def)
qed

theorem deregister_frees_pair_witness:
  "query_pair sample_factory_crates sample_factory_chain (native_pair ''uatom'' ''uosmo'')
     (sample_factory [(''uatomuosmo'', ''pair7'')]\<lparr>fs_pairs := fmdrop ''uatomuosmo'' (fmap_of_list [(''uatomuosmo'', ''pair7'')])\<rparr>)
   = fail_with (NotFound ''pair_info'')"
proof -
  have "factory_execute sample_factory_crates sample_factory_chain (sample_env 5) (sent_by ''owner'')
      (Deregister (native_pair ''uatom'' ''uosmo'')) (sample_factory [(''uatomuosmo'', ''pair7'')])
    = Inr (sample_factory [(''uatomuosmo'', ''pair7'')]\<lparr>fs_pairs := fmdrop ''uatomuosmo'' (fmap_of_list [(''uatomuosmo'', ''pair7'')])\<rparr>,
       \<lparr>resp_attrs = [(''action'', ''deregister''), (''pair_contract_addr'', ''pair7'')],
        resp_msgs = [submsg_new (DeactivatePool ''incentives'' ''factory/pair7/astroport/share'')]\<rparr>)"
    by (simp add: factory_execute_def deregister_def check_asset_infos_def factory_sample_defs pair_key_def)
  from deregister_frees_pair [OF this] show ?thesis by blast
qed

definition fee_bps_law :: "'a factory_crates_scheme \<Rightarrow> bool" where
  \<comment> \<open>the documented meaning of \<open>valid_fee_bps\<close>\<close>
  "fee_bps_law L \<longleftrightarrow> (\<forall>pc. valid_fee_bps L pc \<longrightarrow> pc_total_fee_bps pc \<le> 10000 \<and> pc_maker_fee_bps pc \<le> 10000)"

lemma instantiate_configs_ok:
  assumes "factory_instantiate L msg st = Inr (st', r)" and "fs_pair_configs st = fmempty"
  shows "pair_configs_ok L st'"
proof -
  from assms obtain stored attrs where
    s: "save_pair_configs L (fim_pair_configs msg) fmempty [(''instantiate'', factory_contract_name)] = Inr (stored, attrs)"
    and st': "fs_pair_configs st' = stored"
    by (auto simp: factory_instantiate_def res_simps Let_def)
  from save_pair_configs_returns [OF s] st' show ?thesis by (fastforce simp: pair_configs_ok_def)
qed

text \<open>
  C40. The fees the factory answers are within bounds in every reachable state: after an
  instantiation and any sequence of executions and replies (with the same third-party
  functions), every answer to the fee query is the fee of the pair type asked for, with total
  and maker fees of at most 10000 basis points.
\<close>

theorem fee_answers_in_bounds:
  assumes "factory_instantiate L msg blank = Inr (st0, r0)" and "fs_pair_configs blank = fmempty"
    and "\<forall>(c, env, info, ev) \<in> set calls. fst c = L" and "fee_bps_law L"
    and "factory_query L Q (QueryFeeInfo pt) (run_calls factory_call calls st0) = Inr (FeeInfoAnswer a)"
  shows "fir_total_fee_bps a \<le> 10000 \<and> fir_maker_fee_bps a \<le> 10000 \<and>
    (\<exists>pc. fmlookup (fs_pair_configs (run_calls factory_call calls st0)) (pair_type_to_string L pt) = Some pc \<and>
       pair_type_to_string L (pc_pair_type pc) = pair_type_to_string L pt \<and>
       fir_total_fee_bps a = pc_total_fee_bps pc \<and> fir_maker_fee_bps a = pc_maker_fee_bps pc)"
proof -
  let ?st = "run_calls factory_call calls st0"
  from factory_configs.run_kept [OF instantiate_configs_ok [OF assms(1,2)] assms(3)]
  have ok: "pair_configs_ok L ?st" .
  from assms(5) obtain pc where pc: "fmlookup (fs_pair_configs ?st) (pair_type_to_string L pt) = Some pc"
    and a: "fir_total_fee_bps a = pc_total_fee_bps pc" "fir_maker_fee_bps a = pc_maker_fee_bps pc"
    by (auto simp: factory_query_def factory_query_fee_info_def res_simps)
  from ok pc have "pair_type_to_string L (pc_pair_type pc) = pair_type_to_string L pt" "valid_fee_bps L pc"
    by (metis pair_configs_ok_def)+
  with assms(4) pc a show ?thesis by (auto simp: fee_bps_law_def)
qed

lemma sample_factory_instantiates:
  "factory_instantiate sample_factory_crates sample_factory_init blank_factory
   = Inr (sample_factory [], attrs_response [(''instantiate'', factory_contract_name), (''pair_type'', ''custom-concentrated'')])"
  by (simp add: factory_instantiate_def factory_sample_defs Let_def sample_addr_opt_validate_def)

theorem fee_answers_in_bounds_witness:
  "factory_query sample_factory_crates sample_factory_chain (QueryFeeInfo (Custom ''concentrated''))
     (run_calls factory_call [((sample_factory_crates, sample_factory_chain), sample_env 5, sent_by ''owner'',
        Exec (UpdatePairConfig (sample_pair_config\<lparr>pc_maker_fee_bps := 10001\<rparr>)))] (sample_factory []))
     = Inr (FeeInfoAnswer \<lparr>fir_fee_address = Some ''maker'', fir_total_fee_bps = 0, fir_maker_fee_bps = 5000\<rparr>) \<and>
   (5000::u16) \<le> 10000"
proof -
  let ?calls = "[((sample_factory_crates, sample_factory_chain), sample_env 5, sent_by ''owner'',
        Exec (UpdatePairConfig (sample_pair_config\<lparr>pc_maker_fee_bps := 10001\<rparr>)))]"
  have l: "fee_bps_law sample_factory_crates" by (simp add: fee_bps_law_def sample_factory_crates_def)
  have q: "factory_query sample_factory_crates sample_factory_chain (QueryFeeInfo (Custom ''concentrated''))
      (run_calls factory_call ?calls (sample_factory []))
     = Inr (FeeInfoAnswer \<lparr>fir_fee_address = Some ''maker'', fir_total_fee_bps = 0, fir_maker_fee_bps = 5000\<rparr>)"
    by (simp add: factory_query_def factory_query_fee_info_def factory_call_def factory_execute_def
        execute_update_pair_config_def factory_sample_defs fail_with_def)
  have e: "fs_pair_configs blank_factory = fmempty" by (simp add: blank_factory_def)
  have c: "\<forall>(c, env, info, ev) \<in> set ?calls. fst c = sample_factory_crates" by simp
  from fee_answers_in_bounds [OF sample_factory_instantiates e c l q] q show ?thesis by simp
qed

text \<open>
  \<open>UpdateConfig\<close> takes a token code id and a whitelist code id, and no call ever changes
  the stored ones: over any sequence of executions and replies both stay what the instantiation
  stored.
\<close>

theorem code_ids_never_change:
  assumes "fs_config st = Some config"
  shows "\<exists>config'. fs_config (run_calls factory_call calls st) = Some config' \<and>
    fc_token_code_id config' = fc_token_code_id config \<and>
    fc_whitelist_code_id config' = fc_whitelist_code_id config"
  using factory_code_ids.run_kept [where ids = "code_ids st" and s = st and calls = calls] assms
  by (auto simp: code_ids_def split_def)

theorem code_ids_never_change_witness:
  "\<exists>config'. fs_config (run_calls factory_call [((sample_factory_crates, sample_factory_chain), sample_env 5,
        sent_by ''owner'', Exec (UpdateConfig (Some 99) (Some ''fees'') None (Some 98) None))] (sample_factory []))
      = Some config' \<and> fc_token_code_id config' = 5 \<and> fc_whitelist_code_id config' = 6 \<and>
      fc_fee_address config' = Some ''fees''"
proof -
  let ?calls = "[((sample_factory_crates, sample_factory_chain), sample_env 5,
        sent_by ''owner'', Exec (UpdateConfig (Some 99) (Some ''fees'') None (Some 98) None))]"
  have c: "fs_config (sample_factory []) = Some sample_factory_config" by (simp add: sample_factory_def)
  have "fs_config (run_calls factory_call ?calls (sample_factory []))
      = Some (sample_factory_config\<lparr>fc_fee_address := Some ''fees''\<rparr>)"
    by (simp add: factory_call_def factory_execute_def execute_update_config_def factory_sample_defs)
  with code_ids_never_change [OF c, of ?calls] show ?thesis by (simp add: sample_factory_config_def)
qed

section \<open>The creation fee and the pair key\<close>

text \<open>
  Creation is never free: when the poolmanager has no parameters, or its list of creation
  fees is empty, no creation succeeds, whoever sends it and whatever is paid.
\<close>

theorem creation_never_free:
  assumes "fq_pool_creation_fee Q = Inr None \<or> fq_pool_creation_fee Q = Inr (Some [])"
  shows "factory_execute L Q env info (CreatePair pt infos ip) st \<noteq> Inr res"
proof -
  from assms have "\<not> fee_accepted L Q info" by (cases "one_coin L info") (auto simp: fee_accepted_def)
  then show ?thesis by (cases res) (simp add: factory_execute_def create_pair_returns)
qed

theorem creation_never_free_witness:
  "\<forall>res. factory_execute sample_factory_crates (sample_factory_chain\<lparr>fq_pool_creation_fee := Inr None\<rparr>)
     (sample_env 5) creator (CreatePair (Custom ''concentrated'') (native_pair ''uosmo'' ''uatom'') None) (sample_factory [])
     \<noteq> Inr res"
  by (intro allI creation_never_free) simp

text \<open>
  C38. The pair key does not separate pairs: it joins the bytes of the sorted assets without a
  separator, so the pairs \<open>(ax, b)\<close> and \<open>(a, xb)\<close> have the same key (when each is listed in
  order). Once one of them is registered, a query for the other returns the registered pair's
  information, and the other can never be created.
\<close>

theorem pair_keys_collide:
  assumes "\<forall>d. as_bytes L (NativeToken d) = d" and "a @ x \<le> b" and "a \<le> x @ b"
    and "fmlookup (fs_pairs st) (pair_key L (native_pair (a @ x) b)) = Some contract"
  shows "query_pair L Q (native_pair a (x @ b)) st = fq_pair_info Q contract \<and>
    execute_create_pair L Q env info pt (native_pair a (x @ b)) ip st \<noteq> Inr res"
proof -
  have "pair_key L (native_pair a (x @ b)) = pair_key L (native_pair (a @ x) b)"
    using assms(1-3) by (simp add: pair_key_def)
  with assms(4) show ?thesis by (cases res) (simp add: query_pair_def create_pair_returns)
qed

theorem pair_keys_collide_witness:
  "native_pair ''uatom'' ''xyaa'' \<noteq> native_pair ''uatomx'' ''yaa'' \<and>
   query_pair sample_factory_crates sample_factory_chain (native_pair ''uatom'' ''xyaa'')
     (sample_factory [(''uatomxyaa'', ''pair7'')]) = fq_pair_info sample_factory_chain ''pair7'' \<and>
   (\<forall>res. execute_create_pair sample_factory_crates sample_factory_chain (sample_env 5) creator (Custom ''concentrated'')
     (native_pair ''uatom'' ''xyaa'') None (sample_factory [(''uatomxyaa'', ''pair7'')]) \<noteq> Inr res)"
proof -
  have b: "\<forall>d. as_bytes sample_factory_crates (NativeToken d) = d" by (simp add: sample_factory_crates_def)
  have "fmlookup (fs_pairs (sample_factory [(''uatomxyaa'', ''pair7'')]))
      (pair_key sample_factory_crates (native_pair (''uatom'' @ ''x'') ''yaa'')) = Some ''pair7''"
    by (simp add: pair_key_def factory_sample_defs)
  from pair_keys_collide [OF b _ _ this] show ?thesis by simp
qed

section \<open>Listing and ownership\<close>

text \<open>
  Walking \<open>Pairs\<close> page by page lists every registered pair exactly once, in the order of the
  keys: with a limit \<open>l\<close> between 1 and 30, the page asked for with the assets of the last pair of
  the page before is the next block of \<open>l\<close> rows of the registry. The assets are given by any
  function that names a pair of each stored key; keys hold no byte below 2, as denoms do not.
\<close>

theorem pairs_pages:
  assumes "keys_printable st" and "0 < l" and "l \<le> MAX_LIMIT" and "j * unat l \<le> length (store_entries (fs_pairs st))"
    and "\<forall>k \<in> fmdom' (fs_pairs st). pair_key L (assets_of k) = k"
  shows "read_pairs L st (if j = 0 then None else Some (assets_of (fst (store_entries (fs_pairs st) ! (j * unat l - 1))))) (Some l)
      = map snd (take (unat l) (drop (j * unat l) (store_entries (fs_pairs st)))) \<and>
    concat (map (\<lambda>i. map snd (take (unat l) (drop (i * unat l) (store_entries (fs_pairs st))))) [0..<Suc j])
      = map snd (take (Suc j * unat l) (store_entries (fs_pairs st))) \<and>
    sorted_wrt (<) (map fst (store_entries (fs_pairs st))) \<and>
    set (store_entries (fs_pairs st)) = {(k, a). fmlookup (fs_pairs st) k = Some a}"
proof -
  let ?es = "store_entries (fs_pairs st)"
  from assms(2) have pos: "0 < unat l" by (simp add: word_less_nat_alt)
  have m: "min l MAX_LIMIT = l" using assms(3) by (simp add: min_def)
  have named: "pair_key L (assets_of (fst (?es ! i))) = fst (?es ! i)" if "i < length ?es" for i
    using assms(5) store_entries_key [OF that] by blast
  have "read_pairs L st (if j = 0 then None else Some (assets_of (fst (?es ! (j * unat l - 1))))) (Some l)
      = pairs_page st (if j = 0 then None else Some (fst (?es ! (j * unat l - 1)))) (unat l)"
  proof (cases j)
    case (Suc i)
    with assms(4) pos have "j * unat l - 1 < length ?es" by (cases "unat l") auto
    from named [OF this] Suc show ?thesis by (simp add: read_pairs_page m)
  qed (simp add: read_pairs_page m)
  also have "\<dots> = map snd (take (unat l) (drop (j * unat l) ?es))"
    by (rule pairs_listing.page_nth [OF assms(1) pos assms(4)])
  moreover have "concat (map (\<lambda>i. map snd (take (unat l) (drop (i * unat l) ?es))) [0..<Suc j])
      = map snd (take (Suc j * unat l) ?es)" by (rule blocks_tile)
  ultimately show ?thesis by (simp add: sorted_store_entries set_store_entries)
qed

lemma sample_two_pairs:
  "store_entries (fs_pairs (sample_factory [(''uatomuosmo'', ''pair7''), (''uosmouusdc'', ''pair8'')]))
   = [(''uatomuosmo'', ''pair7''), (''uosmouusdc'', ''pair8'')]"
  by (simp add: store_entries_def factory_sample_defs sorted_list_of_fset.rep_eq)

theorem pairs_pages_witness:
  "read_pairs sample_factory_crates (sample_factory [(''uatomuosmo'', ''pair7''), (''uosmouusdc'', ''pair8'')])
     (Some [NativeToken ''uatomuosmo'']) (Some 1) = [''pair8'']"
proof -
  let ?st = "sample_factory [(''uatomuosmo'', ''pair7''), (''uosmouusdc'', ''pair8'')]"
  have dom: "fmdom' (fs_pairs ?st) = {''uatomuosmo'', ''uosmouusdc''}"
    by (auto simp: factory_sample_defs)
  have p: "keys_printable ?st" unfolding keys_printable_def dom by (simp add: less_char_def)
  have k: "\<forall>k \<in> fmdom' (fs_pairs ?st). pair_key sample_factory_crates [NativeToken k] = k"
    by (simp add: pair_key_def sample_factory_crates_def)
  have l: "(0 :: u32) < 1" "(1 :: u32) \<le> MAX_LIMIT" by (simp_all add: MAX_LIMIT_def)
  have len: "1 * unat (1 :: u32) \<le> length (store_entries (fs_pairs ?st))" by (simp add: sample_two_pairs)
  from pairs_pages [OF p l len k] show ?thesis by (simp add: sample_two_pairs)
qed

text \<open>
  Ownership of the factory cannot be taken: over any sequence of executions and replies in
  which the owner sends none, starting without a pending proposal, the owner stays the same; and
  over any sequence at all, an address that ends up owner has called the contract itself.
\<close>

theorem factory_ownership_safe:
  assumes "\<forall>(c, env, info, ev) \<in> set calls. ownership_laws (fst c)"
    and "fs_ownership_proposal st = None" and "factory_owner st = Some a"
  shows "((\<forall>(c, env, info, ev) \<in> set calls. mi_sender info \<noteq> a) \<longrightarrow>
            factory_owner (run_calls factory_call calls st) = Some a) \<and>
         (\<forall>b. factory_owner (run_calls factory_call calls st) = Some b \<longrightarrow> b \<noteq> a \<longrightarrow>
            (\<exists>(c, env, info, ev) \<in> set calls. mi_sender info = b))"
proof (intro conjI impI allI)
  assume "\<forall>(c, env, info, ev) \<in> set calls. mi_sender info \<noteq> a"
  with assms have "\<forall>(c, env, info, ev) \<in> set calls. ownership_laws (fst c) \<and>
      mi_sender info \<noteq> acting_owner (\<lambda>_. []) factory_owner c st"
    by (auto simp: acting_owner_def)
  from factory_ownership.outsiders_never_own [OF TrueI assms(2) this] assms(3)
  show "factory_owner (run_calls factory_call calls st) = Some a" by simp
next
  fix b
  assume "factory_owner (run_calls factory_call calls st) = Some b" and "b \<noteq> a"
  with factory_ownership.new_owner_called [OF TrueI assms(1)] assms(3)
  show "\<exists>(c, env, info, ev) \<in> set calls. mi_sender info = b" by simp
qed

theorem factory_ownership_safe_witness:
  "factory_owner (run_calls factory_call
     [((sample_factory_crates, sample_factory_chain), sample_env 5, sent_by ''mallory'', Exec (ProposeNewOwner ''mallory'' 10)),
      ((sample_factory_crates, sample_factory_chain), sample_env 6, sent_by ''mallory'', Exec ClaimOwnership)] (sample_factory []))
   = Some ''owner''"
proof -
  let ?calls = "[((sample_factory_crates, sample_factory_chain), sample_env 5, sent_by ''mallory'', Exec (ProposeNewOwner ''mallory'' 10)),
      ((sample_factory_crates, sample_factory_chain), sample_env 6, sent_by ''mallory'', Exec ClaimOwnership)]"
  have "\<forall>(c, env, info, ev) \<in> set ?calls. ownership_laws (fst c)"
    by (simp add: sample_factory_ownership)
  moreover have "\<forall>(c, env, info, ev) \<in> set ?calls. mi_sender info \<noteq> ''owner''" by simp
  moreover have "fs_ownership_proposal (sample_factory []) = None" "factory_owner (sample_factory []) = Some ''owner''"
    by (simp_all add: factory_owner_def sample_factory_def sample_factory_config_def blank_factory_def)
  ultimately show ?thesis
    using factory_ownership_safe [of ?calls "sample_factory []" "''owner''"] by blast
qed

end
