(* ===== verification/Pair_State.thy ===== *)
theory Pair_State
  imports Ownership Storage
begin

text \<open>
  The data of the concentrated-liquidity pair (src/contracts/pair_concentrated/src: state.rs,
  error.rs, utils.rs, and the messages of src/packages/astroport_on_osmosis/src/pair_pcl.rs).
  The pool mathematics (the invariant \<open>D\<close>, the swap curve, fees, repegging) is the
  \<open>astroport_pcl_common\<close> crate and the fixed-point arithmetic is \<open>cosmwasm_std\<close>: both are fields
  of the record \<open>pcl_crates\<close>, and the chain's answers are the fields of \<open>pair_chain\<close>. An
  arithmetic function that panics has the value \<open>None\<close>.
\<close>

section \<open>The pool configuration\<close>

record amp_gamma =
  ag_amp :: decimal
  ag_gamma :: decimal

record price_state =
  pp_oracle_price :: decimal256
  pp_last_price :: decimal256
  pp_price_scale :: decimal256
  pp_updated_at :: u64
  pp_xcp_profit :: decimal256
  pp_xcp_profit_real :: decimal256

record pool_state =
  po_initial :: amp_gamma
  po_future :: amp_gamma
  po_future_time :: u64
  po_initial_time :: u64
  po_price_state :: price_state

record pool_params =
  pm_mid_fee :: decimal
  pm_out_fee :: decimal
  pm_fee_gamma :: decimal
  pm_repeg_profit_threshold :: decimal
  pm_min_price_scale_delta :: decimal
  pm_ma_half_time :: u64

record pcl_config =
  cc_pair_info :: pair_info
  cc_factory_addr :: addr
  cc_pool_params :: pool_params
  cc_pool_state :: pool_state
  cc_owner :: "addr option"
  cc_track_asset_balances :: bool
  cc_fee_share :: "binary option"      \<comment> \<open>never set by this contract\<close>

abbreviation price_scale :: "pcl_config \<Rightarrow> decimal256" where
  "price_scale config \<equiv> pp_price_scale (po_price_state (cc_pool_state config))"

abbreviation lp_denom :: "pcl_config \<Rightarrow> string" where
  "lp_denom config \<equiv> pi_liquidity_token (cc_pair_info config)"

abbreviation asset_infos :: "pcl_config \<Rightarrow> asset_info list" where
  "asset_infos config \<equiv> pi_asset_infos (cc_pair_info config)"

section \<open>Messages\<close>

record pcl_init_params =           \<comment> \<open>\<open>ConcentratedPoolParams\<close>\<close>
  ip_amp :: decimal
  ip_gamma :: decimal
  ip_mid_fee :: decimal
  ip_out_fee :: decimal
  ip_fee_gamma :: decimal
  ip_repeg_profit_threshold :: decimal
  ip_min_price_scale_delta :: decimal
  ip_price_scale :: decimal
  ip_ma_half_time :: u64
  ip_track_asset_balances :: "bool option"

record update_pool_params =
  up_mid_fee :: "decimal option"
  up_out_fee :: "decimal option"
  up_fee_gamma :: "decimal option"
  up_repeg_profit_threshold :: "decimal option"
  up_min_price_scale_delta :: "decimal option"
  up_ma_half_time :: "u64 option"

record promote_params =
  pr_next_amp :: decimal
  pr_next_gamma :: decimal
  pr_future_time :: u64

datatype pcl_update_params =
    Update update_pool_params
  | Promote promote_params
  | StopChangingAmpGamma
  | EnableAssetBalancesTracking
  | EnableFeeShare binary
  | DisableFeeShare

datatype pair_execute_msg =
    SetPoolId u64
  | ProvideLiquidity "asset list" "decimal option" "bool option" "string option"
      \<comment> \<open>assets, slippage tolerance, auto stake (ignored), receiver\<close>
  | WithdrawLiquidity "asset list"
  | Swap asset "asset_info option" "decimal option" "decimal option" "string option"
      \<comment> \<open>offer asset, ask asset (ignored), belief price, max spread, to\<close>
  | UpdateConfig binary
  | ProposeNewOwner string u64
  | DropOwnershipProposal
  | ClaimOwnership

datatype sudo_msg =
    SetActive bool
  | SwapExactAmountIn string coin string u128 decimal
      \<comment> \<open>sender, token in, token out denom, token out min amount, swap fee\<close>
  | SwapExactAmountOut string string u128 coin decimal
      \<comment> \<open>sender, token in denom, token in max amount, token out, swap fee\<close>

datatype swap_data =
    SwapExactAmountInResponseData u128     \<comment> \<open>token out amount\<close>
  | SwapExactAmountOutResponseData u128    \<comment> \<open>token in amount\<close>

record swap_amount_in_route =
  sa_pool_id :: u64
  sa_token_out_denom :: string

datatype pair_msg =
    MsgCreateDenom addr string                                         \<comment> \<open>sender, subdenom\<close>
  | MsgMint addr coin addr                                             \<comment> \<open>sender, amount, mint to\<close>
  | MsgBurn addr coin addr                                             \<comment> \<open>sender, amount, burn from\<close>
  | MsgSwapExactAmountIn addr "swap_amount_in_route list" coin string  \<comment> \<open>token in, token out min amount\<close>
  | TransferAsset asset addr                                           \<comment> \<open>\<open>asset.into_msg(receiver)\<close>\<close>

record 'm data_response = "'m response" +
  resp_data :: "swap_data option"

section \<open>Storage and errors\<close>

record swap_params =
  sp_belief_price :: "decimal option"
  sp_max_spread :: "decimal option"
  sp_sender :: addr
  sp_to :: "addr option"

record observation =
  ob_ts :: u64
  ob_price :: decimal
  ob_price_sma :: decimal

record precommit_observation =
  po_base_amount :: u128
  po_quote_amount :: u128
  po_precommit_ts :: u64

record observation_buffer =        \<comment> \<open>the state of the circular buffer: capacity, head, slots\<close>
  bf_capacity :: u32
  bf_head :: u32
  bf_slots :: "(u32, observation) fmap"

type_synonym precisions = "(asset_info \<times> u8) list"

type_synonym balance_log = "(asset_info \<times> u128 \<times> u64) list"
  \<comment> \<open>the saves of the snapshot map \<open>BALANCES\<close> in order: asset, balance, height\<close>

record pair_state =
  ps_swap_params :: "swap_params option"
  ps_pool_id :: "u64 option"
  ps_config :: "pcl_config option"
  ps_ownership_proposal :: "ownership_proposal option"
  ps_observations :: "observation_buffer option"
  ps_balances :: balance_log
  ps_precisions :: "precisions option"
  ps_precommit :: "precommit_observation option"
  ps_cw2 :: "(string \<times> string) option"

datatype pcl_error = PclErr string           \<comment> \<open>an error of the pool mathematics, by its text\<close>
datatype buffer_error = BufferErr string

datatype pair_error =
    Std std_error
  | ConversionOverflowError string
  | OverflowError
  | PaymentError payment_error
  | CircularBuffer buffer_error
  | PclError pcl_error
  | Unauthorized
  | InitParamsNotFound
  | InvalidZeroAmount
  | MinimumLiquidityAmountError
  | PairIsNotRegistered
  | InvalidNumberOfAssets nat
  | InvalidAsset string
  | AssetBalancesTrackingIsAlreadyEnabled
  | PoolIdAlreadySet
  | MigrationError

section \<open>Third-party functions and the chain\<close>

record decimal_asset =
  da_info :: asset_info
  da_amount :: decimal256

record swap_result =
  sr_dy :: decimal256
  sr_spread_fee :: decimal256
  sr_maker_fee :: decimal256
  sr_share_fee :: decimal256
  sr_total_fee :: decimal256

record fee_info =
  fi_fee_address :: "addr option"
  fi_maker_fee_rate :: decimal

record pcl_crates = crates +
  d_add :: "decimal256 \<Rightarrow> decimal256 \<Rightarrow> decimal256 option"
  d_sub :: "decimal256 \<Rightarrow> decimal256 \<Rightarrow> decimal256 option"
  d_mul :: "decimal256 \<Rightarrow> decimal256 \<Rightarrow> decimal256 option"
  d_div :: "decimal256 \<Rightarrow> decimal256 \<Rightarrow> decimal256 option"
  d_diff :: "decimal256 \<Rightarrow> decimal256 \<Rightarrow> decimal256"
  d_sub_saturating :: "decimal256 \<Rightarrow> decimal256 \<Rightarrow> decimal256"
  d_of_decimal :: "decimal \<Rightarrow> decimal256"
  d_from_ratio :: "u128 \<Rightarrow> u128 \<Rightarrow> decimal256 option"
  decimal_of_d :: "decimal256 \<Rightarrow> (string, decimal) res"
  conversion_overflow_text :: "decimal256 \<Rightarrow> string"
  decimal_from_atomics :: "u128 \<Rightarrow> u32 \<Rightarrow> (string, decimal) res"
  decimal_from_ratio :: "u128 \<Rightarrow> u128 \<Rightarrow> decimal option"
  to_uint :: "decimal256 \<Rightarrow> u8 \<Rightarrow> (string, u128) res"
  to_decimal256 :: "u128 \<Rightarrow> u8 \<Rightarrow> (std_error, decimal256) res"
  with_precision :: "u128 \<Rightarrow> u8 \<Rightarrow> (std_error, decimal256) res"
  to_decimal_asset :: "asset \<Rightarrow> u8 \<Rightarrow> (std_error, decimal_asset) res"
  into_asset :: "decimal_asset \<Rightarrow> u8 \<Rightarrow> (std_error, asset) res"
  d_to_string :: "decimal256 \<Rightarrow> string"
  MIN_TRADE_SIZE :: decimal256
  MINIMUM_LIQUIDITY_AMOUNT :: u128
  OBSERVATIONS_SIZE :: u32
  OFFER_PERCENT :: decimal256
  TWO :: decimal256
  info_to_string :: "asset_info \<Rightarrow> string"
  asset_to_string :: "asset \<Rightarrow> string"
  as_coin :: "asset \<Rightarrow> (std_error, coin) res"
  asset_into_msg :: "asset \<Rightarrow> addr \<Rightarrow> (std_error, unit) res"
    \<comment> \<open>whether \<open>into_msg\<close> returns; its message is kept as \<open>TransferAsset\<close>\<close>
  assert_sent_native_token_balance :: "asset \<Rightarrow> message_info \<Rightarrow> (std_error, unit) res"
  assert_coins_properly_sent :: "coin list \<Rightarrow> asset list \<Rightarrow> asset_info list \<Rightarrow> (std_error, unit) res"
  must_pay :: "message_info \<Rightarrow> string \<Rightarrow> (payment_error, u128) res"
  check_assets :: "asset list \<Rightarrow> (pcl_error, unit) res"
  decode_init_params :: "binary \<Rightarrow> (std_error, pcl_init_params) res"
  decode_update_params :: "binary \<Rightarrow> (std_error, pcl_update_params) res"
  decode_create_denom :: "binary \<Rightarrow> (std_error, string) res"
  default_pool_params :: pool_params
  default_amp_gamma :: amp_gamma
  amp_gamma_new :: "decimal \<Rightarrow> decimal \<Rightarrow> (pcl_error, amp_gamma) res"
  update_params :: "update_pool_params \<Rightarrow> pool_params \<Rightarrow> (pcl_error, pool_params) res"
  promote_params_fn :: "env \<Rightarrow> promote_params \<Rightarrow> pool_state \<Rightarrow> (pcl_error, pool_state) res"
  stop_promotion :: "env \<Rightarrow> pool_state \<Rightarrow> pool_state"
  get_amp_gamma :: "env \<Rightarrow> pool_state \<Rightarrow> amp_gamma option"
  update_price :: "pool_params \<Rightarrow> env \<Rightarrow> decimal256 \<Rightarrow> decimal256 list \<Rightarrow> decimal256 \<Rightarrow> pool_state
      \<Rightarrow> (std_error, pool_state) res"
  get_precision :: "precisions \<Rightarrow> asset_info \<Rightarrow> (pcl_error, u8) res"
  calc_d :: "decimal256 list \<Rightarrow> amp_gamma \<Rightarrow> (std_error, decimal256) res"
  get_xcp :: "decimal256 \<Rightarrow> decimal256 \<Rightarrow> decimal256 option"
  calc_provide_fee :: "decimal256 list \<Rightarrow> decimal256 list \<Rightarrow> pool_params \<Rightarrow> decimal256 option"
  assert_slippage_tolerance :: "decimal256 list \<Rightarrow> decimal256 \<Rightarrow> price_state \<Rightarrow> decimal option
      \<Rightarrow> (pcl_error, decimal256) res"
  assert_max_spread :: "decimal option \<Rightarrow> decimal option \<Rightarrow> u128 \<Rightarrow> u128 \<Rightarrow> u128 \<Rightarrow> (pcl_error, unit) res"
  before_swap_check :: "decimal_asset list \<Rightarrow> decimal256 \<Rightarrow> (pcl_error, unit) res"
  compute_swap :: "decimal256 list \<Rightarrow> decimal256 \<Rightarrow> nat \<Rightarrow> pcl_config \<Rightarrow> env \<Rightarrow> decimal256 \<Rightarrow> decimal256
      \<Rightarrow> (std_error, swap_result) res"
  compute_offer_amount :: "decimal256 list \<Rightarrow> decimal256 \<Rightarrow> nat \<Rightarrow> pcl_config \<Rightarrow> env
      \<Rightarrow> (std_error, decimal256 \<times> decimal256 \<times> decimal256) res"
  calc_last_price :: "swap_result \<Rightarrow> decimal256 \<Rightarrow> nat \<Rightarrow> decimal256 option"
  get_share_in_assets :: "decimal_asset list \<Rightarrow> u128 \<Rightarrow> u128 \<Rightarrow> decimal_asset list option"
  precommit_save :: "env \<Rightarrow> u128 \<Rightarrow> u128 \<Rightarrow> (std_error, precommit_observation) res"
  buffer_init :: "u32 \<Rightarrow> (buffer_error, observation_buffer) res"
  buffer_read_last :: "observation_buffer \<Rightarrow> (buffer_error, observation option) res"
  buffer_read_single :: "observation_buffer \<Rightarrow> u32 \<Rightarrow> (buffer_error, observation option) res"
  buffer_instant_push :: "observation_buffer \<Rightarrow> observation \<Rightarrow> (buffer_error, observation_buffer) res"
  safe_sma_calculation :: "decimal \<Rightarrow> decimal \<Rightarrow> u32 \<Rightarrow> decimal \<Rightarrow> (buffer_error, decimal) res"
  safe_sma_buffer_not_full :: "decimal \<Rightarrow> u32 \<Rightarrow> decimal \<Rightarrow> (buffer_error, decimal) res"
  query_observation :: "env \<Rightarrow> observation_buffer option \<Rightarrow> u64 \<Rightarrow> (std_error, u64 \<times> decimal) res"
  balance_at_height :: "balance_log \<Rightarrow> asset_info \<Rightarrow> u64 \<Rightarrow> (std_error, u128 option) res"
  std_error_to_string :: "std_error \<Rightarrow> string"
  payment_error_to_string :: "payment_error \<Rightarrow> string"
  overflow_error_text :: string
  buffer_uninitialised_text :: string

record pair_chain =
  pq_supply :: "string \<Rightarrow> (std_error, coin) res"
  pq_pools :: "pair_info \<Rightarrow> addr \<Rightarrow> (std_error, asset list) res"
    \<comment> \<open>\<open>PairInfo::query_pools\<close>: the balances of the pair's assets at an address\<close>
  pq_factory_owner :: "addr \<Rightarrow> (std_error, addr) res"
    \<comment> \<open>the owner in the factory's config\<close>
  pq_fee_info :: "addr \<Rightarrow> pair_type \<Rightarrow> (std_error, fee_info) res"
  pq_pair_registered :: "addr \<Rightarrow> asset_info list \<Rightarrow> (std_error, bool) res"
  pq_precisions :: "asset_info list \<Rightarrow> addr \<Rightarrow> (std_error, precisions) res"
    \<comment> \<open>the precisions that \<open>Precisions::store_precisions\<close> queries and stores\<close>

section \<open>Helpers\<close>

definition nth_opt :: "'a list \<Rightarrow> nat \<Rightarrow> 'a option" where
  \<comment> \<open>indexing, which panics out of range\<close>
  "nth_opt xs i = (if i < length xs then Some (xs ! i) else None)"

definition update_at :: "nat \<Rightarrow> ('a \<Rightarrow> 'a option) \<Rightarrow> 'a list \<Rightarrow> ('e, 'a list) res" where
  \<comment> \<open>\<open>xs[i] op= y\<close>, which panics out of range and where the operation panics\<close>
  "update_at i f xs =
     and_then (or_panic (nth_opt xs i)) (\<lambda>x. and_then (or_panic (f x)) (\<lambda>y. Inr (xs[i := y])))"

definition unwrap :: "('e, 'a) res \<Rightarrow> ('f, 'a) res" where
  "unwrap r = (case r of Inl _ \<Rightarrow> Inl Panic | Inr x \<Rightarrow> Inr x)"

lemma nth_opt_Some [simp]: "nth_opt xs i = Some x \<longleftrightarrow> i < length xs \<and> x = xs ! i"
  by (auto simp: nth_opt_def)

lemma nth_opt_Cons [simp]:
  "nth_opt (x # xs) 0 = Some x"
  "nth_opt (x # xs) (Suc i) = nth_opt xs i"
  "nth_opt (x # y # xs) 1 = Some y"
  by (simp_all add: nth_opt_def)

lemma update_at_returns [res_simps]:
  "update_at i f xs = Inr ys \<longleftrightarrow> i < length xs \<and> (\<exists>y. f (xs ! i) = Some y \<and> ys = xs[i := y])"
  by (auto simp: update_at_def res_simps)

lemma unwrap_returns [res_simps]: "unwrap r = Inr x \<longleftrightarrow> r = Inr x"
  by (auto simp: unwrap_def split: sum.splits)

definition into_msg :: "'a pcl_crates_scheme \<Rightarrow> asset \<Rightarrow> addr \<Rightarrow> (std_error, pair_msg) res" where
  "into_msg L asset receiver = and_then (asset_into_msg L asset receiver) (\<lambda>_. Inr (TransferAsset asset receiver))"

lemma into_msg_returns [res_simps]:
  "into_msg L a r = Inr m \<longleftrightarrow> asset_into_msg L a r = Inr () \<and> m = TransferAsset a r"
  by (auto simp: into_msg_def res_simps)

end
