(* ===== verification/Pair.thy ===== *)
theory Pair
  imports Pair_State
begin

text \<open>
  The pair contract's handlers (src/contracts/pair_concentrated/src: contract.rs, sudo.rs,
  utils.rs). Liquidity is provided and withdrawn by \<open>execute\<close>; a swap is dispatched to the
  chain's pool module and comes back as a \<open>sudo\<close> call, with its parameters carried over in the
  storage. Arithmetic is evaluated in the order of the source, and every operation that can
  panic does.
\<close>

unbundle bit_operations_syntax

definition CONTRACT_NAME :: string where "CONTRACT_NAME = ''astroport-pcl-osmo''"
definition CONTRACT_VERSION :: string where "CONTRACT_VERSION = ''1.0.3''"
definition FACTORY_ADDRESS :: addr where
  "FACTORY_ADDRESS = ''osmo1246fnsutktuqqzrru673pqwtt64n288004j5fauyuezwr54llw5sl6drp6''"
definition LP_SUBDENOM :: string where "LP_SUBDENOM = ''astroport/share''"
definition CREATE_DENOM_REPLY_ID :: u64 where "CREATE_DENOM_REPLY_ID = 1"
definition LP_TOKEN_PRECISION :: u8 where "LP_TOKEN_PRECISION = 6"

type_synonym pair_result = "(pair_error, pair_state \<times> pair_msg data_response) res"

definition pair_response :: "attribute list \<Rightarrow> pair_msg list \<Rightarrow> pair_msg data_response" where
  "pair_response attrs msgs = \<lparr>resp_attrs = attrs, resp_msgs = map submsg_new msgs, resp_data = None\<rparr>"

lemma pair_response_sel [simp]:
  "resp_attrs (pair_response attrs msgs) = attrs"
  "resp_msgs (pair_response attrs msgs) = map submsg_new msgs"
  "resp_data (pair_response attrs msgs) = None"
  by (simp_all add: pair_response_def)

abbreviation load_config :: "pair_state \<Rightarrow> (pair_error, pcl_config) res" where
  "load_config st \<equiv> map_err Std (load_item ''config'' (ps_config st))"

abbreviation load_precisions :: "pair_state \<Rightarrow> (pair_error, precisions) res" where
  "load_precisions st \<equiv> map_err Std (load_item ''precisions'' (ps_precisions st))"

abbreviation precision_of :: "'a pcl_crates_scheme \<Rightarrow> precisions \<Rightarrow> asset_info \<Rightarrow> (pair_error, u8) res" where
  "precision_of L precs i \<equiv> map_err PclError (get_precision L precs i)"

abbreviation uint_of :: "'a pcl_crates_scheme \<Rightarrow> decimal256 \<Rightarrow> u8 \<Rightarrow> (pair_error, u128) res" where
  "uint_of L d p \<equiv> map_err ConversionOverflowError (to_uint L d p)"

section \<open>utils.rs\<close>

definition query_native_supply :: "pair_chain \<Rightarrow> string \<Rightarrow> (std_error, u128) res" where
  "query_native_supply Q denom = and_then (pq_supply Q denom) (\<lambda>c. Inr (coin_amount c))"

definition pool_info :: "pair_chain \<Rightarrow> pcl_config \<Rightarrow> (std_error, asset list \<times> u128) res" where
  "pool_info Q config =
     and_then (pq_pools Q (cc_pair_info config) (pi_contract_addr (cc_pair_info config))) (\<lambda>pools.
     and_then (query_native_supply Q (lp_denom config)) (\<lambda>total_share.
     Inr (pools, total_share)))"

definition query_pools :: "'a pcl_crates_scheme \<Rightarrow> pair_chain \<Rightarrow> addr \<Rightarrow> pcl_config \<Rightarrow> precisions
    \<Rightarrow> (pair_error, decimal_asset list) res" where
  "query_pools L Q addr config precs =
     and_then (map_err Std (pq_pools Q (cc_pair_info config) addr)) (\<lambda>assets.
     try_map (\<lambda>asset. and_then (precision_of L precs (as_info asset)) (\<lambda>prec.
                map_err Std (to_decimal_asset L asset prec))) assets)"

definition decimal_supply :: "'a pcl_crates_scheme \<Rightarrow> pair_chain \<Rightarrow> string \<Rightarrow> (std_error, decimal256) res" where
  \<comment> \<open>\<open>query_native_supply(..)?.to_decimal256(LP_TOKEN_PRECISION)?\<close>\<close>
  "decimal_supply L Q denom =
     and_then (query_native_supply Q denom) (\<lambda>amount. to_decimal256 L amount LP_TOKEN_PRECISION)"

definition push_observation :: "'a pcl_crates_scheme \<Rightarrow> observation_buffer \<Rightarrow> observation \<Rightarrow> pair_state
    \<Rightarrow> (buffer_error, pair_state) res" where
  "push_observation L buffer obs st =
     and_then (buffer_instant_push L buffer obs) (\<lambda>buffer'. Inr (st\<lparr>ps_observations := Some buffer'\<rparr>))"

definition accumulate_swap_sizes :: "'a pcl_crates_scheme \<Rightarrow> env \<Rightarrow> pair_state \<Rightarrow> (buffer_error, pair_state) res" where
  "accumulate_swap_sizes L env st =
     (case ps_precommit st of
        None \<Rightarrow> Inr st
      | Some pc \<Rightarrow>
          and_then (ok_or (BufferErr (buffer_uninitialised_text L)) (ps_observations st)) (\<lambda>buffer.
          and_then (or_panic (decimal_from_ratio L (po_base_amount pc) (po_quote_amount pc))) (\<lambda>observed_price.
          and_then (buffer_read_last L buffer) (\<lambda>last.
          case last of
            Some last_obs \<Rightarrow>
              if ob_ts last_obs < po_precommit_ts pc then
                and_then (or_panic (add_checked (bf_head buffer) 1)) (\<lambda>next.
                and_then (buffer_read_single L buffer next) (\<lambda>oldest.
                and_then (case oldest of
                    Some oldest_obs \<Rightarrow> safe_sma_calculation L (ob_price_sma last_obs) (ob_price oldest_obs)
                                         (bf_capacity buffer) observed_price
                  | None \<Rightarrow> safe_sma_buffer_not_full L (ob_price_sma last_obs) (bf_head buffer) observed_price)
                (\<lambda>price_sma.
                push_observation L buffer
                  \<lparr>ob_ts = po_precommit_ts pc, ob_price = observed_price, ob_price_sma = price_sma\<rparr> st)))
              else Inr st
          | None \<Rightarrow>
              if po_precommit_ts pc < env_time env then
                push_observation L buffer
                  \<lparr>ob_ts = po_precommit_ts pc, ob_price = observed_price, ob_price_sma = observed_price\<rparr> st
              else Inr st))))"

section \<open>Instantiation and its reply\<close>

definition native_denoms :: "asset_info list \<Rightarrow> string list" where
  "native_denoms infos = concat (map (\<lambda>i. case i of Token a \<Rightarrow> [] | NativeToken denom \<Rightarrow> [denom]) infos)"

definition denom_exists :: "pair_chain \<Rightarrow> string \<Rightarrow> (pair_error, unit) res" where
  "denom_exists Q denom =
     and_then (map_err (\<lambda>_. Std (GenericErr (''Denom '' @ denom @ '' doesn'' @ [CHR 0x27] @ ''t exist on chain'')))
        (pq_supply Q denom)) (\<lambda>_. Inr ())"

definition save_balances :: "(asset_info \<times> u128) list \<Rightarrow> u64 \<Rightarrow> pair_state \<Rightarrow> pair_state" where
  \<comment> \<open>\<open>BALANCES.save\<close> for each of the assets, in order\<close>
  "save_balances bs height st = st\<lparr>ps_balances := ps_balances st @ map (\<lambda>(i, a). (i, a, height)) bs\<rparr>"

definition initial_config :: "'a pcl_crates_scheme \<Rightarrow> env \<Rightarrow> asset_info list \<Rightarrow> pcl_init_params \<Rightarrow> pool_params
    \<Rightarrow> amp_gamma \<Rightarrow> pcl_config" where
  "initial_config L env infos params pool_params future =
     (let price = d_of_decimal L (ip_price_scale params) in
      \<lparr>cc_pair_info = \<lparr>pi_asset_infos = infos, pi_contract_addr = env_contract env, pi_liquidity_token = '''',
         pi_pair_type = Custom ''concentrated''\<rparr>,
       cc_factory_addr = FACTORY_ADDRESS,
       cc_pool_params = pool_params,
       cc_pool_state = \<lparr>po_initial = default_amp_gamma L, po_future = future, po_future_time = env_time env,
         po_initial_time = 0,
         po_price_state = \<lparr>pp_oracle_price = price, pp_last_price = price, pp_price_scale = price,
           pp_updated_at = env_time env, pp_xcp_profit = decimal256_zero, pp_xcp_profit_real = decimal256_zero\<rparr>\<rparr>,
       cc_owner = None,
       cc_track_asset_balances = (case ip_track_asset_balances params of None \<Rightarrow> False | Some b \<Rightarrow> b),
       cc_fee_share = None\<rparr>)"

definition initial_updates :: "pcl_init_params \<Rightarrow> update_pool_params" where
  "initial_updates params =
     \<lparr>up_mid_fee = Some (ip_mid_fee params), up_out_fee = Some (ip_out_fee params),
      up_fee_gamma = Some (ip_fee_gamma params),
      up_repeg_profit_threshold = Some (ip_repeg_profit_threshold params),
      up_min_price_scale_delta = Some (ip_min_price_scale_delta params),
      up_ma_half_time = Some (ip_ma_half_time params)\<rparr>"

definition pair_instantiate :: "'a pcl_crates_scheme \<Rightarrow> pair_chain \<Rightarrow> env \<Rightarrow> pair_instantiate_msg \<Rightarrow> pair_state
    \<Rightarrow> pair_result" where
  "pair_instantiate L Q env msg st =
     (let infos = pim_asset_infos msg; denoms = native_denoms infos in
      and_then (ensure (length infos = 2) (Std (GenericErr ''asset_infos must contain two elements''))) (\<lambda>_.
      and_then (ensure (length denoms = 2) (Std (GenericErr ''CW20 tokens are not supported''))) (\<lambda>_.
      and_then (try_for_each (denom_exists Q) denoms) (\<lambda>_.
      and_then (ok_or InitParamsNotFound (pim_init_params msg)) (\<lambda>init_params.
      and_then (map_err Std (decode_init_params L init_params)) (\<lambda>params.
      and_then (ensure (ip_price_scale params \<noteq> decimal_zero)
                  (Std (GenericErr ''Initial price scale can not be zero''))) (\<lambda>_.
      let st1 = st\<lparr>ps_cw2 := Some (CONTRACT_NAME, CONTRACT_VERSION)\<rparr> in
      and_then (map_err Std (pq_precisions Q infos FACTORY_ADDRESS)) (\<lambda>precs.
      let st2 = st1\<lparr>ps_precisions := Some precs\<rparr> in
      and_then (map_err PclError (update_params L (initial_updates params) (default_pool_params L))) (\<lambda>pool_params.
      and_then (map_err PclError (amp_gamma_new L (ip_amp params) (ip_gamma params))) (\<lambda>future.
      let config = initial_config L env infos params pool_params future;
          st3 = (if cc_track_asset_balances config
                 then save_balances (map (\<lambda>i. (i, 0)) infos) (env_height env) st2 else st2);
          st4 = st3\<lparr>ps_config := Some config\<rparr>
      in and_then (map_err CircularBuffer (buffer_init L (OBSERVATIONS_SIZE L))) (\<lambda>buffer.
      Inr (st4\<lparr>ps_observations := Some buffer\<rparr>,
           \<lparr>resp_attrs = [(''asset_balances_tracking'',
              if cc_track_asset_balances config then ''enabled'' else ''disabled'')],
            resp_msgs = [\<lparr>sub_id = CREATE_DENOM_REPLY_ID,
              sub_msg = MsgCreateDenom (env_contract env) LP_SUBDENOM, sub_reply_on = OnSuccess\<rparr>],
            resp_data = None\<rparr>))))))))))))"

definition with_pair_info :: "(pair_info \<Rightarrow> pair_info) \<Rightarrow> pcl_config \<Rightarrow> pcl_config" where
  "with_pair_info f config = config\<lparr>cc_pair_info := f (cc_pair_info config)\<rparr>"

definition pair_reply :: "'a pcl_crates_scheme \<Rightarrow> u64 \<Rightarrow> binary \<Rightarrow> pair_state \<Rightarrow> pair_result" where
  "pair_reply L reply_id result st =
     (if reply_id = CREATE_DENOM_REPLY_ID then
        and_then (map_err Std (decode_create_denom L result)) (\<lambda>new_token_denom.
        and_then (load_config st) (\<lambda>config.
        if lp_denom config = '''' then
          Inr (st\<lparr>ps_config := Some (with_pair_info (\<lambda>i. i\<lparr>pi_liquidity_token := new_token_denom\<rparr>) config)\<rparr>,
               pair_response [(''lp_denom'', new_token_denom)] [])
        else fail_with (Std (GenericErr ''Liquidity token denom is already set''))))
      else fail_with (Std (GenericErr (''Unknown reply id: '' @ to_string reply_id))))"

definition set_pool_id :: "message_info \<Rightarrow> u64 \<Rightarrow> pair_state \<Rightarrow> pair_result" where
  "set_pool_id info pool_id st =
     (if mi_sender info \<noteq> FACTORY_ADDRESS then fail_with Unauthorized else
      case ps_pool_id st of
        None \<Rightarrow> Inr (st\<lparr>ps_pool_id := Some pool_id\<rparr>, pair_response [(''set_pool_id'', to_string pool_id)] [])
      | Some _ \<Rightarrow> fail_with PoolIdAlreadySet)"

section \<open>Providing liquidity\<close>

definition complete_assets :: "'a pcl_crates_scheme \<Rightarrow> pcl_config \<Rightarrow> asset list \<Rightarrow> (pair_error, asset list) res" where
  \<comment> \<open>an omitted asset is appended with the amount zero\<close>
  "complete_assets L config assets =
     (case assets of
        [] \<Rightarrow> fail_with (Std (GenericErr ''Nothing to provide''))
      | [a] \<Rightarrow>
          and_then (ok_or (InvalidAsset (info_to_string L (as_info a)))
             (find_position (\<lambda>pool. pool = as_info a) (asset_infos config))) (\<lambda>given_ind.
          and_then (or_panic (nth_opt (asset_infos config) (1 XOR given_ind))) (\<lambda>other.
          Inr [a, \<lparr>as_info = other, as_amount = 0\<rparr>]))
      | [a, b] \<Rightarrow> Inr [a, b]
      | _ \<Rightarrow> fail_with (InvalidNumberOfAssets (length (asset_infos config))))"

definition order_assets :: "decimal_asset list \<Rightarrow> asset list \<Rightarrow> (pair_error, asset list) res" where
  "order_assets pools assets =
     and_then (or_panic (nth_opt pools 0)) (\<lambda>pool0.
     and_then (or_panic (nth_opt assets 1)) (\<lambda>asset1.
     Inr (if da_info pool0 = as_info asset1 then (case assets of [a, b] \<Rightarrow> [b, a] | _ \<Rightarrow> assets) else assets)))"

definition deposit_of :: "'a pcl_crates_scheme \<Rightarrow> precisions \<Rightarrow> asset \<Rightarrow> (pair_error, decimal256) res" where
  "deposit_of L precs asset =
     and_then (precision_of L precs (as_info asset)) (\<lambda>prec. map_err Std (with_precision L (as_amount asset) prec))"

definition without_deposit :: "'a pcl_crates_scheme \<Rightarrow> decimal256 list \<Rightarrow> nat \<times> decimal_asset
    \<Rightarrow> (pair_error, decimal_asset) res" where
  \<comment> \<open>the deposit is already in the pool's balance: one step of the loop that subtracts it\<close>
  "without_deposit L deposits ip =
     (case ip of (i, pool) \<Rightarrow>
       case da_info pool of
         NativeToken _ \<Rightarrow>
           and_then (or_panic (nth_opt deposits i)) (\<lambda>deposit.
           and_then (ok_or OverflowError (d_sub L (da_amount pool) deposit)) (\<lambda>amount.
           Inr (pool\<lparr>da_amount := amount\<rparr>)))
       | Token _ \<Rightarrow> Inl Panic)"

definition scaled :: "'a pcl_crates_scheme \<Rightarrow> pcl_config \<Rightarrow> decimal256 list \<Rightarrow> (pair_error, decimal256 list) res" where
  \<comment> \<open>\<open>xs[1] *= price_scale\<close>\<close>
  "scaled L config xs = update_at 1 (\<lambda>x. d_mul L x (price_scale config)) xs"

definition with_price_state :: "(price_state \<Rightarrow> price_state) \<Rightarrow> pcl_config \<Rightarrow> pcl_config" where
  "with_price_state f config =
     config\<lparr>cc_pool_state := (cc_pool_state config)\<lparr>po_price_state := f (po_price_state (cc_pool_state config))\<rparr>\<rparr>"

definition first_share :: "'a pcl_crates_scheme \<Rightarrow> env \<Rightarrow> pcl_config \<Rightarrow> decimal256
    \<Rightarrow> (pair_error, decimal256 \<times> pcl_config \<times> pair_msg list) res" where
  \<comment> \<open>the share of the first provide: the minimum liquidity stays with the pair\<close>
  "first_share L env config new_d =
     and_then (or_panic (get_xcp L new_d (price_scale config))) (\<lambda>xcp.
     and_then (map_err Std (to_decimal256 L (MINIMUM_LIQUIDITY_AMOUNT L) LP_TOKEN_PRECISION)) (\<lambda>minimum.
     let mint_amount = d_sub_saturating L xcp minimum in
     if mint_amount = decimal256_zero then fail_with MinimumLiquidityAmountError else
     Inr (mint_amount,
          with_price_state (\<lambda>p. p\<lparr>pp_xcp_profit_real := decimal256_one, pp_xcp_profit := decimal256_one\<rparr>) config,
          [MsgMint (env_contract env) \<lparr>coin_denom = lp_denom config, coin_amount = MINIMUM_LIQUIDITY_AMOUNT L\<rparr>
             (env_contract env)])))"

definition later_share :: "'a pcl_crates_scheme \<Rightarrow> pcl_config \<Rightarrow> amp_gamma \<Rightarrow> decimal_asset list \<Rightarrow> decimal256 list
    \<Rightarrow> decimal256 \<Rightarrow> decimal256 list \<Rightarrow> decimal256 \<Rightarrow> (pair_error, decimal256) res" where
  "later_share L config ag pools deposits total_share new_xp new_d =
     and_then (scaled L config (map da_amount pools)) (\<lambda>old_xp.
     and_then (map_err Std (calc_d L old_xp ag)) (\<lambda>old_d.
     and_then (or_panic (d_mul L total_share new_d)) (\<lambda>product.
     and_then (or_panic (d_div L product old_d)) (\<lambda>quotient.
     let share = d_sub_saturating L quotient total_share in
     and_then (scaled L config deposits) (\<lambda>ideposits.
     and_then (or_panic (calc_provide_fee L ideposits new_xp (cc_pool_params config))) (\<lambda>fee.
     and_then (or_panic (d_sub L decimal256_one fee)) (\<lambda>kept.
     or_panic (d_mul L share kept))))))))"

definition rebalance :: "'a pcl_crates_scheme \<Rightarrow> env \<Rightarrow> pcl_config \<Rightarrow> decimal256 list \<Rightarrow> decimal256 list \<Rightarrow> decimal256
    \<Rightarrow> decimal256 \<Rightarrow> decimal option \<Rightarrow> (pair_error, decimal256 \<times> pcl_config) res" where
  \<comment> \<open>the slippage, and the price update of a deposit that diverges from the balanced share\<close>
  "rebalance L env config deposits new_xp total_share share slippage_tolerance =
     and_then (or_panic (d_add L total_share share)) (\<lambda>new_total.
     and_then (or_panic (d_div L share new_total)) (\<lambda>share_ratio.
     and_then (or_panic (d_mul L (new_xp ! 0) share_ratio)) (\<lambda>balanced0.
     and_then (or_panic (d_mul L (new_xp ! 1) share_ratio)) (\<lambda>scaled1.
     and_then (or_panic (d_div L scaled1 (price_scale config))) (\<lambda>balanced1.
     let diff0 = d_diff L (deposits ! 0) balanced0; diff1 = d_diff L (deposits ! 1) balanced1 in
     if MIN_TRADE_SIZE L \<le> diff0 \<and> MIN_TRADE_SIZE L \<le> diff1 then
       and_then (map_err PclError (assert_slippage_tolerance L deposits share
                   (po_price_state (cc_pool_state config)) slippage_tolerance)) (\<lambda>slippage.
       and_then (or_panic (d_div L diff0 diff1)) (\<lambda>last_price.
       and_then (map_err Std (update_price L (cc_pool_params config) env new_total new_xp last_price
                   (cc_pool_state config))) (\<lambda>pool_state.
       Inr (slippage, config\<lparr>cc_pool_state := pool_state\<rparr>))))
     else Inr (decimal256_zero, config))))))"

definition provided_balance :: "'a pcl_crates_scheme \<Rightarrow> precisions \<Rightarrow> decimal256 list \<Rightarrow> nat \<times> decimal_asset
    \<Rightarrow> (pair_error, asset_info \<times> u128) res" where
  \<comment> \<open>the balance saved for one pool after a provide\<close>
  "provided_balance L precs deposits ip =
     (case ip of (i, pool) \<Rightarrow>
       and_then (or_panic (nth_opt deposits i)) (\<lambda>deposit.
       and_then (ok_or OverflowError (d_add L (da_amount pool) deposit)) (\<lambda>amount.
       and_then (precision_of L precs (da_info pool)) (\<lambda>prec.
       and_then (uint_of L amount prec) (\<lambda>n. Inr (da_info pool, n))))))"

definition provide_liquidity :: "'a pcl_crates_scheme \<Rightarrow> pair_chain \<Rightarrow> env \<Rightarrow> message_info \<Rightarrow> asset list
    \<Rightarrow> decimal option \<Rightarrow> string option \<Rightarrow> pair_state \<Rightarrow> pair_result" where
  "provide_liquidity L Q env info assets slippage_tolerance receiver st =
     and_then (map_err PclError (check_assets L assets)) (\<lambda>_.
     and_then (load_config st) (\<lambda>config.
     and_then (map_err Std (pq_pair_registered Q (cc_factory_addr config) (asset_infos config))) (\<lambda>registered.
     if \<not> registered then fail_with PairIsNotRegistered else
     and_then (complete_assets L config assets) (\<lambda>assets1.
     and_then (map_err Std (assert_coins_properly_sent L (mi_funds info) assets1 (asset_infos config))) (\<lambda>_.
     and_then (load_precisions st) (\<lambda>precs.
     and_then (query_pools L Q (env_contract env) config precs) (\<lambda>pools0.
     and_then (order_assets pools0 assets1) (\<lambda>assets2.
     and_then (try_map (deposit_of L precs) assets2) (\<lambda>deposits.
     and_then (map_err Std (decimal_supply L Q (lp_denom config))) (\<lambda>total_share.
     if total_share = decimal256_zero \<and> (deposits ! 0 = decimal256_zero \<or> deposits ! 1 = decimal256_zero)
     then fail_with InvalidZeroAmount else
     and_then (try_map (without_deposit L deposits) (List.enumerate 0 pools0)) (\<lambda>pools.
     and_then (try_map (\<lambda>(i, pool). and_then (or_panic (nth_opt deposits i)) (\<lambda>d. or_panic (d_add L (da_amount pool) d)))
        (List.enumerate 0 pools)) (\<lambda>sums.
     and_then (scaled L config sums) (\<lambda>new_xp.
     and_then (or_panic (get_amp_gamma L env (cc_pool_state config))) (\<lambda>ag.
     and_then (map_err Std (calc_d L new_xp ag)) (\<lambda>new_d.
     and_then (if total_share = decimal256_zero then first_share L env config new_d
               else and_then (later_share L config ag pools deposits total_share new_xp new_d)
                      (\<lambda>share. Inr (share, config, []))) (\<lambda>(share, config1, mints).
     and_then (rebalance L env config1 deposits new_xp total_share share slippage_tolerance) (\<lambda>(slippage, config2).
     and_then (uint_of L share LP_TOKEN_PRECISION) (\<lambda>share_uint128.
     and_then (map_err Std (addr_opt_validate L receiver)) (\<lambda>validated.
     let receiver = (case validated of None \<Rightarrow> mi_sender info | Some a \<Rightarrow> a);
         msgs = mints @ [MsgMint (env_contract env)
                  \<lparr>coin_denom = lp_denom config2, coin_amount = share_uint128\<rparr> receiver] in
     and_then (if cc_track_asset_balances config2
               then and_then (try_map (provided_balance L precs deposits) (List.enumerate 0 pools))
                      (\<lambda>bs. Inr (save_balances bs (env_height env) st))
               else Inr st) (\<lambda>st1.
     Inr (st1\<lparr>ps_config := Some config2\<rparr>,
          pair_response [(''action'', ''provide_liquidity''), (''sender'', mi_sender info), (''receiver'', receiver),
            (''assets'', asset_to_string L (assets2 ! 0) @ '', '' @ asset_to_string L (assets2 ! 1)),
            (''share'', to_string share_uint128), (''slippage'', d_to_string L slippage)] msgs)))))))))))))))))))))"

section \<open>Withdrawing liquidity\<close>

definition refund_of :: "'a pcl_crates_scheme \<Rightarrow> precisions \<Rightarrow> decimal_asset \<Rightarrow> (pair_error, asset) res" where
  "refund_of L precs asset =
     and_then (unwrap (get_precision L precs (da_info asset))) (\<lambda>prec. map_err Std (into_asset L asset prec))"

definition withdrawn_balance :: "'a pcl_crates_scheme \<Rightarrow> precisions \<Rightarrow> asset list \<Rightarrow> nat \<times> decimal_asset
    \<Rightarrow> (pair_error, asset_info \<times> u128) res" where
  \<comment> \<open>the balance saved for one pool after a withdrawal\<close>
  "withdrawn_balance L precs refunds ip =
     (case ip of (i, pool) \<Rightarrow>
       and_then (precision_of L precs (da_info pool)) (\<lambda>prec.
       and_then (uint_of L (da_amount pool) prec) (\<lambda>n.
       and_then (or_panic (nth_opt refunds i)) (\<lambda>refund.
       and_then (ok_or OverflowError (sub_checked n (as_amount refund))) (\<lambda>left.
       Inr (da_info pool, left))))))"

definition join_comma :: "string list \<Rightarrow> string" where
  "join_comma xs = (case xs of [] \<Rightarrow> [] | y # ys \<Rightarrow> y @ concat (map (\<lambda>z. '', '' @ z) ys))"

definition withdraw_liquidity :: "'a pcl_crates_scheme \<Rightarrow> pair_chain \<Rightarrow> env \<Rightarrow> message_info \<Rightarrow> asset list
    \<Rightarrow> pair_state \<Rightarrow> pair_result" where
  "withdraw_liquidity L Q env info assets st =
     and_then (load_config st) (\<lambda>config.
     and_then (map_err PaymentError (must_pay L info (lp_denom config))) (\<lambda>amount.
     and_then (load_precisions st) (\<lambda>precs.
     and_then (query_pools L Q (pi_contract_addr (cc_pair_info config)) config precs) (\<lambda>pools.
     and_then (map_err Std (query_native_supply Q (lp_denom config))) (\<lambda>total_share.
     if assets \<noteq> [] then fail_with (Std (GenericErr ''Imbalanced withdraw is currently disabled'')) else
     and_then (or_panic (get_share_in_assets L pools (sub_saturating amount 1) total_share)) (\<lambda>refund_decs.
     and_then (or_panic (nth_opt refund_decs 0)) (\<lambda>refund0.
     and_then (update_at 0 (\<lambda>x. d_sub L x (da_amount refund0)) (map da_amount pools)) (\<lambda>xs0.
     and_then (or_panic (nth_opt refund_decs 1)) (\<lambda>refund1.
     and_then (update_at 1 (\<lambda>x. d_sub L x (da_amount refund1)) xs0) (\<lambda>xs1.
     and_then (scaled L config xs1) (\<lambda>xs.
     and_then (or_panic (get_amp_gamma L env (cc_pool_state config))) (\<lambda>ag.
     and_then (map_err Std (calc_d L xs ag)) (\<lambda>d.
     and_then (or_panic (get_xcp L d (price_scale config))) (\<lambda>xcp.
     and_then (or_panic (sub_checked total_share amount)) (\<lambda>left.
     and_then (map_err Std (to_decimal256 L left LP_TOKEN_PRECISION)) (\<lambda>left_dec.
     and_then (or_panic (d_div L xcp left_dec)) (\<lambda>profit.
     let config1 = with_price_state (\<lambda>p. p\<lparr>pp_xcp_profit_real := profit\<rparr>) config in
     and_then (try_map (refund_of L precs) refund_decs) (\<lambda>refunds.
     and_then (map_err Std (try_map (\<lambda>a. into_msg L a (mi_sender info)) refunds)) (\<lambda>sends.
     let msgs = sends @ [MsgBurn (env_contract env) \<lparr>coin_denom = lp_denom config, coin_amount = amount\<rparr>
                           (env_contract env)] in
     and_then (if cc_track_asset_balances config1
               then and_then (try_map (withdrawn_balance L precs refunds) (List.enumerate 0 pools))
                      (\<lambda>bs. Inr (save_balances bs (env_height env) st))
               else Inr st) (\<lambda>st1.
     Inr (st1\<lparr>ps_config := Some config1\<rparr>,
          pair_response [(''action'', ''withdraw_liquidity''), (''receiver'', mi_sender info),
            (''withdrawn_share'', to_string amount),
            (''refund_assets'', join_comma (map (asset_to_string L) refunds))] msgs)))))))))))))))))))))"

section \<open>Swaps\<close>

definition execute_swap :: "'a pcl_crates_scheme \<Rightarrow> env \<Rightarrow> message_info \<Rightarrow> asset \<Rightarrow> decimal option \<Rightarrow> decimal option
    \<Rightarrow> string option \<Rightarrow> pair_state \<Rightarrow> pair_result" where
  "execute_swap L env info offer_asset belief_price max_spread to st =
     and_then (map_err Std (assert_sent_native_token_balance L offer_asset info)) (\<lambda>_.
     and_then (load_config st) (\<lambda>config.
     if as_info offer_asset \<notin> set (asset_infos config)
     then fail_with (InvalidAsset (info_to_string L (as_info offer_asset))) else
     and_then (or_panic (find_position (\<lambda>asset. asset = as_info offer_asset) (asset_infos config))) (\<lambda>offer_ind.
     and_then (or_panic (nth_opt (asset_infos config) (1 XOR offer_ind))) (\<lambda>ask_info.
     and_then (map_err Std (addr_opt_validate L to)) (\<lambda>to'.
     let st1 = st\<lparr>ps_swap_params := Some \<lparr>sp_belief_price = belief_price, sp_max_spread = max_spread,
                    sp_sender = mi_sender info, sp_to = to'\<rparr>\<rparr> in
     and_then (map_err Std (load_item ''pool_id'' (ps_pool_id st1))) (\<lambda>pool_id.
     and_then (map_err Std (as_coin L offer_asset)) (\<lambda>token_in.
     Inr (st1, pair_response [(''action'', ''dispatch_swap'')]
       [MsgSwapExactAmountIn (env_contract env)
          [\<lparr>sa_pool_id = pool_id, sa_token_out_denom = info_to_string L ask_info\<rparr>] token_in ''1'']))))))))"

definition maker_fee_share :: "'a pcl_crates_scheme \<Rightarrow> fee_info \<Rightarrow> decimal256" where
  "maker_fee_share L fees =
     (case fi_fee_address fees of None \<Rightarrow> decimal256_zero | Some _ \<Rightarrow> d_of_decimal L (fi_maker_fee_rate fees))"

definition swapped_reserves :: "'a pcl_crates_scheme \<Rightarrow> nat \<Rightarrow> nat \<Rightarrow> decimal256 \<Rightarrow> swap_result \<Rightarrow> decimal256 list
    \<Rightarrow> (pair_error, decimal256 list) res" where
  \<comment> \<open>\<open>xs[offer_ind] += offer; xs[ask_ind] -= dy + maker_fee\<close>\<close>
  "swapped_reserves L offer_ind ask_ind offer r xs =
     and_then (update_at offer_ind (\<lambda>x. d_add L x offer) xs) (\<lambda>xs1.
     and_then (or_panic (d_add L (sr_dy r) (sr_maker_fee r))) (\<lambda>out.
     update_at ask_ind (\<lambda>x. d_sub L x out) xs1))"

definition repeg_after_swap :: "'a pcl_crates_scheme \<Rightarrow> env \<Rightarrow> pcl_config \<Rightarrow> nat \<Rightarrow> decimal256 \<Rightarrow> swap_result
    \<Rightarrow> decimal256 \<Rightarrow> decimal256 list \<Rightarrow> (pair_error, pcl_config) res" where
  \<comment> \<open>the price update, skipped for very small trades\<close>
  "repeg_after_swap L env config offer_ind offer r total_share xs =
     and_then (or_panic (d_add L (sr_dy r) (sr_maker_fee r))) (\<lambda>out.
     and_then (or_panic (d_add L out (sr_share_fee r))) (\<lambda>out'.
     if MIN_TRADE_SIZE L \<le> out' \<and> MIN_TRADE_SIZE L \<le> offer then
       and_then (or_panic (calc_last_price L r offer offer_ind)) (\<lambda>last_price.
       and_then (scaled L config xs) (\<lambda>ixs.
       and_then (map_err Std (update_price L (cc_pool_params config) env total_share ixs last_price
                   (cc_pool_state config))) (\<lambda>pool_state.
       Inr (config\<lparr>cc_pool_state := pool_state\<rparr>))))
     else Inr config))"

definition maker_fee_payment :: "'a pcl_crates_scheme \<Rightarrow> fee_info \<Rightarrow> asset_info \<Rightarrow> u8 \<Rightarrow> swap_result
    \<Rightarrow> (pair_error, u128 \<times> pair_msg list) res" where
  "maker_fee_payment L fees ask_info ask_prec r =
     (case fi_fee_address fees of
        None \<Rightarrow> Inr (0, [])
      | Some fee_address \<Rightarrow>
          and_then (uint_of L (sr_maker_fee r) ask_prec) (\<lambda>maker_fee.
          if maker_fee \<noteq> 0 then
            and_then (map_err Std (into_msg L \<lparr>as_info = ask_info, as_amount = maker_fee\<rparr> fee_address)) (\<lambda>m.
            Inr (maker_fee, [m]))
          else Inr (maker_fee, [])))"

definition save_precommit :: "'a pcl_crates_scheme \<Rightarrow> env \<Rightarrow> nat \<Rightarrow> decimal256 \<Rightarrow> swap_result \<Rightarrow> u128 \<Rightarrow> u128
    \<Rightarrow> pair_state \<Rightarrow> (pair_error, pair_state) res" where
  "save_precommit L env offer_ind offer r offer_amount return_amount st =
     (if MIN_TRADE_SIZE L \<le> offer \<and> MIN_TRADE_SIZE L \<le> sr_dy r then
        let (base_amount, quote_amount) = (if offer_ind = 0 then (offer_amount, return_amount)
                                           else (return_amount, offer_amount)) in
        and_then (map_err Std (precommit_save L env base_amount quote_amount)) (\<lambda>pc.
        Inr (st\<lparr>ps_precommit := Some pc\<rparr>))
      else Inr st)"

definition internal_swap :: "'a pcl_crates_scheme \<Rightarrow> pair_chain \<Rightarrow> env \<Rightarrow> addr \<Rightarrow> asset \<Rightarrow> decimal option
    \<Rightarrow> decimal option \<Rightarrow> addr option \<Rightarrow> pair_state \<Rightarrow> pair_result" where
  "internal_swap L Q env sender offer_asset belief_price max_spread to st =
     and_then (load_precisions st) (\<lambda>precs.
     and_then (precision_of L precs (as_info offer_asset)) (\<lambda>offer_prec.
     and_then (map_err Std (to_decimal_asset L offer_asset offer_prec)) (\<lambda>offer_dec.
     and_then (load_config st) (\<lambda>config.
     and_then (query_pools L Q (env_contract env) config precs) (\<lambda>pools0.
     and_then (ok_or (InvalidAsset (info_to_string L (da_info offer_dec)))
        (find_position (\<lambda>asset. da_info asset = da_info offer_dec) pools0)) (\<lambda>offer_ind.
     let ask_ind = 1 XOR offer_ind in
     and_then (or_panic (nth_opt pools0 ask_ind)) (\<lambda>ask_pool.
     and_then (precision_of L precs (da_info ask_pool)) (\<lambda>ask_prec.
     and_then (update_at offer_ind (\<lambda>p. map_option (\<lambda>a. p\<lparr>da_amount := a\<rparr>)
        (d_sub L (da_amount p) (da_amount offer_dec))) pools0) (\<lambda>pools.
     and_then (map_err PclError (before_swap_check L pools (da_amount offer_dec))) (\<lambda>_.
     let xs0 = map da_amount pools in
     and_then (map_err Std (pq_fee_info Q (cc_factory_addr config) (pi_pair_type (cc_pair_info config)))) (\<lambda>fees.
     and_then (map_err Std (compute_swap L xs0 (da_amount offer_dec) ask_ind config env
        (maker_fee_share L fees) decimal256_zero)) (\<lambda>r.
     and_then (swapped_reserves L offer_ind ask_ind (da_amount offer_dec) r xs0) (\<lambda>xs.
     and_then (uint_of L (sr_dy r) ask_prec) (\<lambda>return_amount.
     and_then (uint_of L (sr_spread_fee r) ask_prec) (\<lambda>spread_amount.
     and_then (map_err PclError (assert_max_spread L belief_price max_spread (as_amount offer_asset)
        return_amount spread_amount)) (\<lambda>_.
     and_then (map_err Std (decimal_supply L Q (lp_denom config))) (\<lambda>total_share.
     and_then (repeg_after_swap L env config offer_ind (da_amount offer_dec) r total_share xs) (\<lambda>config1.
     let receiver = (case to of None \<Rightarrow> sender | Some a \<Rightarrow> a) in
     and_then (map_err Std (into_msg L \<lparr>as_info = da_info ask_pool, as_amount = return_amount\<rparr> receiver)) (\<lambda>pay.
     and_then (maker_fee_payment L fees (da_info ask_pool) ask_prec r) (\<lambda>(maker_fee, fee_msgs).
     and_then (map_err CircularBuffer (accumulate_swap_sizes L env st)) (\<lambda>st1.
     and_then (save_precommit L env offer_ind (da_amount offer_dec) r (as_amount offer_asset) return_amount st1) (\<lambda>st2.
     let st3 = st2\<lparr>ps_config := Some config1\<rparr> in
     and_then (if cc_track_asset_balances config1 then
          and_then (or_panic (nth_opt pools offer_ind)) (\<lambda>offer_pool.
          and_then (or_panic (d_add L (da_amount offer_pool) (da_amount offer_dec))) (\<lambda>offer_total.
          and_then (uint_of L offer_total offer_prec) (\<lambda>offer_balance.
          and_then (uint_of L (da_amount ask_pool) ask_prec) (\<lambda>ask_total.
          and_then (or_panic (sub_checked ask_total return_amount)) (\<lambda>rest.
          and_then (or_panic (sub_checked rest maker_fee)) (\<lambda>ask_balance.
          Inr (save_balances [(da_info offer_pool, offer_balance), (da_info ask_pool, ask_balance)]
                 (env_height env) st3)))))))
        else Inr st3) (\<lambda>st4.
     and_then (uint_of L (sr_total_fee r) ask_prec) (\<lambda>commission.
     Inr (st4,
       \<lparr>resp_attrs = [(''action'', ''swap''), (''sender'', sender), (''receiver'', receiver),
          (''offer_asset'', info_to_string L (da_info offer_dec)), (''ask_asset'', info_to_string L (da_info ask_pool)),
          (''offer_amount'', to_string (as_amount offer_asset)), (''return_amount'', to_string return_amount),
          (''spread_amount'', to_string spread_amount), (''commission_amount'', to_string commission),
          (''maker_fee_amount'', to_string maker_fee)],
        resp_msgs = map submsg_new (pay # fee_msgs),
        resp_data = Some (SwapExactAmountInResponseData return_amount)\<rparr>)))))))))))))))))))))))))"

section \<open>sudo.rs\<close>

definition swap_exact_amount_out :: "'a pcl_crates_scheme \<Rightarrow> pair_chain \<Rightarrow> env \<Rightarrow> string \<Rightarrow> string \<Rightarrow> u128 \<Rightarrow> coin
    \<Rightarrow> pair_state \<Rightarrow> pair_result" where
  "swap_exact_amount_out L Q env sender token_in_denom token_in_max_amount token_out st =
     (if token_in_denom = coin_denom token_out
      then fail_with (Std (GenericErr (''Invalid swap: '' @ token_in_denom @ '' to '' @ token_in_denom))) else
     and_then (load_config st) (\<lambda>config.
     and_then (load_precisions st) (\<lambda>precs.
     let ask_info = NativeToken (coin_denom token_out) in
     and_then (precision_of L precs ask_info) (\<lambda>ask_prec.
     and_then (map_err Std (to_decimal256 L (coin_amount token_out) ask_prec)) (\<lambda>ask_amount_dec.
     and_then (map_err Std (pq_pools Q (cc_pair_info config) (env_contract env))) (\<lambda>pools0.
     and_then (ensure (coin_amount token_out \<noteq> 0) (Std (GenericErr ''Token out amount must not be zero''))) (\<lambda>_.
     and_then (ensure (list_all (\<lambda>a. as_amount a \<noteq> 0) pools0) (Std (GenericErr ''One of the pools is empty''))) (\<lambda>_.
     and_then (ok_or (InvalidAsset (info_to_string L ask_info))
        (find_position (\<lambda>asset. as_info asset = ask_info) pools0)) (\<lambda>ask_ind.
     and_then (ok_or (InvalidAsset token_in_denom)
        (find_position (\<lambda>asset. as_info asset = NativeToken token_in_denom) pools0)) (\<lambda>offer_ind.
     and_then (precision_of L precs (as_info (pools0 ! offer_ind))) (\<lambda>offer_prec0.
     and_then (update_at offer_ind (\<lambda>p. map_option (\<lambda>a. p\<lparr>as_amount := a\<rparr>)
        (sub_checked (as_amount p) token_in_max_amount)) pools0) (\<lambda>pools.
     and_then (try_map (\<lambda>asset. and_then (precision_of L precs (as_info asset)) (\<lambda>prec.
        map_err Std (to_decimal256 L (as_amount asset) prec))) pools) (\<lambda>xs0.
     and_then (map_err Std (compute_offer_amount L xs0 ask_amount_dec ask_ind config env)) (\<lambda>(needed, _, _).
     and_then (uint_of L needed offer_prec0) (\<lambda>offer_amount.
     and_then (ensure (offer_amount \<le> token_in_max_amount)
        (Std (GenericErr (''Not enough tokens to perform swap. Need '' @ to_string offer_amount @
           '' but token_in_max_amount is '' @ to_string token_in_max_amount)))) (\<lambda>_.
     let offer_asset = \<lparr>as_info = as_info (pools ! offer_ind), as_amount = offer_amount\<rparr> in
     and_then (precision_of L precs (as_info offer_asset)) (\<lambda>offer_prec.
     and_then (map_err Std (to_decimal_asset L offer_asset offer_prec)) (\<lambda>offer_dec.
     and_then (map_err Std (pq_fee_info Q (cc_factory_addr config) (pi_pair_type (cc_pair_info config)))) (\<lambda>fees.
     and_then (map_err Std (compute_swap L xs0 (da_amount offer_dec) ask_ind config env
        (maker_fee_share L fees) decimal256_zero)) (\<lambda>r.
     and_then (swapped_reserves L offer_ind ask_ind (da_amount offer_dec) r xs0) (\<lambda>xs.
     and_then (uint_of L (sr_dy r) ask_prec) (\<lambda>return_amount.
     and_then (uint_of L (sr_spread_fee r) ask_prec) (\<lambda>spread_amount.
     and_then (map_err Std (decimal_supply L Q (lp_denom config))) (\<lambda>total_share.
     and_then (repeg_after_swap L env config offer_ind (da_amount offer_dec) r total_share xs) (\<lambda>config1.
     let pool_ask_info = as_info (pools ! ask_ind) in
     and_then (map_err Std (into_msg L \<lparr>as_info = pool_ask_info, as_amount = return_amount\<rparr> sender)) (\<lambda>pay.
     and_then (maker_fee_payment L fees pool_ask_info ask_prec r) (\<lambda>(maker_fee, fee_msgs).
     and_then (map_err CircularBuffer (accumulate_swap_sizes L env st)) (\<lambda>st1.
     and_then (save_precommit L env offer_ind (da_amount offer_dec) r (as_amount offer_asset) return_amount st1) (\<lambda>st2.
     let st3 = st2\<lparr>ps_config := Some config1\<rparr> in
     and_then (if cc_track_asset_balances config1 then
          and_then (uint_of L (da_amount offer_dec) offer_prec) (\<lambda>offered.
          and_then (or_panic (add_checked (as_amount (pools ! offer_ind)) offered)) (\<lambda>offer_balance.
          and_then (or_panic (sub_checked (as_amount (pools ! ask_ind)) return_amount)) (\<lambda>rest.
          and_then (or_panic (sub_checked rest maker_fee)) (\<lambda>ask_balance.
          Inr (save_balances [(as_info (pools ! offer_ind), offer_balance), (pool_ask_info, ask_balance)]
                 (env_height env) st3)))))
        else Inr st3) (\<lambda>st4.
     and_then (uint_of L (sr_total_fee r) ask_prec) (\<lambda>commission.
     Inr (st4,
       \<lparr>resp_attrs = [(''method'', ''swap_exact_amount_out''), (''sender'', sender),
          (''offer_asset'', info_to_string L (as_info offer_asset)), (''ask_asset'', info_to_string L ask_info),
          (''offer_amount'', to_string (as_amount offer_asset)), (''return_amount'', to_string return_amount),
          (''spread_amount'', to_string spread_amount), (''commission_amount'', to_string commission),
          (''maker_fee_amount'', to_string maker_fee)],
        resp_msgs = map submsg_new (pay # fee_msgs),
        resp_data = Some (SwapExactAmountOutResponseData (as_amount offer_asset))\<rparr>))))))))))))))))))))))))))))))))"

definition sudo_swap_exact_amount_in :: "'a pcl_crates_scheme \<Rightarrow> pair_chain \<Rightarrow> env \<Rightarrow> string \<Rightarrow> coin \<Rightarrow> u128
    \<Rightarrow> pair_state \<Rightarrow> pair_result" where
  "sudo_swap_exact_amount_in L Q env sender token_in token_out_min_amount st =
     and_then (map_err Std (addr_validate L sender)) (\<lambda>validated.
     let offer_asset = \<lparr>as_info = NativeToken (coin_denom token_in), as_amount = coin_amount token_in\<rparr> in
     and_then (or_panic (decimal_from_ratio L (coin_amount token_in) token_out_min_amount)) (\<lambda>ratio.
     let (st1, sender', belief_price, max_spread, to) =
       (case ps_swap_params st of
          Some p \<Rightarrow> (st\<lparr>ps_swap_params := None\<rparr>, sp_sender p, sp_belief_price p, sp_max_spread p, sp_to p)
        | None \<Rightarrow> (st, validated, Some ratio, Some decimal_zero, None)) in
     and_then (internal_swap L Q env sender' offer_asset belief_price max_spread to st1) (\<lambda>(st2, resp).
     Inr (st2, resp\<lparr>resp_attrs := resp_attrs resp @ [(''method'', ''swap_exact_amount_in'')]\<rparr>))))"

definition sudo :: "'a pcl_crates_scheme \<Rightarrow> pair_chain \<Rightarrow> env \<Rightarrow> sudo_msg \<Rightarrow> pair_state \<Rightarrow> pair_result" where
  "sudo L Q env msg st =
     (case msg of
        SwapExactAmountIn sender token_in _ token_out_min_amount _ \<Rightarrow>
          sudo_swap_exact_amount_in L Q env sender token_in token_out_min_amount st
      | SwapExactAmountOut sender token_in_denom token_in_max_amount token_out _ \<Rightarrow>
          swap_exact_amount_out L Q env sender token_in_denom token_in_max_amount token_out st
      | SetActive _ \<Rightarrow> Inl Panic)"

section \<open>Configuration, ownership, migration and the execute entry point\<close>

definition pair_update_config :: "'a pcl_crates_scheme \<Rightarrow> pair_chain \<Rightarrow> env \<Rightarrow> message_info \<Rightarrow> binary \<Rightarrow> pair_state
    \<Rightarrow> pair_result" where
  "pair_update_config L Q env info params st =
     and_then (load_config st) (\<lambda>config.
     and_then (map_err Std (pq_factory_owner Q (cc_factory_addr config))) (\<lambda>factory_owner.
     let owner = (case cc_owner config of None \<Rightarrow> factory_owner | Some a \<Rightarrow> a) in
     if mi_sender info \<noteq> owner then fail_with Unauthorized else
     and_then (map_err Std (decode_update_params L params)) (\<lambda>decoded.
     and_then (case decoded of
         Update u \<Rightarrow>
           and_then (map_err PclError (update_params L u (cc_pool_params config))) (\<lambda>pp.
           Inr (st, config\<lparr>cc_pool_params := pp\<rparr>, ''update_params''))
       | Promote p \<Rightarrow>
           and_then (map_err PclError (promote_params_fn L env p (cc_pool_state config))) (\<lambda>ps.
           Inr (st, config\<lparr>cc_pool_state := ps\<rparr>, ''promote_params''))
       | StopChangingAmpGamma \<Rightarrow>
           Inr (st, config\<lparr>cc_pool_state := stop_promotion L env (cc_pool_state config)\<rparr>, ''stop_changing_amp_gamma'')
       | EnableAssetBalancesTracking \<Rightarrow>
           if cc_track_asset_balances config then fail_with AssetBalancesTrackingIsAlreadyEnabled else
           let config' = config\<lparr>cc_track_asset_balances := True\<rparr> in
           and_then (map_err Std (pq_pools Q (cc_pair_info config') (pi_contract_addr (cc_pair_info config')))) (\<lambda>pools.
           Inr (save_balances (map (\<lambda>p. (as_info p, as_amount p)) pools) (env_height env) st, config',
                ''enable_asset_balances_tracking''))
       | EnableFeeShare _ \<Rightarrow> fail_with (Std (GenericErr ''Fee sharing is not supported in this version''))
       | DisableFeeShare \<Rightarrow> fail_with (Std (GenericErr ''Fee sharing is not supported in this version'')))
       (\<lambda>(st1, config1, action).
     Inr (st1\<lparr>ps_config := Some config1\<rparr>, pair_response [(''action'', action)] [])))))"

definition current_owner :: "pair_chain \<Rightarrow> pcl_config \<Rightarrow> (pair_error, addr) res" where
  \<comment> \<open>\<open>config.owner.unwrap_or(factory_config.owner)\<close>; the factory is queried in either case\<close>
  "current_owner Q config =
     and_then (map_err Std (pq_factory_owner Q (cc_factory_addr config))) (\<lambda>factory_owner.
     Inr (case cc_owner config of None \<Rightarrow> factory_owner | Some a \<Rightarrow> a))"

definition pair_execute :: "'a pcl_crates_scheme \<Rightarrow> pair_chain \<Rightarrow> env \<Rightarrow> message_info \<Rightarrow> pair_execute_msg \<Rightarrow> pair_state
    \<Rightarrow> pair_result" where
  "pair_execute L Q env info msg st =
     (case msg of
        SetPoolId pool_id \<Rightarrow> set_pool_id info pool_id st
      | ProvideLiquidity assets slippage_tolerance _ receiver \<Rightarrow>
          provide_liquidity L Q env info assets slippage_tolerance receiver st
      | Swap offer_asset _ belief_price max_spread to \<Rightarrow>
          execute_swap L env info offer_asset belief_price max_spread to st
      | WithdrawLiquidity assets \<Rightarrow> withdraw_liquidity L Q env info assets st
      | UpdateConfig params \<Rightarrow> pair_update_config L Q env info params st
      | ProposeNewOwner owner expires_in \<Rightarrow>
          and_then (load_config st) (\<lambda>config.
          and_then (current_owner Q config) (\<lambda>current.
          and_then (map_err Std (propose_new_owner L info env owner expires_in current
                      (ps_ownership_proposal st))) (\<lambda>(p, attrs).
          Inr (st\<lparr>ps_ownership_proposal := p\<rparr>, pair_response attrs []))))
      | DropOwnershipProposal \<Rightarrow>
          and_then (load_config st) (\<lambda>config.
          and_then (current_owner Q config) (\<lambda>current.
          and_then (map_err Std (drop_ownership_proposal L info current (ps_ownership_proposal st))) (\<lambda>(p, attrs).
          Inr (st\<lparr>ps_ownership_proposal := p\<rparr>, pair_response attrs []))))
      | ClaimOwnership \<Rightarrow>
          and_then (map_err Std (claim_ownership L info env (ps_ownership_proposal st))) (\<lambda>(new_owner, p, attrs).
          and_then (load_config st) (\<lambda>config.
          Inr (st\<lparr>ps_ownership_proposal := p, ps_config := Some (config\<lparr>cc_owner := Some new_owner\<rparr>)\<rparr>,
               pair_response attrs []))))"

definition pair_migrate :: "pair_state \<Rightarrow> pair_result" where
  "pair_migrate st =
     and_then (map_err Std (load_item ''contract_info'' (ps_cw2 st))) (\<lambda>(contract, version).
     if contract = ''astroport-pcl-osmo'' \<and> version \<in> {''1.0.0'', ''1.0.1'', ''1.0.2''} then
       Inr (st\<lparr>ps_cw2 := Some (CONTRACT_NAME, CONTRACT_VERSION)\<rparr>,
            pair_response [(''previous_contract_name'', contract), (''previous_contract_version'', version),
              (''new_contract_name'', CONTRACT_NAME), (''new_contract_version'', CONTRACT_VERSION)] [])
     else fail_with MigrationError)"

end
