(* ===== verification/Pair_Queries.thy ===== *)
theory Pair_Queries
  imports Pair
begin

text \<open>
  The queries of the pair contract (src/contracts/pair_concentrated/src/queries.rs), answering
  before the JSON encoding. The texts of the contract's errors (error.rs) are modelled because
  the queries report them.
\<close>

fun pair_error_text :: "'a pcl_crates_scheme \<Rightarrow> pair_error \<Rightarrow> string" where
  "pair_error_text L (Std e) = std_error_to_string L e"
| "pair_error_text L (ConversionOverflowError t) = t"
| "pair_error_text L OverflowError = overflow_error_text L"
| "pair_error_text L (PaymentError e) = payment_error_to_string L e"
| "pair_error_text L (CircularBuffer (BufferErr t)) = t"
| "pair_error_text L (PclError (PclErr t)) = t"
| "pair_error_text L Unauthorized = ''Unauthorized''"
| "pair_error_text L InitParamsNotFound = ''You need to provide init params''"
| "pair_error_text L InvalidZeroAmount = ''Initial provide can not be one-sided''"
| "pair_error_text L MinimumLiquidityAmountError =
     ''Initial liquidity must be more than '' @ to_string (MINIMUM_LIQUIDITY_AMOUNT L)"
| "pair_error_text L PairIsNotRegistered =
     ''Pair is not registered in the factory. Only swap and withdraw are allowed''"
| "pair_error_text L (InvalidNumberOfAssets n) =
     ''Invalid number of assets. This pair supports only '' @ show_nat n @ '' assets''"
| "pair_error_text L (InvalidAsset i) = ''The asset '' @ i @ '' does not belong to the pair''"
| "pair_error_text L AssetBalancesTrackingIsAlreadyEnabled = ''Asset balances tracking is already enabled''"
| "pair_error_text L PoolIdAlreadySet = ''Pool id is already set''"
| "pair_error_text L MigrationError = ''Failed to migrate contract''"

abbreviation as_generic :: "'a pcl_crates_scheme \<Rightarrow> (pair_error, 'b) res \<Rightarrow> (std_error, 'b) res" where
  "as_generic L r \<equiv> map_err (\<lambda>e. GenericErr (pair_error_text L e)) r"

abbreviation query_precision :: "'a pcl_crates_scheme \<Rightarrow> precisions \<Rightarrow> asset_info \<Rightarrow> (std_error, u8) res" where
  "query_precision L precs i \<equiv> map_err (\<lambda>e. case e of PclErr t \<Rightarrow> GenericErr t) (get_precision L precs i)"

record pool_response =
  pl_assets :: "asset list"
  pl_total_share :: u128

definition query_pool :: "pair_chain \<Rightarrow> pair_state \<Rightarrow> (std_error, pool_response) res" where
  "query_pool Q st =
     and_then (load_item ''config'' (ps_config st)) (\<lambda>config.
     and_then (pool_info Q config) (\<lambda>(assets, total_share).
     Inr \<lparr>pl_assets = assets, pl_total_share = total_share\<rparr>))"

definition query_share :: "'a pcl_crates_scheme \<Rightarrow> pair_chain \<Rightarrow> u128 \<Rightarrow> pair_state \<Rightarrow> (pair_error, asset list) res" where
  "query_share L Q amount st =
     and_then (load_config st) (\<lambda>config.
     and_then (load_precisions st) (\<lambda>precs.
     and_then (query_pools L Q (pi_contract_addr (cc_pair_info config)) config precs) (\<lambda>pools.
     and_then (map_err Std (query_native_supply Q (lp_denom config))) (\<lambda>total_share.
     and_then (or_panic (get_share_in_assets L pools (sub_saturating amount 1) total_share)) (\<lambda>refund_assets.
     try_map (\<lambda>asset. and_then (unwrap (get_precision L precs (da_info asset))) (\<lambda>prec.
       and_then (map_err (\<lambda>t. Std (OtherStdErr t)) (to_uint L (da_amount asset) prec)) (\<lambda>amount.
       Inr \<lparr>as_info = da_info asset, as_amount = amount\<rparr>))) refund_assets)))))"

record simulation_response =
  sm_return_amount :: u128
  sm_spread_amount :: u128
  sm_commission_amount :: u128

definition query_simulation :: "'a pcl_crates_scheme \<Rightarrow> pair_chain \<Rightarrow> env \<Rightarrow> asset \<Rightarrow> pair_state
    \<Rightarrow> (pair_error, simulation_response \<times> asset) res" where
  "query_simulation L Q env offer_asset st =
     and_then (load_config st) (\<lambda>config.
     and_then (load_precisions st) (\<lambda>precs.
     and_then (precision_of L precs (as_info offer_asset)) (\<lambda>offer_prec.
     and_then (map_err Std (to_decimal_asset L offer_asset offer_prec)) (\<lambda>offer_dec.
     and_then (query_pools L Q (env_contract env) config precs) (\<lambda>pools.
     and_then (ok_or (InvalidAsset (info_to_string L (da_info offer_dec)))
        (find_position (\<lambda>asset. da_info asset = as_info offer_asset) pools)) (\<lambda>offer_ind.
     let ask_ind = 1 XOR offer_ind in
     and_then (or_panic (nth_opt pools ask_ind)) (\<lambda>ask_pool.
     and_then (precision_of L precs (da_info ask_pool)) (\<lambda>ask_prec.
     and_then (map_err PclError (before_swap_check L pools (da_amount offer_dec))) (\<lambda>_.
     let xs = map da_amount pools in
     and_then (map_err Std (pq_fee_info Q (cc_factory_addr config) (pi_pair_type (cc_pair_info config)))) (\<lambda>fees.
     and_then (map_err Std (compute_swap L xs (da_amount offer_dec) ask_ind config env
        (maker_fee_share L fees) decimal256_zero)) (\<lambda>r.
     and_then (uint_of L (sr_dy r) ask_prec) (\<lambda>return_amount.
     and_then (uint_of L (sr_spread_fee r) ask_prec) (\<lambda>spread_amount.
     and_then (uint_of L (sr_total_fee r) ask_prec) (\<lambda>commission_amount.
     Inr (\<lparr>sm_return_amount = return_amount, sm_spread_amount = spread_amount,
            sm_commission_amount = commission_amount\<rparr>,
          \<lparr>as_info = da_info ask_pool, as_amount = return_amount\<rparr>)))))))))))))))"

record reverse_simulation_response =
  rs_offer_amount :: u128
  rs_spread_amount :: u128
  rs_commission_amount :: u128

definition query_reverse_simulation :: "'a pcl_crates_scheme \<Rightarrow> pair_chain \<Rightarrow> env \<Rightarrow> asset \<Rightarrow> pair_state
    \<Rightarrow> (pair_error, reverse_simulation_response \<times> asset) res" where
  "query_reverse_simulation L Q env ask_asset st =
     and_then (load_config st) (\<lambda>config.
     and_then (load_precisions st) (\<lambda>precs.
     and_then (precision_of L precs (as_info ask_asset)) (\<lambda>ask_prec.
     and_then (map_err Std (to_decimal_asset L ask_asset ask_prec)) (\<lambda>ask_dec.
     and_then (query_pools L Q (env_contract env) config precs) (\<lambda>pools.
     and_then (map_err PclError (before_swap_check L pools (da_amount ask_dec))) (\<lambda>_.
     and_then (ok_or (InvalidAsset (info_to_string L (as_info ask_asset)))
        (find_position (\<lambda>asset. da_info asset = as_info ask_asset) pools)) (\<lambda>ask_ind.
     let offer_ind = 1 XOR ask_ind in
     and_then (or_panic (nth_opt pools offer_ind)) (\<lambda>offer_pool.
     and_then (precision_of L precs (da_info offer_pool)) (\<lambda>offer_prec.
     and_then (map_err Std (compute_offer_amount L (map da_amount pools) (da_amount ask_dec) ask_ind config env))
       (\<lambda>(offer, spread, commission).
     and_then (uint_of L offer offer_prec) (\<lambda>offer_amount.
     and_then (uint_of L spread offer_prec) (\<lambda>spread_amount.
     and_then (uint_of L commission offer_prec) (\<lambda>commission_amount.
     Inr (\<lparr>rs_offer_amount = offer_amount, rs_spread_amount = spread_amount,
            rs_commission_amount = commission_amount\<rparr>,
          \<lparr>as_info = da_info offer_pool, as_amount = offer_amount\<rparr>))))))))))))))"

definition query_lp_price :: "'a pcl_crates_scheme \<Rightarrow> pair_chain \<Rightarrow> env \<Rightarrow> pair_state \<Rightarrow> (std_error, decimal256) res" where
  "query_lp_price L Q env st =
     and_then (load_item ''config'' (ps_config st)) (\<lambda>config.
     and_then (decimal_supply L Q (lp_denom config)) (\<lambda>total_lp.
     if total_lp \<noteq> decimal256_zero then
       and_then (load_item ''precisions'' (ps_precisions st)) (\<lambda>precs.
       and_then (as_generic L (query_pools L Q (env_contract env) config precs)) (\<lambda>pools.
       and_then (update_at 1 (\<lambda>x. d_mul L x (price_scale config)) (map da_amount pools)) (\<lambda>ixs.
       and_then (or_panic (get_amp_gamma L env (cc_pool_state config))) (\<lambda>ag.
       and_then (calc_d L ixs ag) (\<lambda>d.
       and_then (or_panic (get_xcp L d (price_scale config))) (\<lambda>xcp.
       or_panic (d_div L xcp total_lp)))))))
     else Inr decimal256_zero))"

definition query_compute_d :: "'a pcl_crates_scheme \<Rightarrow> pair_chain \<Rightarrow> env \<Rightarrow> pair_state \<Rightarrow> (std_error, decimal256) res" where
  "query_compute_d L Q env st =
     and_then (load_item ''config'' (ps_config st)) (\<lambda>config.
     and_then (load_item ''precisions'' (ps_precisions st)) (\<lambda>precs.
     and_then (as_generic L (query_pools L Q (env_contract env) config precs)) (\<lambda>pools.
     let xs0 = map da_amount pools in
     and_then (or_panic (nth_opt xs0 0)) (\<lambda>x0.
     and_then (if x0 = decimal256_zero then Inr True
               else and_then (or_panic (nth_opt xs0 1)) (\<lambda>x1. Inr (x1 = decimal256_zero))) (\<lambda>empty.
     if empty then fail_with (GenericErr ''Pools are empty'') else
     and_then (update_at 1 (\<lambda>x. d_mul L x (price_scale config)) xs0) (\<lambda>xs.
     and_then (or_panic (get_amp_gamma L env (cc_pool_state config))) (\<lambda>ag.
     calc_d L xs ag)))))))"

record pool_config_params =        \<comment> \<open>\<open>ConcentratedPoolConfig\<close>\<close>
  qc_amp :: decimal
  qc_gamma :: decimal
  qc_pool_params :: pool_params
  qc_price_scale :: decimal
  qc_track_asset_balances :: bool
  qc_fee_share :: "binary option"

record pair_config_response =
  qc_block_time_last :: u64
  qc_params :: pool_config_params
  qc_owner :: addr
  qc_factory_addr :: addr

definition uint128_of :: "256 word \<Rightarrow> u128 option" where
  \<comment> \<open>\<open>Uint128::try_from\<close> of a \<open>Uint256\<close>\<close>
  "uint128_of n = (if unat n < 2 ^ 128 then Some (word_of_nat (unat n)) else None)"

definition query_config :: "'a pcl_crates_scheme \<Rightarrow> pair_chain \<Rightarrow> env \<Rightarrow> pair_state
    \<Rightarrow> (std_error, pair_config_response) res" where
  "query_config L Q env st =
     and_then (load_item ''config'' (ps_config st)) (\<lambda>config.
     and_then (or_panic (get_amp_gamma L env (cc_pool_state config))) (\<lambda>ag.
     and_then (ok_or (OtherStdErr (conversion_overflow_text L (price_scale config)))
        (uint128_of (atomics256 (price_scale config)))) (\<lambda>atomics.
     and_then (map_err GenericErr (decimal_from_atomics L atomics 18)) (\<lambda>price_scale.
     and_then (pq_factory_owner Q (cc_factory_addr config)) (\<lambda>factory_owner.
     Inr \<lparr>qc_block_time_last = 0,
          qc_params = \<lparr>qc_amp = ag_amp ag, qc_gamma = ag_gamma ag, qc_pool_params = cc_pool_params config,
            qc_price_scale = price_scale, qc_track_asset_balances = cc_track_asset_balances config,
            qc_fee_share = cc_fee_share config\<rparr>,
          qc_owner = (case cc_owner config of None \<Rightarrow> factory_owner | Some a \<Rightarrow> a),
          qc_factory_addr = cc_factory_addr config\<rparr>)))))"

definition query_asset_balances_at :: "'a pcl_crates_scheme \<Rightarrow> asset_info \<Rightarrow> u64 \<Rightarrow> pair_state
    \<Rightarrow> (std_error, u128 option) res" where
  "query_asset_balances_at L asset_info block_height st = balance_at_height L (ps_balances st) asset_info block_height"

definition denom_of :: "asset \<Rightarrow> (std_error, string) res" where
  "denom_of asset = (case as_info asset of NativeToken denom \<Rightarrow> Inr denom | Token _ \<Rightarrow> Inl Panic)"

definition pow10 :: "u8 \<Rightarrow> u128 option" where
  \<comment> \<open>\<open>10u128.pow(p)\<close>, which panics on overflow\<close>
  "pow10 p = (if (10::nat) ^ unat p < 2 ^ 128 then Some (word_of_nat (10 ^ unat p)) else None)"

definition get_spot_price :: "'a pcl_crates_scheme \<Rightarrow> env \<Rightarrow> pcl_config \<Rightarrow> decimal256 \<Rightarrow> decimal256 list \<Rightarrow> string list
    \<Rightarrow> string \<Rightarrow> nat \<Rightarrow> (std_error, decimal256) res" where
  "get_spot_price L env config fee_share reserves pool_denoms quote_denom offer_ind =
     and_then (or_panic (nth_opt reserves offer_ind)) (\<lambda>reserve.
     and_then (or_panic (d_mul L reserve (OFFER_PERCENT L))) (\<lambda>offer0.
     let offer_amount = (if offer0 = decimal256_zero then Decimal256 1 else offer0) in
     and_then (compute_swap L reserves offer_amount (1 XOR offer_ind) config env fee_share decimal256_zero) (\<lambda>r.
     and_then (or_panic (nth_opt pool_denoms offer_ind)) (\<lambda>denom.
     if denom = quote_denom then or_panic (d_div L offer_amount (sr_dy r))
     else or_panic (d_div L (sr_dy r) offer_amount)))))"

definition query_spot_price :: "'a pcl_crates_scheme \<Rightarrow> pair_chain \<Rightarrow> env \<Rightarrow> string \<Rightarrow> string \<Rightarrow> pair_state
    \<Rightarrow> (std_error, decimal) res" where
  "query_spot_price L Q env quote_denom base_denom st =
     and_then (load_item ''config'' (ps_config st)) (\<lambda>config.
     and_then (pq_pools Q (cc_pair_info config) (env_contract env)) (\<lambda>pools.
     and_then (try_map denom_of pools) (\<lambda>pool_denoms.
     and_then (load_item ''precisions'' (ps_precisions st)) (\<lambda>precs.
     and_then (try_map (\<lambda>asset. and_then (query_precision L precs (as_info asset)) (\<lambda>prec.
        with_precision L (as_amount asset) prec)) pools) (\<lambda>reserves.
     and_then (if quote_denom \<in> set pool_denoms \<and> base_denom \<in> set pool_denoms then Inr ()
               else and_then (or_panic (nth_opt pool_denoms 0)) (\<lambda>d0. and_then (or_panic (nth_opt pool_denoms 1)) (\<lambda>d1.
                 fail_with (GenericErr (''Invalid pool denoms '' @ quote_denom @ '' '' @ base_denom @
                   ''. Must be '' @ d0 @ '' '' @ d1))))) (\<lambda>_.
     and_then (pq_fee_info Q (cc_factory_addr config) (pi_pair_type (cc_pair_info config))) (\<lambda>fees.
     let share = d_of_decimal L (case fi_fee_address fees of None \<Rightarrow> decimal_zero | Some _ \<Rightarrow> fi_maker_fee_rate fees) in
     and_then (get_spot_price L env config share reserves pool_denoms quote_denom 0) (\<lambda>sell.
     and_then (get_spot_price L env config share reserves pool_denoms quote_denom 1) (\<lambda>buy.
     and_then (or_panic (d_add L sell buy)) (\<lambda>both.
     and_then (or_panic (d_div L both (TWO L))) (\<lambda>spot_price.
     and_then (query_precision L precs (NativeToken quote_denom)) (\<lambda>quote_prec.
     and_then (query_precision L precs (NativeToken base_denom)) (\<lambda>base_prec.
     and_then (or_panic (pow10 quote_prec)) (\<lambda>quote_unit.
     and_then (or_panic (pow10 base_prec)) (\<lambda>base_unit.
     and_then (or_panic (d_from_ratio L quote_unit base_unit)) (\<lambda>ratio.
     and_then (or_panic (d_mul L spot_price ratio)) (\<lambda>denorm_price.
     and_then (ensure (spot_price = decimal256_zero \<or> denorm_price \<noteq> decimal256_zero)
        (GenericErr (''Normalized price '' @ d_to_string L spot_price @ '' became zero after denormalization''))) (\<lambda>_.
     map_err GenericErr (decimal_of_d L denorm_price)))))))))))))))))))"

datatype pair_query_msg =
    QueryPair
  | QueryPool
  | QueryConfig
  | QueryShare u128
  | Simulation asset "asset_info option"
  | ReverseSimulation "asset_info option" asset
  | CumulativePrices
  | ComputeD
  | LpPrice
  | AssetBalanceAt asset_info u64
  | Observe u64
  | GetSwapFee
  | IsActive
  | GetTotalPoolLiquidity
  | SpotPrice string string                  \<comment> \<open>quote denom, base denom\<close>
  | CalcOutAmtGivenIn coin string decimal    \<comment> \<open>token in, token out denom, swap fee\<close>
  | CalcInAmtGivenOut coin string decimal    \<comment> \<open>token out, token in denom, swap fee\<close>

datatype pair_answer =
    PairInfoAnswer pair_info
  | PoolAnswer pool_response
  | ConfigAnswer pair_config_response
  | AssetsAnswer "asset list"
  | SimulationAnswer simulation_response
  | ReverseSimulationAnswer reverse_simulation_response
  | Decimal256Answer decimal256
  | BalanceAnswer "u128 option"
  | ObservationAnswer "u64 \<times> decimal"
  | SwapFeeAnswer decimal
  | IsActiveAnswer bool
  | LiquidityAnswer "coin list"
  | SpotPriceAnswer decimal
  | TokenAnswer coin

definition pair_query :: "'a pcl_crates_scheme \<Rightarrow> pair_chain \<Rightarrow> env \<Rightarrow> pair_query_msg \<Rightarrow> pair_state
    \<Rightarrow> (std_error, pair_answer) res" where
  "pair_query L Q env msg st =
     (case msg of
        QueryPair \<Rightarrow> and_then (load_item ''config'' (ps_config st)) (\<lambda>c. Inr (PairInfoAnswer (cc_pair_info c)))
      | QueryPool \<Rightarrow> and_then (query_pool Q st) (\<lambda>r. Inr (PoolAnswer r))
      | QueryConfig \<Rightarrow> and_then (query_config L Q env st) (\<lambda>r. Inr (ConfigAnswer r))
      | QueryShare amount \<Rightarrow> and_then (as_generic L (query_share L Q amount st)) (\<lambda>r. Inr (AssetsAnswer r))
      | Simulation offer_asset _ \<Rightarrow>
          and_then (as_generic L (query_simulation L Q env offer_asset st)) (\<lambda>(r, _). Inr (SimulationAnswer r))
      | ReverseSimulation _ ask_asset \<Rightarrow>
          and_then (as_generic L (query_reverse_simulation L Q env ask_asset st)) (\<lambda>(r, _). Inr (ReverseSimulationAnswer r))
      | CumulativePrices \<Rightarrow>
          fail_with (GenericErr ''Not implemented. Use {\"observe\": {\"seconds_ago\": ... }} instead.'')
      | ComputeD \<Rightarrow> and_then (query_compute_d L Q env st) (\<lambda>d. Inr (Decimal256Answer d))
      | LpPrice \<Rightarrow> and_then (query_lp_price L Q env st) (\<lambda>d. Inr (Decimal256Answer d))
      | AssetBalanceAt info height \<Rightarrow>
          and_then (query_asset_balances_at L info height st) (\<lambda>b. Inr (BalanceAnswer b))
      | Observe seconds_ago \<Rightarrow>
          and_then (query_observation L env (ps_observations st) seconds_ago) (\<lambda>r. Inr (ObservationAnswer r))
      | GetSwapFee \<Rightarrow> Inr (SwapFeeAnswer decimal_zero)
      | IsActive \<Rightarrow> Inr (IsActiveAnswer True)
      | GetTotalPoolLiquidity \<Rightarrow>
          and_then (load_item ''config'' (ps_config st)) (\<lambda>config.
          and_then (pq_pools Q (cc_pair_info config) (pi_contract_addr (cc_pair_info config))) (\<lambda>pools.
          and_then (try_map (as_coin L) pools) (\<lambda>coins. Inr (LiquidityAnswer coins))))
      | SpotPrice quote_denom base_denom \<Rightarrow>
          and_then (query_spot_price L Q env quote_denom base_denom st) (\<lambda>p. Inr (SpotPriceAnswer p))
      | CalcOutAmtGivenIn token_in _ _ \<Rightarrow>
          and_then (as_generic L (query_simulation L Q env
             \<lparr>as_info = NativeToken (coin_denom token_in), as_amount = coin_amount token_in\<rparr> st)) (\<lambda>(_, return_asset).
          and_then (as_coin L return_asset) (\<lambda>c. Inr (TokenAnswer c)))
      | CalcInAmtGivenOut token_out _ _ \<Rightarrow>
          and_then (as_generic L (query_reverse_simulation L Q env
             \<lparr>as_info = NativeToken (coin_denom token_out), as_amount = coin_amount token_out\<rparr> st)) (\<lambda>(_, offer_asset).
          and_then (as_coin L offer_asset) (\<lambda>c. Inr (TokenAnswer c))))"

end
