(* ===== verification/Pair_Laws.thy ===== *)
theory Pair_Laws
  imports Pair_Queries
begin

text \<open>
  The pair's facts: what each handler leaves of the state (only the pool's prices change in
  liquidity operations and swaps), when the small handlers return, and the interpretations of
  the shared interfaces on the pair. Executions, sudo calls, replies and migrations are the
  events of one machine, \<open>pair_call\<close>.
\<close>

section \<open>What the liquidity operations and the swaps leave as it is\<close>

definition pool_change :: "pcl_config \<Rightarrow> pcl_config \<Rightarrow> bool" where
  \<comment> \<open>only the pool state differs\<close>
  "pool_change c c' \<longleftrightarrow> c' = c\<lparr>cc_pool_state := cc_pool_state c'\<rparr>"

lemma pool_change_simps [simp]:
  "pool_change c c"
  "pool_change c (c\<lparr>cc_pool_state := s\<rparr>)"
  "pool_change c (with_price_state f c)"
  by (simp_all add: pool_change_def with_price_state_def)

lemma pool_changeD:
  "pool_change c c' \<Longrightarrow> cc_pair_info c' = cc_pair_info c \<and> cc_factory_addr c' = cc_factory_addr c \<and>
     cc_pool_params c' = cc_pool_params c \<and> cc_owner c' = cc_owner c \<and>
     cc_track_asset_balances c' = cc_track_asset_balances c \<and> cc_fee_share c' = cc_fee_share c"
  unfolding pool_change_def by (erule ssubst) simp

lemma pool_change_trans: "pool_change a b \<Longrightarrow> pool_change b c \<Longrightarrow> pool_change a c"
  unfolding pool_change_def by (erule ssubst, erule ssubst) simp

lemma rebalance_change:
  "rebalance L env c deposits new_xp ts share tol = Inr (slippage, c') \<Longrightarrow> pool_change c c'"
  by (auto simp: rebalance_def res_simps Let_def split: if_splits)

lemma first_share_returns:
  "first_share L env c new_d = Inr (share, c', msgs) \<Longrightarrow>
     pool_change c c' \<and> share \<noteq> decimal256_zero \<and>
     pp_xcp_profit (po_price_state (cc_pool_state c')) = decimal256_one \<and>
     pp_xcp_profit_real (po_price_state (cc_pool_state c')) = decimal256_one \<and>
     msgs = [MsgMint (env_contract env) \<lparr>coin_denom = lp_denom c, coin_amount = MINIMUM_LIQUIDITY_AMOUNT L\<rparr> (env_contract env)]"
  by (auto simp: first_share_def res_simps Let_def with_price_state_def split: if_splits)

lemma repeg_change: "repeg_after_swap L env c i offer r ts xs = Inr c' \<Longrightarrow> pool_change c c'"
  by (auto simp: repeg_after_swap_def res_simps split: if_splits)

definition pool_effect :: "pair_state \<Rightarrow> pair_state \<times> 'r \<Rightarrow> bool" where
  \<comment> \<open>the effect of a liquidity operation: the pool state and the balance log\<close>
  "pool_effect st res \<longleftrightarrow> (\<exists>c c' bs. ps_config st = Some c \<and> pool_change c c' \<and>
     fst res = st\<lparr>ps_config := Some c', ps_balances := bs\<rparr>)"

lemma pool_effectI:
  "load_config st = Inr c \<Longrightarrow> pool_change c c' \<Longrightarrow>
     st1 = st \<or> (\<exists>bs h. st1 = save_balances bs h st) \<Longrightarrow> pool_effect st (st1\<lparr>ps_config := Some c'\<rparr>, r)"
  by (cases st) (force simp: pool_effect_def save_balances_def res_simps)

lemma saved_or_not:
  "(if b then and_then m (\<lambda>bs. Inr (save_balances bs h st)) else Inr st) = Inr st1 \<Longrightarrow>
     st1 = st \<or> (\<exists>bs h. st1 = save_balances bs h st)"
  by (auto simp: res_simps split: if_splits)

lemma provided_change:
  assumes "(if b then first_share L env c d else and_then m (\<lambda>share. Inr (share, c, []))) = Inr (share, c1, mints)"
    and "rebalance L env c1 deposits new_xp ts share tol = Inr (slippage, c2)"
  shows "pool_change c c2"
  using assms by (auto simp: res_simps split: if_splits
      intro: pool_change_trans [OF _ rebalance_change] rebalance_change dest!: first_share_returns)

lemma provide_pool_effect:
  "yields (pool_effect st) (provide_liquidity L Q env info assets tol receiver st)"
  unfolding provide_liquidity_def Let_def
  by (intro yields_rules; (hypsubst+)?) (erule pool_effectI, erule (1) provided_change, erule saved_or_not)

lemma withdraw_pool_effect:
  "yields (pool_effect st) (withdraw_liquidity L Q env info assets st)"
  unfolding withdraw_liquidity_def Let_def
  by (intro yields_rules) (erule pool_effectI, simp, erule saved_or_not)

definition swap_effect :: "pair_state \<Rightarrow> pair_state \<times> 'r \<Rightarrow> bool" where
  \<comment> \<open>the effect of a swap: the pool state, the observations and the balance log\<close>
  "swap_effect st res \<longleftrightarrow> (\<exists>c c' obs pc bs. ps_config st = Some c \<and> pool_change c c' \<and>
     fst res = st\<lparr>ps_config := Some c', ps_observations := obs, ps_precommit := pc, ps_balances := bs\<rparr> \<and>
     (ps_observations st \<noteq> None \<longrightarrow> obs \<noteq> None))"

definition observed :: "pair_state \<Rightarrow> pair_state \<Rightarrow> bool" where
  "observed st st' \<longleftrightarrow> (\<exists>obs pc. st' = st\<lparr>ps_observations := obs, ps_precommit := pc\<rparr> \<and>
     (ps_observations st \<noteq> None \<longrightarrow> obs \<noteq> None))"

lemma accumulate_observed: "accumulate_swap_sizes L env st = Inr st' \<Longrightarrow> observed st st'"
proof -
  have "yields (observed st) (accumulate_swap_sizes L env st)"
    unfolding accumulate_swap_sizes_def push_observation_def Let_def
    by (intro yields_rules; cases st) (auto simp: observed_def)
  then show "accumulate_swap_sizes L env st = Inr st' \<Longrightarrow> observed st st'" by (rule yieldsD)
qed

lemma precommit_observed: "save_precommit L env i offer r a b st = Inr st' \<Longrightarrow> observed st st'"
  by (cases st) (auto simp: save_precommit_def observed_def res_simps Let_def split: if_splits)

lemma swap_effectI:
  assumes "load_config st = Inr c" and "repeg_after_swap L env c i offer r ts xs = Inr c'"
    and "map_err e (accumulate_swap_sizes L env st) = Inr st1"
    and "save_precommit L env i offer r a b st1 = Inr st2"
    and "st4 = st2\<lparr>ps_config := Some c'\<rparr> \<or> (\<exists>bs h. st4 = save_balances bs h (st2\<lparr>ps_config := Some c'\<rparr>))"
  shows "swap_effect st (st4, res)"
proof -
  from assms(3) have "accumulate_swap_sizes L env st = Inr st1" by (simp add: res_simps)
  from accumulate_observed [OF this] precommit_observed [OF assms(4)]
  obtain obs pc where o: "st2 = st\<lparr>ps_observations := obs, ps_precommit := pc\<rparr>"
    and n: "ps_observations st \<noteq> None \<longrightarrow> obs \<noteq> None"
    by (cases st) (auto simp: observed_def)
  from assms(5) obtain bs where "st4 = st\<lparr>ps_config := Some c', ps_observations := obs, ps_precommit := pc, ps_balances := bs\<rparr>"
    unfolding o by (cases st) (auto simp: save_balances_def)
  with n assms(1) repeg_change [OF assms(2)] show ?thesis by (auto simp: swap_effect_def res_simps)
qed

lemma swap_saved_or_not:
  assumes "(if b then and_then m1 (\<lambda>x1. and_then (m2 x1) (\<lambda>x2. and_then (m3 x1 x2) (\<lambda>x3. and_then (m4 x1 x2 x3) (\<lambda>x4.
      and_then (m5 x1 x2 x3 x4) (\<lambda>x5. and_then (m6 x1 x2 x3 x4 x5) (\<lambda>x6. Inr (save_balances (bs x1 x2 x3 x4 x5 x6) h st)))))))
    else Inr st) = Inr st1"
  shows "st1 = st \<or> (\<exists>bs h. st1 = save_balances bs h st)"
  using assms by (auto simp: res_simps split: if_splits)

lemma swap_saved_or_not4:
  assumes "(if b then and_then m1 (\<lambda>x1. and_then (m2 x1) (\<lambda>x2. and_then (m3 x1 x2) (\<lambda>x3. and_then (m4 x1 x2 x3) (\<lambda>x4.
      Inr (save_balances (bs x1 x2 x3 x4) h st))))) else Inr st) = Inr st1"
  shows "st1 = st \<or> (\<exists>bs h. st1 = save_balances bs h st)"
  using assms by (auto simp: res_simps split: if_splits)

lemma internal_swap_effect:
  "yields (swap_effect st) (internal_swap L Q env sender offer bp ms to st)"
  unfolding internal_swap_def Let_def
  by (intro yields_rules; (hypsubst+)?) (rule swap_effectI, assumption, assumption, assumption, assumption, erule swap_saved_or_not)

lemma swap_out_effect:
  "yields (swap_effect st) (swap_exact_amount_out L Q env sender denom m out st)"
  unfolding swap_exact_amount_out_def Let_def
  by (intro yields_rules; (hypsubst+)?) (rule swap_effectI, assumption, assumption, assumption, assumption, erule swap_saved_or_not4)

section \<open>When the small handlers return\<close>

lemma execute_swap_returns:
  "execute_swap L env info offer bp ms to st = Inr (st', r) \<longleftrightarrow>
     assert_sent_native_token_balance L offer info = Inr () \<and>
     (\<exists>c i ask to' pool_id token_in.
        ps_config st = Some c \<and> find_position (\<lambda>a. a = as_info offer) (asset_infos c) = Some i \<and>
        nth_opt (asset_infos c) (1 XOR i) = Some ask \<and> addr_opt_validate L to = Inr to' \<and>
        ps_pool_id st = Some pool_id \<and> as_coin L offer = Inr token_in \<and>
        st' = st\<lparr>ps_swap_params := Some \<lparr>sp_belief_price = bp, sp_max_spread = ms, sp_sender = mi_sender info, sp_to = to'\<rparr>\<rparr> \<and>
        r = pair_response [(''action'', ''dispatch_swap'')]
          [MsgSwapExactAmountIn (env_contract env)
             [\<lparr>sa_pool_id = pool_id, sa_token_out_denom = info_to_string L ask\<rparr>] token_in ''1''])"
proof -
  have "find_position (\<lambda>a. a = x) xs = Some i \<Longrightarrow> x \<in> set xs" for x :: asset_info and xs i
    using find_position_Some [of "\<lambda>a. a = x" xs i] nth_mem by fastforce
  then show ?thesis
    by (auto simp: execute_swap_def res_simps Let_def simp del: nth_opt_Some)
qed

lemma set_pool_id_returns:
  "set_pool_id info pool_id st = Inr (st', r) \<longleftrightarrow>
     mi_sender info = FACTORY_ADDRESS \<and> ps_pool_id st = None \<and> st' = st\<lparr>ps_pool_id := Some pool_id\<rparr> \<and>
     r = pair_response [(''set_pool_id'', to_string pool_id)] []"
  by (auto simp: set_pool_id_def split: option.splits)

lemma pair_reply_returns:
  "pair_reply L i result st = Inr (st', r) \<longleftrightarrow>
     i = CREATE_DENOM_REPLY_ID \<and> (\<exists>denom c. decode_create_denom L result = Inr denom \<and> ps_config st = Some c \<and>
       lp_denom c = '''' \<and> st' = st\<lparr>ps_config := Some (with_pair_info (\<lambda>i. i\<lparr>pi_liquidity_token := denom\<rparr>) c)\<rparr> \<and>
       r = pair_response [(''lp_denom'', denom)] [])"
  by (auto simp: pair_reply_def res_simps)

lemma pair_migrate_returns:
  "pair_migrate st = Inr (st', r) \<longleftrightarrow>
     (\<exists>v. ps_cw2 st = Some (''astroport-pcl-osmo'', v) \<and> v \<in> {''1.0.0'', ''1.0.1'', ''1.0.2''} \<and>
        st' = st\<lparr>ps_cw2 := Some (CONTRACT_NAME, CONTRACT_VERSION)\<rparr> \<and>
        r = pair_response [(''previous_contract_name'', ''astroport-pcl-osmo''), (''previous_contract_version'', v),
              (''new_contract_name'', CONTRACT_NAME), (''new_contract_version'', CONTRACT_VERSION)] [])"
  by (cases "ps_cw2 st") (auto simp: pair_migrate_def res_simps simp del: insert_iff)

definition owner_of :: "pair_chain \<Rightarrow> pcl_config \<Rightarrow> addr option" where
  \<comment> \<open>the pair's own owner, or the factory's\<close>
  "owner_of Q c = (case pq_factory_owner Q (cc_factory_addr c) of Inl _ \<Rightarrow> None
     | Inr a \<Rightarrow> Some (case cc_owner c of None \<Rightarrow> a | Some b \<Rightarrow> b))"

lemma current_owner_returns [res_simps]: "current_owner Q c = Inr a \<longleftrightarrow> owner_of Q c = Some a"
  by (auto simp: current_owner_def owner_of_def res_simps map_err_def split: sum.splits fault.splits)

definition config_effect :: "pcl_update_params \<Rightarrow> pcl_config \<Rightarrow> pcl_config \<Rightarrow> bool" where
  "config_effect d c c' \<longleftrightarrow>
     (case d of
        Update _ \<Rightarrow> c' = c\<lparr>cc_pool_params := cc_pool_params c'\<rparr>
      | Promote _ \<Rightarrow> pool_change c c'
      | StopChangingAmpGamma \<Rightarrow> pool_change c c'
      | EnableAssetBalancesTracking \<Rightarrow> \<not> cc_track_asset_balances c \<and> c' = c\<lparr>cc_track_asset_balances := True\<rparr>
      | _ \<Rightarrow> False)"

lemma pair_update_config_returns:
  assumes "pair_update_config L Q env info params st = Inr (st', r)"
  shows "\<exists>c c' d bs. ps_config st = Some c \<and> owner_of Q c = Some (mi_sender info) \<and>
    decode_update_params L params = Inr d \<and> config_effect d c c' \<and>
    st' = st\<lparr>ps_config := Some c', ps_balances := bs\<rparr> \<and> (d \<noteq> EnableAssetBalancesTracking \<longrightarrow> bs = ps_balances st) \<and>
    resp_msgs r = []"
proof -
  have "yields (\<lambda>(st', r). \<exists>c c' d bs. ps_config st = Some c \<and> owner_of Q c = Some (mi_sender info) \<and>
    decode_update_params L params = Inr d \<and> config_effect d c c' \<and>
    st' = st\<lparr>ps_config := Some c', ps_balances := bs\<rparr> \<and> (d \<noteq> EnableAssetBalancesTracking \<longrightarrow> bs = ps_balances st) \<and>
    resp_msgs r = []) (pair_update_config L Q env info params st)"
    unfolding pair_update_config_def Let_def
    by (intro yields_rules; (hypsubst+)?)
      (cases st; auto simp: res_simps config_effect_def owner_of_def save_balances_def
        split: pcl_update_params.splits if_splits option.splits)
  from yieldsD [OF this assms] show ?thesis by simp
qed

section \<open>The pair as a machine\<close>

datatype pair_event = Execute pair_execute_msg | Sudo sudo_msg | Reply u64 binary | Migrate

definition pair_call :: "'a pcl_crates_scheme \<times> pair_chain \<Rightarrow> env \<Rightarrow> message_info \<Rightarrow> pair_event \<Rightarrow> pair_state
    \<Rightarrow> pair_result" where
  "pair_call c env info ev st =
     (case ev of
        Execute msg \<Rightarrow> pair_execute (fst c) (snd c) env info msg st
      | Sudo msg \<Rightarrow> sudo (fst c) (snd c) env msg st
      | Reply i result \<Rightarrow> pair_reply (fst c) i result st
      | Migrate \<Rightarrow> pair_migrate st)"

lemma sudo_swap_in_returns:
  "sudo_swap_exact_amount_in L Q env sender token_in m st = Inr (st', r) \<longleftrightarrow>
     (\<exists>validated ratio st1 sender' bp ms to r'.
        addr_validate L sender = Inr validated \<and> decimal_from_ratio L (coin_amount token_in) m = Some ratio \<and>
        (st1, sender', bp, ms, to) =
          (case ps_swap_params st of
             Some p \<Rightarrow> (st\<lparr>ps_swap_params := None\<rparr>, sp_sender p, sp_belief_price p, sp_max_spread p, sp_to p)
           | None \<Rightarrow> (st, validated, Some ratio, Some decimal_zero, None)) \<and>
        internal_swap L Q env sender'
          \<lparr>as_info = NativeToken (coin_denom token_in), as_amount = coin_amount token_in\<rparr> bp ms to st1 = Inr (st', r') \<and>
        r = r'\<lparr>resp_attrs := resp_attrs r' @ [(''method'', ''swap_exact_amount_in'')]\<rparr>)"
  by (cases "ps_swap_params st") (auto simp: sudo_swap_exact_amount_in_def res_simps Let_def)

lemma sudo_effect:
  assumes "sudo L Q env msg st = Inr (st', r)"
  shows "(\<exists>sp. (sp = ps_swap_params st \<or> sp = None) \<and> swap_effect (st\<lparr>ps_swap_params := sp\<rparr>) (st', r)) \<and>
    (\<forall>sender token_in out m fee. msg = SwapExactAmountIn sender token_in out m fee \<longrightarrow> ps_swap_params st' = None)"
proof (cases msg)
  case (SwapExactAmountIn sender token_in out m fee)
  have "ps_swap_params st = None \<Longrightarrow> st\<lparr>ps_swap_params := None\<rparr> = st" by (cases st) simp
  with SwapExactAmountIn assms obtain sender' bp ms to r' where
    s: "internal_swap L Q env sender' \<lparr>as_info = NativeToken (coin_denom token_in), as_amount = coin_amount token_in\<rparr>
          bp ms to (st\<lparr>ps_swap_params := None\<rparr>) = Inr (st', r')"
    by (cases "ps_swap_params st") (auto simp: sudo_def sudo_swap_in_returns)
  from yieldsD [OF internal_swap_effect s] have "swap_effect (st\<lparr>ps_swap_params := None\<rparr>) (st', r)"
    by (simp add: swap_effect_def)
  moreover from this have "ps_swap_params st' = None" by (auto simp: swap_effect_def)
  ultimately show ?thesis by blast
next
  case (SwapExactAmountOut sender denom m out fee)
  with assms have "swap_exact_amount_out L Q env sender denom m out st = Inr (st', r)" by (simp add: sudo_def)
  from yieldsD [OF swap_out_effect this] have "swap_effect (st\<lparr>ps_swap_params := ps_swap_params st\<rparr>) (st', r)"
    by simp
  with SwapExactAmountOut show ?thesis by blast
next
  case (SetActive b)
  with assms show ?thesis by (simp add: sudo_def)
qed

lemma pair_call_cases:
  assumes "pair_call c env info ev st = Inr (st', r)"
  obtains
      (PoolId) pool_id where "ev = Execute (SetPoolId pool_id)" and "mi_sender info = FACTORY_ADDRESS"
        and "ps_pool_id st = None" and "st' = st\<lparr>ps_pool_id := Some pool_id\<rparr>"
    | (Liquidity) "pool_effect st (st', r)"
    | (Dispatch) p where "st' = st\<lparr>ps_swap_params := Some p\<rparr>"
    | (Config) params where "ev = Execute (UpdateConfig params)"
        and "pair_update_config (fst c) (snd c) env info params st = Inr (st', r)"
    | (Propose) owner exp config a p attrs where "ev = Execute (ProposeNewOwner owner exp)"
        and "ps_config st = Some config" and "owner_of (snd c) config = Some a"
        and "propose_new_owner (fst c) info env owner exp a (ps_ownership_proposal st) = Inr (p, attrs)"
        and "st' = st\<lparr>ps_ownership_proposal := p\<rparr>"
    | (Drop) config a p attrs where "ev = Execute DropOwnershipProposal"
        and "ps_config st = Some config" and "owner_of (snd c) config = Some a"
        and "drop_ownership_proposal (fst c) info a (ps_ownership_proposal st) = Inr (p, attrs)"
        and "st' = st\<lparr>ps_ownership_proposal := p\<rparr>"
    | (Claim) config new_owner p attrs where "ev = Execute ClaimOwnership" and "ps_config st = Some config"
        and "claim_ownership (fst c) info env (ps_ownership_proposal st) = Inr (new_owner, p, attrs)"
        and "st' = st\<lparr>ps_ownership_proposal := p, ps_config := Some (config\<lparr>cc_owner := Some new_owner\<rparr>)\<rparr>"
    | (Swapped) sp where "swap_effect (st\<lparr>ps_swap_params := sp\<rparr>) (st', r)"
    | (Replied) denom config i result where "ev = Reply i result" and "decode_create_denom (fst c) result = Inr denom"
        and "ps_config st = Some config" and "lp_denom config = ''''"
        and "st' = st\<lparr>ps_config := Some (with_pair_info (\<lambda>i. i\<lparr>pi_liquidity_token := denom\<rparr>) config)\<rparr>"
    | (Migrated) v where "ev = Migrate" and "st' = st\<lparr>ps_cw2 := Some v\<rparr>"
proof (cases ev)
  case (Execute msg)
  show ?thesis
  proof (cases msg)
    case (ProvideLiquidity assets tol auto_stake receiver)
    with Execute assms have "provide_liquidity (fst c) (snd c) env info assets tol receiver st = Inr (st', r)"
      by (simp add: pair_call_def pair_execute_def)
    from yieldsD [OF provide_pool_effect this] show ?thesis by (rule Liquidity)
  next
    case (WithdrawLiquidity assets)
    with Execute assms have "withdraw_liquidity (fst c) (snd c) env info assets st = Inr (st', r)"
      by (simp add: pair_call_def pair_execute_def)
    from yieldsD [OF withdraw_pool_effect this] show ?thesis by (rule Liquidity)
  next
    case (Swap offer ask bp ms to)
    with Execute assms show ?thesis
      by (auto simp: pair_call_def pair_execute_def execute_swap_returns intro: Dispatch)
  next
    case (SetPoolId pool_id)
    with Execute assms show ?thesis
      by (auto simp: pair_call_def pair_execute_def set_pool_id_returns intro: PoolId)
  next
    case (UpdateConfig params)
    with Execute assms show ?thesis by (intro Config) (simp_all add: pair_call_def pair_execute_def)
  next
    case (ProposeNewOwner owner exp)
    with Execute assms obtain config a p attrs where "ps_config st = Some config" "owner_of (snd c) config = Some a"
      "propose_new_owner (fst c) info env owner exp a (ps_ownership_proposal st) = Inr (p, attrs)"
      "st' = st\<lparr>ps_ownership_proposal := p\<rparr>"
      by (auto simp: pair_call_def pair_execute_def res_simps)
    with Execute ProposeNewOwner show ?thesis by (intro Propose) simp_all
  next
    case DropOwnershipProposal
    with Execute assms obtain config a p attrs where "ps_config st = Some config" "owner_of (snd c) config = Some a"
      "drop_ownership_proposal (fst c) info a (ps_ownership_proposal st) = Inr (p, attrs)"
      "st' = st\<lparr>ps_ownership_proposal := p\<rparr>"
      by (auto simp: pair_call_def pair_execute_def res_simps)
    with Execute DropOwnershipProposal show ?thesis by (intro Drop) simp_all
  next
    case ClaimOwnership
    with Execute assms obtain config n p attrs where "ps_config st = Some config"
      "claim_ownership (fst c) info env (ps_ownership_proposal st) = Inr (n, p, attrs)"
      "st' = st\<lparr>ps_ownership_proposal := p, ps_config := Some (config\<lparr>cc_owner := Some n\<rparr>)\<rparr>"
      by (auto simp: pair_call_def pair_execute_def res_simps)
    with Execute ClaimOwnership show ?thesis by (intro Claim) simp_all
  qed
next
  case (Sudo msg)
  with assms have "sudo (fst c) (snd c) env msg st = Inr (st', r)" by (simp add: pair_call_def)
  from sudo_effect [OF this] show ?thesis by (blast intro: Swapped)
next
  case (Reply i result)
  with assms show ?thesis by (auto simp: pair_call_def pair_reply_returns intro: Replied)
next
  case Migrate
  with assms show ?thesis by (auto simp: pair_call_def pair_migrate_returns intro: Migrated)
qed

section \<open>What is fixed for the life of the pair\<close>

definition identity :: "pcl_config \<Rightarrow> asset_info list \<times> addr \<times> pair_type \<times> addr" where
  "identity c = (asset_infos c, pi_contract_addr (cc_pair_info c), pi_pair_type (cc_pair_info c), cc_factory_addr c)"

definition settled :: "asset_info list \<times> addr \<times> pair_type \<times> addr \<Rightarrow> string option \<Rightarrow> u64 option \<Rightarrow> pair_state \<Rightarrow> bool" where
  \<comment> \<open>the pair has this identity and, once they are given, this LP denom and this pool id\<close>
  "settled i denom pool_id st \<longleftrightarrow>
     (\<exists>c. ps_config st = Some c \<and> identity c = i \<and>
        (\<forall>d. denom = Some d \<longrightarrow> lp_denom c = d \<and> d \<noteq> '''')) \<and>
     (\<forall>p. pool_id = Some p \<longrightarrow> ps_pool_id st = Some p)"

lemma pool_change_identity:
  "pool_change c c' \<Longrightarrow> identity c' = identity c \<and> lp_denom c' = lp_denom c"
  using pool_changeD [of c c'] by (simp add: identity_def)

lemma config_effect_identity:
  "config_effect d c c' \<Longrightarrow> identity c' = identity c \<and> lp_denom c' = lp_denom c \<and> cc_owner c' = cc_owner c"
  by (cases d) (auto simp: config_effect_def identity_def dest!: pool_changeD,
      (metis pcl_config.select_convs pcl_config.surjective pcl_config.update_convs)+)

lemma call_settled:
  assumes "pair_call c env info ev st = Inr (st', r)" and "settled i denom pool_id st"
  shows "settled i denom pool_id st'"
  using assms(1)
proof (cases rule: pair_call_cases)
  case Liquidity
  with assms(2) show ?thesis by (auto simp: pool_effect_def settled_def dest: pool_change_identity)
next
  case (Config params)
  from pair_update_config_returns [OF Config(2)] assms(2) show ?thesis
    by (auto simp: settled_def dest: config_effect_identity)
next
  case (Claim config n p attrs)
  with assms(2) show ?thesis by (auto simp: settled_def identity_def)
next
  case (Swapped sp)
  with assms(2) show ?thesis by (auto simp: swap_effect_def settled_def dest: pool_change_identity)
next
  case (Replied denom config)
  with assms(2) show ?thesis by (auto simp: settled_def identity_def with_pair_info_def)
qed (use assms(2) in \<open>auto simp: settled_def\<close>)

interpretation pair_settled: kept_invariant "\<lambda>_ _ _ _. True" pair_call "settled i denom pool_id" for i denom pool_id
  by unfold_locales (rule call_settled)

section \<open>Ownership\<close>

definition pair_owner :: "pair_state \<Rightarrow> addr option" where
  "pair_owner st = (case ps_config st of None \<Rightarrow> None | Some c \<Rightarrow> cc_owner c)"

definition factory_owner_of :: "pair_chain \<Rightarrow> addr" where
  \<comment> \<open>the owner of the factory the pair is pinned to\<close>
  "factory_owner_of Q = (case pq_factory_owner Q FACTORY_ADDRESS of Inl _ \<Rightarrow> '''' | Inr a \<Rightarrow> a)"

definition pinned :: "pair_state \<Rightarrow> bool" where
  "pinned st \<longleftrightarrow> (\<exists>c. ps_config st = Some c \<and> cc_factory_addr c = FACTORY_ADDRESS)"

lemma pinned_settled: "pinned st \<longleftrightarrow> (\<exists>i. snd (snd (snd i)) = FACTORY_ADDRESS \<and> settled i None None st)"
  by (auto simp: pinned_def settled_def identity_def)

lemma call_pinned: "pinned st \<Longrightarrow> pair_call c env info ev st = Inr (st', r) \<Longrightarrow> pinned st'"
  unfolding pinned_settled using call_settled by blast

lemma owner_of_acting:
  "pinned st \<Longrightarrow> ps_config st = Some config \<Longrightarrow> owner_of (snd c) config = Some a \<Longrightarrow>
     a = acting_owner (\<lambda>c. factory_owner_of (snd c)) pair_owner c st"
  by (auto simp: pinned_def owner_of_def acting_owner_def pair_owner_def factory_owner_of_def
      split: sum.splits option.splits)

lemma pair_owner_change:
  assumes "ownership_laws (fst c)" and "pair_call c env info ev st = Inr (st', r)"
    and "pair_owner st' \<noteq> pair_owner st"
  shows "\<exists>p. ps_ownership_proposal st = Some p \<and> op_owner p = mi_sender info \<and> env_time env \<le> op_ttl p \<and>
             pair_owner st' = Some (mi_sender info) \<and> ps_ownership_proposal st' = None"
  using assms(2)
proof (cases rule: pair_call_cases)
  case Liquidity
  with assms(3) show ?thesis by (auto simp: pool_effect_def pair_owner_def dest: pool_changeD)
next
  case (Config params)
  from pair_update_config_returns [OF Config(2)] assms(3) show ?thesis
    by (auto simp: pair_owner_def dest: config_effect_identity)
next
  case (Claim config n p attrs)
  with ownership_lawsD(3) [OF assms(1) Claim(3)] show ?thesis by (auto simp: pair_owner_def)
next
  case (Swapped sp)
  with assms(3) show ?thesis by (auto simp: swap_effect_def pair_owner_def dest: pool_changeD)
next
  case (Replied denom config)
  with assms(3) show ?thesis by (auto simp: pair_owner_def with_pair_info_def)
qed (use assms(3) in \<open>auto simp: pair_owner_def\<close>)

lemma pair_proposal_change:
  assumes "pinned st" and "ownership_laws (fst c)" and "pair_call c env info ev st = Inr (st', r)"
    and "ps_ownership_proposal st' \<noteq> ps_ownership_proposal st" and "ps_ownership_proposal st' \<noteq> None"
  shows "mi_sender info = acting_owner (\<lambda>c. factory_owner_of (snd c)) pair_owner c st"
  using assms(3)
proof (cases rule: pair_call_cases)
  case Liquidity
  with assms(4) show ?thesis by (auto simp: pool_effect_def)
next
  case (Config params)
  from pair_update_config_returns [OF Config(2)] assms(4) show ?thesis by auto
next
  case (Propose owner exp config a p attrs)
  with ownership_lawsD(1) [OF assms(2) Propose(4)] owner_of_acting [OF assms(1) Propose(2,3)] show ?thesis by simp
next
  case (Drop config a p attrs)
  with ownership_lawsD(2) [OF assms(2) Drop(4)] assms(5) show ?thesis by simp
next
  case (Claim config n p attrs)
  with ownership_lawsD(3) [OF assms(2) Claim(3)] assms(5) show ?thesis by simp
next
  case (Swapped sp)
  with assms(4) show ?thesis by (auto simp: swap_effect_def)
qed (use assms(4) in auto)

interpretation pair_ownership: two_step_ownership pair_call pinned
    "\<lambda>c. ownership_laws (fst c)" pair_owner "\<lambda>c. factory_owner_of (snd c)" ps_ownership_proposal
proof unfold_locales
  fix c :: "'a pcl_crates_scheme \<times> pair_chain" and env info m s s' r
  assume i: "pinned s" and ex: "pair_call c env info m s = Inr (s', r)"
  show "pinned s'" by (rule call_pinned [OF i ex])
  assume ok: "ownership_laws (fst c)"
  show "pair_owner s' \<noteq> pair_owner s \<Longrightarrow>
      \<exists>p. ps_ownership_proposal s = Some p \<and> op_owner p = mi_sender info \<and> env_time env \<le> op_ttl p \<and>
          pair_owner s' = Some (mi_sender info) \<and> ps_ownership_proposal s' = None"
    by (rule pair_owner_change [OF ok ex])
  show "ps_ownership_proposal s' \<noteq> ps_ownership_proposal s \<Longrightarrow> ps_ownership_proposal s' \<noteq> None \<Longrightarrow>
      mi_sender info = acting_owner (\<lambda>c. factory_owner_of (snd c)) pair_owner c s"
    by (rule pair_proposal_change [OF i ok ex])
qed

end
