(* ===== verification/Pair_Samples.thy ===== *)
theory Pair_Samples
  imports Pair_Laws Samples
begin

text \<open>
  A concrete instance of the pair's third-party functions and chain answers, for the witnesses
  of the pair's properties: exact fixed-point arithmetic, a constant-sum pool with a fee of one
  percent, a ring buffer of observations. The theorems never use it.
\<close>

section \<open>Fixed-point arithmetic\<close>

abbreviation nat_of :: "decimal256 \<Rightarrow> nat" where
  "nat_of d \<equiv> unat (atomics256 d)"

definition d256 :: "nat \<Rightarrow> decimal256 option" where
  "d256 n = (if n < 2 ^ 256 then Some (Decimal256 (word_of_nat n)) else None)"

abbreviation unit18 :: nat where
  "unit18 \<equiv> 1000000000000000000"

definition sample_to_uint :: "decimal256 \<Rightarrow> u8 \<Rightarrow> (string, u128) res" where
  "sample_to_uint d p = (case u128_of (nat_of d * 10 ^ unat p div unit18) of
     None \<Rightarrow> fail_with ''conversion overflow'' | Some n \<Rightarrow> Inr n)"

definition sample_of_uint :: "u128 \<Rightarrow> u8 \<Rightarrow> (std_error, decimal256) res" where
  "sample_of_uint n p = (case d256 (unat n * unit18 div 10 ^ unat p) of
     None \<Rightarrow> fail_with (OtherStdErr ''overflow'') | Some d \<Rightarrow> Inr d)"

definition sample_mul :: "decimal256 \<Rightarrow> decimal256 \<Rightarrow> decimal256 option" where
  "sample_mul a b = d256 (nat_of a * nat_of b div unit18)"

definition sample_div :: "decimal256 \<Rightarrow> decimal256 \<Rightarrow> decimal256 option" where
  "sample_div a b = (if nat_of b = 0 then None else d256 (nat_of a * unit18 div nat_of b))"

definition sample_ratio :: "u128 \<Rightarrow> u128 \<Rightarrow> decimal option" where
  "sample_ratio a b = (if b = 0 then None else map_option Decimal (u128_of (unat a * unit18 div unat b)))"

section \<open>Assets and payments\<close>

definition sample_to_dec :: "asset \<Rightarrow> u8 \<Rightarrow> (std_error, decimal_asset) res" where
  "sample_to_dec a p = and_then (sample_of_uint (as_amount a) p) (\<lambda>d. Inr \<lparr>da_info = as_info a, da_amount = d\<rparr>)"

definition sample_of_dec :: "decimal_asset \<Rightarrow> u8 \<Rightarrow> (std_error, asset) res" where
  "sample_of_dec a p =
     and_then (map_err OtherStdErr (sample_to_uint (da_amount a) p)) (\<lambda>n. Inr \<lparr>as_info = da_info a, as_amount = n\<rparr>)"

definition sample_info_text :: "asset_info \<Rightarrow> string" where
  "sample_info_text i = (case i of Token a \<Rightarrow> a | NativeToken d \<Rightarrow> d)"

definition sample_as_coin :: "asset \<Rightarrow> (std_error, coin) res" where
  "sample_as_coin a = (case as_info a of
     NativeToken d \<Rightarrow> Inr \<lparr>coin_denom = d, coin_amount = as_amount a\<rparr>
   | Token _ \<Rightarrow> fail_with (GenericErr ''Cannot convert token asset to coin''))"

definition sample_sent :: "coin list \<Rightarrow> asset \<Rightarrow> bool" where
  "sample_sent funds a \<longleftrightarrow> as_amount a = 0 \<or>
     list_ex (\<lambda>c. NativeToken (coin_denom c) = as_info a \<and> coin_amount c = as_amount a) funds"

definition sample_must_pay :: "message_info \<Rightarrow> string \<Rightarrow> (payment_error, u128) res" where
  "sample_must_pay info denom =
     (case mi_funds info of
        [] \<Rightarrow> fail_with NoFunds
      | [c] \<Rightarrow> if coin_amount c = 0 then fail_with NoFunds
               else if coin_denom c = denom then Inr (coin_amount c) else fail_with (MissingDenom denom)
      | _ \<Rightarrow> fail_with MultipleDenoms)"

section \<open>The pool mathematics\<close>

definition sample_swap :: "decimal256 \<Rightarrow> decimal256 \<Rightarrow> swap_result" where
  \<comment> \<open>of an offer and the maker's share: one percent is the fee\<close>
  "sample_swap offer share =
     (let fee = nat_of offer div 100; maker = fee * nat_of share div unit18;
          d = (\<lambda>n. Decimal256 (word_of_nat n))
      in \<lparr>sr_dy = d (nat_of offer - fee), sr_spread_fee = d 0, sr_maker_fee = d maker,
          sr_share_fee = d 0, sr_total_fee = d fee\<rparr>)"

definition sample_needed :: "decimal256 \<Rightarrow> decimal256 option" where
  "sample_needed ask = d256 ((nat_of ask * 100 + 98) div 99)"

definition sample_max_spread :: "decimal option \<Rightarrow> decimal option \<Rightarrow> u128 \<Rightarrow> u128 \<Rightarrow> u128 \<Rightarrow> (pcl_error, unit) res" where
  "sample_max_spread bp ms offer return spread =
     (let limit = (case ms of None \<Rightarrow> 20000000000000000 | Some m \<Rightarrow> unat (atomics m)) in
      case bp of
        Some p \<Rightarrow>
          if unat (atomics p) = 0 then Inr () else
          (let expected = unat offer * unit18 div unat (atomics p) in
           if (expected - unat return) * unit18 \<le> limit * expected then Inr () else fail_with (PclErr ''max spread''))
      | None \<Rightarrow>
          if unat spread * unit18 \<le> limit * (unat return + unat spread) then Inr () else fail_with (PclErr ''max spread''))"

definition sample_shares :: "decimal_asset list \<Rightarrow> u128 \<Rightarrow> u128 \<Rightarrow> decimal_asset list option" where
  "sample_shares pools amount total_share =
     (if total_share = 0 then None else
      Some (map (\<lambda>p. p\<lparr>da_amount := Decimal256 (word_of_nat (nat_of (da_amount p) * unat amount div unat total_share))\<rparr>) pools))"

definition sample_calc_d :: "decimal256 list \<Rightarrow> (std_error, decimal256) res" where
  "sample_calc_d xs = or_panic (d256 (sum_list (map nat_of xs)))"

section \<open>Observations\<close>

definition sample_read :: "observation_buffer \<Rightarrow> u32 \<Rightarrow> (buffer_error, observation option) res" where
  "sample_read b i = Inr (fmlookup (bf_slots b) (word_of_nat (unat i mod unat (bf_capacity b))))"

definition sample_read_last :: "observation_buffer \<Rightarrow> (buffer_error, observation option) res" where
  "sample_read_last b =
     Inr (fmlookup (bf_slots b) (if bf_head b = 0 then bf_capacity b - 1 else bf_head b - 1))"

definition sample_push :: "observation_buffer \<Rightarrow> observation \<Rightarrow> (buffer_error, observation_buffer) res" where
  "sample_push b obs =
     Inr (if bf_head b < bf_capacity b - 1
          then b\<lparr>bf_slots := fmupd (bf_head b) obs (bf_slots b), bf_head := bf_head b + 1\<rparr>
          else b\<lparr>bf_slots := fmupd (bf_capacity b - 1) obs (bf_slots b), bf_head := 0\<rparr>)"

definition sample_balance_at :: "balance_log \<Rightarrow> asset_info \<Rightarrow> u64 \<Rightarrow> (std_error, u128 option) res" where
  "sample_balance_at log i h =
     Inr (map_option (\<lambda>(_, n, _). n) (find (\<lambda>(j, _, k). j = i \<and> k < h) (rev log)))"

section \<open>The instance\<close>

definition sample_pool_params :: pool_params where
  "sample_pool_params = \<lparr>pm_mid_fee = Decimal 0, pm_out_fee = Decimal 0, pm_fee_gamma = Decimal 0,
     pm_repeg_profit_threshold = Decimal 0, pm_min_price_scale_delta = Decimal 0, pm_ma_half_time = 600\<rparr>"

definition sample_pcl_init :: pcl_init_params where
  "sample_pcl_init = \<lparr>ip_amp = Decimal 40, ip_gamma = Decimal 1, ip_mid_fee = Decimal 0, ip_out_fee = Decimal 0,
     ip_fee_gamma = Decimal 0, ip_repeg_profit_threshold = Decimal 0, ip_min_price_scale_delta = Decimal 0,
     ip_price_scale = decimal_one, ip_ma_half_time = 600, ip_track_asset_balances = Some True\<rparr>"

definition or_old :: "'a option \<Rightarrow> 'a \<Rightarrow> 'a" where
  "or_old new old = (case new of None \<Rightarrow> old | Some x \<Rightarrow> x)"

definition sample_update_params :: "update_pool_params \<Rightarrow> pool_params \<Rightarrow> (pcl_error, pool_params) res" where
  "sample_update_params u p = Inr \<lparr>pm_mid_fee = or_old (up_mid_fee u) (pm_mid_fee p),
     pm_out_fee = or_old (up_out_fee u) (pm_out_fee p), pm_fee_gamma = or_old (up_fee_gamma u) (pm_fee_gamma p),
     pm_repeg_profit_threshold = or_old (up_repeg_profit_threshold u) (pm_repeg_profit_threshold p),
     pm_min_price_scale_delta = or_old (up_min_price_scale_delta u) (pm_min_price_scale_delta p),
     pm_ma_half_time = or_old (up_ma_half_time u) (pm_ma_half_time p)\<rparr>"

definition sample_pcl :: pcl_crates where
  "sample_pcl = \<lparr>addr_validate = sample_addr_validate, addr_opt_validate = sample_addr_opt_validate,
     propose_new_owner = sample_propose, drop_ownership_proposal = sample_drop, claim_ownership = sample_claim,
     d_add = (\<lambda>a b. map_option Decimal256 (add_checked (atomics256 a) (atomics256 b))),
     d_sub = (\<lambda>a b. map_option Decimal256 (sub_checked (atomics256 a) (atomics256 b))),
     d_mul = sample_mul, d_div = sample_div,
     d_diff = (\<lambda>a b. if a \<le> b then Decimal256 (atomics256 b - atomics256 a) else Decimal256 (atomics256 a - atomics256 b)),
     d_sub_saturating = (\<lambda>a b. Decimal256 (sub_saturating (atomics256 a) (atomics256 b))),
     d_of_decimal = (\<lambda>d. Decimal256 (word_of_nat (unat (atomics d)))),
     d_from_ratio = (\<lambda>a b. if b = 0 then None else d256 (unat a * unit18 div unat b)),
     decimal_of_d = (\<lambda>d. case u128_of (nat_of d) of None \<Rightarrow> fail_with ''range'' | Some n \<Rightarrow> Inr (Decimal n)),
     conversion_overflow_text = (\<lambda>d. ''Cannot convert''),
     decimal_from_atomics = (\<lambda>n places. if places = 18 then Inr (Decimal n) else fail_with ''range''),
     decimal_from_ratio = sample_ratio,
     to_uint = sample_to_uint, to_decimal256 = sample_of_uint, with_precision = sample_of_uint,
     to_decimal_asset = sample_to_dec, into_asset = sample_of_dec,
     d_to_string = (\<lambda>d. to_string (atomics256 d)),
     MIN_TRADE_SIZE = Decimal256 1000000000000, MINIMUM_LIQUIDITY_AMOUNT = 1000, OBSERVATIONS_SIZE = 3000,
     OFFER_PERCENT = Decimal256 10000000000000000, TWO = Decimal256 2000000000000000000,
     info_to_string = sample_info_text, asset_to_string = (\<lambda>a. to_string (as_amount a) @ sample_info_text (as_info a)),
     as_coin = sample_as_coin, asset_into_msg = (\<lambda>a r. Inr ()),
     assert_sent_native_token_balance = (\<lambda>a info. if sample_sent (mi_funds info) a then Inr ()
        else fail_with (GenericErr ''Native token balance mismatch'')),
     assert_coins_properly_sent = (\<lambda>funds assets infos. if list_all (sample_sent funds) assets then Inr ()
        else fail_with (GenericErr ''Native token balance mismatch'')),
     must_pay = sample_must_pay,
     check_assets = (\<lambda>assets. if distinct (map as_info assets) then Inr () else fail_with (PclErr ''doubling assets'')),
     decode_init_params = (\<lambda>b. if b = ''params'' then Inr sample_pcl_init else fail_with (GenericErr ''parse'')),
     decode_update_params = (\<lambda>b. if b = ''track'' then Inr EnableAssetBalancesTracking
        else if b = ''stop'' then Inr StopChangingAmpGamma
        else if b = ''share'' then Inr DisableFeeShare else fail_with (GenericErr ''parse'')),
     decode_create_denom = (\<lambda>b. if b = '''' then fail_with (GenericErr ''parse'') else Inr b),
     default_pool_params = sample_pool_params,
     default_amp_gamma = \<lparr>ag_amp = Decimal 0, ag_gamma = Decimal 0\<rparr>,
     amp_gamma_new = (\<lambda>a g. Inr \<lparr>ag_amp = a, ag_gamma = g\<rparr>),
     update_params = sample_update_params,
     promote_params_fn = (\<lambda>env p s. Inr (s\<lparr>po_future := \<lparr>ag_amp = pr_next_amp p, ag_gamma = pr_next_gamma p\<rparr>,
        po_future_time := pr_future_time p, po_initial_time := env_time env\<rparr>)),
     stop_promotion = (\<lambda>env s. s\<lparr>po_future_time := env_time env, po_initial_time := env_time env\<rparr>),
     get_amp_gamma = (\<lambda>env s. Some (po_future s)),
     update_price = (\<lambda>pp env ts xs price s. Inr (s\<lparr>po_price_state := (po_price_state s)\<lparr>pp_last_price := price,
        pp_updated_at := env_time env\<rparr>\<rparr>)),
     get_precision = (\<lambda>ps i. case map_of ps i of None \<Rightarrow> fail_with (PclErr ''invalid asset'') | Some p \<Rightarrow> Inr p),
     calc_d = (\<lambda>xs ag. sample_calc_d xs), get_xcp = (\<lambda>d p. d256 (nat_of d div 2)),
     calc_provide_fee = (\<lambda>ds xp pp. Some (Decimal256 0)),
     assert_slippage_tolerance = (\<lambda>ds s ps tol. Inr (Decimal256 0)),
     assert_max_spread = sample_max_spread,
     before_swap_check = (\<lambda>pools offer. if offer = decimal256_zero \<or> list_ex (\<lambda>p. da_amount p = decimal256_zero) pools
        then fail_with (PclErr ''empty'') else Inr ()),
     compute_swap = (\<lambda>xs offer ask c env share fs. Inr (sample_swap offer share)),
     compute_offer_amount = (\<lambda>xs ask i c env. and_then (or_panic (sample_needed ask)) (\<lambda>d. Inr (d, Decimal256 0, Decimal256 0))),
     calc_last_price = (\<lambda>r offer i. Some decimal256_one),
     get_share_in_assets = sample_shares,
     precommit_save = (\<lambda>env b q. Inr \<lparr>po_base_amount = b, po_quote_amount = q, po_precommit_ts = env_time env\<rparr>),
     buffer_init = (\<lambda>n. Inr \<lparr>bf_capacity = n, bf_head = 0, bf_slots = fmempty\<rparr>),
     buffer_read_last = sample_read_last, buffer_read_single = sample_read, buffer_instant_push = sample_push,
     safe_sma_calculation = (\<lambda>s old n p. Inr p), safe_sma_buffer_not_full = (\<lambda>s n p. Inr p),
     query_observation = (\<lambda>env b n. fail_with (GenericErr ''Buffer is empty'')),
     balance_at_height = sample_balance_at,
     std_error_to_string = (\<lambda>e. case e of GenericErr t \<Rightarrow> ''Generic error: '' @ t | NotFound t \<Rightarrow> t @ '' not found'' | OtherStdErr t \<Rightarrow> t),
     payment_error_to_string = (\<lambda>e. ''payment''), overflow_error_text = ''overflow'', buffer_uninitialised_text = ''no buffer''\<rparr>"

lemma sample_pcl_sel [simp]:
  "addr_validate sample_pcl = sample_addr_validate"
  "addr_opt_validate sample_pcl = sample_addr_opt_validate"
  "propose_new_owner sample_pcl = sample_propose"
  "drop_ownership_proposal sample_pcl = sample_drop"
  "claim_ownership sample_pcl = sample_claim"
  "d_add sample_pcl = (\<lambda>a b. map_option Decimal256 (add_checked (atomics256 a) (atomics256 b)))"
  "d_sub sample_pcl = (\<lambda>a b. map_option Decimal256 (sub_checked (atomics256 a) (atomics256 b)))"
  "d_mul sample_pcl = sample_mul"
  "d_div sample_pcl = sample_div"
  "d_diff sample_pcl = (\<lambda>a b. if a \<le> b then Decimal256 (atomics256 b - atomics256 a) else Decimal256 (atomics256 a - atomics256 b))"
  "d_sub_saturating sample_pcl = (\<lambda>a b. Decimal256 (sub_saturating (atomics256 a) (atomics256 b)))"
  "d_of_decimal sample_pcl = (\<lambda>d. Decimal256 (word_of_nat (unat (atomics d))))"
  "d_from_ratio sample_pcl = (\<lambda>a b. if b = 0 then None else d256 (unat a * unit18 div unat b))"
  "decimal_of_d sample_pcl = (\<lambda>d. case u128_of (nat_of d) of None \<Rightarrow> fail_with ''range'' | Some n \<Rightarrow> Inr (Decimal n))"
  "decimal_from_ratio sample_pcl = sample_ratio"
  "to_uint sample_pcl = sample_to_uint"
  "to_decimal256 sample_pcl = sample_of_uint"
  "with_precision sample_pcl = sample_of_uint"
  "to_decimal_asset sample_pcl = sample_to_dec"
  "into_asset sample_pcl = sample_of_dec"
  "d_to_string sample_pcl = (\<lambda>d. to_string (atomics256 d))"
  "MIN_TRADE_SIZE sample_pcl = Decimal256 1000000000000"
  "MINIMUM_LIQUIDITY_AMOUNT sample_pcl = 1000"
  "OBSERVATIONS_SIZE sample_pcl = 3000"
  "OFFER_PERCENT sample_pcl = Decimal256 10000000000000000"
  "TWO sample_pcl = Decimal256 2000000000000000000"
  "info_to_string sample_pcl = sample_info_text"
  "asset_to_string sample_pcl = (\<lambda>a. to_string (as_amount a) @ sample_info_text (as_info a))"
  "as_coin sample_pcl = sample_as_coin"
  "asset_into_msg sample_pcl = (\<lambda>a r. Inr ())"
  "assert_sent_native_token_balance sample_pcl = (\<lambda>a info. if sample_sent (mi_funds info) a then Inr () else fail_with (GenericErr ''Native token balance mismatch''))"
  "assert_coins_properly_sent sample_pcl = (\<lambda>funds assets infos. if list_all (sample_sent funds) assets then Inr () else fail_with (GenericErr ''Native token balance mismatch''))"
  "must_pay sample_pcl = sample_must_pay"
  "check_assets sample_pcl = (\<lambda>assets. if distinct (map as_info assets) then Inr () else fail_with (PclErr ''doubling assets''))"
  "decode_init_params sample_pcl = (\<lambda>b. if b = ''params'' then Inr sample_pcl_init else fail_with (GenericErr ''parse''))"
  "decode_update_params sample_pcl = (\<lambda>b. if b = ''track'' then Inr EnableAssetBalancesTracking else if b = ''stop'' then Inr StopChangingAmpGamma else if b = ''share'' then Inr DisableFeeShare else fail_with (GenericErr ''parse''))"
  "decode_create_denom sample_pcl = (\<lambda>b. if b = '''' then fail_with (GenericErr ''parse'') else Inr b)"
  "default_pool_params sample_pcl = sample_pool_params"
  "default_amp_gamma sample_pcl = \<lparr>ag_amp = Decimal 0, ag_gamma = Decimal 0\<rparr>"
  "amp_gamma_new sample_pcl = (\<lambda>a g. Inr \<lparr>ag_amp = a, ag_gamma = g\<rparr>)"
  "update_params sample_pcl = sample_update_params"
  "promote_params_fn sample_pcl = (\<lambda>env p s. Inr (s\<lparr>po_future := \<lparr>ag_amp = pr_next_amp p, ag_gamma = pr_next_gamma p\<rparr>, po_future_time := pr_future_time p, po_initial_time := env_time env\<rparr>))"
  "stop_promotion sample_pcl = (\<lambda>env s. s\<lparr>po_future_time := env_time env, po_initial_time := env_time env\<rparr>)"
  "get_amp_gamma sample_pcl = (\<lambda>env s. Some (po_future s))"
  "update_price sample_pcl = (\<lambda>pp env ts xs price s. Inr (s\<lparr>po_price_state := (po_price_state s)\<lparr>pp_last_price := price, pp_updated_at := env_time env\<rparr>\<rparr>))"
  "get_precision sample_pcl = (\<lambda>ps i. case map_of ps i of None \<Rightarrow> fail_with (PclErr ''invalid asset'') | Some p \<Rightarrow> Inr p)"
  "calc_d sample_pcl = (\<lambda>xs ag. sample_calc_d xs)"
  "get_xcp sample_pcl = (\<lambda>d p. d256 (nat_of d div 2))"
  "calc_provide_fee sample_pcl = (\<lambda>ds xp pp. Some (Decimal256 0))"
  "assert_slippage_tolerance sample_pcl = (\<lambda>ds s ps tol. Inr (Decimal256 0))"
  "assert_max_spread sample_pcl = sample_max_spread"
  "before_swap_check sample_pcl = (\<lambda>pools offer. if offer = decimal256_zero \<or> list_ex (\<lambda>p. da_amount p = decimal256_zero) pools then fail_with (PclErr ''empty'') else Inr ())"
  "compute_swap sample_pcl = (\<lambda>xs offer ask c env share fs. Inr (sample_swap offer share))"
  "compute_offer_amount sample_pcl = (\<lambda>xs ask i c env. and_then (or_panic (sample_needed ask)) (\<lambda>d. Inr (d, Decimal256 0, Decimal256 0)))"
  "calc_last_price sample_pcl = (\<lambda>r offer i. Some decimal256_one)"
  "get_share_in_assets sample_pcl = sample_shares"
  "precommit_save sample_pcl = (\<lambda>env b q. Inr \<lparr>po_base_amount = b, po_quote_amount = q, po_precommit_ts = env_time env\<rparr>)"
  "buffer_init sample_pcl = (\<lambda>n. Inr \<lparr>bf_capacity = n, bf_head = 0, bf_slots = fmempty\<rparr>)"
  "buffer_read_last sample_pcl = sample_read_last"
  "buffer_read_single sample_pcl = sample_read"
  "buffer_instant_push sample_pcl = sample_push"
  "safe_sma_calculation sample_pcl = (\<lambda>s old n p. Inr p)"
  "safe_sma_buffer_not_full sample_pcl = (\<lambda>s n p. Inr p)"
  "query_observation sample_pcl = (\<lambda>env b n. fail_with (GenericErr ''Buffer is empty''))"
  "balance_at_height sample_pcl = sample_balance_at"
  "std_error_to_string sample_pcl = (\<lambda>e. case e of GenericErr t \<Rightarrow> ''Generic error: '' @ t | NotFound t \<Rightarrow> t @ '' not found'' | OtherStdErr t \<Rightarrow> t)"
  "payment_error_to_string sample_pcl = (\<lambda>e. ''payment'')"
  "overflow_error_text sample_pcl = ''overflow''"
  "buffer_uninitialised_text sample_pcl = ''no buffer''"
  by (simp_all add: sample_pcl_def)

definition uatom :: asset_info where "uatom = NativeToken ''uatom''"
definition uosmo :: asset_info where "uosmo = NativeToken ''uosmo''"

definition sample_pair_chain :: "u128 \<Rightarrow> u128 \<Rightarrow> u128 \<Rightarrow> pair_chain" where
  \<comment> \<open>the chain with these balances of the pair and this supply of its LP token\<close>
  "sample_pair_chain a b supply = \<lparr>
     pq_supply = (\<lambda>d. Inr \<lparr>coin_denom = d, coin_amount = supply\<rparr>),
     pq_pools = (\<lambda>pi addr. Inr [\<lparr>as_info = uatom, as_amount = a\<rparr>, \<lparr>as_info = uosmo, as_amount = b\<rparr>]),
     pq_factory_owner = (\<lambda>addr. Inr ''dao''),
     pq_fee_info = (\<lambda>addr t. Inr \<lparr>fi_fee_address = Some ''maker'', fi_maker_fee_rate = Decimal 500000000000000000\<rparr>),
     pq_pair_registered = (\<lambda>addr infos. Inr True),
     pq_precisions = (\<lambda>infos addr. Inr [(uatom, 6), (uosmo, 6)])\<rparr>"

definition sample_pcl_config :: "string \<Rightarrow> bool \<Rightarrow> pcl_config" where
  "sample_pcl_config denom track = \<lparr>
     cc_pair_info = \<lparr>pi_asset_infos = [uatom, uosmo], pi_contract_addr = ''contract'', pi_liquidity_token = denom,
       pi_pair_type = Custom ''concentrated''\<rparr>,
     cc_factory_addr = FACTORY_ADDRESS, cc_pool_params = sample_pool_params\<lparr>pm_ma_half_time := 600\<rparr>,
     cc_pool_state = \<lparr>po_initial = \<lparr>ag_amp = Decimal 0, ag_gamma = Decimal 0\<rparr>,
       po_future = \<lparr>ag_amp = Decimal 40, ag_gamma = Decimal 1\<rparr>, po_future_time = 5, po_initial_time = 0,
       po_price_state = \<lparr>pp_oracle_price = decimal256_one, pp_last_price = decimal256_one,
         pp_price_scale = decimal256_one, pp_updated_at = 5, pp_xcp_profit = decimal256_zero,
         pp_xcp_profit_real = decimal256_zero\<rparr>\<rparr>,
     cc_owner = None, cc_track_asset_balances = track, cc_fee_share = None\<rparr>"

definition blank_pair :: pair_state where
  "blank_pair = \<lparr>ps_swap_params = None, ps_pool_id = None, ps_config = None, ps_ownership_proposal = None,
     ps_observations = None, ps_balances = [], ps_precisions = None, ps_precommit = None, ps_cw2 = None\<rparr>"

definition sample_pair :: "bool \<Rightarrow> pair_state" where
  \<comment> \<open>a pair in operation, with or without balance tracking\<close>
  "sample_pair track = blank_pair\<lparr>ps_pool_id := Some 7, ps_config := Some (sample_pcl_config ''lp'' track),
     ps_observations := Some \<lparr>bf_capacity = 3000, bf_head = 0, bf_slots = fmempty\<rparr>,
     ps_precisions := Some [(uatom, 6), (uosmo, 6)], ps_cw2 := Some (CONTRACT_NAME, CONTRACT_VERSION)\<rparr>"

lemma sample_pcl_config_sel [simp]:
  "cc_pair_info (sample_pcl_config denom track) = \<lparr>pi_asset_infos = [uatom, uosmo], pi_contract_addr = ''contract'',
     pi_liquidity_token = denom, pi_pair_type = Custom ''concentrated''\<rparr>"
  "cc_factory_addr (sample_pcl_config denom track) = FACTORY_ADDRESS"
  "cc_owner (sample_pcl_config denom track) = None"
  "cc_track_asset_balances (sample_pcl_config denom track) = track"
  "price_scale (sample_pcl_config denom track) = decimal256_one"
  by (simp_all add: sample_pcl_config_def)

lemma sample_pair_sel [simp]:
  "ps_swap_params (sample_pair track) = None"
  "ps_pool_id (sample_pair track) = Some 7"
  "ps_config (sample_pair track) = Some (sample_pcl_config ''lp'' track)"
  "ps_ownership_proposal (sample_pair track) = None"
  "ps_observations (sample_pair track) = Some \<lparr>bf_capacity = 3000, bf_head = 0, bf_slots = fmempty\<rparr>"
  "ps_balances (sample_pair track) = []"
  "ps_precisions (sample_pair track) = Some [(uatom, 6), (uosmo, 6)]"
  "ps_precommit (sample_pair track) = None"
  "ps_cw2 (sample_pair track) = Some (CONTRACT_NAME, CONTRACT_VERSION)"
  by (simp_all add: sample_pair_def blank_pair_def)

lemma sample_infos_differ [simp]: "uatom \<noteq> uosmo" "uosmo \<noteq> uatom"
  by (simp_all add: uatom_def uosmo_def)

lemma sample_infos_case [simp]:
  "case_asset_info f g uatom = g ''uatom''" "case_asset_info f g uosmo = g ''uosmo''"
  by (simp_all add: uatom_def uosmo_def)

lemma word_succ_nonzero: "a + 1 \<noteq> 0" if "a < b" for a b :: "'l::len word"
proof
  assume "a + 1 = 0"
  then have "a = - 1" by (simp add: eq_neg_iff_add_eq_0)
  with that word_n1_ge [of b] show False by simp
qed

lemma sample_reads_pushed: "sample_push b obs = Inr b' \<Longrightarrow> sample_read_last b' = Inr (Some obs)"
  using word_succ_nonzero [of "bf_head b" "bf_capacity b - 1"]
  by (auto simp: sample_push_def sample_read_last_def)

lemma sample_pair_ownership: "ownership_laws sample_pcl"
  by (rule sample_ownership) simp_all

lemmas pair_number_defs = d256_def u128_of_def sample_to_uint_def sample_of_uint_def sample_mul_def sample_div_def
  sample_ratio_def add_checked_def sub_checked_def sub_saturating_def

lemmas pair_sample_defs = pair_number_defs sample_to_dec_def sample_of_dec_def sample_sent_def sample_must_pay_def
  sample_swap_def sample_needed_def sample_max_spread_def sample_shares_def sample_calc_d_def sample_read_last_def
  sample_push_def sample_pair_chain_def sample_addr_validate_def sample_addr_opt_validate_def sample_as_coin_def

lemmas pair_eval_defs = query_pools_def pair_sample_defs update_at_def nth_opt_def Let_def swapped_reserves_def
  maker_fee_share_def decimal_supply_def query_native_supply_def LP_TOKEN_PRECISION_def repeg_after_swap_def
  scaled_def maker_fee_payment_def into_msg_def accumulate_swap_sizes_def save_precommit_def

end
