(* ===== verification/Pair_Ledger.thy ===== *)
theory Pair_Ledger
  imports Pair_Laws "HOL-Library.Multiset"
begin

text \<open>
  The balances the pair tracks, against the balances on the chain: the conversions between
  amounts and decimals, what each liquidity operation and swap pays out, and, for each of them,
  that the balances it saves are the chain's less what leaves the pair (\<open>provide_ledger\<close>,
  \<open>withdraw_ledger\<close>, \<open>swap_ledger\<close>, \<open>swap_out_ledger\<close>, \<open>config_ledger\<close>).
\<close>

unbundle bit_operations_syntax

lemma first_mints:
  assumes "(if b then first_share L env c d else and_then m (\<lambda>share. Inr (share, c, []))) = Inr (share, c1, mints)"
    and "rebalance L env c1 deposits new_xp ts share tol = Inr (slippage, c2)"
  shows "lp_denom c2 = lp_denom c \<and> mints = (if b then [MsgMint (env_contract env)
      \<lparr>coin_denom = lp_denom c, coin_amount = MINIMUM_LIQUIDITY_AMOUNT L\<rparr> (env_contract env)] else [])"
  using assms(1) pool_changeD [OF provided_change [OF assms]]
  by (auto simp: res_simps dest!: first_share_returns split: if_splits)

section \<open>What the ledger should hold\<close>

definition exact_law :: "'a pcl_crates_scheme \<Rightarrow> bool" where
  \<comment> \<open>with at most 18 decimals the conversions between amounts and decimals lose nothing, checked
      subtraction and addition are inverse, and a share is a share of each of the assets\<close>
  "exact_law L \<longleftrightarrow>
     (\<forall>a p d. p \<le> 18 \<longrightarrow> to_decimal_asset L a p = Inr d \<longrightarrow>
        da_info d = as_info a \<and> to_uint L (da_amount d) p = Inr (as_amount a)) \<and>
     (\<forall>d p a. into_asset L d p = Inr a \<longrightarrow> as_info a = da_info d) \<and>
     (\<forall>a b c. d_sub L a b = Some c \<longrightarrow> d_add L c b = Some a) \<and>
     (\<forall>pools n t ds. get_share_in_assets L pools n t = Some ds \<longrightarrow> map da_info ds = map da_info pools)"

definition paid :: "asset_info \<Rightarrow> pair_msg submsg list \<Rightarrow> nat" where
  \<comment> \<open>what the response pays out of an asset\<close>
  "paid i msgs = sum_list (map (\<lambda>m. case sub_msg m of
     TransferAsset a _ \<Rightarrow> if as_info a = i then unat (as_amount a) else 0 | _ \<Rightarrow> 0) msgs)"

definition given_back :: "pair_event \<Rightarrow> pair_msg data_response \<Rightarrow> asset_info \<Rightarrow> nat" where
  \<comment> \<open>what the chain returns to the trader of an exact-out swap: the maximum less the charge\<close>
  "given_back ev r i = (case ev of
     Sudo (SwapExactAmountOut _ denom m _ _) \<Rightarrow> (case resp_data r of
       Some (SwapExactAmountOutResponseData charged) \<Rightarrow> if i = NativeToken denom then unat m - unat charged else 0
     | _ \<Rightarrow> 0)
   | _ \<Rightarrow> 0)"

lemma paid_simps [simp]:
  "paid i [] = 0"
  "paid i (submsg_new (TransferAsset a r) # ms) = (if as_info a = i then unat (as_amount a) else 0) + paid i ms"
  "paid i (submsg_new (MsgBurn x y z) # ms) = paid i ms"
  "paid i (submsg_new (MsgMint x y z) # ms) = paid i ms"
  "paid i (ms @ ms') = paid i ms + paid i ms'"
  by (simp_all add: paid_def submsg_new_def)

definition reads_as :: "'a pcl_crates_scheme \<Rightarrow> precisions \<Rightarrow> asset \<Rightarrow> decimal_asset \<Rightarrow> bool" where
  \<comment> \<open>a balance and its exact decimal\<close>
  "reads_as L precs a d \<longleftrightarrow> da_info d = as_info a \<and>
     (\<exists>p. get_precision L precs (as_info a) = Inr p \<and> to_uint L (da_amount d) p = Inr (as_amount a))"

lemma query_pools_exact:
  assumes "query_pools L Q addr c precs = Inr pools" and "exact_law L"
    and "\<And>i p. get_precision L precs i = Inr p \<Longrightarrow> p \<le> 18"
  shows "\<exists>assets. pq_pools Q (cc_pair_info c) addr = Inr assets \<and> list_all2 (reads_as L precs) assets pools"
proof -
  have "reads_as L precs a d" if "get_precision L precs (as_info a) = Inr p" "to_decimal_asset L a p = Inr d" for a p d
    using assms(2) assms(3) [OF that(1)] that unfolding exact_law_def reads_as_def by blast
  with assms(1) show ?thesis
    by (fastforce simp: query_pools_def res_simps try_map_returns elim!: list_all2_mono)
qed

lemma provided_exact:
  assumes law: "exact_law L" and read: "list_all2 (reads_as L precs) assets pools0"
    and before: "try_map (without_deposit L deposits) (List.enumerate 0 pools0) = Inr pools"
    and saved: "try_map (provided_balance L precs deposits) (List.enumerate 0 pools) = Inr bs"
  shows "bs = map (\<lambda>a. (as_info a, as_amount a)) assets"
proof (rule nth_equalityI)
  note len = try_map_length [OF before] try_map_length [OF saved] list_all2_lengthD [OF read]
  then show "length bs = length (map (\<lambda>a. (as_info a, as_amount a)) assets)" by simp
  fix i assume "i < length bs"
  with len have i: "i < length assets" "i < length pools0" "i < length pools" by simp_all
  from before i have "without_deposit L deposits (i, pools0 ! i) = Inr (pools ! i)"
    by (simp add: try_map_returns list_all2_conv_all_nth nth_enumerate_eq)
  then obtain d x where d: "nth_opt deposits i = Some d" "d_sub L (da_amount (pools0 ! i)) d = Some x"
    "pools ! i = (pools0 ! i)\<lparr>da_amount := x\<rparr>"
    by (auto simp: without_deposit_def res_simps split: asset_info.splits)
  have r: "reads_as L precs (assets ! i) (pools0 ! i)" using read i by (simp add: list_all2_conv_all_nth)
  have "provided_balance L precs deposits (i, pools ! i) = Inr (bs ! i)"
    using saved i \<open>i < length bs\<close> by (simp add: try_map_returns list_all2_conv_all_nth nth_enumerate_eq)
  with d r law i show "bs ! i = map (\<lambda>a. (as_info a, as_amount a)) assets ! i"
    by (auto simp: provided_balance_def reads_as_def exact_law_def res_simps simp del: nth_opt_Some)
qed

definition accounts :: "asset list \<Rightarrow> (asset_info \<times> u128) list \<Rightarrow> (asset_info \<Rightarrow> nat) \<Rightarrow> bool" where
  \<comment> \<open>each saved balance is a balance on the chain less what leaves it\<close>
  "accounts assets bs out \<longleftrightarrow>
     (\<forall>(i, n) \<in> set bs. \<exists>a \<in> set assets. as_info a = i \<and> unat (as_amount a) = unat n + out i)"

lemma accounts_all:
  "(\<And>i. out i = 0) \<Longrightarrow> accounts assets (map (\<lambda>a. (as_info a, as_amount a)) assets) out"
  by (auto simp: accounts_def)

lemma paid_transfers:
  assumes "distinct (map as_info assets)" and "k < length assets"
  shows "paid (as_info (assets ! k)) (map (\<lambda>a. submsg_new (TransferAsset a to)) assets) = unat (as_amount (assets ! k))"
proof -
  have none: "paid i (map (\<lambda>a. submsg_new (TransferAsset a to)) xs) = 0" if "i \<notin> set (map as_info xs)" for i xs
    using that by (induction xs) auto
  from assms show ?thesis
  proof (induction assets arbitrary: k)
    case (Cons a assets)
    then show ?case using none [of "as_info a" assets] by (cases k) (force simp: image_iff)+
  qed simp
qed

lemma transfers_of: "try_map (\<lambda>a. into_msg L a to) assets = Inr ms \<Longrightarrow> ms = map (\<lambda>a. TransferAsset a to) assets"
  by (simp add: try_map_returns list_all2_conv_all_nth into_msg_returns list_eq_iff_nth_eq)

lemma refund_infos:
  "exact_law L \<Longrightarrow> try_map (refund_of L precs) decs = Inr refunds \<Longrightarrow> map as_info refunds = map da_info decs"
  by (auto simp: exact_law_def try_map_returns list_all2_conv_all_nth refund_of_def res_simps
      intro!: nth_equalityI)

lemma withdrawn_exact:
  assumes law: "exact_law L" and read: "list_all2 (reads_as L precs) assets pools"
    and infos: "map da_info decs = map da_info pools" and dist: "distinct (map as_info assets)"
    and refunds: "try_map (refund_of L precs) decs = Inr refunds"
    and saved: "try_map (withdrawn_balance L precs refunds) (List.enumerate 0 pools) = Inr bs"
  shows "map fst bs = map as_info assets \<and>
    accounts assets bs (\<lambda>i. paid i (map (\<lambda>a. submsg_new (TransferAsset a to)) refunds))"
proof -
  have same: "map da_info pools = map as_info assets"
    using read by (auto simp: list_all2_conv_all_nth reads_as_def intro!: nth_equalityI)
  with refund_infos [OF law refunds] infos have r: "map as_info refunds = map as_info assets" by simp
  then have len: "length refunds = length assets" by (metis length_map)
  have each: "fst (bs ! k) = as_info (assets ! k) \<and> as_info (refunds ! k) = as_info (assets ! k) \<and>
      unat (as_amount (assets ! k)) = unat (snd (bs ! k)) + unat (as_amount (refunds ! k))"
    if k: "k < length assets" for k
  proof -
    from k read have p: "k < length pools" "reads_as L precs (assets ! k) (pools ! k)"
      by (simp_all add: list_all2_conv_all_nth)
    from saved p(1) have "withdrawn_balance L precs refunds (k, pools ! k) = Inr (bs ! k)"
      by (simp add: try_map_returns list_all2_conv_all_nth nth_enumerate_eq)
    with p(2) obtain left where left: "sub_checked (as_amount (assets ! k)) (as_amount (refunds ! k)) = Some left"
      "bs ! k = (as_info (assets ! k), left)"
      by (auto simp: withdrawn_balance_def reads_as_def res_simps)
    moreover have "as_info (refunds ! k) = as_info (assets ! k)" using r k len by (metis nth_map)
    ultimately show ?thesis using sub_checked_Some [OF left(1)] by simp
  qed
  have lb: "length bs = length assets" using try_map_length [OF saved] read by (simp add: list_all2_lengthD)
  have "accounts assets bs (\<lambda>i. paid i (map (\<lambda>a. submsg_new (TransferAsset a to)) refunds))"
    unfolding accounts_def
  proof clarify
    fix i n assume "(i, n) \<in> set bs"
    then obtain k where k: "k < length assets" "bs ! k = (i, n)" by (auto simp: in_set_conv_nth lb)
    with each [OF k(1)] paid_transfers [of refunds k to] r dist len
    show "\<exists>a\<in>set assets. as_info a = i \<and>
        unat (as_amount a) = unat n + paid i (map (\<lambda>a. submsg_new (TransferAsset a to)) refunds)"
      by (intro bexI [of _ "assets ! k"]) auto
  qed
  with each lb show ?thesis by (auto intro!: nth_equalityI)
qed

definition ledger_ready :: "'a pcl_crates_scheme \<Rightarrow> pair_chain \<Rightarrow> env \<Rightarrow> pair_state \<Rightarrow> pcl_config \<Rightarrow> asset list \<Rightarrow> bool" where
  \<comment> \<open>the pair in operation, with these balances of its two assets on the chain\<close>
  "ledger_ready L Q env st c assets \<longleftrightarrow> exact_law L \<and> ps_config st = Some c \<and>
     (\<exists>precs. ps_precisions st = Some precs \<and> (\<forall>i p. get_precision L precs i = Inr p \<longrightarrow> p \<le> 18)) \<and>
     pi_contract_addr (cc_pair_info c) = env_contract env \<and>
     pq_pools Q (cc_pair_info c) (env_contract env) = Inr assets \<and> distinct (map as_info assets) \<and> length assets = 2"

definition ledger_step :: "env \<Rightarrow> pcl_config \<Rightarrow> asset list \<Rightarrow> (asset_info \<Rightarrow> nat) \<Rightarrow> pair_state \<Rightarrow> pair_state \<Rightarrow> bool" where
  \<comment> \<open>the balances saved at this height account for all assets when the pair tracks them\<close>
  "ledger_step env c assets out st st' \<longleftrightarrow>
     (\<exists>bs. ps_balances st' = ps_balances st @ map (\<lambda>(i, n). (i, n, env_height env)) bs \<and> accounts assets bs out \<and>
        (if cc_track_asset_balances c then mset (map fst bs) = mset (map as_info assets) else bs = []))"

lemma ledger_readyD:
  assumes "ledger_ready L Q env st c assets"
  shows "exact_law L" "ps_config st = Some c" "pi_contract_addr (cc_pair_info c) = env_contract env"
    "distinct (map as_info assets)" "length assets = 2"
    "pq_pools Q (cc_pair_info c) (env_contract env) = Inr assets"
    "ps_precisions st = Some precs \<Longrightarrow> query_pools L Q (env_contract env) c precs = Inr pools \<Longrightarrow>
       list_all2 (reads_as L precs) assets pools"
  using assms query_pools_exact [of L Q "env_contract env" c precs pools]
  by (auto simp: ledger_ready_def res_simps)

lemma ledger_stepI:
  "ps_balances st' = ps_balances (if cc_track_asset_balances c then save_balances bs (env_height env) st else st) \<Longrightarrow>
     (cc_track_asset_balances c \<Longrightarrow> accounts assets bs out \<and> mset (map fst bs) = mset (map as_info assets)) \<Longrightarrow>
     ledger_step env c assets out st st'"
  unfolding ledger_step_def save_balances_def
  by (cases "cc_track_asset_balances c")
    (simp_all add: accounts_def, rule exI [of _ bs], simp)

lemma saving_ledger:
  assumes "(if cc_track_asset_balances c' then and_then m (\<lambda>bs. Inr (save_balances bs (env_height env) st)) else Inr st) = Inr st1"
    and "cc_track_asset_balances c' = cc_track_asset_balances c"
    and "\<And>bs. m = Inr bs \<Longrightarrow> accounts assets bs out \<and> mset (map fst bs) = mset (map as_info assets)"
  shows "ledger_step env c assets out st (st1\<lparr>ps_config := x\<rparr>)"
proof (cases "cc_track_asset_balances c")
  case True
  with assms(1,2) obtain bs where "m = Inr bs" "st1 = save_balances bs (env_height env) st" by (auto simp: res_simps)
  with True assms(3) show ?thesis by (intro ledger_stepI [of _ _ bs]) simp_all
next
  case False
  with assms(1,2) show ?thesis by (intro ledger_stepI [of _ _ "[]"]) simp_all
qed

lemma provide_ledger:
  assumes ready: "ledger_ready L Q env st c assets"
  shows "yields (\<lambda>(st', r). ledger_step env c assets (\<lambda>i. paid i (resp_msgs r)) st st')
    (provide_liquidity L Q env info given tol receiver st)"
  unfolding provide_liquidity_def Let_def
  by (intro yields_rules; (hypsubst+)?)
    (simp add: ledger_readyD(2) [OF ready] map_err_returns load_item_returns, (hypsubst)?,
     frule (1) first_mints, frule (1) provided_change, rule saving_ledger, assumption, simp add: pool_changeD,
     frule (1) ledger_readyD(7) [OF ready], frule (2) provided_exact [OF ledger_readyD(1) [OF ready]],
     simp add: accounts_all comp_def)

lemma withdrawn_accounts:
  assumes ready: "ledger_ready L Q env st c assets" and precs: "ps_precisions st = Some precs"
    and pools: "query_pools L Q (pi_contract_addr (cc_pair_info c)) c precs = Inr pools"
    and share: "get_share_in_assets L pools n t = Some decs"
    and refunds: "try_map (refund_of L precs) decs = Inr refunds"
    and saved: "try_map (withdrawn_balance L precs refunds) (List.enumerate 0 pools) = Inr bs"
  shows "accounts assets bs (\<lambda>i. paid i (map (\<lambda>a. submsg_new (TransferAsset a to)) refunds)) \<and>
    mset (map fst bs) = mset (map as_info assets)"
proof -
  note law = ledger_readyD(1) [OF ready]
  from law share have "map da_info decs = map da_info pools" by (simp add: exact_law_def)
  from withdrawn_exact [OF law ledger_readyD(7) [OF ready precs] this ledger_readyD(4) [OF ready] refunds saved]
  show ?thesis using pools by (simp add: ledger_readyD(3) [OF ready])
qed

lemma withdraw_ledger:
  assumes ready: "ledger_ready L Q env st c assets"
  shows "yields (\<lambda>(st', r). ledger_step env c assets (\<lambda>i. paid i (resp_msgs r)) st st')
    (withdraw_liquidity L Q env info given st)"
  unfolding withdraw_liquidity_def Let_def
  by (intro yields_rules; (hypsubst+)?)
    (simp add: ledger_readyD(2) [OF ready] map_err_returns load_item_returns or_panic_returns del: nth_opt_Some,
     (hypsubst)?, drule transfers_of, rule saving_ledger, assumption, simp add: with_price_state_def,
     frule (4) withdrawn_accounts [OF ready], simp add: comp_def)

lemma saving_swap_ledger:
  assumes "(if cc_track_asset_balances c' then m else Inr st2) = Inr st1" and "ps_balances st2 = ps_balances st"
    and "cc_track_asset_balances c' = cc_track_asset_balances c"
    and "\<And>x. m = Inr x \<Longrightarrow> \<exists>bs. x = save_balances bs (env_height env) st2 \<and> accounts assets bs out \<and>
      mset (map fst bs) = mset (map as_info assets)"
  shows "ledger_step env c assets out st st1"
proof (cases "cc_track_asset_balances c")
  case True
  with assms(1,3,4) obtain bs where "st1 = save_balances bs (env_height env) st2" and
    b: "accounts assets bs out" "mset (map fst bs) = mset (map as_info assets)" by auto
  with True assms(2) show ?thesis by (intro ledger_stepI [of _ _ bs]) (simp_all add: save_balances_def)
next
  case False
  with assms(1-3) show ?thesis by (intro ledger_stepI [of _ _ "[]"]) simp_all
qed

lemma other_of_two: "Suc 0 XOR i = 1 - i" if "i < 2"
  using that less_2_cases [OF that] by auto

lemma fee_paid:
  "maker_fee_payment L fees ask prec r = Inr (fee, msgs) \<Longrightarrow>
     paid i (map submsg_new msgs) = (if i = ask then unat fee else 0)"
  by (auto simp: maker_fee_payment_def res_simps split: option.splits if_splits)

lemma two_accounts:
  assumes "distinct (map as_info assets)" and "length assets = 2" and "i < 2"
    and "as_info (assets ! i) = x" and "as_info (assets ! (1 - i)) = y"
    and "unat (as_amount (assets ! i)) = unat n + out x" and "unat (as_amount (assets ! (1 - i))) = unat m + out y"
  shows "accounts assets [(x, n), (y, m)] out \<and> mset (map fst [(x, n), (y, m)]) = mset (map as_info assets)"
proof -
  obtain a b where "assets = [a, b]" using assms(2) by (auto simp: length_Suc_conv numeral_2_eq_2)
  with assms less_2_cases [OF assms(3)] show ?thesis by (auto simp: accounts_def)
qed

lemma sub_checked2:
  "sub_checked a b = Some c \<Longrightarrow> sub_checked c d = Some e \<Longrightarrow> unat a = unat e + unat b + unat d"
  using sub_checked_Some [of a b c] sub_checked_Some [of c d e] by simp

lemma swap_accounts:
  assumes ready: "ledger_ready L Q env st c assets" and precs: "ps_precisions st = Some precs"
    and pools0: "query_pools L Q (env_contract env) c precs = Inr pools0"
    and i: "i < length pools0" and ask: "nth_opt pools0 (Suc 0 XOR i) = Some ask_pool"
    and offer_prec: "get_precision L precs (da_info (pools0 ! i)) = Inr offer_prec"
    and ask_prec: "get_precision L precs (da_info ask_pool) = Inr ask_prec"
    and pools: "update_at i (\<lambda>p. map_option (\<lambda>a. p\<lparr>da_amount := a\<rparr>) (d_sub L (da_amount p) d)) pools0 = (Inr pools :: (pair_error, _) res)"
    and offer_pool: "nth_opt pools i = Some offer_pool"
    and total: "d_add L (da_amount offer_pool) d = Some offer_total" "to_uint L offer_total offer_prec = Inr offer_balance"
    and ask_total: "to_uint L (da_amount ask_pool) ask_prec = Inr ask_total"
    and rest: "sub_checked ask_total return = Some rest" "sub_checked rest fee = Some ask_balance"
    and fees: "maker_fee_payment L fees (da_info ask_pool) ask_prec r = Inr (fee, fee_msgs)"
    and out: "out = (\<lambda>j. (if da_info ask_pool = j then unat return else 0) + paid j (map submsg_new fee_msgs))"
  shows "accounts assets [(da_info offer_pool, offer_balance), (da_info ask_pool, ask_balance)] out \<and>
    mset (map fst [(da_info offer_pool, offer_balance), (da_info ask_pool, ask_balance)]) = mset (map as_info assets)"
proof -
  note law = ledger_readyD(1) [OF ready] and two = ledger_readyD(4,5) [OF ready]
  have read: "list_all2 (reads_as L precs) assets pools0" by (rule ledger_readyD(7) [OF ready precs pools0])
  then have i2: "i < 2" using i two by (simp add: list_all2_lengthD)
  with ask read two have j: "ask_pool = pools0 ! (1 - i)" "1 - i < 2" using other_of_two [OF i2] by auto
  have r: "reads_as L precs (assets ! i) (pools0 ! i)" "reads_as L precs (assets ! (1 - i)) ask_pool"
    using read i2 j two by (simp_all add: list_all2_conv_all_nth)
  from pools i obtain x where x: "d_sub L (da_amount (pools0 ! i)) d = Some x" "pools = pools0[i := (pools0 ! i)\<lparr>da_amount := x\<rparr>]"
    by (auto simp: res_simps)
  with offer_pool i have op: "offer_pool = (pools0 ! i)\<lparr>da_amount := x\<rparr>" by simp
  from x law have "d_add L x d = Some (da_amount (pools0 ! i))" by (simp add: exact_law_def)
  with op total r offer_prec have "offer_balance = as_amount (assets ! i)" "da_info offer_pool = as_info (assets ! i)"
    by (auto simp: reads_as_def)
  moreover have "ask_total = as_amount (assets ! (1 - i))" "da_info ask_pool = as_info (assets ! (1 - i))"
    using r ask_prec ask_total by (auto simp: reads_as_def)
  moreover have "as_info (assets ! i) \<noteq> as_info (assets ! (1 - i))"
    using two i2 less_2_cases [OF i2] by (auto simp: distinct_conv_nth)
  ultimately show ?thesis
    using two i2 sub_checked2 [OF rest] fee_paid [OF fees] unfolding out
    by (intro two_accounts) auto
qed

lemma observed_balances: "observed st st' \<Longrightarrow> ps_balances st' = ps_balances st"
  by (cases st) (auto simp: observed_def)

lemma repeg_tracking:
  "repeg_after_swap L env c i offer r ts xs = Inr c' \<Longrightarrow>
     cc_track_asset_balances c' = cc_track_asset_balances c"
  by (drule repeg_change) (simp add: pool_changeD)

lemma offer_position:
  assumes "ledger_ready L Q env st c assets" and "ps_precisions st = Some precs"
    and "get_precision L precs (as_info offer) = Inr p" and "to_decimal_asset L offer p = Inr d"
    and "find_position (\<lambda>a. da_info a = da_info d) pools = Some i"
  shows "i < length pools" "get_precision L precs (da_info (pools ! i)) = Inr p"
proof -
  have "p \<le> 18" using assms(1-3) by (auto simp: ledger_ready_def)
  then have "da_info d = as_info offer" using assms(4) ledger_readyD(1) [OF assms(1)] by (simp add: exact_law_def)
  with find_position_Some [OF assms(5)] assms(3)
  show "i < length pools" "get_precision L precs (da_info (pools ! i)) = Inr p" by auto
qed

lemma swap_ledger:
  assumes ready: "ledger_ready L Q env st c assets"
  shows "yields (\<lambda>(st', r). ledger_step env c assets (\<lambda>i. paid i (resp_msgs r)) st st')
    (internal_swap L Q env sender offer bp ms to st)"
  unfolding internal_swap_def Let_def
  by (intro yields_rules; (hypsubst+)?)
    (simp add: ledger_readyD(2) [OF ready] map_err_returns load_item_returns or_panic_returns ok_or_returns
       into_msg_returns del: nth_opt_Some, (hypsubst)?,
     rule saving_swap_ledger, assumption,
     frule accumulate_observed, frule precommit_observed, simp add: observed_balances, erule repeg_tracking,
     simp only: and_then_returns or_panic_returns map_err_returns, elim exE conjE, drule sum.inject(2) [THEN iffD1],
     rule exI, rule conjI, erule sym, rule swap_accounts [OF ready],
     (assumption | rule refl | erule (3) offer_position [OF ready])+, simp only: asset.select_convs)

lemma out_accounts:
  assumes two: "distinct (map as_info assets)" "length assets = 2"
    and k: "find_position (\<lambda>a. as_info a = NativeToken ask) assets = Some k"
    and i: "find_position (\<lambda>a. as_info a = NativeToken denom) assets = Some i" and "denom \<noteq> ask"
    and pools: "update_at i (\<lambda>p. map_option (\<lambda>a. p\<lparr>as_amount := a\<rparr>) (sub_checked (as_amount p) m)) assets = (Inr pools :: (pair_error, _) res)"
    and offer: "add_checked (as_amount (pools ! i)) offered = Some offer_balance" "charged \<le> m" "offered = charged"
    and rest: "sub_checked (as_amount (pools ! k)) return = Some rest" "sub_checked rest fee = Some ask_balance"
    and fees: "maker_fee_payment L fees (as_info (pools ! k)) ask_prec r = Inr (fee, fee_msgs)"
    and out: "out = (\<lambda>j. (if as_info (pools ! k) = j then unat return else 0) + paid j (map submsg_new fee_msgs) +
      (if j = NativeToken denom then unat m - unat charged else 0))"
  shows "accounts assets [(as_info (pools ! i), offer_balance), (as_info (pools ! k), ask_balance)] out \<and>
    mset (map fst [(as_info (pools ! i), offer_balance), (as_info (pools ! k), ask_balance)]) = mset (map as_info assets)"
proof -
  from find_position_Some [OF k] find_position_Some [OF i] \<open>denom \<noteq> ask\<close>
  have ki: "k < 2" "i < 2" "k \<noteq> i" "as_info (assets ! k) = NativeToken ask" "as_info (assets ! i) = NativeToken denom"
    using two by auto
  then have k1: "k = 1 - i" using less_2_cases [of k] less_2_cases [of i] by auto
  from pools ki two obtain x where x: "sub_checked (as_amount (assets ! i)) m = Some x"
    "pools = assets[i := (assets ! i)\<lparr>as_amount := x\<rparr>]" by (auto simp: res_simps)
  then have p: "pools ! i = (assets ! i)\<lparr>as_amount := x\<rparr>" "pools ! k = assets ! k" using ki two by simp_all
  have "unat (as_amount (assets ! i)) = unat offer_balance + (unat m - unat charged)"
    using add_checked_Some [OF offer(1)] sub_checked_Some [OF x(1)] offer(2,3) p by (simp add: word_le_nat_alt)
  moreover have "unat (as_amount (assets ! k)) = unat ask_balance + unat return + unat fee"
    using sub_checked2 [OF rest] p by simp
  ultimately show ?thesis
    using two ki k1 fee_paid [OF fees] p \<open>denom \<noteq> ask\<close> unfolding out
    by (intro two_accounts) auto
qed

lemma offered_exact:
  assumes "ledger_ready L Q env st c assets" and "ps_precisions st = Some precs"
    and "get_precision L precs x = Inr p" and "to_decimal_asset L \<lparr>as_info = x, as_amount = n\<rparr> p = Inr d"
    and "to_uint L (da_amount d) p = Inr k"
  shows "k = n"
proof -
  have "p \<le> 18" using assms(1-3) by (auto simp: ledger_ready_def)
  with assms(4,5) ledger_readyD(1) [OF assms(1)] show ?thesis by (fastforce simp: exact_law_def)
qed

lemma swap_out_ledger:
  assumes ready: "ledger_ready L Q env st c assets"
  shows "yields (\<lambda>(st', r). ledger_step env c assets
      (\<lambda>i. paid i (resp_msgs r) + given_back (Sudo (SwapExactAmountOut sender denom m out fee)) r i) st st')
    (swap_exact_amount_out L Q env sender denom m out st)"
  unfolding swap_exact_amount_out_def Let_def
  by (intro yields_rules; (hypsubst+)?)
    (simp add: ledger_readyD(2) [OF ready] map_err_returns load_item_returns or_panic_returns ok_or_returns
       ensure_returns into_msg_returns given_back_def del: nth_opt_Some, (hypsubst)?,
     simp only: ledger_readyD(6) [OF ready] sum.inject, (hypsubst)?, rule saving_swap_ledger, assumption,
     frule accumulate_observed, frule precommit_observed, simp add: observed_balances, erule repeg_tracking,
     simp only: and_then_returns or_panic_returns map_err_returns, elim exE conjE, drule sum.inject(2) [THEN iffD1],
     rule exI, rule conjI, erule sym, rule out_accounts [OF ledger_readyD(4,5) [OF ready]],
     (assumption | rule refl | erule (3) offered_exact [OF ready])+, simp only: asset.select_convs)

definition new_balances :: "env \<Rightarrow> asset list \<Rightarrow> (asset_info \<Rightarrow> nat) \<Rightarrow> (asset_info \<times> u128) list \<Rightarrow> pair_state \<Rightarrow> pair_state \<Rightarrow> bool" where
  "new_balances env assets out bs st st' \<longleftrightarrow>
     ps_balances st' = ps_balances st @ map (\<lambda>(i, n). (i, n, env_height env)) bs \<and> accounts assets bs out"

lemma ledger_step_new:
  "ledger_step env c assets out st st' \<Longrightarrow>
     \<exists>bs. new_balances env assets out bs st st' \<and>
       (if cc_track_asset_balances c then mset (map fst bs) = mset (map as_info assets) else bs = [])"
  by (auto simp: ledger_step_def new_balances_def)

lemma config_ledger:
  assumes ready: "ledger_ready L Q env st c assets"
    and "pair_update_config L Q env info params st = Inr (st', r)"
  shows "\<exists>bs. new_balances env assets (\<lambda>i. paid i (resp_msgs r)) bs st st' \<and>
    (bs = [] \<or> map fst bs = map as_info assets \<and> (\<exists>c'. ps_config st' = Some c' \<and> cc_track_asset_balances c'))"
proof -
  from pair_update_config_returns [OF assms(2)] obtain c0 c' d bs where u: "decode_update_params L params = Inr d"
    "config_effect d c0 c'" "st' = st\<lparr>ps_config := Some c', ps_balances := bs\<rparr>"
    "d \<noteq> EnableAssetBalancesTracking \<longrightarrow> bs = ps_balances st" by blast
  then have d: "decode_update_params L params = Inr d" "config_effect d c0 c'" "ps_config st' = Some c'"
    "d \<noteq> EnableAssetBalancesTracking \<Longrightarrow> ps_balances st' = ps_balances st" by auto
  show ?thesis
  proof (cases "d = EnableAssetBalancesTracking")
    case True
    with d have "c' = c0\<lparr>cc_track_asset_balances := True\<rparr>" by (simp add: config_effect_def)
    then have "cc_track_asset_balances c'" by simp
    with True d assms(2) show ?thesis
      by (intro exI [of _ "map (\<lambda>p. (as_info p, as_amount p)) assets"])
        (auto simp: pair_update_config_def Let_def res_simps ledger_readyD(2,3,6) [OF ready] save_balances_def
          new_balances_def accounts_all split: if_splits)
  next
    case False
    with d(4) show ?thesis by (intro exI [of _ "[]"]) (simp add: new_balances_def accounts_def)
  qed
qed

fun moves_assets :: "pair_event \<Rightarrow> bool" where
  \<comment> \<open>the events that change the balances of the pool's assets\<close>
  "moves_assets (Execute (ProvideLiquidity _ _ _ _)) = True"
| "moves_assets (Execute (WithdrawLiquidity _)) = True"
| "moves_assets (Sudo _) = True"
| "moves_assets _ = False"

lemma sudo_in_ledger:
  assumes ready: "ledger_ready L Q env st c assets"
    and s: "sudo L Q env (SwapExactAmountIn sender token d m fee) st = Inr (st', r)"
  shows "ledger_step env c assets (\<lambda>i. paid i (resp_msgs r)) st st'"
proof -
  from s obtain sender' bp ms to st1 r' where st1: "st1 = st \<or> st1 = st\<lparr>ps_swap_params := None\<rparr>"
    and sw: "internal_swap L Q env sender' \<lparr>as_info = NativeToken (coin_denom token), as_amount = coin_amount token\<rparr>
      bp ms to st1 = Inr (st', r')" and r: "resp_msgs r = resp_msgs r'"
    by (cases "ps_swap_params st") (auto simp: sudo_def sudo_swap_in_returns, blast+)
  from st1 ready have "ledger_ready L Q env st1 c assets" by (auto simp: ledger_ready_def)
  from yieldsD [OF swap_ledger [OF this] sw] st1 r show ?thesis by (auto simp: ledger_step_def)
qed

lemma other_calls_balances:
  assumes "pair_call (L, Q) env info ev st = Inr (st', r)" and "\<not> moves_assets ev"
    and "\<And>params. ev \<noteq> Execute (UpdateConfig params)"
  shows "ps_balances st' = ps_balances st \<and> given_back ev r = (\<lambda>i. 0) \<and> (\<forall>i. paid i (resp_msgs r) = 0)"
proof (cases ev)
  case (Execute msg)
  with assms show ?thesis
    by (cases msg)
      (auto simp: pair_call_def pair_execute_def execute_swap_returns set_pool_id_returns given_back_def res_simps
        paid_def submsg_new_def)
qed (use assms in \<open>auto simp: pair_call_def pair_reply_returns pair_migrate_returns given_back_def\<close>)

lemma call_ledger:
  assumes ready: "ledger_ready L Q env st c assets" and call: "pair_call (L, Q) env info ev st = Inr (st', r)"
  shows "\<exists>bs. new_balances env assets (\<lambda>i. paid i (resp_msgs r) + given_back ev r i) bs st st' \<and>
    (cc_track_asset_balances c \<and> moves_assets ev \<longrightarrow> mset (map fst bs) = mset (map as_info assets)) \<and>
    (bs = [] \<or> cc_track_asset_balances c \<or> (\<exists>c'. ps_config st' = Some c' \<and> cc_track_asset_balances c'))"
proof (cases "moves_assets ev")
  case True
  then have "ledger_step env c assets (\<lambda>i. paid i (resp_msgs r) + given_back ev r i) st st'"
    using call yieldsD [OF provide_ledger [OF ready]] yieldsD [OF withdraw_ledger [OF ready]]
      sudo_in_ledger [OF ready] yieldsD [OF swap_out_ledger [OF ready]]
    by (elim moves_assets.elims) (auto simp: pair_call_def pair_execute_def sudo_def given_back_def
        split: sudo_msg.splits dest!: sym [of "Sudo _"])
  from ledger_step_new [OF this] show ?thesis by (auto split: if_splits)
next
  case False
  show ?thesis
  proof (cases "\<exists>params. ev = Execute (UpdateConfig params)")
    case True
    with call config_ledger [OF ready] show ?thesis
      by (fastforce simp: pair_call_def pair_execute_def given_back_def)
  next
    case no: False
    from other_calls_balances [OF call False] no have "ps_balances st' = ps_balances st" by blast
    then show ?thesis using False by (intro exI [of _ "[]"]) (simp add: new_balances_def accounts_def)
  qed
qed

section \<open>What an exact-out swap sends\<close>

lemma maker_fee_payment_returns:
  "maker_fee_payment L fees ask prec r = Inr (fee, msgs) \<Longrightarrow>
     (fee = 0 \<and> msgs = []) \<or>
     (fee \<noteq> 0 \<and> (\<exists>a. fi_fee_address fees = Some a \<and> msgs = [TransferAsset \<lparr>as_info = ask, as_amount = fee\<rparr> a]))"
  by (auto simp: maker_fee_payment_def res_simps split: option.splits if_splits)

lemma info_kept:
  "i < length xs \<Longrightarrow> as_info (xs[j := (xs ! j)\<lparr>as_amount := z\<rparr>] ! i) = as_info (xs ! i)"
  by (cases "i = j") simp_all

lemma exact_out_returns:
  assumes "sudo L Q env (SwapExactAmountOut sender denom_in m out fee) st = Inr (st', r)"
  shows "denom_in \<noteq> coin_denom out \<and> coin_amount out \<noteq> 0 \<and> ps_swap_params st' = ps_swap_params st \<and>
    (\<exists>charged ret rest config fees. resp_data r = Some (SwapExactAmountOutResponseData charged) \<and> charged \<le> m \<and>
       ps_config st = Some config \<and>
       pq_fee_info Q (cc_factory_addr config) (pi_pair_type (cc_pair_info config)) = Inr fees \<and>
       resp_msgs r = submsg_new (TransferAsset \<lparr>as_info = NativeToken (coin_denom out), as_amount = ret\<rparr> sender) # rest \<and>
       (rest = [] \<or> (\<exists>a n. fi_fee_address fees = Some a \<and> n \<noteq> 0 \<and>
          rest = [submsg_new (TransferAsset \<lparr>as_info = NativeToken (coin_denom out), as_amount = n\<rparr> a)])))"
proof -
  have s: "swap_exact_amount_out L Q env sender denom_in m out st = Inr (st', r)"
    using assms by (simp add: sudo_def)
  have "ps_swap_params st' = ps_swap_params st"
    using yieldsD [OF swap_out_effect s] by (auto simp: swap_effect_def)
  moreover have "yields (\<lambda>(st', r). denom_in \<noteq> coin_denom out \<and> coin_amount out \<noteq> 0 \<and>
    (\<exists>charged ret rest config fees. resp_data r = Some (SwapExactAmountOutResponseData charged) \<and> charged \<le> m \<and>
       ps_config st = Some config \<and>
       pq_fee_info Q (cc_factory_addr config) (pi_pair_type (cc_pair_info config)) = Inr fees \<and>
       resp_msgs r = submsg_new (TransferAsset \<lparr>as_info = NativeToken (coin_denom out), as_amount = ret\<rparr> sender) # rest \<and>
       (rest = [] \<or> (\<exists>a n. fi_fee_address fees = Some a \<and> n \<noteq> 0 \<and>
          rest = [submsg_new (TransferAsset \<lparr>as_info = NativeToken (coin_denom out), as_amount = n\<rparr> a)]))))
   (swap_exact_amount_out L Q env sender denom_in m out st)"
    unfolding swap_exact_amount_out_def Let_def
    by (intro yields_rules; (hypsubst+)?)
      (auto simp: res_simps info_kept dest!: maker_fee_payment_returns find_position_Some)
  from yieldsD [OF this s] have "denom_in \<noteq> coin_denom out \<and> coin_amount out \<noteq> 0 \<and>
    (\<exists>charged ret rest config fees. resp_data r = Some (SwapExactAmountOutResponseData charged) \<and> charged \<le> m \<and>
       ps_config st = Some config \<and>
       pq_fee_info Q (cc_factory_addr config) (pi_pair_type (cc_pair_info config)) = Inr fees \<and>
       resp_msgs r = submsg_new (TransferAsset \<lparr>as_info = NativeToken (coin_denom out), as_amount = ret\<rparr> sender) # rest \<and>
       (rest = [] \<or> (\<exists>a n. fi_fee_address fees = Some a \<and> n \<noteq> 0 \<and>
          rest = [submsg_new (TransferAsset \<lparr>as_info = NativeToken (coin_denom out), as_amount = n\<rparr> a)])))" by simp
  ultimately show ?thesis by blast
qed

end
