(* ===== verification/Pair_Swap_Properties.thy ===== *)
theory Pair_Swap_Properties
  imports Pair_Samples Pair_Ledger
begin

text \<open>
  The properties of the pair's swaps, each with a witness on the sample instance: the swap that
  leaves the contract and comes back, its simulation, the exact-out swap.
\<close>

unbundle bit_operations_syntax

section \<open>Swaps\<close>

text \<open>
  C12. A swap that leaves the pair comes back with the user's parameters, once. A successful
  \<open>Swap\<close> sends one message, a swap of exactly the offered coin through the pair's own pool.
  The \<open>sudo\<close> call the chain answers it with, whatever sender and minimum it carries, runs the
  internal swap for the user who sent the \<open>Swap\<close>, with that user's belief price, spread and
  receiver. A successful one removes the parameters, and a swap that arrives when there are none
  runs for its own sender, with the price from its minimum and no spread.
\<close>

theorem swap_params_used_once:
  assumes "pair_execute L Q0 env info (Swap offer ask bp ms to) st = Inr (st1, r)"
  shows "\<exists>pool_id out token_in to'. ps_pool_id st = Some pool_id \<and> as_coin L offer = Inr token_in \<and>
     addr_opt_validate L to = Inr to' \<and>
     resp_msgs r = [submsg_new (MsgSwapExactAmountIn (env_contract env)
        [\<lparr>sa_pool_id = pool_id, sa_token_out_denom = out\<rparr>] token_in ''1'')] \<and>
     (\<forall>Q env' sender d m fee. sudo L Q env' (SwapExactAmountIn sender token_in d m fee) st1 =
        and_then (map_err Std (addr_validate L sender)) (\<lambda>_.
        and_then (or_panic (decimal_from_ratio L (coin_amount token_in) m)) (\<lambda>_.
        and_then (internal_swap L Q env' (mi_sender info)
            \<lparr>as_info = NativeToken (coin_denom token_in), as_amount = coin_amount token_in\<rparr> bp ms to'
            (st\<lparr>ps_swap_params := None\<rparr>)) (\<lambda>(st2, resp).
        Inr (st2, resp\<lparr>resp_attrs := resp_attrs resp @ [(''method'', ''swap_exact_amount_in'')]\<rparr>))))) \<and>
     (\<forall>Q env' sender token d m fee st2 r2 Q' env'' sender' token' d' m' fee'.
        sudo L Q env' (SwapExactAmountIn sender token d m fee) st1 = Inr (st2, r2) \<longrightarrow>
        sudo L Q' env'' (SwapExactAmountIn sender' token' d' m' fee') st2 =
          and_then (map_err Std (addr_validate L sender')) (\<lambda>validated.
          and_then (or_panic (decimal_from_ratio L (coin_amount token') m')) (\<lambda>ratio.
          and_then (internal_swap L Q' env'' validated
              \<lparr>as_info = NativeToken (coin_denom token'), as_amount = coin_amount token'\<rparr>
              (Some ratio) (Some decimal_zero) None st2) (\<lambda>(st3, resp).
          Inr (st3, resp\<lparr>resp_attrs := resp_attrs resp @ [(''method'', ''swap_exact_amount_in'')]\<rparr>)))))"
proof -
  from assms obtain c i out to' pool_id token_in where
    e: "ps_pool_id st = Some pool_id" "as_coin L offer = Inr token_in" "addr_opt_validate L to = Inr to'"
    and st1: "st1 = st\<lparr>ps_swap_params := Some \<lparr>sp_belief_price = bp, sp_max_spread = ms, sp_sender = mi_sender info, sp_to = to'\<rparr>\<rparr>"
    and r: "r = pair_response [(''action'', ''dispatch_swap'')]
          [MsgSwapExactAmountIn (env_contract env)
             [\<lparr>sa_pool_id = pool_id, sa_token_out_denom = info_to_string L out\<rparr>] token_in ''1'']"
    by (auto simp: pair_execute_def execute_swap_returns)
  have none: "ps_swap_params st2 = None" if "sudo L Q env' (SwapExactAmountIn sender token d m fee) st1 = Inr (st2, r2)"
    for Q env' sender token d m fee st2 r2
    using sudo_effect [OF that] by blast
  show ?thesis
    by (intro exI conjI allI impI, rule e(1), rule e(2), rule e(3))
      (use none in \<open>simp_all add: r st1 sudo_def sudo_swap_exact_amount_in_def Let_def\<close>)
qed

definition alice_offers :: message_info where
  "alice_offers = \<lparr>mi_sender = ''alice'', mi_funds = [\<lparr>coin_denom = ''uatom'', coin_amount = 1000\<rparr>]\<rparr>"

definition dispatched :: pair_state where
  "dispatched = sample_pair True\<lparr>ps_swap_params := Some \<lparr>sp_belief_price = None, sp_max_spread = None,
     sp_sender = ''alice'', sp_to = None\<rparr>\<rparr>"

lemma xor_indices [simp]: "Suc 0 XOR Suc 0 = 0" "Suc 0 XOR 0 = Suc 0"
  by simp_all

lemma sample_dispatch:
  "pair_execute sample_pcl Q (sample_env 9) alice_offers (Swap \<lparr>as_info = uatom, as_amount = 1000\<rparr> None None None None)
     (sample_pair True)
   = Inr (dispatched, pair_response [(''action'', ''dispatch_swap'')] [MsgSwapExactAmountIn ''contract''
       [\<lparr>sa_pool_id = 7, sa_token_out_denom = ''uosmo''\<rparr>] \<lparr>coin_denom = ''uatom'', coin_amount = 1000\<rparr> ''1''])"
  by (simp add: pair_execute_def execute_swap_def pair_eval_defs alice_offers_def dispatched_def
      uatom_def uosmo_def sample_info_text_def cong: and_then_eval_cong)

theorem swap_params_used_once_witness:
  "\<exists>st2 r2. sudo sample_pcl (sample_pair_chain 1001000 1000000 1000000) (sample_env 9)
      (SwapExactAmountIn ''module'' \<lparr>coin_denom = ''uatom'', coin_amount = 1000\<rparr> ''uosmo'' 1 (Decimal 0)) dispatched
      = Inr (st2, r2) \<and>
    hd (resp_msgs r2) = submsg_new (TransferAsset \<lparr>as_info = uosmo, as_amount = 990\<rparr> ''alice'') \<and>
    ps_swap_params st2 = None"
proof -
  let ?Q = "sample_pair_chain 1001000 1000000 1000000"
  let ?token = "\<lparr>coin_denom = ''uatom'', coin_amount = 1000\<rparr> :: coin"
  from swap_params_used_once [OF sample_dispatch]
  have eq: "sudo sample_pcl ?Q (sample_env 9) (SwapExactAmountIn ''module'' ?token ''uosmo'' 1 (Decimal 0)) dispatched =
      and_then (map_err Std (addr_validate sample_pcl ''module'')) (\<lambda>_.
      and_then (or_panic (decimal_from_ratio sample_pcl (coin_amount ?token) 1)) (\<lambda>_.
      and_then (internal_swap sample_pcl ?Q (sample_env 9) ''alice''
          \<lparr>as_info = NativeToken ''uatom'', as_amount = 1000\<rparr> None None None
          (sample_pair True\<lparr>ps_swap_params := None\<rparr>)) (\<lambda>(st2, resp).
      Inr (st2, resp\<lparr>resp_attrs := resp_attrs resp @ [(''method'', ''swap_exact_amount_in'')]\<rparr>))))"
    by (auto simp: alice_offers_def sample_as_coin_def uatom_def sample_addr_opt_validate_def)
  show ?thesis
    unfolding eq
    by (simp add: internal_swap_def pair_eval_defs uatom_def [symmetric] save_balances_def cong: and_then_eval_cong)
qed

definition ratio_law :: "'a pcl_crates_scheme \<Rightarrow> bool" where
  "ratio_law L \<longleftrightarrow> (\<forall>a b d. decimal_from_ratio L a b = Some d \<longrightarrow>
     b \<noteq> 0 \<and> unat (atomics d) = unat a * 1000000000000000000 div unat b)"

text \<open>
  C34. Large dispatched swaps always fail: the price computed from the minimum output, here the
  constant 1 that \<open>Swap\<close> itself sends, is evaluated before the stored parameters are looked at,
  and as a \<open>Decimal\<close> it exists only for offers below 340282366920938463464 units. So a \<open>Swap\<close> of
  more (341 tokens of 18 decimals) is accepted by the pair, and the \<open>sudo\<close> call it leads to never
  returns, in no state and on no chain. The hypothesis is the documented value of
  \<open>Decimal::from_ratio\<close>, which panics when it does not fit.
\<close>

theorem large_dispatched_swaps_fail:
  assumes "pair_execute L Q0 env info (Swap offer ask bp ms to) st = Inr (st1, r)"
    and "as_coin L offer = Inr token_in" and "340282366920938463464 \<le> unat (coin_amount token_in)"
    and "ratio_law L"
  shows "(\<exists>routes. resp_msgs r = [submsg_new (MsgSwapExactAmountIn (env_contract env) routes token_in ''1'')]) \<and>
    sudo L Q env' (SwapExactAmountIn sender token_in denom 1 fee) st2 \<noteq> Inr res"
proof -
  have "decimal_from_ratio L (coin_amount token_in) 1 = None"
  proof (rule ccontr)
    assume "decimal_from_ratio L (coin_amount token_in) 1 \<noteq> None"
    then obtain d where "decimal_from_ratio L (coin_amount token_in) 1 = Some d" by blast
    with assms(4) have "unat (atomics d) = unat (coin_amount token_in) * 1000000000000000000"
      by (simp add: ratio_law_def)
    moreover have "unat (atomics d) < 2 ^ 128" using unsigned_less [of "atomics d"] by simp
    ultimately show False using assms(3) by simp
  qed
  then have "sudo L Q env' (SwapExactAmountIn sender token_in denom 1 fee) st2 \<noteq> Inr res"
    by (cases res) (simp add: sudo_def sudo_swap_in_returns)
  with assms(1,2) show ?thesis by (auto simp: pair_execute_def execute_swap_returns)
qed

definition whale :: message_info where
  "whale = \<lparr>mi_sender = ''whale'', mi_funds = [\<lparr>coin_denom = ''uatom'', coin_amount = 341000000000000000000\<rparr>]\<rparr>"

theorem large_dispatched_swaps_fail_witness:
  "(\<exists>st1 r. pair_execute sample_pcl (sample_pair_chain 0 0 0) (sample_env 9) whale
      (Swap \<lparr>as_info = uatom, as_amount = 341000000000000000000\<rparr> None None None None) (sample_pair True) = Inr (st1, r)) \<and>
   (\<forall>res. sudo sample_pcl (sample_pair_chain 0 0 0) (sample_env 9) (SwapExactAmountIn ''pool''
      \<lparr>coin_denom = ''uatom'', coin_amount = 341000000000000000000\<rparr> ''uosmo'' 1 (Decimal 0)) (sample_pair True) \<noteq> Inr res)"
proof -
  let ?Q = "sample_pair_chain 0 0 0"
  let ?offer = "\<lparr>as_info = uatom, as_amount = 341000000000000000000\<rparr> :: asset"
  have "\<exists>st1 r. pair_execute sample_pcl ?Q (sample_env 9) whale (Swap ?offer None None None None) (sample_pair True) = Inr (st1, r)"
    by (simp add: pair_execute_def execute_swap_def pair_eval_defs whale_def uatom_def uosmo_def cong: and_then_eval_cong)
  then obtain st1 r where ex: "pair_execute sample_pcl ?Q (sample_env 9) whale (Swap ?offer None None None None) (sample_pair True) = Inr (st1, r)"
    by blast
  have coin: "as_coin sample_pcl ?offer = Inr \<lparr>coin_denom = ''uatom'', coin_amount = 341000000000000000000\<rparr>"
    by (simp add: sample_as_coin_def uatom_def)
  have big: "340282366920938463464 \<le> unat (coin_amount \<lparr>coin_denom = ''uatom'', coin_amount = 341000000000000000000\<rparr>)"
    by simp
  have law: "ratio_law sample_pcl"
    by (auto simp: ratio_law_def sample_ratio_def u128_of_Some split: if_splits)
  from large_dispatched_swaps_fail [OF ex coin big law] ex show ?thesis by blast
qed

definition offer_arrived :: "'a pcl_crates_scheme \<Rightarrow> pair_chain \<Rightarrow> pair_chain \<Rightarrow> addr \<Rightarrow> pcl_config \<Rightarrow> precisions
    \<Rightarrow> asset \<Rightarrow> bool" where
  \<comment> \<open>\<open>Q1\<close> is the chain \<open>Q0\<close> after the offer has been added to the pair's balance\<close>
  "offer_arrived L Q0 Q1 contract config precs offer \<longleftrightarrow>
     (\<exists>prec d pools i a. get_precision L precs (as_info offer) = Inr prec \<and> to_decimal_asset L offer prec = Inr d \<and>
        da_info d = as_info offer \<and> query_pools L Q0 contract config precs = Inr pools \<and>
        find_position (\<lambda>p. da_info p = as_info offer) pools = Some i \<and>
        d_sub L a (da_amount d) = Some (da_amount (pools ! i)) \<and>
        query_pools L Q1 contract config precs = Inr (pools[i := (pools ! i)\<lparr>da_amount := a\<rparr>]) \<and>
        pq_fee_info Q1 = pq_fee_info Q0)"

lemma find_position_info:
  "find_position (\<lambda>p. da_info p = x) xs = find_position (\<lambda>y. y = x) (map da_info xs)"
  by (induction xs) auto

lemma find_position_arrived:
  "find_position (\<lambda>p. da_info p = x) (xs[i := (xs ! i)\<lparr>da_amount := a\<rparr>]) = find_position (\<lambda>p. da_info p = x) xs"
proof -
  have "map da_info (xs[i := (xs ! i)\<lparr>da_amount := a\<rparr>]) = map da_info xs"
    by (cases "i < length xs") (simp_all add: map_update list_update_same_conv list_update_beyond)
  then show ?thesis by (simp only: find_position_info)
qed

lemma other_index: "1 XOR i \<noteq> i" for i :: nat
proof
  assume "1 XOR i = i"
  then have "(1 XOR i) XOR i = i XOR i" by simp
  then show False by (simp add: xor.assoc)
qed

text \<open>
  C15. A swap pays what its simulation says. Whenever an internal swap succeeds with the offer
  already in the pair's balance, the simulation of the same offer, asked before the offer
  arrived, succeeds too, and the swap answers and pays the simulated return amount to the
  receiver and reports the simulated spread and commission.
\<close>

theorem swap_pays_simulated:
  assumes "internal_swap L Q1 env sender offer bp ms to st = Inr (st', r)"
    and "ps_config st = Some config" and "ps_precisions st = Some precs"
    and "offer_arrived L Q0 Q1 (env_contract env) config precs offer"
  shows "\<exists>sim paid. query_simulation L Q0 env offer st = Inr (sim, paid) \<and>
    as_amount paid = sm_return_amount sim \<and>
    hd (resp_msgs r) = submsg_new (TransferAsset paid (case to of None \<Rightarrow> sender | Some a \<Rightarrow> a)) \<and>
    resp_data r = Some (SwapExactAmountInResponseData (sm_return_amount sim)) \<and>
    (''spread_amount'', to_string (sm_spread_amount sim)) \<in> set (resp_attrs r) \<and>
    (''commission_amount'', to_string (sm_commission_amount sim)) \<in> set (resp_attrs r)"
proof -
  from assms(4) obtain prec d pools i a where
    o: "get_precision L precs (as_info offer) = Inr prec" "to_decimal_asset L offer prec = Inr d"
      "da_info d = as_info offer" "query_pools L Q0 (env_contract env) config precs = Inr pools"
      "find_position (\<lambda>p. da_info p = as_info offer) pools = Some i"
      "d_sub L a (da_amount d) = Some (da_amount (pools ! i))"
      "query_pools L Q1 (env_contract env) config precs = Inr (pools[i := (pools ! i)\<lparr>da_amount := a\<rparr>])"
      "pq_fee_info Q1 = pq_fee_info Q0"
    unfolding offer_arrived_def by blast
  from find_position_Some [OF o(5)] have i: "i < length pools" by blast
  have other: "nth_opt (pools[i := x]) (1 XOR i) = nth_opt pools (1 XOR i)" for x
    using other_index [of i] by (simp add: nth_opt_def)
  have ask: "pools[i := x] ! (Suc 0 XOR i) = pools ! (Suc 0 XOR i)" for x
    using other_index [of i] by simp
  have restored: "update_at i (\<lambda>p. map_option (\<lambda>a. p\<lparr>da_amount := a\<rparr>) (d_sub L (da_amount p) (da_amount d)))
      (pools[i := (pools ! i)\<lparr>da_amount := a\<rparr>]) = (Inr pools :: (pair_error, decimal_asset list) res)"
    using o(6) i by (simp add: update_at_def nth_opt_def)
  have "yields (\<lambda>(st', r). \<exists>sim paid. query_simulation L Q0 env offer st = Inr (sim, paid) \<and>
    as_amount paid = sm_return_amount sim \<and>
    hd (resp_msgs r) = submsg_new (TransferAsset paid (case to of None \<Rightarrow> sender | Some a \<Rightarrow> a)) \<and>
    resp_data r = Some (SwapExactAmountInResponseData (sm_return_amount sim)) \<and>
    (''spread_amount'', to_string (sm_spread_amount sim)) \<in> set (resp_attrs r) \<and>
    (''commission_amount'', to_string (sm_commission_amount sim)) \<in> set (resp_attrs r))
   (internal_swap L Q1 env sender offer bp ms to st)"
    unfolding internal_swap_def query_simulation_def Let_def
    by (simp add: assms(2,3) o find_position_arrived other restored del: nth_opt_Some)
      (intro yields_rules; (hypsubst+)?; simp add: ask into_msg_returns res_simps)
  from yieldsD [OF this assms(1)] show ?thesis by simp
qed

theorem swap_pays_simulated_witness:
  "\<exists>sim paid. query_simulation sample_pcl (sample_pair_chain 1000000 1000000 1000000) (sample_env 9)
      \<lparr>as_info = uatom, as_amount = 1000\<rparr> (sample_pair True) = Inr (sim, paid) \<and> sm_return_amount sim = 990"
proof -
  let ?Q0 = "sample_pair_chain 1000000 1000000 1000000"
  let ?Q1 = "sample_pair_chain 1001000 1000000 1000000"
  let ?offer = "\<lparr>as_info = uatom, as_amount = 1000\<rparr> :: asset"
  let ?c = "sample_pcl_config ''lp'' True" and ?p = "[(uatom, 6), (uosmo, 6)] :: precisions"
  have "\<exists>st' r. internal_swap sample_pcl ?Q1 (sample_env 9) ''alice'' ?offer None None None (sample_pair True) = Inr (st', r) \<and>
      resp_data r = Some (SwapExactAmountInResponseData 990)"
    by (simp add: internal_swap_def pair_eval_defs cong: and_then_eval_cong)
  then obtain st' r where sw: "internal_swap sample_pcl ?Q1 (sample_env 9) ''alice'' ?offer None None None (sample_pair True) = Inr (st', r)"
    and data: "resp_data r = Some (SwapExactAmountInResponseData 990)" by blast
  have "offer_arrived sample_pcl ?Q0 ?Q1 (env_contract (sample_env 9)) ?c ?p ?offer"
    unfolding offer_arrived_def
    by (intro exI [of _ 6] exI [of _ "\<lparr>da_info = uatom, da_amount = Decimal256 1000000000000000\<rparr>"]
        exI [of _ "[\<lparr>da_info = uatom, da_amount = Decimal256 1000000000000000000\<rparr>, \<lparr>da_info = uosmo, da_amount = Decimal256 1000000000000000000\<rparr>]"]
        exI [of _ 0] exI [of _ "Decimal256 1001000000000000000"])
      (simp add: pair_eval_defs)
  from swap_pays_simulated [OF sw _ _ this] data show ?thesis by auto
qed

text \<open>
  The exact-out swap charges no more than the maximum: when it succeeds, the denoms differ,
  the amount asked for is not zero, the amount answered as charged is at most the maximum, the
  first message pays the asked denom to the sender, and at most one further message pays the
  maker's fee, not zero, in the same denom to the factory's fee address. The parameters of a
  pending \<open>Swap\<close> are not touched.
\<close>

theorem exact_out_within_max:
  assumes "sudo L Q env (SwapExactAmountOut sender denom_in m out fee) st = Inr (st', r)"
  shows "denom_in \<noteq> coin_denom out \<and> coin_amount out \<noteq> 0 \<and> ps_swap_params st' = ps_swap_params st \<and>
    (\<exists>charged ret rest config fees. resp_data r = Some (SwapExactAmountOutResponseData charged) \<and> charged \<le> m \<and>
       ps_config st = Some config \<and>
       pq_fee_info Q (cc_factory_addr config) (pi_pair_type (cc_pair_info config)) = Inr fees \<and>
       resp_msgs r = submsg_new (TransferAsset \<lparr>as_info = NativeToken (coin_denom out), as_amount = ret\<rparr> sender) # rest \<and>
       (rest = [] \<or> (\<exists>a n. fi_fee_address fees = Some a \<and> n \<noteq> 0 \<and>
          rest = [submsg_new (TransferAsset \<lparr>as_info = NativeToken (coin_denom out), as_amount = n\<rparr> a)])))"
  by (rule exact_out_returns [OF assms])

theorem exact_out_within_max_witness:
  "\<exists>st' r charged. sudo sample_pcl (sample_pair_chain 1002000 1000000 1000000) (sample_env 9)
      (SwapExactAmountOut ''alice'' ''uatom'' 2000 \<lparr>coin_denom = ''uosmo'', coin_amount = 990\<rparr> (Decimal 0))
      (sample_pair True) = Inr (st', r) \<and>
    resp_data r = Some (SwapExactAmountOutResponseData charged) \<and> charged \<le> 2000"
proof -
  let ?Q = "sample_pair_chain 1002000 1000000 1000000"
  let ?msg = "SwapExactAmountOut ''alice'' ''uatom'' 2000 \<lparr>coin_denom = ''uosmo'', coin_amount = 990\<rparr> (Decimal 0)"
  have "\<exists>res. sudo sample_pcl ?Q (sample_env 9) ?msg (sample_pair True) = Inr res"
    by (simp add: sudo_def swap_exact_amount_out_def pair_eval_defs uatom_def [symmetric] uosmo_def [symmetric]
        cong: and_then_eval_cong)
  then obtain st' r where sw: "sudo sample_pcl ?Q (sample_env 9) ?msg (sample_pair True) = Inr (st', r)" by auto
  from exact_out_within_max [OF sw] sw show ?thesis by blast
qed

definition decimal_law :: "'a pcl_crates_scheme \<Rightarrow> bool" where
  \<comment> \<open>\<open>to_decimal_asset\<close> is \<open>to_decimal256\<close> of the amount\<close>
  "decimal_law L \<longleftrightarrow> (\<forall>a p d. to_decimal_asset L a p = Inr d \<longleftrightarrow>
     da_info d = as_info a \<and> to_decimal256 L (as_amount a) p = Inr (da_amount d))"

lemma pools_as_decimals:
  assumes "decimal_law L" and "query_pools L Q addr c precs = Inr pools"
    and "pq_pools Q (cc_pair_info c) addr = Inr assets"
  shows "try_map (\<lambda>asset. and_then (precision_of L precs (as_info asset)) (\<lambda>prec.
      map_err Std (to_decimal256 L (as_amount asset) prec))) assets = (Inr (map da_amount pools) :: (pair_error, _) res) \<and>
    map da_info pools = map as_info assets"
proof -
  have "list_all2 (\<lambda>a d. and_then (precision_of L precs (as_info a)) (\<lambda>prec.
      map_err Std (to_decimal256 L (as_amount a) prec)) = (Inr (da_amount d) :: (pair_error, _) res) \<and>
      da_info d = as_info a) assets pools"
    using assms by (force simp: query_pools_def res_simps try_map_returns decimal_law_def elim!: list_all2_mono)
  then show ?thesis
    by (auto simp: try_map_returns list_all2_conv_all_nth intro!: nth_equalityI)
qed

definition max_arrived :: "pair_chain \<Rightarrow> pair_chain \<Rightarrow> env \<Rightarrow> pcl_config \<Rightarrow> string \<Rightarrow> u128 \<Rightarrow> bool" where
  \<comment> \<open>\<open>Q1\<close> is the chain \<open>Q0\<close> after the maximum of an exact-out swap has been added to the pair's balance\<close>
  "max_arrived Q0 Q1 env c denom m \<longleftrightarrow> (\<exists>assets i n.
     pq_pools Q0 (cc_pair_info c) (env_contract env) = Inr assets \<and> distinct (map as_info assets) \<and> length assets = 2 \<and>
     find_position (\<lambda>a. as_info a = NativeToken denom) assets = Some i \<and> add_checked (as_amount (assets ! i)) m = Some n \<and>
     pq_pools Q1 (cc_pair_info c) (env_contract env) = Inr (assets[i := (assets ! i)\<lparr>as_amount := n\<rparr>]))"

lemma find_info_only: "find_position (\<lambda>a. as_info a = x) ys = find_position (\<lambda>y. y = x) (map as_info ys)"
  by (induction ys) auto

lemma find_info_updated:
  "find_position (\<lambda>a. as_info a = x) (xs[i := (xs ! i)\<lparr>as_amount := n\<rparr>]) = find_position (\<lambda>a. as_info a = x) xs"
proof -
  have "map as_info (xs[i := (xs ! i)\<lparr>as_amount := n\<rparr>]) = map as_info xs"
    by (cases "i < length xs") (simp_all add: map_update list_update_same_conv list_update_beyond)
  then show ?thesis by (simp only: find_info_only)
qed

lemma max_restored:
  assumes "add_checked (as_amount (assets ! i)) m = Some n" and "i < length assets"
  shows "update_at i (\<lambda>p. map_option (\<lambda>a. p\<lparr>as_amount := a\<rparr>) (sub_checked (as_amount p) m))
    (assets[i := (assets ! i)\<lparr>as_amount := n\<rparr>]) = (Inr assets :: (pair_error, _) res)"
proof -
  have "sub_checked n m = Some (as_amount (assets ! i))"
    using assms(1) add_checked_Some [OF assms(1)]
    by (auto simp: add_checked_def sub_checked_def word_le_nat_alt split: if_splits)
  with assms(2) show ?thesis by (simp add: update_at_def nth_opt_def)
qed

text \<open>
  C16. An exact-out swap charges what the reverse simulation announces. If the reverse simulation of
  the amount asked for, made before the maximum arrives, answers, and the swap, made after it
  has arrived, succeeds, then the amount charged is the announced one, in the same denom.
\<close>

theorem exact_out_charges_simulated:
  assumes "sudo L Q1 env (SwapExactAmountOut sender denom m out fee) st = Inr (st', r)"
    and "query_reverse_simulation L Q0 env \<lparr>as_info = NativeToken (coin_denom out), as_amount = coin_amount out\<rparr> st
      = Inr (sim, offered)"
    and "ps_config st = Some c" and "max_arrived Q0 Q1 env c denom m" and "decimal_law L"
  shows "resp_data r = Some (SwapExactAmountOutResponseData (rs_offer_amount sim)) \<and>
    offered = \<lparr>as_info = NativeToken denom, as_amount = rs_offer_amount sim\<rparr>"
proof -
  let ?ask = "NativeToken (coin_denom out)"
  from assms(4) obtain assets i n where a: "pq_pools Q0 (cc_pair_info c) (env_contract env) = Inr assets"
    "distinct (map as_info assets)" "length assets = 2"
    "find_position (\<lambda>a. as_info a = NativeToken denom) assets = Some i" "add_checked (as_amount (assets ! i)) m = Some n"
    "pq_pools Q1 (cc_pair_info c) (env_contract env) = Inr (assets[i := (assets ! i)\<lparr>as_amount := n\<rparr>])"
    unfolding max_arrived_def by blast
  from assms(1) have out: "swap_exact_amount_out L Q1 env sender denom m out st = Inr (st', r)" by (simp add: sudo_def)
  from assms(2,3) obtain precs ask_prec ask_dec pools k offer_pool offer_prec needed sp cm where q:
    "ps_precisions st = Some precs" "get_precision L precs ?ask = Inr ask_prec"
    "to_decimal_asset L \<lparr>as_info = ?ask, as_amount = coin_amount out\<rparr> ask_prec = Inr ask_dec"
    "query_pools L Q0 (env_contract env) c precs = Inr pools" "find_position (\<lambda>a. da_info a = ?ask) pools = Some k"
    "nth_opt pools (1 XOR k) = Some offer_pool" "get_precision L precs (da_info offer_pool) = Inr offer_prec"
    "compute_offer_amount L (map da_amount pools) (da_amount ask_dec) k c env = Inr (needed, sp, cm)"
    "to_uint L needed offer_prec = Inr (rs_offer_amount sim)"
    "offered = \<lparr>as_info = da_info offer_pool, as_amount = rs_offer_amount sim\<rparr>"
    by (auto simp: query_reverse_simulation_def Let_def res_simps simp del: nth_opt_Some)
  note dec = pools_as_decimals [OF assms(5) q(4) a(1)]
  from q(3) assms(5) have ask_dec: "to_decimal256 L (coin_amount out) ask_prec = Inr (da_amount ask_dec)"
    by (simp add: decimal_law_def)
  have "find_position (\<lambda>a. as_info a = ?ask) assets = Some k"
    using q(5) dec by (simp add: find_position_info find_info_only)
  note pos = this a(4)
  have "denom \<noteq> coin_denom out" using out by (auto simp: swap_exact_amount_out_def)
  with find_position_Some [OF pos(1)] find_position_Some [OF pos(2)] a(3) have ik: "k < 2" "i < 2" "i \<noteq> k" "as_info (assets ! i) = NativeToken denom"
    by auto
  then have xor: "1 XOR k = i" using less_2_cases [of k] less_2_cases [of i] by auto
  from q(6) [unfolded xor] have op: "i < length pools" "offer_pool = pools ! i" by auto
  have "da_info (pools ! i) = map as_info assets ! i" using op(1) by (simp add: dec [THEN conjunct2, symmetric])
  with op ik a(3) have info: "da_info offer_pool = NativeToken denom" by simp
  have "yields (\<lambda>(st', r). resp_data r = Some (SwapExactAmountOutResponseData (rs_offer_amount sim)))
    (swap_exact_amount_out L Q1 env sender denom m out st)"
    unfolding swap_exact_amount_out_def Let_def
    by (simp add: assms(3) q a(6) \<open>denom \<noteq> coin_denom out\<close> ask_dec cong: and_then_eval_cong)
      (intro yields_rules; (hypsubst+)?;
        clarsimp simp: map_err_returns ok_or_returns find_info_updated pos max_restored [OF a(5)] ik a(3) q
          dec [THEN conjunct1] q(7) [unfolded info])
  from yieldsD [OF this out] info q(10) show ?thesis by simp
qed

lemma sample_decimals: "decimal_law sample_pcl"
  by (auto simp: decimal_law_def sample_to_dec_def res_simps)

theorem exact_out_charges_simulated_witness:
  "\<exists>st' r sim. sudo sample_pcl (sample_pair_chain 1002000 1000000 1000000) (sample_env 9)
      (SwapExactAmountOut ''alice'' ''uatom'' 2000 \<lparr>coin_denom = ''uosmo'', coin_amount = 990\<rparr> (Decimal 0))
      (sample_pair True) = Inr (st', r) \<and>
    query_reverse_simulation sample_pcl (sample_pair_chain 1000000 1000000 1000000) (sample_env 9)
      \<lparr>as_info = uosmo, as_amount = 990\<rparr> (sample_pair True) = Inr (sim, \<lparr>as_info = uatom, as_amount = rs_offer_amount sim\<rparr>) \<and>
    resp_data r = Some (SwapExactAmountOutResponseData (rs_offer_amount sim))"
proof -
  let ?Q0 = "sample_pair_chain 1000000 1000000 1000000" and ?Q1 = "sample_pair_chain 1002000 1000000 1000000"
  let ?out = "\<lparr>coin_denom = ''uosmo'', coin_amount = 990\<rparr> :: coin"
  have "\<exists>res. sudo sample_pcl ?Q1 (sample_env 9) (SwapExactAmountOut ''alice'' ''uatom'' 2000 ?out (Decimal 0)) (sample_pair True) = Inr res"
    by (simp add: sudo_def swap_exact_amount_out_def pair_eval_defs uatom_def [symmetric] uosmo_def [symmetric]
        cong: and_then_eval_cong)
  then obtain st' r where sw: "sudo sample_pcl ?Q1 (sample_env 9)
      (SwapExactAmountOut ''alice'' ''uatom'' 2000 ?out (Decimal 0)) (sample_pair True) = Inr (st', r)" by auto
  have "\<exists>res. query_reverse_simulation sample_pcl ?Q0 (sample_env 9)
      \<lparr>as_info = NativeToken (coin_denom ?out), as_amount = coin_amount ?out\<rparr> (sample_pair True) = Inr res"
    by (simp add: query_reverse_simulation_def pair_eval_defs uosmo_def [symmetric] cong: and_then_eval_cong)
  then obtain sim offered where q: "query_reverse_simulation sample_pcl ?Q0 (sample_env 9)
      \<lparr>as_info = NativeToken (coin_denom ?out), as_amount = coin_amount ?out\<rparr> (sample_pair True) = Inr (sim, offered)" by auto
  have arrived: "max_arrived ?Q0 ?Q1 (sample_env 9) (sample_pcl_config ''lp'' True) ''uatom'' 2000"
    by (simp add: max_arrived_def sample_pair_chain_def uatom_def uosmo_def add_checked_def)
  from exact_out_charges_simulated [OF sw q _ arrived sample_decimals] sw q show ?thesis
    by (auto simp: uatom_def uosmo_def)
qed

end
