(* ===== verification/Pair_Provide.thy ===== *)
theory Pair_Provide
  imports Pair_Ledger
begin

text \<open>
  What \<open>provide_liquidity\<close> computes, as relations between the amounts: the share of the first
  provide and of a later one, and the price update of a deposit that diverges from the
  balanced one. A successful provide satisfies them (\<open>provide_computes\<close>).
\<close>

section \<open>The share\<close>

definition first_share_of :: "'a pcl_crates_scheme \<Rightarrow> pcl_config \<Rightarrow> decimal256 \<Rightarrow> decimal256 \<Rightarrow> bool" where
  \<comment> \<open>the value of the pool less the minimum liquidity, which must leave something\<close>
  "first_share_of L c new_d share \<longleftrightarrow> (\<exists>xcp minimum. get_xcp L new_d (price_scale c) = Some xcp \<and>
     to_decimal256 L (MINIMUM_LIQUIDITY_AMOUNT L) LP_TOKEN_PRECISION = Inr minimum \<and>
     share = d_sub_saturating L xcp minimum \<and> share \<noteq> decimal256_zero)"

definition later_share_of :: "'a pcl_crates_scheme \<Rightarrow> pcl_config \<Rightarrow> amp_gamma \<Rightarrow> decimal256 \<Rightarrow> decimal256 \<Rightarrow> decimal256
    \<Rightarrow> decimal256 \<Rightarrow> decimal256 \<Rightarrow> decimal256 list \<Rightarrow> decimal256 \<Rightarrow> decimal256 \<Rightarrow> bool" where
  \<comment> \<open>the supply grows as the invariant D does; the growth less the provide fee is minted. The
      balances before are \<open>b0\<close> and \<open>b1\<close>, the deposits \<open>d0\<close> and \<open>d1\<close>\<close>
  "later_share_of L c ag b0 b1 d0 d1 lp_supply new_xp new_d share \<longleftrightarrow>
     (\<exists>z old_d product grown e fee kept. d_mul L b1 (price_scale c) = Some z \<and> calc_d L [b0, z] ag = Inr old_d \<and>
        d_mul L lp_supply new_d = Some product \<and> d_div L product old_d = Some grown \<and>
        d_mul L d1 (price_scale c) = Some e \<and> calc_provide_fee L [d0, e] new_xp (cc_pool_params c) = Some fee \<and>
        d_sub L decimal256_one fee = Some kept \<and> d_mul L (d_sub_saturating L grown lp_supply) kept = Some share)"

definition repriced :: "'a pcl_crates_scheme \<Rightarrow> env \<Rightarrow> pcl_config \<Rightarrow> decimal256 \<Rightarrow> decimal256 \<Rightarrow> decimal256 \<Rightarrow> decimal256
    \<Rightarrow> decimal256 \<Rightarrow> decimal256 \<Rightarrow> decimal option \<Rightarrow> pcl_config \<Rightarrow> bool" where
  \<comment> \<open>the deposits are compared with the minted part of the new balances; where both differ by
      the minimum trade size, the slippage is within the tolerance and the price is updated;
      otherwise the configuration stays\<close>
  "repriced L env c d0 d1 x0 y lp_supply share tol c' \<longleftrightarrow>
     (\<exists>new_total part balanced0 scaled1 balanced1. d_add L lp_supply share = Some new_total \<and> d_div L share new_total = Some part \<and>
        d_mul L x0 part = Some balanced0 \<and> d_mul L y part = Some scaled1 \<and> d_div L scaled1 (price_scale c) = Some balanced1 \<and>
        (if MIN_TRADE_SIZE L \<le> d_diff L d0 balanced0 \<and> MIN_TRADE_SIZE L \<le> d_diff L d1 balanced1
         then \<exists>slippage price pool. assert_slippage_tolerance L [d0, d1] share (po_price_state (cc_pool_state c)) tol = Inr slippage \<and>
                d_div L (d_diff L d0 balanced0) (d_diff L d1 balanced1) = Some price \<and>
                update_price L (cc_pool_params c) env new_total [x0, y] price (cc_pool_state c) = Inr pool \<and>
                c' = c\<lparr>cc_pool_state := pool\<rparr>
         else c' = c))"

lemma first_share_is:
  "first_share L env c new_d = Inr (share, c1, mints) \<Longrightarrow> first_share_of L c new_d share \<and>
     c1 = with_price_state (\<lambda>p. p\<lparr>pp_xcp_profit_real := decimal256_one, pp_xcp_profit := decimal256_one\<rparr>) c \<and>
     mints = [MsgMint (env_contract env) \<lparr>coin_denom = lp_denom c, coin_amount = MINIMUM_LIQUIDITY_AMOUNT L\<rparr> (env_contract env)]"
  by (auto simp: first_share_def first_share_of_def res_simps Let_def)

lemma later_share_is:
  "later_share L c ag [p0\<lparr>da_amount := b0\<rparr>, p1\<lparr>da_amount := b1\<rparr>] [d0, d1] lp_supply new_xp new_d = Inr share \<Longrightarrow>
     later_share_of L c ag b0 b1 d0 d1 lp_supply new_xp new_d share"
  by (auto simp: later_share_def later_share_of_def scaled_def res_simps Let_def)

lemma rebalance_is:
  "rebalance L env c [d0, d1] [x0, y] lp_supply share tol = Inr (slippage, c') \<Longrightarrow> repriced L env c d0 d1 x0 y lp_supply share tol c'"
  unfolding rebalance_def repriced_def Let_def
  by (auto simp: res_simps split: if_splits)

section \<open>The steps of a provide\<close>

lemma complete_assets_two: "complete_assets L c assets = Inr assets1 \<Longrightarrow> \<exists>a b. assets1 = [a, b]"
  by (auto simp: complete_assets_def res_simps split: list.splits)

lemma provide_steps:
  "yields (\<lambda>(st', r). \<exists>c c' assets1 assets2 precs pools0 pools deposits sums new_xp ag new_d lp_supply c1 mints share slippage to' n.
    check_assets L assets = Inr () \<and> ps_config st = Some c \<and>
    pq_pair_registered Q (cc_factory_addr c) (asset_infos c) = Inr True \<and>
    complete_assets L c assets = Inr assets1 \<and>
    assert_coins_properly_sent L (mi_funds info) assets1 (asset_infos c) = Inr () \<and>
    ps_precisions st = Some precs \<and> query_pools L Q (env_contract env) c precs = Inr pools0 \<and>
    order_assets pools0 assets1 = Inr assets2 \<and> try_map (deposit_of L precs) assets2 = Inr deposits \<and>
    decimal_supply L Q (lp_denom c) = Inr lp_supply \<and>
    \<not> (lp_supply = decimal256_zero \<and> (deposits ! 0 = decimal256_zero \<or> deposits ! 1 = decimal256_zero)) \<and>
    try_map (without_deposit L deposits) (List.enumerate 0 pools0) = Inr pools \<and>
    try_map (\<lambda>(i, pool). and_then (or_panic (nth_opt deposits i)) (\<lambda>d. or_panic (d_add L (da_amount pool) d)))
      (List.enumerate 0 pools) = (Inr sums :: (pair_error, decimal256 list) res) \<and>
    scaled L c sums = Inr new_xp \<and> get_amp_gamma L env (cc_pool_state c) = Some ag \<and> calc_d L new_xp ag = Inr new_d \<and>
    (if lp_supply = decimal256_zero then first_share L env c new_d
     else and_then (later_share L c ag pools deposits lp_supply new_xp new_d) (\<lambda>share. Inr (share, c, []))) = Inr (share, c1, mints) \<and>
    rebalance L env c1 deposits new_xp lp_supply share tol = Inr (slippage, c') \<and>
    to_uint L share LP_TOKEN_PRECISION = Inr n \<and> addr_opt_validate L receiver = Inr to' \<and>
    ps_config st' = Some c' \<and>
    resp_msgs r = map submsg_new (mints @ [MsgMint (env_contract env) \<lparr>coin_denom = lp_denom c', coin_amount = n\<rparr>
      (case to' of None \<Rightarrow> mi_sender info | Some a \<Rightarrow> a)]))
   (provide_liquidity L Q env info assets tol receiver st)"
  unfolding provide_liquidity_def Let_def
  by (intro yields_rules; (hypsubst+)?; simp only: prod.case map_err_returns load_item_returns or_panic_returns not_not)
    (intro exI conjI; (assumption | rule TrueI)?; simp)

section \<open>Two pools, two deposits\<close>

lemma pools_and_deposits:
  assumes "try_map (without_deposit L [d0, d1]) (List.enumerate 0 pools0) = (Inr pools :: (pair_error, decimal_asset list) res)"
    and "try_map (\<lambda>(i, pool). and_then (or_panic (nth_opt [d0, d1] i)) (\<lambda>d. or_panic (d_add L (da_amount pool) d)))
      (List.enumerate 0 pools) = (Inr sums :: (pair_error, decimal256 list) res)"
    and "scaled L c sums = Inr new_xp"
  shows "\<exists>p0 p1 b0 b1 x0 x1 y. pools0 = [p0, p1] \<and> pools = [p0\<lparr>da_amount := b0\<rparr>, p1\<lparr>da_amount := b1\<rparr>] \<and>
    d_sub L (da_amount p0) d0 = Some b0 \<and> d_sub L (da_amount p1) d1 = Some b1 \<and>
    d_add L b0 d0 = Some x0 \<and> d_add L b1 d1 = Some x1 \<and> d_mul L x1 (price_scale c) = Some y \<and> new_xp = [x0, y]"
proof -
  have "length pools0 = 2"
  proof -
    from assms(3) have "2 \<le> length sums" by (simp add: scaled_def res_simps)
    moreover have "length sums = length pools0"
      using try_map_length [OF assms(1)] try_map_length [OF assms(2)] by simp
    moreover have "length pools0 \<le> 2"
    proof (rule ccontr)
      assume "\<not> length pools0 \<le> 2"
      then obtain p0 p1 p2 ps where "pools0 = p0 # p1 # p2 # ps"
        by (auto simp: not_le Suc_le_eq [symmetric] Suc_le_length_iff numeral_2_eq_2)
      with assms(1) show False by (auto simp: without_deposit_def res_simps nth_opt_def split: asset_info.splits)
    qed
    ultimately show ?thesis by simp
  qed
  then obtain p0 p1 where pools0: "pools0 = [p0, p1]" by (auto simp: length_Suc_conv numeral_2_eq_2)
  with assms show ?thesis
    by (auto simp: without_deposit_def scaled_def res_simps split: asset_info.splits)
qed

section \<open>A successful provide\<close>

lemma provide_computes:
  assumes "pair_execute L Q env info (ProvideLiquidity assets tol auto_stake receiver) st = Inr (st', r)"
  shows "\<exists>c c1 c' precs assets1 a0 a1 p0 p1 d0 d1 b0 b1 x0 x1 y ag new_d lp_supply share to' n.
    ps_config st = Some c \<and> ps_config st' = Some c' \<and> pool_change c c' \<and> ps_precisions st = Some precs \<and>
    check_assets L assets = Inr () \<and> pq_pair_registered Q (cc_factory_addr c) (asset_infos c) = Inr True \<and>
    complete_assets L c assets = Inr assets1 \<and>
    assert_coins_properly_sent L (mi_funds info) assets1 (asset_infos c) = Inr () \<and>
    query_pools L Q (env_contract env) c precs = Inr [p0, p1] \<and>
    [a0, a1] = (if da_info p0 = as_info (assets1 ! 1) then rev assets1 else assets1) \<and>
    deposit_of L precs a0 = Inr d0 \<and> deposit_of L precs a1 = Inr d1 \<and>
    d_sub L (da_amount p0) d0 = Some b0 \<and> d_sub L (da_amount p1) d1 = Some b1 \<and>
    d_add L b0 d0 = Some x0 \<and> d_add L b1 d1 = Some x1 \<and> d_mul L x1 (price_scale c) = Some y \<and>
    get_amp_gamma L env (cc_pool_state c) = Some ag \<and> calc_d L [x0, y] ag = Inr new_d \<and>
    decimal_supply L Q (lp_denom c) = Inr lp_supply \<and>
    (if lp_supply = decimal256_zero
     then d0 \<noteq> decimal256_zero \<and> d1 \<noteq> decimal256_zero \<and> first_share_of L c new_d share \<and>
       c1 = with_price_state (\<lambda>p. p\<lparr>pp_xcp_profit_real := decimal256_one, pp_xcp_profit := decimal256_one\<rparr>) c
     else later_share_of L c ag b0 b1 d0 d1 lp_supply [x0, y] new_d share \<and> c1 = c) \<and>
    repriced L env c1 d0 d1 x0 y lp_supply share tol c' \<and>
    to_uint L share LP_TOKEN_PRECISION = Inr n \<and> addr_opt_validate L receiver = Inr to' \<and>
    resp_msgs r = map submsg_new ((if lp_supply = decimal256_zero then [MsgMint (env_contract env)
        \<lparr>coin_denom = lp_denom c, coin_amount = MINIMUM_LIQUIDITY_AMOUNT L\<rparr> (env_contract env)] else []) @
      [MsgMint (env_contract env) \<lparr>coin_denom = lp_denom c, coin_amount = n\<rparr>
        (case to' of None \<Rightarrow> mi_sender info | Some a \<Rightarrow> a)])"
proof -
  have p: "provide_liquidity L Q env info assets tol receiver st = Inr (st', r)"
    using assms by (simp add: pair_execute_def)
  from yieldsD [OF provide_steps p] obtain c c' assets1 assets2 precs pools0 pools deposits sums new_xp ag new_d lp_supply c1 mints share slippage to' n
    where s: "check_assets L assets = Inr ()" "ps_config st = Some c" "ps_config st' = Some c'"
      "pq_pair_registered Q (cc_factory_addr c) (asset_infos c) = Inr True"
      "complete_assets L c assets = Inr assets1" "assert_coins_properly_sent L (mi_funds info) assets1 (asset_infos c) = Inr ()"
      "ps_precisions st = Some precs" "query_pools L Q (env_contract env) c precs = Inr pools0"
    and two: "order_assets pools0 assets1 = Inr assets2" "try_map (deposit_of L precs) assets2 = Inr deposits"
    and lp_supply: "decimal_supply L Q (lp_denom c) = Inr lp_supply"
    and not_zero: "\<not> (lp_supply = decimal256_zero \<and> (deposits ! 0 = decimal256_zero \<or> deposits ! 1 = decimal256_zero))"
    and pools: "try_map (without_deposit L deposits) (List.enumerate 0 pools0) = Inr pools"
      "try_map (\<lambda>(i, pool). and_then (or_panic (nth_opt deposits i)) (\<lambda>d. or_panic (d_add L (da_amount pool) d)))
        (List.enumerate 0 pools) = (Inr sums :: (pair_error, decimal256 list) res)" "scaled L c sums = Inr new_xp"
    and d: "get_amp_gamma L env (cc_pool_state c) = Some ag" "calc_d L new_xp ag = Inr new_d"
    and share: "(if lp_supply = decimal256_zero then first_share L env c new_d
       else and_then (later_share L c ag pools deposits lp_supply new_xp new_d) (\<lambda>share. Inr (share, c, []))) = Inr (share, c1, mints)"
    and reb: "rebalance L env c1 deposits new_xp lp_supply share tol = Inr (slippage, c')"
    and minted: "to_uint L share LP_TOKEN_PRECISION = Inr n" "addr_opt_validate L receiver = Inr to'"
      "resp_msgs r = map submsg_new (mints @ [MsgMint (env_contract env) \<lparr>coin_denom = lp_denom c', coin_amount = n\<rparr>
        (case to' of None \<Rightarrow> mi_sender info | Some a \<Rightarrow> a)])"
    unfolding prod.case by (elim exE conjE) (rule that; assumption)
  from complete_assets_two [OF s(5)] two(1) obtain a0 a1 where a: "assets2 = [a0, a1]"
    "[a0, a1] = (if da_info (pools0 ! 0) = as_info (assets1 ! 1) then rev assets1 else assets1)"
    by (auto simp: order_assets_def res_simps split: if_splits)
  from two(2) [unfolded a(1)] obtain d0 d1 where dep: "deposits = [d0, d1]" "deposit_of L precs a0 = Inr d0" "deposit_of L precs a1 = Inr d1"
    by (auto simp: res_simps)
  from pools_and_deposits [OF pools [unfolded dep(1)]] obtain p0 p1 b0 b1 x0 x1 y where
    b: "pools0 = [p0, p1]" "pools = [p0\<lparr>da_amount := b0\<rparr>, p1\<lparr>da_amount := b1\<rparr>]" "new_xp = [x0, y]"
    and sums: "d_sub L (da_amount p0) d0 = Some b0" "d_sub L (da_amount p1) d1 = Some b1"
      "d_add L b0 d0 = Some x0" "d_add L b1 d1 = Some x1" "d_mul L x1 (price_scale c) = Some y" by blast
  have sh: "if lp_supply = decimal256_zero
     then d0 \<noteq> decimal256_zero \<and> d1 \<noteq> decimal256_zero \<and> first_share_of L c new_d share \<and>
       c1 = with_price_state (\<lambda>p. p\<lparr>pp_xcp_profit_real := decimal256_one, pp_xcp_profit := decimal256_one\<rparr>) c
     else later_share_of L c ag b0 b1 d0 d1 lp_supply [x0, y] new_d share \<and> c1 = c"
    and mints: "mints = (if lp_supply = decimal256_zero then [MsgMint (env_contract env)
        \<lparr>coin_denom = lp_denom c, coin_amount = MINIMUM_LIQUIDITY_AMOUNT L\<rparr> (env_contract env)] else [])"
    using share not_zero unfolding dep(1) b by (auto simp: res_simps dest: first_share_is later_share_is split: if_splits)
  have same: "pool_change c c'" using yieldsD [OF provide_pool_effect p] s(2,3) by (auto simp: pool_effect_def)
  have reb': "repriced L env c1 d0 d1 x0 y lp_supply share tol c'" using rebalance_is [OF reb [unfolded dep(1) b(3)]] .
  have "lp_denom c' = lp_denom c" using pool_changeD [OF same] by simp
  with minted mints have msgs: "resp_msgs r = map submsg_new ((if lp_supply = decimal256_zero then [MsgMint (env_contract env)
        \<lparr>coin_denom = lp_denom c, coin_amount = MINIMUM_LIQUIDITY_AMOUNT L\<rparr> (env_contract env)] else []) @
      [MsgMint (env_contract env) \<lparr>coin_denom = lp_denom c, coin_amount = n\<rparr>
        (case to' of None \<Rightarrow> mi_sender info | Some a \<Rightarrow> a)])" by simp
  have order: "[a0, a1] = (if da_info p0 = as_info (assets1 ! 1) then rev assets1 else assets1)" using a(2) b(1) by simp
  show ?thesis
    by (intro exI conjI)
      (rule s same s(8) [unfolded b(1)] order dep sums d [unfolded b(3)] lp_supply sh reb' minted(1,2) msgs)+
qed

lemma provide_messages:
  assumes "pair_execute L Q env info (ProvideLiquidity assets tol auto_stake receiver) st = Inr (st', r)"
  shows "\<exists>c lp_supply to' n. ps_config st = Some c \<and> decimal_supply L Q (lp_denom c) = Inr lp_supply \<and>
    addr_opt_validate L receiver = Inr to' \<and>
    resp_msgs r = map submsg_new ((if lp_supply = decimal256_zero then [MsgMint (env_contract env)
        \<lparr>coin_denom = lp_denom c, coin_amount = MINIMUM_LIQUIDITY_AMOUNT L\<rparr> (env_contract env)] else []) @
      [MsgMint (env_contract env) \<lparr>coin_denom = lp_denom c, coin_amount = n\<rparr>
        (case to' of None \<Rightarrow> mi_sender info | Some a \<Rightarrow> a)])"
  using provide_computes [OF assms] by blast

end
