(* ===== verification/Pair_Liquidity_Properties.thy ===== *)
theory Pair_Liquidity_Properties
  imports Pair_Samples Pair_Provide
begin

text \<open>
  The properties of the pair's liquidity, each with a witness on the sample instance: what a
  provide mints, what a withdrawal pays, and the balances the pair tracks.
\<close>

unbundle bit_operations_syntax

section \<open>Providing liquidity\<close>

text \<open>
  C17. What a successful \<open>ProvideLiquidity\<close> checks and mints. Checked are the assets, the
  registration of the pair in the factory and, by \<open>assert_coins_properly_sent\<close>, the coins sent
  against the assets given, an omitted one completed with zero. The deposits, in the order of the pools and with the stored
  precisions, are in the pools' balances already; without them and with them the balances are
  the old and the new ones. When there are no LP tokens yet neither deposit is zero, the
  minimum liquidity is minted to the pair itself, and the share is the value of the new pool
  less that minimum, which must leave something (\<open>first_share_of\<close>); otherwise it is the growth of
  the supply in proportion to the invariant D, less the provide fee (\<open>later_share_of\<close>). Where both
  deposits differ by the minimum trade size from the balanced ones, the slippage was accepted for
  the tolerance given and the price is updated (\<open>repriced\<close>). The share, in units of the LP token,
  is minted to the receiver, or to the sender when none is given. Nothing else is sent, and of
  the configuration only the pool state changes.
\<close>

theorem provide_mints:
  assumes "pair_execute L Q env info (ProvideLiquidity assets tol auto_stake receiver) st = Inr (st', r)"
  shows "\<exists>c c1 c' precs assets1 a0 a1 p0 p1 d0 d1 b0 b1 x0 x1 y ag new_d lp_supply share to' n.
    ps_config st = Some c \<and> ps_config st' = Some c' \<and> pool_change c c' \<and> ps_precisions st = Some precs \<and>
    check_assets L assets = Inr () \<and> pq_pair_registered Q (cc_factory_addr c) (asset_infos c) = Inr True \<and>
    complete_assets L c assets = Inr assets1 \<and>
    assert_coins_properly_sent L (mi_funds info) assets1 (asset_infos c) = Inr () \<and>
    query_pools L Q (env_contract env) c precs = Inr [p0, p1] \<and>
    [a0, a1] = (if da_info p0 = as_info (assets1 ! 1) then rev assets1 else assets1) \<and>
    deposit_of L precs a0 = Inr d0 \<and> deposit_of L precs a1 = Inr d1 \<and>
    d_sub L (da_amount p0) d0 = Some b0 \<and> d_sub L (da_amount p1) d1 = Some b1 \<and>
    d_add L b0 d0 = Some x0 \<and> d_add L b1 d1 = Some x1 \<and> d_mul L x1 (price_scale c) = Some y \<and>
    get_amp_gamma L env (cc_pool_state c) = Some ag \<and> calc_d L [x0, y] ag = Inr new_d \<and>
    decimal_supply L Q (lp_denom c) = Inr lp_supply \<and>
    (if lp_supply = decimal256_zero
     then d0 \<noteq> decimal256_zero \<and> d1 \<noteq> decimal256_zero \<and> first_share_of L c new_d share \<and>
       c1 = with_price_state (\<lambda>p. p\<lparr>pp_xcp_profit_real := decimal256_one, pp_xcp_profit := decimal256_one\<rparr>) c
     else later_share_of L c ag b0 b1 d0 d1 lp_supply [x0, y] new_d share \<and> c1 = c) \<and>
    repriced L env c1 d0 d1 x0 y lp_supply share tol c' \<and>
    to_uint L share LP_TOKEN_PRECISION = Inr n \<and> addr_opt_validate L receiver = Inr to' \<and>
    resp_msgs r = map submsg_new ((if lp_supply = decimal256_zero then [MsgMint (env_contract env)
        \<lparr>coin_denom = lp_denom c, coin_amount = MINIMUM_LIQUIDITY_AMOUNT L\<rparr> (env_contract env)] else []) @
      [MsgMint (env_contract env) \<lparr>coin_denom = lp_denom c, coin_amount = n\<rparr>
        (case to' of None \<Rightarrow> mi_sender info | Some a \<Rightarrow> a)])"
  by (rule provide_computes [OF assms])

definition alice_provides :: message_info where
  "alice_provides = \<lparr>mi_sender = ''alice'',
     mi_funds = [\<lparr>coin_denom = ''uatom'', coin_amount = 5000\<rparr>, \<lparr>coin_denom = ''uosmo'', coin_amount = 5000\<rparr>]\<rparr>"

abbreviation alice_deposit :: pair_execute_msg where
  "alice_deposit \<equiv> ProvideLiquidity [\<lparr>as_info = uosmo, as_amount = 5000\<rparr>, \<lparr>as_info = uatom, as_amount = 5000\<rparr>] None None None"

lemmas provide_eval_defs = pair_execute_def provide_liquidity_def pair_eval_defs complete_assets_def order_assets_def
  deposit_of_def without_deposit_def with_price_state_def first_share_def rebalance_def provided_balance_def
  save_balances_def later_share_def

theorem provide_mints_witness:
  "\<exists>st' r c new_d share. pair_execute sample_pcl (sample_pair_chain 5000 5000 0) (sample_env 9) alice_provides alice_deposit
      (sample_pair True) = Inr (st', r) \<and>
    resp_msgs r = map submsg_new [MsgMint ''contract'' \<lparr>coin_denom = ''lp'', coin_amount = 1000\<rparr> ''contract'',
      MsgMint ''contract'' \<lparr>coin_denom = ''lp'', coin_amount = 4000\<rparr> ''alice''] \<and>
    ps_config (sample_pair True) = Some c \<and> first_share_of sample_pcl c new_d share \<and>
    to_uint sample_pcl share LP_TOKEN_PRECISION = Inr 4000"
proof -
  let ?Q = "sample_pair_chain 5000 5000 0"
  have "\<exists>st' r. pair_execute sample_pcl ?Q (sample_env 9) alice_provides alice_deposit (sample_pair True) = Inr (st', r) \<and>
    resp_msgs r = map submsg_new [MsgMint ''contract'' \<lparr>coin_denom = ''lp'', coin_amount = 1000\<rparr> ''contract'',
      MsgMint ''contract'' \<lparr>coin_denom = ''lp'', coin_amount = 4000\<rparr> ''alice'']"
    by (simp add: provide_eval_defs alice_provides_def uatom_def [symmetric] uosmo_def [symmetric] cong: and_then_eval_cong)
  then obtain st' r where ok: "pair_execute sample_pcl ?Q (sample_env 9) alice_provides alice_deposit (sample_pair True) = Inr (st', r)"
    and msgs: "resp_msgs r = map submsg_new [MsgMint ''contract'' \<lparr>coin_denom = ''lp'', coin_amount = 1000\<rparr> ''contract'',
      MsgMint ''contract'' \<lparr>coin_denom = ''lp'', coin_amount = 4000\<rparr> ''alice'']" by blast
  from provide_mints [OF ok] obtain c c1 new_d lp_supply share to' n where c: "ps_config (sample_pair True) = Some c"
    "decimal_supply sample_pcl ?Q (lp_denom c) = Inr lp_supply"
    and share: "lp_supply = decimal256_zero \<longrightarrow> first_share_of sample_pcl c new_d share"
    "to_uint sample_pcl share LP_TOKEN_PRECISION = Inr n"
    and sent: "resp_msgs r = map submsg_new ((if lp_supply = decimal256_zero then [MsgMint (env_contract (sample_env 9))
        \<lparr>coin_denom = lp_denom c, coin_amount = MINIMUM_LIQUIDITY_AMOUNT sample_pcl\<rparr> (env_contract (sample_env 9))] else []) @
      [MsgMint (env_contract (sample_env 9)) \<lparr>coin_denom = lp_denom c, coin_amount = n\<rparr>
        (case to' of None \<Rightarrow> mi_sender alice_provides | Some a \<Rightarrow> a)])" by meson
  from c have "lp_supply = decimal256_zero" by (simp add: pair_eval_defs)
  moreover from sent msgs have "n = 4000" by (simp add: submsg_new_def split: if_splits)
  ultimately show ?thesis using ok msgs c(1) share by blast
qed

section \<open>The tracked balances\<close>

text \<open>
  C13. The tracked balances are exact. Whatever succeeds on a pair in operation, each balance it
  saves in the snapshot map, at the current height, is the pair's balance on the chain less what
  the response pays out of that asset (the payouts, the maker's fee) and, for an exact-out
  swap, less the part of the maximum that the chain returns to the trader; and when tracking is
  on, providing, withdrawing and both swaps save the balances of both assets. The hypotheses on
  the crates: conversions with at most 18 decimals are exact and decimal subtraction and
  addition are inverse.
\<close>

theorem tracked_balances_exact:
  assumes "ledger_ready L Q env st c assets" and "pair_call (L, Q) env info ev st = Inr (st', r)"
  shows "\<exists>bs. ps_balances st' = ps_balances st @ map (\<lambda>(i, n). (i, n, env_height env)) bs \<and>
    (\<forall>(i, n) \<in> set bs. \<exists>a \<in> set assets. as_info a = i \<and>
       unat (as_amount a) = unat n + paid i (resp_msgs r) + given_back ev r i) \<and>
    (cc_track_asset_balances c \<and> moves_assets ev \<longrightarrow> mset (map fst bs) = mset (map as_info assets))"
  using call_ledger [OF assms] by (auto simp: new_balances_def accounts_def add.assoc)

lemma unit18_split: "k \<le> 18 \<Longrightarrow> unit18 = 10 ^ k * 10 ^ (18 - k)"
proof -
  assume "k \<le> 18"
  then have "(10::nat) ^ k * 10 ^ (18 - k) = 10 ^ 18" by (metis le_add_diff_inverse power_add)
  then show ?thesis by simp
qed

lemma sample_exact: "exact_law sample_pcl"
proof -
  have conv: "sample_to_uint d p = Inr n" if "p \<le> 18" "sample_of_uint n p = Inr d" for d p n
  proof -
    from \<open>p \<le> 18\<close> have k: "unat p \<le> 18" by (simp add: word_le_nat_alt)
    note u = unit18_split [OF k]
    from that(2) have "nat_of d = unat n * unit18 div 10 ^ unat p"
      by (auto simp: sample_of_uint_def d256_def unat_of_nat split: if_splits option.splits)
    also have "\<dots> = unat n * 10 ^ (18 - unat p)" unfolding u by simp
    finally have "nat_of d * 10 ^ unat p div unit18 = unat n * unit18 div unit18" unfolding u by (simp add: ac_simps)
    also have "\<dots> = unat n" by simp
    finally show ?thesis using unsigned_less [of n] by (simp add: sample_to_uint_def u128_of_def)
  qed
  have inverse: "add_checked c b = Some a" if "sub_checked a b = Some c" for a b c :: "256 word"
    using sub_checked_Some [OF that] that unsigned_less [of a] by (auto simp: add_checked_def sub_checked_def split: if_splits)
  show ?thesis
    unfolding exact_law_def
    by (auto simp: sample_to_dec_def sample_of_dec_def sample_shares_def res_simps conv comp_def split: if_splits
        dest: inverse)
qed

lemma sample_ledger_ready:
  "ledger_ready sample_pcl (sample_pair_chain a b s) (sample_env 9) (sample_pair track)
     (sample_pcl_config ''lp'' track) [\<lparr>as_info = uatom, as_amount = a\<rparr>, \<lparr>as_info = uosmo, as_amount = b\<rparr>]"
  by (auto simp: ledger_ready_def sample_exact sample_pair_chain_def split: option.splits if_splits)

theorem tracked_balances_exact_witness:
  "\<exists>st' r bs. pair_call (sample_pcl, sample_pair_chain 1002000 1000000 1000000) (sample_env 9) alice_provides
      (Sudo (SwapExactAmountOut ''alice'' ''uatom'' 2000 \<lparr>coin_denom = ''uosmo'', coin_amount = 990\<rparr> (Decimal 0)))
      (sample_pair True) = Inr (st', r) \<and>
    ps_balances st' = map (\<lambda>(i, n). (i, n, 100)) bs \<and> mset (map fst bs) = {#uatom, uosmo#} \<and>
    (\<forall>(i, n) \<in> set bs. i = uatom \<longrightarrow> unat n + 1000 \<le> 1002000)"
proof -
  let ?Q = "sample_pair_chain 1002000 1000000 1000000"
  let ?ev = "Sudo (SwapExactAmountOut ''alice'' ''uatom'' 2000 \<lparr>coin_denom = ''uosmo'', coin_amount = 990\<rparr> (Decimal 0))"
  have "\<exists>st' r. pair_call (sample_pcl, ?Q) (sample_env 9) alice_provides ?ev (sample_pair True) = Inr (st', r) \<and>
      resp_data r = Some (SwapExactAmountOutResponseData 1000)"
    by (simp add: pair_call_def sudo_def swap_exact_amount_out_def pair_eval_defs uatom_def [symmetric]
        uosmo_def [symmetric] cong: and_then_eval_cong)
  then obtain st' r where call: "pair_call (sample_pcl, ?Q) (sample_env 9) alice_provides ?ev (sample_pair True) = Inr (st', r)"
    and data: "resp_data r = Some (SwapExactAmountOutResponseData 1000)" by blast
  from tracked_balances_exact [OF sample_ledger_ready call] data call show ?thesis
    by (fastforce simp: given_back_def uatom_def [symmetric])
qed

section \<open>Withdrawing liquidity\<close>

definition refund_law :: "'a pcl_crates_scheme \<Rightarrow> bool" where
  \<comment> \<open>\<open>into_asset\<close> is \<open>to_uint\<close> of the amount\<close>
  "refund_law L \<longleftrightarrow> (\<forall>d p a. into_asset L d p = Inr a \<longrightarrow>
     as_info a = da_info d \<and> to_uint L (da_amount d) p = Inr (as_amount a))"

lemma refunds_are_share:
  assumes "refund_law L" and "try_map (refund_of L precs) decs = Inr refunds"
  shows "try_map (\<lambda>asset. and_then (unwrap (get_precision L precs (da_info asset))) (\<lambda>prec.
       and_then (map_err (\<lambda>t. Std (OtherStdErr t)) (to_uint L (da_amount asset) prec)) (\<lambda>amount.
       Inr \<lparr>as_info = da_info asset, as_amount = amount\<rparr>))) decs = (Inr refunds :: (pair_error, asset list) res)"
proof -
  have "and_then (unwrap (get_precision L precs (da_info d))) (\<lambda>prec.
       and_then (map_err (\<lambda>t. Std (OtherStdErr t)) (to_uint L (da_amount d) prec)) (\<lambda>amount.
       Inr \<lparr>as_info = da_info d, as_amount = amount\<rparr>)) = (Inr a :: (pair_error, asset) res)"
    if "refund_of L precs d = Inr a" for d a
    using that assms(1) by (fastforce simp: refund_of_def refund_law_def res_simps)
  with assms(2) show ?thesis by (auto simp: try_map_returns elim!: list_all2_mono)
qed

lemma withdraw_returns:
  assumes "pair_execute L Q env info (WithdrawLiquidity assets) st = Inr (st', r)" and "refund_law L"
  shows "\<exists>c c' amount refunds. ps_config st = Some c \<and> ps_config st' = Some c' \<and> pool_change c c' \<and>
    assets = [] \<and> must_pay L info (lp_denom c) = Inr amount \<and>
    query_share L Q amount st = Inr refunds \<and>
    resp_msgs r = map submsg_new (map (\<lambda>a. TransferAsset a (mi_sender info)) refunds @
      [MsgBurn (env_contract env) \<lparr>coin_denom = lp_denom c, coin_amount = amount\<rparr> (env_contract env)])"
proof -
  have w: "withdraw_liquidity L Q env info assets st = Inr (st', r)"
    using assms by (simp add: pair_execute_def)
  have "yields (\<lambda>(st', r). \<exists>c amount refunds. ps_config st = Some c \<and>
    assets = [] \<and> must_pay L info (lp_denom c) = Inr amount \<and>
    query_share L Q amount st = Inr refunds \<and>
    resp_msgs r = map submsg_new (map (\<lambda>a. TransferAsset a (mi_sender info)) refunds @
      [MsgBurn (env_contract env) \<lparr>coin_denom = lp_denom c, coin_amount = amount\<rparr> (env_contract env)]))
    (withdraw_liquidity L Q env info assets st)"
    unfolding withdraw_liquidity_def Let_def
    by (intro yields_rules; (hypsubst+)?)
      (simp add: map_err_returns load_item_returns or_panic_returns query_share_def del: nth_opt_Some,
       drule transfers_of, frule refunds_are_share [OF assms(2)], simp)
  from yieldsD [OF this w] yieldsD [OF withdraw_pool_effect w] show ?thesis
    by (fastforce simp: pool_effect_def)
qed

text \<open>
  C14. A withdrawal pays the share that the query announces. When \<open>WithdrawLiquidity\<close> succeeds no
  asset was asked for by name, the LP tokens paid are exactly what \<open>must_pay\<close> reads, the
  response sends the sender what \<open>query_share\<close> answers for that amount in the same state and
  then burns exactly the LP tokens paid, and of the configuration only the pool state changes.
\<close>

theorem withdraw_pays_share:
  assumes "pair_execute L Q env info (WithdrawLiquidity assets) st = Inr (st', r)" and "refund_law L"
  shows "\<exists>c c' amount refunds. ps_config st = Some c \<and> ps_config st' = Some c' \<and> pool_change c c' \<and>
    assets = [] \<and> must_pay L info (lp_denom c) = Inr amount \<and>
    query_share L Q amount st = Inr refunds \<and>
    resp_msgs r = map submsg_new (map (\<lambda>a. TransferAsset a (mi_sender info)) refunds @
      [MsgBurn (env_contract env) \<lparr>coin_denom = lp_denom c, coin_amount = amount\<rparr> (env_contract env)])"
  by (rule withdraw_returns [OF assms])

definition alice_withdraws :: message_info where
  "alice_withdraws = \<lparr>mi_sender = ''alice'', mi_funds = [\<lparr>coin_denom = ''lp'', coin_amount = 5001\<rparr>]\<rparr>"

lemma sample_refunds: "refund_law sample_pcl"
  by (auto simp: refund_law_def sample_of_dec_def res_simps)

theorem withdraw_pays_share_witness:
  "\<exists>st' r. pair_execute sample_pcl (sample_pair_chain 1000000 2000000 1000000) (sample_env 9) alice_withdraws
      (WithdrawLiquidity []) (sample_pair True) = Inr (st', r) \<and>
    resp_msgs r = map submsg_new [TransferAsset \<lparr>as_info = uatom, as_amount = 5000\<rparr> ''alice'',
      TransferAsset \<lparr>as_info = uosmo, as_amount = 10000\<rparr> ''alice'',
      MsgBurn ''contract'' \<lparr>coin_denom = ''lp'', coin_amount = 5001\<rparr> ''contract'']"
proof -
  let ?Q = "sample_pair_chain 1000000 2000000 1000000"
  have "\<exists>x. pair_execute sample_pcl ?Q (sample_env 9) alice_withdraws (WithdrawLiquidity []) (sample_pair True) = Inr x"
    by (simp add: pair_execute_def withdraw_liquidity_def pair_eval_defs refund_of_def unwrap_def with_price_state_def
        withdrawn_balance_def save_balances_def alice_withdraws_def cong: and_then_eval_cong)
  then obtain st' r where w: "pair_execute sample_pcl ?Q (sample_env 9) alice_withdraws (WithdrawLiquidity []) (sample_pair True)
      = Inr (st', r)" by auto
  have "query_share sample_pcl ?Q 5001 (sample_pair True) =
      Inr [\<lparr>as_info = uatom, as_amount = 5000\<rparr>, \<lparr>as_info = uosmo, as_amount = 10000\<rparr>]"
    by (simp add: query_share_def pair_eval_defs unwrap_def cong: and_then_eval_cong)
  with withdraw_pays_share [OF w sample_refunds] w show ?thesis
    by (auto simp: alice_withdraws_def sample_must_pay_def)
qed

end
