(* ===== verification/Pair_Life.thy ===== *)
theory Pair_Life
  imports Pair_Laws
begin

text \<open>
  The life of a pair: the storage that instantiation sets up and every later call keeps
  (\<open>well_formed\<close>), the pool id that only the factory gives, the observations, which record a
  pending price once. The first two are interpretations of \<open>kept_invariant\<close> on the pair's machine.
\<close>

section \<open>Well-formed storage\<close>

definition two_natives :: "asset_info list \<Rightarrow> bool" where
  "two_natives infos \<longleftrightarrow> length infos = 2 \<and> (\<forall>i \<in> set infos. \<exists>d. i = NativeToken d)"

definition well_formed :: "pair_state \<Rightarrow> bool" where
  \<comment> \<open>the items every handler loads are there, for two native assets, under the fixed factory\<close>
  "well_formed st \<longleftrightarrow>
     (\<exists>c. ps_config st = Some c \<and> two_natives (asset_infos c) \<and> cc_factory_addr c = FACTORY_ADDRESS \<and>
        cc_fee_share c = None) \<and>
     ps_precisions st \<noteq> None \<and> ps_observations st \<noteq> None \<and> ps_cw2 st \<noteq> None"

lemma native_denoms_all:
  "length (native_denoms infos) \<le> length infos \<and>
     (length (native_denoms infos) = length infos \<longleftrightarrow> (\<forall>i \<in> set infos. \<exists>d. i = NativeToken d))"
  by (induction infos) (auto simp: native_denoms_def split: asset_info.splits)

definition born :: "pair_chain \<Rightarrow> env \<Rightarrow> pair_instantiate_msg \<Rightarrow> pair_state \<Rightarrow> pair_state \<Rightarrow> bool" where
  \<comment> \<open>what a successful instantiation leaves in the storage\<close>
  "born Q env msg st st' \<longleftrightarrow> two_natives (pim_asset_infos msg) \<and>
     (\<exists>c precs buffer bs. st' = st\<lparr>ps_cw2 := Some (CONTRACT_NAME, CONTRACT_VERSION), ps_precisions := Some precs,
        ps_config := Some c, ps_observations := Some buffer, ps_balances := bs\<rparr> \<and>
      identity c = (pim_asset_infos msg, env_contract env, Custom ''concentrated'', FACTORY_ADDRESS) \<and>
      lp_denom c = '''' \<and> cc_owner c = None \<and> cc_fee_share c = None \<and>
      pq_precisions Q (pim_asset_infos msg) FACTORY_ADDRESS = Inr precs)"

lemma pair_instantiate_returns:
  assumes "pair_instantiate L Q env msg st = Inr (st', r)"
  shows "born Q env msg st st' \<and> resp_msgs r = [\<lparr>sub_id = CREATE_DENOM_REPLY_ID,
    sub_msg = MsgCreateDenom (env_contract env) LP_SUBDENOM, sub_reply_on = OnSuccess\<rparr>]"
proof -
  have "yields (\<lambda>(st', r). born Q env msg st st' \<and> resp_msgs r = [\<lparr>sub_id = CREATE_DENOM_REPLY_ID,
      sub_msg = MsgCreateDenom (env_contract env) LP_SUBDENOM, sub_reply_on = OnSuccess\<rparr>])
    (pair_instantiate L Q env msg st)"
    unfolding pair_instantiate_def Let_def
    by (intro yields_rules; cases st)
      (use native_denoms_all [of "pim_asset_infos msg"] in
        \<open>auto simp: born_def two_natives_def identity_def initial_config_def Let_def save_balances_def res_simps\<close>)
  from yieldsD [OF this assms] show ?thesis by simp
qed

lemma born_well_formed: "born Q env msg st st' \<Longrightarrow> well_formed st'"
  by (auto simp: born_def well_formed_def identity_def)

lemma identity_well_formed:
  "ps_config st = Some c \<Longrightarrow> ps_config st' = Some c' \<Longrightarrow> well_formed st \<Longrightarrow> identity c' = identity c \<Longrightarrow>
     cc_fee_share c' = cc_fee_share c \<Longrightarrow> ps_precisions st' = ps_precisions st \<Longrightarrow>
     (ps_observations st \<noteq> None \<Longrightarrow> ps_observations st' \<noteq> None) \<Longrightarrow> (ps_cw2 st \<noteq> None \<Longrightarrow> ps_cw2 st' \<noteq> None) \<Longrightarrow>
     well_formed st'"
  by (auto simp: well_formed_def identity_def)

lemma config_effect_share: "config_effect d c c' \<Longrightarrow> cc_fee_share c' = cc_fee_share c"
  by (cases d) (auto simp: config_effect_def dest!: pool_changeD,
      (metis pcl_config.select_convs pcl_config.surjective pcl_config.update_convs)+)

lemma call_well_formed:
  assumes "pair_call c env info ev st = Inr (st', r)" and "well_formed st"
  shows "well_formed st'"
  using assms(1)
proof (cases rule: pair_call_cases)
  case Liquidity
  with assms(2) show ?thesis
    by (auto simp: pool_effect_def elim!: identity_well_formed dest: pool_change_identity pool_changeD)
next
  case (Config params)
  from pair_update_config_returns [OF Config(2)] obtain ca c' d bs where "ps_config st = Some ca" "config_effect d ca c'"
    "st' = st\<lparr>ps_config := Some c', ps_balances := bs\<rparr>" by blast
  with config_effect_identity [of d ca c'] config_effect_share [of d ca c'] assms(2) show ?thesis
    by (auto elim!: identity_well_formed)
next
  case (Claim config n p attrs)
  with assms(2) show ?thesis by (auto simp: well_formed_def)
next
  case (Swapped sp)
  with assms(2) show ?thesis
    by (auto simp: swap_effect_def elim!: identity_well_formed dest: pool_change_identity pool_changeD)
next
  case (Replied denom config)
  with assms(2) show ?thesis by (auto simp: well_formed_def with_pair_info_def)
next
  case (Migrated v)
  with assms(2) show ?thesis by (auto simp: well_formed_def)
qed (use assms(2) in \<open>auto simp: well_formed_def\<close>)

interpretation pair_well_formed: kept_invariant "\<lambda>_ _ _ _. True" pair_call well_formed
  by unfold_locales (rule call_well_formed)

section \<open>The pool id\<close>

definition no_pool_id_from_factory :: "message_info \<Rightarrow> pair_event \<Rightarrow> bool" where
  "no_pool_id_from_factory info ev \<longleftrightarrow> (\<forall>p. ev = Execute (SetPoolId p) \<longrightarrow> mi_sender info \<noteq> FACTORY_ADDRESS)"

lemma call_pool_id:
  assumes "no_pool_id_from_factory info ev" and "pair_call c env info ev st = Inr (st', r)" and "ps_pool_id st = p"
  shows "ps_pool_id st' = p"
  using assms(2)
proof (cases rule: pair_call_cases)
  case (Config params)
  from pair_update_config_returns [OF Config(2)] assms(3) show ?thesis by auto
qed (use assms(1,3) in \<open>auto simp: no_pool_id_from_factory_def pool_effect_def swap_effect_def\<close>)

interpretation pair_pool_id: kept_invariant "\<lambda>_ _. no_pool_id_from_factory" pair_call "\<lambda>st. ps_pool_id st = p" for p
  by unfold_locales (rule call_pool_id)

section \<open>Observations\<close>

definition buffer_law :: "'a pcl_crates_scheme \<Rightarrow> bool" where
  \<comment> \<open>what is pushed is read back as the last observation\<close>
  "buffer_law L \<longleftrightarrow> (\<forall>b obs b'. buffer_instant_push L b obs = Inr b' \<longrightarrow> buffer_read_last L b' = Inr (Some obs))"

definition observation_due :: "'a pcl_crates_scheme \<Rightarrow> env \<Rightarrow> pair_state \<Rightarrow> bool" where
  \<comment> \<open>a trade is pending; it is later than the last observation or, when there is none yet, it is
      from an earlier block time\<close>
  "observation_due L env st \<longleftrightarrow>
     (case (ps_precommit st, ps_observations st) of
        (Some pc, Some b) \<Rightarrow> (case buffer_read_last L b of
            Inr (Some last_obs) \<Rightarrow> ob_ts last_obs < po_precommit_ts pc
          | Inr None \<Rightarrow> po_precommit_ts pc < env_time env
          | Inl _ \<Rightarrow> False)
      | _ \<Rightarrow> False)"

definition averaged :: "'a pcl_crates_scheme \<Rightarrow> observation_buffer \<Rightarrow> observation \<Rightarrow> bool" where
  \<comment> \<open>the moving average: the price itself for the first observation, else from the average of the
      last one, in a full buffer with the oldest price dropped\<close>
  "averaged L b obs \<longleftrightarrow>
     (case buffer_read_last L b of
        Inr None \<Rightarrow> ob_price_sma obs = ob_price obs
      | Inr (Some last_obs) \<Rightarrow> (\<exists>next oldest. add_checked (bf_head b) 1 = Some next \<and> buffer_read_single L b next = Inr oldest \<and>
          (case oldest of
             Some oldest_obs \<Rightarrow> safe_sma_calculation L (ob_price_sma last_obs) (ob_price oldest_obs) (bf_capacity b) (ob_price obs)
           | None \<Rightarrow> safe_sma_buffer_not_full L (ob_price_sma last_obs) (bf_head b) (ob_price obs)) = Inr (ob_price_sma obs))
      | Inl _ \<Rightarrow> False)"

definition recorded :: "'a pcl_crates_scheme \<Rightarrow> pair_state \<Rightarrow> pair_state \<Rightarrow> bool" where
  \<comment> \<open>the pending trade has become a new observation, and nothing else has changed\<close>
  "recorded L st st' \<longleftrightarrow> (\<exists>pc b b' obs. ps_precommit st = Some pc \<and> ps_observations st = Some b \<and>
    ob_ts obs = po_precommit_ts pc \<and>
    decimal_from_ratio L (po_base_amount pc) (po_quote_amount pc) = Some (ob_price obs) \<and> averaged L b obs \<and>
    buffer_instant_push L b obs = Inr b' \<and> st' = st\<lparr>ps_observations := Some b'\<rparr>)"

lemma recorded_obs:
  "recorded L st st' \<longleftrightarrow> (\<exists>pc b b' p s. ps_precommit st = Some pc \<and> ps_observations st = Some b \<and>
    decimal_from_ratio L (po_base_amount pc) (po_quote_amount pc) = Some p \<and>
    averaged L b \<lparr>ob_ts = po_precommit_ts pc, ob_price = p, ob_price_sma = s\<rparr> \<and>
    buffer_instant_push L b \<lparr>ob_ts = po_precommit_ts pc, ob_price = p, ob_price_sma = s\<rparr> = Inr b' \<and>
    st' = st\<lparr>ps_observations := Some b'\<rparr>)"
proof
  assume "recorded L st st'"
  then obtain pc b b' obs where r: "ps_precommit st = Some pc" "ps_observations st = Some b" "ob_ts obs = po_precommit_ts pc"
    "decimal_from_ratio L (po_base_amount pc) (po_quote_amount pc) = Some (ob_price obs)" "averaged L b obs"
    "buffer_instant_push L b obs = Inr b'" "st' = st\<lparr>ps_observations := Some b'\<rparr>" by (auto simp: recorded_def)
  have "obs = \<lparr>ob_ts = po_precommit_ts pc, ob_price = ob_price obs, ob_price_sma = ob_price_sma obs\<rparr>" using r(3) by simp
  with r show "\<exists>pc b b' p s. ps_precommit st = Some pc \<and> ps_observations st = Some b \<and>
    decimal_from_ratio L (po_base_amount pc) (po_quote_amount pc) = Some p \<and>
    averaged L b \<lparr>ob_ts = po_precommit_ts pc, ob_price = p, ob_price_sma = s\<rparr> \<and>
    buffer_instant_push L b \<lparr>ob_ts = po_precommit_ts pc, ob_price = p, ob_price_sma = s\<rparr> = Inr b' \<and>
    st' = st\<lparr>ps_observations := Some b'\<rparr>" by metis
qed (force simp: recorded_def)

lemma accumulate_due:
  assumes "observation_due L env st"
  shows "accumulate_swap_sizes L env st = Inr st' \<longleftrightarrow> recorded L st st'"
proof -
  from assms obtain pc b where st: "ps_precommit st = Some pc" "ps_observations st = Some b"
    by (auto simp: observation_due_def split: option.splits)
  from assms obtain last where last: "buffer_read_last L b = Inr last"
    by (cases "buffer_read_last L b") (simp_all add: observation_due_def st)
  show ?thesis
  proof (cases last)
    case None
    with assms st last show ?thesis
      by (auto simp: observation_due_def accumulate_swap_sizes_def push_observation_def recorded_obs averaged_def res_simps)
  next
    case (Some last_obs)
    with assms st last have later: "ob_ts last_obs < po_precommit_ts pc" by (simp add: observation_due_def)
    show ?thesis
      by (simp add: st last Some later accumulate_swap_sizes_def push_observation_def recorded_obs averaged_def res_simps
          cong: option.case_cong) blast
  qed
qed

lemma accumulate_not_due:
  assumes "\<not> observation_due L env st" and "accumulate_swap_sizes L env st = Inr st'"
  shows "st' = st"
  using assms by (auto simp: observation_due_def accumulate_swap_sizes_def res_simps split: option.splits if_splits)

lemma accumulate_settled:
  assumes "ps_precommit st = Some pc" and "ps_observations st = Some b"
    and "buffer_read_last L b = Inr (Some obs)" and "po_precommit_ts pc \<le> ob_ts obs"
    and "decimal_from_ratio L (po_base_amount pc) (po_quote_amount pc) \<noteq> None"
  shows "accumulate_swap_sizes L env st = Inr st"
  using assms by (auto simp: accumulate_swap_sizes_def)

section \<open>The version\<close>

definition current_version :: "pair_state \<Rightarrow> bool" where
  "current_version st \<longleftrightarrow> ps_cw2 st = Some (CONTRACT_NAME, CONTRACT_VERSION)"

lemma current_version_migrate: "current_version st \<Longrightarrow> pair_migrate st = fail_with MigrationError"
  by (simp add: current_version_def pair_migrate_def CONTRACT_VERSION_def)

lemma call_version:
  assumes "pair_call c env info ev st = Inr (st', r)" and "current_version st"
  shows "current_version st'"
  using assms(1)
proof (cases rule: pair_call_cases)
  case (Config params)
  from pair_update_config_returns [OF Config(2)] assms(2) show ?thesis by (auto simp: current_version_def)
next
  case (Migrated v)
  with assms current_version_migrate show ?thesis by (simp add: pair_call_def)
qed (use assms(2) in \<open>auto simp: current_version_def pool_effect_def swap_effect_def\<close>)

interpretation pair_version: kept_invariant "\<lambda>_ _ _ _. True" pair_call current_version
  by unfold_locales (rule call_version)

end
