(* ===== verification/Pair_Life_Properties.thy ===== *)
theory Pair_Life_Properties
  imports Pair_Samples Pair_Life
begin

text \<open>
  The properties of the pair over its life, each with a witness on the sample instance: what
  instantiation sets up and no later call takes away, the setup that happens once, who may
  configure the pair, the observations and the migration.
\<close>

section \<open>What stays\<close>

text \<open>
  C19. Every handler finds its storage. After a successful instantiation, whatever sequence of
  executions, sudo calls, replies and migrations follows (failed ones are reverted), the
  configuration, the precisions, the observations and the contract version are in the storage,
  the pair is over exactly two native assets under the fixed factory, and no fee share is set.
\<close>

theorem pair_stays_well_formed:
  assumes "pair_instantiate L Q env msg st = Inr (st', r)"
  shows "well_formed (run_calls pair_call calls st') \<and> two_natives (pim_asset_infos msg)"
proof -
  from pair_instantiate_returns [OF assms] have born: "born Q env msg st st'" by blast
  then have "two_natives (pim_asset_infos msg)" by (simp add: born_def)
  with pair_well_formed.run_kept [OF born_well_formed [OF born]] show ?thesis by blast
qed

definition sample_birth :: pair_instantiate_msg where
  "sample_birth = \<lparr>pim_asset_infos = [uatom, uosmo], pim_token_code_id = 0, pim_factory_addr = ''factory'',
     pim_init_params = Some ''params''\<rparr>"

lemma sample_born:
  "\<exists>st' r. pair_instantiate sample_pcl (sample_pair_chain 0 0 0) (sample_env 5) sample_birth blank_pair = Inr (st', r) \<and>
     lp_denom (the (ps_config st')) = '''' \<and> ps_pool_id st' = None"
  by (simp add: pair_instantiate_def Let_def native_denoms_def denom_exists_def sample_birth_def initial_config_def
      sample_pcl_init_def save_balances_def sample_pair_chain_def initial_updates_def sample_update_params_def
      blank_pair_def cong: and_then_eval_cong)

theorem pair_stays_well_formed_witness:
  "\<exists>st'. well_formed (run_calls pair_call
     [((sample_pcl, sample_pair_chain 0 0 0), sample_env 6, sent_by [], Reply CREATE_DENOM_REPLY_ID ''lp''),
      ((sample_pcl, sample_pair_chain 0 0 0), sample_env 7, sent_by [], Execute (SetPoolId 7))] st')"
  using sample_born pair_stays_well_formed by blast

text \<open>
  C18. The identity of a pair is fixed. Whatever calls follow, the asset infos, the contract
  address, the pair type and the factory stay what they are; once the LP denom is set it stays;
  once the pool id is set it stays, and while the fixed factory address does not send
  \<open>SetPoolId\<close> there is no other way to set it.
\<close>

theorem pair_identity_fixed:
  assumes "ps_config st = Some c"
  shows "(\<exists>c'. ps_config (run_calls pair_call calls st) = Some c' \<and> asset_infos c' = asset_infos c \<and>
       pi_contract_addr (cc_pair_info c') = pi_contract_addr (cc_pair_info c) \<and>
       pi_pair_type (cc_pair_info c') = pi_pair_type (cc_pair_info c) \<and> cc_factory_addr c' = cc_factory_addr c \<and>
       (lp_denom c \<noteq> '''' \<longrightarrow> lp_denom c' = lp_denom c)) \<and>
     (ps_pool_id st \<noteq> None \<longrightarrow> ps_pool_id (run_calls pair_call calls st) = ps_pool_id st) \<and>
     ((\<forall>(_, _, info, ev) \<in> set calls. no_pool_id_from_factory info ev) \<longrightarrow>
       ps_pool_id (run_calls pair_call calls st) = ps_pool_id st)"
proof -
  let ?denom = "if lp_denom c = '''' then None else Some (lp_denom c)"
  have "settled (identity c) ?denom (ps_pool_id st) st" using assms by (simp add: settled_def)
  then have kept: "settled (identity c) ?denom (ps_pool_id st) (run_calls pair_call calls st)"
    by (rule pair_settled.run_kept) simp
  have "(\<forall>(_, _, info, ev) \<in> set calls. no_pool_id_from_factory info ev) \<longrightarrow>
      ps_pool_id (run_calls pair_call calls st) = ps_pool_id st"
    using pair_pool_id.run_kept [of st "ps_pool_id st" calls] by (auto simp: case_prod_unfold)
  moreover have "ps_pool_id st \<noteq> None \<longrightarrow> ps_pool_id (run_calls pair_call calls st) = ps_pool_id st"
    using kept by (auto simp: settled_def)
  ultimately show ?thesis using kept
    by (cases "lp_denom c = ''''") (auto simp: settled_def identity_def)
qed

definition sample_life :: "((pcl_crates \<times> pair_chain) \<times> env \<times> message_info \<times> pair_event) list" where
  "sample_life =
     [((sample_pcl, sample_pair_chain 0 0 0), sample_env 6, sent_by '''', Reply CREATE_DENOM_REPLY_ID ''other''),
      ((sample_pcl, sample_pair_chain 0 0 0), sample_env 7, sent_by ''mallory'', Execute (SetPoolId 8))]"

theorem pair_identity_fixed_witness:
  "\<exists>c. ps_config (run_calls pair_call sample_life (sample_pair True)) = Some c \<and> lp_denom c = ''lp'' \<and>
     ps_pool_id (run_calls pair_call sample_life (sample_pair True)) = Some 7"
  using pair_identity_fixed [OF sample_pair_sel(3) [of True], of sample_life]
  by (auto simp: sample_life_def no_pool_id_from_factory_def FACTORY_ADDRESS_def)

text \<open>
  C20. The setup of a pair completes, once. After a successful instantiation nothing can be
  dispatched; the reply with the LP denom and the factory's \<open>SetPoolId\<close> both succeed, in
  either order, and lead to the same storage; and once the denom (not empty) and the pool id are
  set, neither can be set again, whatever happened since and whoever tries.
\<close>

theorem pair_setup_once:
  fixes L :: "'a pcl_crates_scheme"
  assumes "pair_instantiate L Q env msg st = Inr (st1, r)" and "ps_pool_id st = None"
    and "decode_create_denom L result = Inr denom" and "denom \<noteq> ''''" and "mi_sender info = FACTORY_ADDRESS"
  shows "(\<forall>env' info' offer ask bp ms to res. pair_execute L Q' env' info' (Swap offer ask bp ms to) st1 \<noteq> Inr res) \<and>
    (\<exists>st2 r2 st3 r3 r4 r5. pair_reply L CREATE_DENOM_REPLY_ID result st1 = Inr (st2, r2) \<and>
       pair_execute L Q' env' info (SetPoolId p) st2 = Inr (st3, r3) \<and>
       (\<exists>st4. pair_execute L Q' env' info (SetPoolId p) st1 = Inr (st4, r4) \<and>
          pair_reply L CREATE_DENOM_REPLY_ID result st4 = Inr (st3, r5)) \<and>
       (\<forall>(calls :: (('a pcl_crates_scheme \<times> pair_chain) \<times> env \<times> message_info \<times> pair_event) list) Q'' env' info' res. let st' = run_calls pair_call calls st3 in
          (\<forall>i result'. pair_call (L, Q'') env' info' (Reply i result') st' \<noteq> Inr res) \<and>
          (\<forall>p'. pair_call (L, Q'') env' info' (Execute (SetPoolId p')) st' \<noteq> Inr res)))"
proof -
  from pair_instantiate_returns [OF assms(1)] assms(2) obtain c where c: "ps_config st1 = Some c" "lp_denom c = ''''"
    "ps_pool_id st1 = None" by (auto simp: born_def)
  let ?c = "with_pair_info (\<lambda>i. i\<lparr>pi_liquidity_token := denom\<rparr>) c"
  let ?st3 = "st1\<lparr>ps_config := Some ?c, ps_pool_id := Some p\<rparr>"
  have "settled (identity ?c) (Some denom) (Some p) ?st3"
    using assms(4) by (simp add: settled_def with_pair_info_def)
  from pair_settled.run_kept [OF this]
  have later: "settled (identity ?c) (Some denom) (Some p) (run_calls pair_call calls ?st3)" for calls by simp
  have once: "pair_call (L, Q'') env' info' (Reply i result') (run_calls pair_call calls ?st3) \<noteq> Inr res"
    "pair_call (L, Q'') env' info' (Execute (SetPoolId p')) (run_calls pair_call calls ?st3) \<noteq> Inr res"
    for calls :: "(('a pcl_crates_scheme \<times> pair_chain) \<times> env \<times> message_info \<times> pair_event) list" and Q'' env' info' i result' p' res
    using later [of calls] by (cases res; auto simp: settled_def pair_call_def pair_execute_def pair_reply_returns
        set_pool_id_returns)+
  have idle: "pair_execute L Q' env' info' (Swap offer ask bp ms to) st1 \<noteq> Inr res" for env' info' offer ask bp ms to res
    using c(3) by (cases res) (simp add: pair_execute_def execute_swap_returns)
  have steps: "pair_reply L CREATE_DENOM_REPLY_ID result st1 =
      Inr (st1\<lparr>ps_config := Some ?c\<rparr>, pair_response [(''lp_denom'', denom)] [])"
    "pair_execute L Q' env' info (SetPoolId p) (st1\<lparr>ps_config := Some ?c\<rparr>) =
      Inr (?st3, pair_response [(''set_pool_id'', to_string p)] [])"
    "pair_execute L Q' env' info (SetPoolId p) st1 =
      Inr (st1\<lparr>ps_pool_id := Some p\<rparr>, pair_response [(''set_pool_id'', to_string p)] [])"
    "pair_reply L CREATE_DENOM_REPLY_ID result (st1\<lparr>ps_pool_id := Some p\<rparr>) =
      Inr (?st3, pair_response [(''lp_denom'', denom)] [])" for env'
    using c assms(3,5) by (cases st1; simp add: pair_reply_returns pair_execute_def set_pool_id_returns)+
  show ?thesis
    unfolding Let_def
    by (rule conjI, intro allI, rule idle) (intro exI conjI allI; (rule steps | rule once))
qed

theorem pair_setup_once_witness:
  "\<exists>st2. (\<exists>st1 r. pair_reply sample_pcl CREATE_DENOM_REPLY_ID ''lp'' st1 = Inr (st2, r)) \<and>
     (\<exists>st3 r. pair_execute sample_pcl (sample_pair_chain 0 0 0) (sample_env 6) (sent_by FACTORY_ADDRESS) (SetPoolId 7) st2 = Inr (st3, r))"
proof -
  from sample_born obtain st1 r where
    born: "pair_instantiate sample_pcl (sample_pair_chain 0 0 0) (sample_env 5) sample_birth blank_pair = Inr (st1, r)" by blast
  have "ps_pool_id blank_pair = None" "decode_create_denom sample_pcl ''lp'' = Inr ''lp''" "''lp'' \<noteq> ''''"
    "mi_sender (sent_by FACTORY_ADDRESS) = FACTORY_ADDRESS"
    by (simp_all add: blank_pair_def)
  from pair_setup_once [OF born this, of "sample_pair_chain 0 0 0" "sample_env 6" 7] show ?thesis by blast
qed

section \<open>Who decides\<close>

text \<open>
  C31. The pair's ownership is safe. For a pair under the fixed factory with no pending proposal:
  while the acting owner (the pair's own, or by default the factory's at that moment) does not
  call, the owner stays whatever the others do; and whoever becomes the owner has called the
  contract. The hypothesis is the documented behaviour of the shared ownership functions.
\<close>

theorem pair_ownership_safe:
  assumes "\<forall>(c, env, info, ev) \<in> set calls. ownership_laws (fst c)"
    and "pinned st" and "ps_ownership_proposal st = None"
  shows "((\<forall>(c, env, info, ev) \<in> set calls.
             mi_sender info \<noteq> (case pair_owner st of None \<Rightarrow> factory_owner_of (snd c) | Some a \<Rightarrow> a)) \<longrightarrow>
            pair_owner (run_calls pair_call calls st) = pair_owner st) \<and>
         (\<forall>b. pair_owner (run_calls pair_call calls st) = Some b \<longrightarrow> pair_owner st \<noteq> Some b \<longrightarrow>
            (\<exists>(c, env, info, ev) \<in> set calls. mi_sender info = b))"
proof (intro conjI impI allI)
  assume "\<forall>(c, env, info, ev) \<in> set calls.
      mi_sender info \<noteq> (case pair_owner st of None \<Rightarrow> factory_owner_of (snd c) | Some a \<Rightarrow> a)"
  with assms(1) have "\<forall>(c, env, info, ev) \<in> set calls. ownership_laws (fst c) \<and>
      mi_sender info \<noteq> acting_owner (\<lambda>c. factory_owner_of (snd c)) pair_owner c st"
    by (auto simp: acting_owner_def)
  from pair_ownership.outsiders_never_own [OF assms(2,3) this]
  show "pair_owner (run_calls pair_call calls st) = pair_owner st" by blast
next
  fix b
  assume "pair_owner (run_calls pair_call calls st) = Some b" and "pair_owner st \<noteq> Some b"
  with pair_ownership.new_owner_called [OF assms(2,1)]
  show "\<exists>(c, env, info, ev) \<in> set calls. mi_sender info = b" by blast
qed

theorem pair_ownership_safe_witness:
  "pair_owner (run_calls pair_call
     [((sample_pcl, sample_pair_chain 1 1 1), sample_env 5, sent_by ''mallory'', Execute (ProposeNewOwner ''mallory'' 10)),
      ((sample_pcl, sample_pair_chain 1 1 1), sample_env 6, sent_by ''mallory'', Execute ClaimOwnership)] (sample_pair True))
   = None"
proof -
  let ?calls = "[((sample_pcl, sample_pair_chain 1 1 1), sample_env 5, sent_by ''mallory'', Execute (ProposeNewOwner ''mallory'' 10)),
      ((sample_pcl, sample_pair_chain 1 1 1), sample_env 6, sent_by ''mallory'', Execute ClaimOwnership)]"
  have laws: "\<forall>(c, env, info, ev) \<in> set ?calls. ownership_laws (fst c)" by (simp add: sample_pair_ownership)
  have out: "\<forall>(c, env, info, ev) \<in> set ?calls.
      mi_sender info \<noteq> (case pair_owner (sample_pair True) of None \<Rightarrow> factory_owner_of (snd c) | Some a \<Rightarrow> a)"
    by (simp add: pair_owner_def factory_owner_of_def sample_pair_chain_def)
  have "pinned (sample_pair True)" by (simp add: pinned_def)
  from pair_ownership_safe [OF laws this] out show ?thesis by (simp add: pair_owner_def)
qed

text \<open>
  C33. Only the owner configures the pair, one thing at a time. A successful \<open>UpdateConfig\<close> comes
  from the pair's owner, or from the factory's when the pair has none, sends nothing, and
  changes exactly one thing: the pool parameters, the pool state (the amplification's ramp), or
  the balance tracking, which goes on at most once and never off. Fee sharing is always refused,
  and only switching the tracking on saves balances.
\<close>

theorem pair_config_guarded:
  assumes "pair_execute L Q env info (UpdateConfig params) st = Inr (st', r)"
  shows "\<exists>c c' d bs. ps_config st = Some c \<and> owner_of Q c = Some (mi_sender info) \<and>
    decode_update_params L params = Inr d \<and> st' = st\<lparr>ps_config := Some c', ps_balances := bs\<rparr> \<and> resp_msgs r = [] \<and>
    (case d of
       Update _ \<Rightarrow> c' = c\<lparr>cc_pool_params := cc_pool_params c'\<rparr> \<and> bs = ps_balances st
     | Promote _ \<Rightarrow> c' = c\<lparr>cc_pool_state := cc_pool_state c'\<rparr> \<and> bs = ps_balances st
     | StopChangingAmpGamma \<Rightarrow> c' = c\<lparr>cc_pool_state := cc_pool_state c'\<rparr> \<and> bs = ps_balances st
     | EnableAssetBalancesTracking \<Rightarrow> \<not> cc_track_asset_balances c \<and> c' = c\<lparr>cc_track_asset_balances := True\<rparr>
     | _ \<Rightarrow> False)"
proof -
  from assms have "pair_update_config L Q env info params st = Inr (st', r)" by (simp add: pair_execute_def)
  from pair_update_config_returns [OF this] obtain c c' d bs where
    "ps_config st = Some c" "owner_of Q c = Some (mi_sender info)" "decode_update_params L params = Inr d"
    "st' = st\<lparr>ps_config := Some c', ps_balances := bs\<rparr>" "resp_msgs r = []"
    "config_effect d c c'" "d \<noteq> EnableAssetBalancesTracking \<longrightarrow> bs = ps_balances st" by blast
  then show ?thesis
    by (intro exI [of _ c] exI [of _ c'] exI [of _ d] exI [of _ bs])
      (cases d; simp add: config_effect_def pool_change_def)
qed

theorem pair_config_guarded_witness:
  "\<exists>st' r. pair_execute sample_pcl (sample_pair_chain 5 6 7) (sample_env 9) (sent_by ''dao'') (UpdateConfig ''track'')
      (sample_pair False) = Inr (st', r) \<and> (\<exists>c'. ps_config st' = Some c' \<and> cc_track_asset_balances c')"
proof -
  have "\<exists>st' r. pair_execute sample_pcl (sample_pair_chain 5 6 7) (sample_env 9) (sent_by ''dao'') (UpdateConfig ''track'')
      (sample_pair False) = Inr (st', r)"
    by (simp add: pair_execute_def pair_update_config_def sample_pair_chain_def Let_def cong: and_then_eval_cong)
  then obtain st' r where ok: "pair_execute sample_pcl (sample_pair_chain 5 6 7) (sample_env 9) (sent_by ''dao'')
      (UpdateConfig ''track'') (sample_pair False) = Inr (st', r)" by blast
  from pair_config_guarded [OF ok] ok show ?thesis by auto
qed

section \<open>Observations and the migration\<close>

text \<open>
  C36. A pending trade is observed, once. When a trade is pending that is later than the last
  observation (or, for the first one, from before the current block time), then
  \<open>accumulate_swap_sizes\<close> returns exactly when the trade can be pushed as a new observation, at
  the trade's own time, with the price of its two amounts and the moving average over the
  buffer, and the storage it returns is the old one with that observation. When no such trade is
  pending it changes nothing, and without any pending trade it returns. Running it a second time
  changes nothing, at whatever time when the first run has recorded the trade.
\<close>

theorem observation_recorded_once:
  assumes "buffer_law L"
  shows "(observation_due L env st \<longrightarrow> (accumulate_swap_sizes L env st = Inr st' \<longleftrightarrow> recorded L st st')) \<and>
    (\<not> observation_due L env st \<longrightarrow> accumulate_swap_sizes L env st = Inr st' \<longrightarrow> st' = st) \<and>
    (ps_precommit st = None \<longrightarrow> accumulate_swap_sizes L env st = Inr st) \<and>
    (accumulate_swap_sizes L env st = Inr st' \<longrightarrow> accumulate_swap_sizes L env st' = Inr st' \<and>
       (observation_due L env st \<longrightarrow> (\<forall>env'. accumulate_swap_sizes L env' st' = Inr st')))"
proof -
  have again: "accumulate_swap_sizes L env' st' = Inr st'" if "recorded L st st'" for env'
  proof -
    from that obtain pc b b' obs where "ps_precommit st = Some pc" "ob_ts obs = po_precommit_ts pc"
      "decimal_from_ratio L (po_base_amount pc) (po_quote_amount pc) = Some (ob_price obs)"
      "buffer_instant_push L b obs = Inr b'" "st' = st\<lparr>ps_observations := Some b'\<rparr>"
      by (auto simp: recorded_def)
    with assms show ?thesis
      by (intro accumulate_settled [where pc = pc and b = b' and obs = obs]) (simp_all add: buffer_law_def)
  qed
  show ?thesis
  proof (cases "observation_due L env st")
    case True
    with accumulate_due [OF this] again show ?thesis by (auto simp: observation_due_def)
  next
    case False
    with accumulate_not_due [OF this] show ?thesis by (auto simp: accumulate_swap_sizes_def)
  qed
qed

definition pending :: pair_state where
  "pending = sample_pair True\<lparr>ps_precommit := Some \<lparr>po_base_amount = 1000, po_quote_amount = 990, po_precommit_ts = 8\<rparr>\<rparr>"

theorem observation_recorded_once_witness:
  "\<exists>st'. accumulate_swap_sizes sample_pcl (sample_env 9) pending = Inr st' \<and> recorded sample_pcl pending st' \<and>
     st' \<noteq> pending \<and> accumulate_swap_sizes sample_pcl (sample_env 10) st' = Inr st'"
proof -
  have "\<exists>st'. accumulate_swap_sizes sample_pcl (sample_env 9) pending = Inr st' \<and>
      ps_observations st' \<noteq> ps_observations pending"
    by (simp add: accumulate_swap_sizes_def push_observation_def pending_def pair_sample_defs cong: and_then_eval_cong)
  then obtain st' where st': "accumulate_swap_sizes sample_pcl (sample_env 9) pending = Inr st'" "st' \<noteq> pending" by auto
  have law: "buffer_law sample_pcl"
    by (simp add: buffer_law_def sample_reads_pushed)
  from observation_recorded_once [OF law, of "sample_env 9" pending st'] st' show ?thesis by blast
qed

text \<open>
  A pair migrates once. A migration succeeds only from the versions 1.0.0, 1.0.1 and 1.0.2 of
  this contract, changes nothing but the version, and whatever follows, the next one is refused
  with \<open>MigrationError\<close>; so is one of a pair instantiated with this version.
\<close>

theorem pair_migrates_once:
  "(pair_migrate st = Inr (st', r) \<longrightarrow>
     (\<exists>v. ps_cw2 st = Some (CONTRACT_NAME, v) \<and> v \<in> {''1.0.0'', ''1.0.1'', ''1.0.2''}) \<and>
     st' = st\<lparr>ps_cw2 := Some (CONTRACT_NAME, CONTRACT_VERSION)\<rparr> \<and>
     pair_migrate (run_calls pair_call calls st') = fail_with MigrationError) \<and>
   (pair_instantiate L Q env msg st = Inr (st', r) \<longrightarrow>
     pair_migrate (run_calls pair_call calls st') = fail_with MigrationError)"
proof -
  have later: "pair_migrate (run_calls pair_call calls st') = fail_with MigrationError" if "current_version st'"
    using pair_version.run_kept [OF that, of calls] by (simp add: current_version_migrate)
  show ?thesis
  proof (intro conjI impI)
    assume m: "pair_migrate st = Inr (st', r)"
    then show "\<exists>v. ps_cw2 st = Some (CONTRACT_NAME, v) \<and> v \<in> {''1.0.0'', ''1.0.1'', ''1.0.2''}"
      and "st' = st\<lparr>ps_cw2 := Some (CONTRACT_NAME, CONTRACT_VERSION)\<rparr>"
      by (auto simp: pair_migrate_returns CONTRACT_NAME_def)
    then show "pair_migrate (run_calls pair_call calls st') = fail_with MigrationError"
      by (intro later) (simp add: current_version_def)
  next
    assume "pair_instantiate L Q env msg st = Inr (st', r)"
    from pair_instantiate_returns [OF this] have "current_version st'" by (auto simp: born_def current_version_def)
    then show "pair_migrate (run_calls pair_call calls st') = fail_with MigrationError" by (rule later)
  qed
qed

theorem pair_migrates_once_witness:
  "\<exists>st'. (\<exists>r. pair_migrate (sample_pair True\<lparr>ps_cw2 := Some (CONTRACT_NAME, ''1.0.1'')\<rparr>) = Inr (st', r)) \<and>
     pair_migrate (run_calls pair_call sample_life st') = fail_with MigrationError"
proof -
  have "\<exists>st' r. pair_migrate (sample_pair True\<lparr>ps_cw2 := Some (CONTRACT_NAME, ''1.0.1'')\<rparr>) = Inr (st', r)"
    by (simp add: pair_migrate_def CONTRACT_NAME_def cong: and_then_eval_cong)
  then obtain st' r where m: "pair_migrate (sample_pair True\<lparr>ps_cw2 := Some (CONTRACT_NAME, ''1.0.1'')\<rparr>) = Inr (st', r)"
    by blast
  with pair_migrates_once [of "sample_pair True\<lparr>ps_cw2 := Some (CONTRACT_NAME, ''1.0.1'')\<rparr>" st' r sample_life]
  show ?thesis by blast
qed

section \<open>Pairs the factory does not know\<close>

text \<open>
  C35. A pair that the factory does not know takes no liquidity, and everything else goes on:
  \<open>ProvideLiquidity\<close> never succeeds, and with valid assets it is the error \<open>PairIsNotRegistered\<close>,
  whose text says that swaps and withdrawals are still allowed; withdrawing and both swaps of
  the pool module do the same as on a registered pair, whatever the factory answers.
\<close>

theorem unregistered_pair:
  assumes "ps_config st = Some c" and "pq_pair_registered Q (cc_factory_addr c) (asset_infos c) = Inr False"
  shows "pair_execute L Q env info (ProvideLiquidity assets tol auto receiver) st \<noteq> Inr res \<and>
    (check_assets L assets = Inr () \<longrightarrow>
       pair_execute L Q env info (ProvideLiquidity assets tol auto receiver) st = fail_with PairIsNotRegistered) \<and>
    pair_execute L (Q\<lparr>pq_pair_registered := answer\<rparr>) env info (WithdrawLiquidity assets) st =
      pair_execute L Q env info (WithdrawLiquidity assets) st \<and>
    sudo L (Q\<lparr>pq_pair_registered := answer\<rparr>) env msg st = sudo L Q env msg st"
proof (intro conjI)
  have "provide_liquidity L Q env info assets tol receiver st =
      and_then (map_err PclError (check_assets L assets)) (\<lambda>_. fail_with PairIsNotRegistered)"
    using assms by (simp add: provide_liquidity_def)
  then show "pair_execute L Q env info (ProvideLiquidity assets tol auto receiver) st \<noteq> Inr res"
    and "check_assets L assets = Inr () \<longrightarrow>
       pair_execute L Q env info (ProvideLiquidity assets tol auto receiver) st = fail_with PairIsNotRegistered"
    by (auto simp: pair_execute_def res_simps)
  have q: "query_pools L (Q\<lparr>pq_pair_registered := answer\<rparr>) = query_pools L Q"
    "decimal_supply L (Q\<lparr>pq_pair_registered := answer\<rparr>) = decimal_supply L Q"
    "query_native_supply (Q\<lparr>pq_pair_registered := answer\<rparr>) = query_native_supply Q"
    "pq_fee_info (Q\<lparr>pq_pair_registered := answer\<rparr>) = pq_fee_info Q"
    "pq_pools (Q\<lparr>pq_pair_registered := answer\<rparr>) = pq_pools Q"
    by ((intro ext)?; simp add: query_pools_def decimal_supply_def query_native_supply_def)+
  show "pair_execute L (Q\<lparr>pq_pair_registered := answer\<rparr>) env info (WithdrawLiquidity assets) st =
      pair_execute L Q env info (WithdrawLiquidity assets) st"
    by (simp only: pair_execute_def pair_execute_msg.case withdraw_liquidity_def q)
  show "sudo L (Q\<lparr>pq_pair_registered := answer\<rparr>) env msg st = sudo L Q env msg st"
    by (cases msg) (simp_all only: sudo_def sudo_msg.case sudo_swap_exact_amount_in_def internal_swap_def
        swap_exact_amount_out_def q)
qed

theorem unregistered_pair_witness:
  "pair_execute sample_pcl (sample_pair_chain 5000 5000 0\<lparr>pq_pair_registered := \<lambda>_ _. Inr False\<rparr>) (sample_env 9) (sent_by ''alice'')
     (ProvideLiquidity [\<lparr>as_info = uatom, as_amount = 5000\<rparr>] None None None) (sample_pair True) = fail_with PairIsNotRegistered"
proof -
  have "pq_pair_registered (sample_pair_chain 5000 5000 0\<lparr>pq_pair_registered := \<lambda>_ _. Inr False\<rparr>)
      (cc_factory_addr (sample_pcl_config ''lp'' True)) (asset_infos (sample_pcl_config ''lp'' True)) = Inr False" by simp
  from unregistered_pair [OF sample_pair_sel(3) this, where L = sample_pcl and assets = "[\<lparr>as_info = uatom, as_amount = 5000\<rparr>]"]
  show ?thesis by simp
qed

end
