(* ===== verification/Pair_Creation.thy ===== *)
theory Pair_Creation
  imports Factory_Samples Pair_Samples Pair_Life
begin

text \<open>
  The factory and a pair together: the creation of a pair from the factory's accepted call,
  through the instantiation of the pair with the message the factory sends and the reply that
  registers it, to the pool id that the factory hands to the pair.
\<close>

text \<open>
  Creation across the two contracts. The factory accepts \<open>CreatePair\<close> and sends one pool
  creation; the chain instantiates the pair with exactly that message and runs its LP denom
  reply; the factory's reply registers the contract and sends it the pool id. Then the pair is
  over exactly two distinct native assets, the ones asked for, and is registered under
  their key. If the factory sits at the address the pair was built with, the pair takes the
  pool id and keeps its identity and this id whatever calls follow; if it does not, the
  pair refuses the id with \<open>Unauthorized\<close>, the factory's error reply swallows that and leaves
  the pair registered, and no \<open>Swap\<close> is ever dispatched by this pair in the state it is in.
\<close>

theorem pair_creation:
  assumes create: "factory_execute LF QF envF info (CreatePair pt infos params) f0 = Inr (f1, r1)"
    and sent: "resp_msgs r1 = [\<lparr>sub_id = i1, sub_msg = MsgCreateCosmWasmPool code_id im creator', sub_reply_on = on1\<rparr>]"
    and born: "pair_instantiate LP QP envP im fresh = Inr (p0, r2)" and fresh: "ps_pool_id fresh = None"
    and denom: "pair_reply LP CREATE_DENOM_REPLY_ID result p0 = Inr (p1, r3)"
    and reply: "factory_reply LF QF' INSTANTIATE_PAIR_REPLY_ID result' f1 = Inr (f2, r4)"
    and id_sent: "resp_msgs r4 = [\<lparr>sub_id = i2, sub_msg = ExecuteSetPoolId (env_contract envP) pool_id, sub_reply_on = on2\<rparr>]"
    and from_factory: "mi_sender info' = env_contract envF"
  shows "two_natives infos \<and> distinct infos \<and>
    fmlookup (fs_pairs f2) (pair_key LF infos) = Some (env_contract envP) \<and>
    (if env_contract envF = FACTORY_ADDRESS
     then \<exists>p2 r5. pair_execute LP QP' envP' info' (SetPoolId pool_id) p1 = Inr (p2, r5) \<and>
       (\<forall>calls. \<exists>c. ps_config (run_calls pair_call calls p2) = Some c \<and>
          identity c = (infos, env_contract envP, Custom ''concentrated'', FACTORY_ADDRESS) \<and>
          ps_pool_id (run_calls pair_call calls p2) = Some pool_id)
     else pair_execute LP QP' envP' info' (SetPoolId pool_id) p1 = fail_with Unauthorized \<and>
       (\<exists>r6. factory_reply LF QF'' i2 result'' f2 = Inr (f2, r6)) \<and>
       (\<forall>env' sender offer ask bp ms to res. pair_execute LP QP' env' sender (Swap offer ask bp ms to) p1 \<noteq> Inr res))"
proof -
  from create sent have c: "distinct infos" "im = \<lparr>pim_asset_infos = infos, pim_token_code_id = 0,
      pim_factory_addr = env_contract envF, pim_init_params = params\<rparr>"
    and f1: "f1 = f0\<lparr>fs_tmp_pair_info := Some \<lparr>tp_pair_key = pair_key LF infos\<rparr>\<rparr>"
    by (auto simp: factory_execute_def create_pair_returns)
  from pair_instantiate_returns [OF born] have p0: "born QP envP im fresh p0" by blast
  then have two: "two_natives infos" by (simp add: born_def c)
  from p0 denom fresh c obtain cp where p1: "ps_config p1 = Some cp" "ps_pool_id p1 = None"
    "identity cp = (infos, env_contract envP, Custom ''concentrated'', FACTORY_ADDRESS)"
    by (auto simp: born_def pair_reply_returns identity_def with_pair_info_def)
  from factory_reply_returns [OF reply] id_sent f1
  have registered: "fmlookup (fs_pairs f2) (pair_key LF infos) = Some (env_contract envP)"
    and i2: "i2 = SET_POOL_ID_FAILED_REPLY_ID"
    by (auto simp: INSTANTIATE_PAIR_REPLY_ID_def SET_POOL_ID_FAILED_REPLY_ID_def)
  show ?thesis
  proof (cases "env_contract envF = FACTORY_ADDRESS")
    case True
    let ?p2 = "p1\<lparr>ps_pool_id := Some pool_id\<rparr>"
    have "settled (identity cp) None (Some pool_id) ?p2" using p1 by (simp add: settled_def)
    from pair_settled.run_kept [OF this]
    have later: "settled (identity cp) None (Some pool_id) (run_calls pair_call calls ?p2)" for calls by simp
    have "pair_execute LP QP' envP' info' (SetPoolId pool_id) p1 =
        Inr (?p2, pair_response [(''set_pool_id'', to_string pool_id)] [])"
      using p1 True from_factory by (simp add: pair_execute_def set_pool_id_returns)
    moreover have "\<exists>c. ps_config (run_calls pair_call calls ?p2) = Some c \<and>
          identity c = (infos, env_contract envP, Custom ''concentrated'', FACTORY_ADDRESS) \<and>
          ps_pool_id (run_calls pair_call calls ?p2) = Some pool_id" for calls
      using later [of calls] p1(3) by (auto simp: settled_def)
    ultimately show ?thesis using True two c registered by auto
  next
    case False
    have "pair_execute LP QP' envP' info' (SetPoolId pool_id) p1 = fail_with Unauthorized"
      using False from_factory by (simp add: pair_execute_def set_pool_id_def)
    moreover have "\<exists>r6. factory_reply LF QF'' i2 result'' f2 = Inr (f2, r6)"
      by (simp add: i2 factory_reply_def INSTANTIATE_PAIR_REPLY_ID_def SET_POOL_ID_FAILED_REPLY_ID_def)
    moreover have "pair_execute LP QP' env' sender (Swap offer ask bp ms to) p1 \<noteq> Inr res" for env' sender offer ask bp ms to res
      using p1(2) by (cases res) (simp add: pair_execute_def execute_swap_returns)
    ultimately show ?thesis using False two c registered by auto
  qed
qed

abbreviation factory_env :: env where
  "factory_env \<equiv> sample_env 5\<lparr>env_contract := FACTORY_ADDRESS\<rparr>"

abbreviation pair7_env :: env where
  "pair7_env \<equiv> sample_env 5\<lparr>env_contract := ''pair7''\<rparr>"

lemma sample_create_call:
  "factory_execute sample_factory_crates sample_factory_chain factory_env creator
     (CreatePair (Custom ''concentrated'') [uatom, uosmo] (Some ''params'')) (sample_factory [])
   = Inr (creating ''uatom'' ''uosmo'' (sample_factory []),
       \<lparr>resp_attrs = [(''action'', ''create_pair''), (''pair'', ''uatom-uosmo'')],
        resp_msgs = [\<lparr>sub_id = 1, sub_msg = MsgCreateCosmWasmPool 11
          \<lparr>pim_asset_infos = [uatom, uosmo], pim_token_code_id = 0,
           pim_factory_addr = FACTORY_ADDRESS, pim_init_params = Some ''params''\<rparr> FACTORY_ADDRESS, sub_reply_on = OnSuccess\<rparr>]\<rparr>)"
  unfolding factory_execute_def factory_execute_msg.case create_pair_returns
  using sample_fee_accepted
  by (auto simp: factory_sample_defs creating_def INSTANTIATE_PAIR_REPLY_ID_def join_with_def uatom_def uosmo_def)

lemma sample_register:
  "factory_reply sample_factory_crates sample_factory_chain INSTANTIATE_PAIR_REPLY_ID ''x'' (creating ''uatom'' ''uosmo'' (sample_factory []))
   = Inr ((creating ''uatom'' ''uosmo'' (sample_factory []))\<lparr>fs_pairs := fmap_of_list [(''uatomuosmo'', ''pair7'')]\<rparr>,
       \<lparr>resp_attrs = [(''action'', ''register''), (''pair_contract_addr'', ''pair7'')],
        resp_msgs = [\<lparr>sub_id = 2, sub_msg = ExecuteSetPoolId ''pair7'' 7, sub_reply_on = OnError\<rparr>]\<rparr>)"
  by (simp add: factory_reply_def creating_def factory_sample_defs pair_key_def SET_POOL_ID_FAILED_REPLY_ID_def)

theorem pair_creation_witness:
  "\<exists>p1 p2 r5. pair_execute sample_pcl (sample_pair_chain 0 0 0) pair7_env (sent_by FACTORY_ADDRESS) (SetPoolId 7) p1 = Inr (p2, r5) \<and>
     (\<exists>c. ps_config p2 = Some c \<and> identity c = ([uatom, uosmo], ''pair7'', Custom ''concentrated'', FACTORY_ADDRESS))"
proof -
  let ?im = "\<lparr>pim_asset_infos = [uatom, uosmo], pim_token_code_id = 0, pim_factory_addr = FACTORY_ADDRESS,
    pim_init_params = Some ''params''\<rparr> :: pair_instantiate_msg"
  have "\<exists>x. pair_instantiate sample_pcl (sample_pair_chain 0 0 0) pair7_env ?im blank_pair = Inr x"
    by (simp add: pair_instantiate_def Let_def native_denoms_def denom_exists_def initial_config_def
        sample_pcl_init_def save_balances_def sample_pair_chain_def initial_updates_def sample_update_params_def
        blank_pair_def cong: and_then_eval_cong)
  then obtain p0 r2 where born: "pair_instantiate sample_pcl (sample_pair_chain 0 0 0) pair7_env ?im blank_pair = Inr (p0, r2)"
    by auto
  have fresh: "ps_pool_id blank_pair = None" by (simp add: blank_pair_def)
  from pair_instantiate_returns [OF born] have "\<exists>x. pair_reply sample_pcl CREATE_DENOM_REPLY_ID ''lp'' p0 = Inr x"
    by (auto simp: born_def pair_reply_def)
  then obtain p1 r3 where denom: "pair_reply sample_pcl CREATE_DENOM_REPLY_ID ''lp'' p0 = Inr (p1, r3)" by auto
  from pair_creation [OF sample_create_call _ born fresh denom sample_register,
      where info' = "sent_by FACTORY_ADDRESS" and QP' = "sample_pair_chain 0 0 0" and envP' = pair7_env]
  have "\<exists>p2 r5. pair_execute sample_pcl (sample_pair_chain 0 0 0) pair7_env (sent_by FACTORY_ADDRESS) (SetPoolId 7) p1 = Inr (p2, r5) \<and>
      (\<forall>calls. \<exists>c. ps_config (run_calls pair_call calls p2) = Some c \<and>
        identity c = ([uatom, uosmo], ''pair7'', Custom ''concentrated'', FACTORY_ADDRESS))"
    by fastforce
  then obtain p2 r5 where p2: "pair_execute sample_pcl (sample_pair_chain 0 0 0) pair7_env (sent_by FACTORY_ADDRESS) (SetPoolId 7) p1 = Inr (p2, r5)"
    "\<exists>c. ps_config (run_calls pair_call [] p2) = Some c \<and> identity c = ([uatom, uosmo], ''pair7'', Custom ''concentrated'', FACTORY_ADDRESS)"
    by blast
  then show ?thesis by auto
qed

end
