(* ===== verification/World.thy ===== *)
theory World
  imports Maker Factory Pair_Queries "HOL-Library.Monad_Syntax"
begin

text \<open>
  The contracts on their chain: the factory, any number of pairs and the maker in one world,
  with the Osmosis modules that connect them. The modules are those of the repository itself
  (\<open>OsmosisStargate\<close> in src/contracts/maker/tests/common/osmosis_ext.rs, the chain its integration
  tests run on): the pool module, which instantiates pools, numbers them, and hands a swap to
  the \<open>sudo\<close> of the pool's contract, and the token factory. The bank behind them, the contracts
  that are not in the repository (the generator, the satellite), address generation and the
  encoding of replies are the fields of \<open>net\<close>; as everywhere, they are parameters. The messages
  of a response are delivered in order, with the replies the sender asked for, and a
  transaction in which anything fails leaves the world as it was (\<open>None\<close>).
\<close>

section \<open>The world\<close>

record 'b world =
  w_bank :: 'b                          \<comment> \<open>the bank's ledger and the rest of the chain, left abstract\<close>
  w_pools :: "(u64, addr) fmap"         \<comment> \<open>\<open>cw_pools\<close>: the contract of each pool id\<close>
  w_factory :: factory_state
  w_pairs :: "(addr, pair_state) fmap"
  w_maker :: maker_state

record 'b net =
  n_balance :: "'b \<Rightarrow> addr \<Rightarrow> string \<Rightarrow> nat"
  n_send :: "addr \<Rightarrow> addr \<Rightarrow> coin list \<Rightarrow> 'b \<Rightarrow> 'b option"        \<comment> \<open>\<open>BankMsg::Send\<close>: from, to\<close>
  n_mint :: "addr \<Rightarrow> coin list \<Rightarrow> 'b \<Rightarrow> 'b option"                \<comment> \<open>\<open>BankSudo::Mint\<close>\<close>
  n_burn :: "addr \<Rightarrow> coin list \<Rightarrow> 'b \<Rightarrow> 'b option"                \<comment> \<open>\<open>BankMsg::Burn\<close>\<close>
  n_external :: "addr \<Rightarrow> 'b \<Rightarrow> 'b option"
    \<comment> \<open>what executing a contract outside the repository does to the bank\<close>
  n_factory :: addr
  n_maker :: addr
  n_factory_crates :: factory_crates
  n_pcl_crates :: pcl_crates
  n_maker_crates :: maker_crates
  n_factory_chain :: "'b \<Rightarrow> factory_chain"    \<comment> \<open>queries that the modules below do not answer\<close>
  n_pair_chain :: "'b \<Rightarrow> factory_state \<Rightarrow> pair_chain"   \<comment> \<open>of the bank, the coin registry, the factory\<close>
  n_maker_chain :: "'b \<Rightarrow> maker_chain"
  n_pair_code :: u64
  n_new_address :: "'b world \<Rightarrow> addr"               \<comment> \<open>of the next contract\<close>
  n_encode_pool_id :: "u64 \<Rightarrow> binary"                \<comment> \<open>\<open>MsgCreateCosmWasmPoolResponse\<close>\<close>
  n_encode_denom :: "string \<Rightarrow> binary"               \<comment> \<open>\<open>MsgCreateDenomResponse\<close>\<close>

definition at_contract :: "env \<Rightarrow> addr \<Rightarrow> env" where
  "at_contract env a = env\<lparr>env_contract := a\<rparr>"

lemma at_contract_sel [simp]:
  "env_contract (at_contract env a) = a" "env_time (at_contract env a) = env_time env"
  "env_height (at_contract env a) = env_height env"
  by (simp_all add: at_contract_def)

definition ok_value :: "('e, 'a) res \<Rightarrow> 'a option" where
  \<comment> \<open>an error or a panic of a contract fails the call\<close>
  "ok_value r = (case r of Inl _ \<Rightarrow> None | Inr x \<Rightarrow> Some x)"

lemma ok_value_simps [simp]: "ok_value (Inl e) = None" "ok_value (Inr x) = Some x"
  by (simp_all add: ok_value_def)

lemma ok_value_Some [simp]: "ok_value r = Some x \<longleftrightarrow> r = Inr x"
  by (auto simp: ok_value_def split: sum.splits)

section \<open>Queries the modules answer\<close>

definition pool_contract :: "'b world \<Rightarrow> u64 \<Rightarrow> ('e, addr) res" where
  \<comment> \<open>\<open>ContractInfoByPoolId\<close>; the index panics for an unknown pool\<close>
  "pool_contract w pool_id = or_panic (fmlookup (w_pools w) pool_id)"

abbreviation pair_asks :: "'b net \<Rightarrow> 'b world \<Rightarrow> pair_chain" where
  "pair_asks N w \<equiv> n_pair_chain N (w_bank w) (w_factory w)"

definition ask_pair :: "'b net \<Rightarrow> env \<Rightarrow> 'b world \<Rightarrow> addr \<Rightarrow> pair_query_msg \<Rightarrow> (std_error, pair_answer) res" where
  "ask_pair N env w a q =
     and_then (ok_or (NotFound a) (fmlookup (w_pairs w) a)) (\<lambda>st.
     pair_query (n_pcl_crates N) (pair_asks N w) (at_contract env a) q st)"

definition factory_asks :: "'b net \<Rightarrow> env \<Rightarrow> 'b world \<Rightarrow> factory_chain" where
  "factory_asks N env w = (n_factory_chain N (w_bank w))\<lparr>
     fq_pool_creation_fee := Inr (Some [(''1000000000'', ''uosmo'')]),
     fq_contract_by_pool_id := pool_contract w,
     fq_pair_info := (\<lambda>a. and_then (ask_pair N env w a QueryPair) (\<lambda>r.
       case r of PairInfoAnswer i \<Rightarrow> Inr i | _ \<Rightarrow> Inl Panic))\<rparr>"

definition maker_asks :: "'b net \<Rightarrow> env \<Rightarrow> 'b world \<Rightarrow> maker_chain" where
  "maker_asks N env w = (n_maker_chain N (w_bank w))\<lparr>
     ch_total_pool_liquidity := (\<lambda>pool_id. and_then (pool_contract w pool_id) (\<lambda>a.
       and_then (ask_pair N env w a QueryPool) (\<lambda>r.
       case r of PoolAnswer p \<Rightarrow> try_map (\<lambda>x. unwrap (as_coin (n_pcl_crates N) x)) (pl_assets p) | _ \<Rightarrow> Inl Panic))),
     ch_spot_price := (\<lambda>pool_id _ quote. and_then (pool_contract w pool_id) (\<lambda>a.
       and_then (ask_pair N env w a (SpotPrice quote quote)) (\<lambda>r.
       case r of SpotPriceAnswer p \<Rightarrow> Inr (decimal_to_string (n_maker_crates N) p) | _ \<Rightarrow> Inl Panic)))\<rparr>"

section \<open>Calling a pair, delivering messages\<close>

definition call_pair :: "addr \<Rightarrow> (pair_state \<Rightarrow> pair_result) \<Rightarrow> 'b world \<Rightarrow> ('b world \<times> pair_msg data_response) option" where
  "call_pair a f w = do {
     st \<leftarrow> fmlookup (w_pairs w) a;
     (st', r) \<leftarrow> ok_value (f st);
     Some (w\<lparr>w_pairs := fmupd a st' (w_pairs w)\<rparr>, r)
   }"

definition on_bank :: "('b \<Rightarrow> 'b option) \<Rightarrow> 'b world \<Rightarrow> 'b world option" where
  "on_bank f w = map_option (\<lambda>b. w\<lparr>w_bank := b\<rparr>) (f (w_bank w))"

definition pay_in :: "'b net \<Rightarrow> message_info \<Rightarrow> addr \<Rightarrow> 'b world \<Rightarrow> 'b world option" where
  \<comment> \<open>the funds of a call move to the contract before it runs\<close>
  "pay_in N info a w = (if mi_funds info = [] then Some w else on_bank (n_send N (mi_sender info) a (mi_funds info)) w)"

fun run_submsgs :: "('m \<Rightarrow> 'w \<Rightarrow> ('w \<times> binary) option) \<Rightarrow> (u64 \<Rightarrow> binary \<Rightarrow> 'w \<Rightarrow> 'w option) \<Rightarrow> 'm submsg list \<Rightarrow> 'w
    \<Rightarrow> 'w option" where
  \<comment> \<open>the messages of a response in order: the reply on success or on error where it was asked for,
      with the failed message undone; otherwise a failure fails the whole call\<close>
  "run_submsgs deliver reply [] w = Some w"
| "run_submsgs deliver reply (s # subs) w =
     (case deliver (sub_msg s) w of
        Some (w', data) \<Rightarrow>
          (case if sub_reply_on s \<in> {Always, OnSuccess} then reply (sub_id s) data w' else Some w' of
             None \<Rightarrow> None | Some w'' \<Rightarrow> run_submsgs deliver reply subs w'')
      | None \<Rightarrow>
          (case if sub_reply_on s \<in> {Always, OnError} then reply (sub_id s) [] w else None of
             None \<Rightarrow> None | Some w'' \<Rightarrow> run_submsgs deliver reply subs w''))"

section \<open>The pool module\<close>

definition swap_fee_of :: "'b net \<Rightarrow> env \<Rightarrow> addr \<Rightarrow> 'b world \<Rightarrow> decimal option" where
  \<comment> \<open>Osmosis always performs the \<open>GetSwapFee\<close> query before calling a contract\<close>
  "swap_fee_of N env a w = do {
     r \<leftarrow> ok_value (ask_pair N env w a GetSwapFee);
     (case r of SwapFeeAnswer fee \<Rightarrow> Some fee | _ \<Rightarrow> None)
   }"

definition sudo_pair :: "'b net \<Rightarrow> env \<Rightarrow> addr \<Rightarrow> sudo_msg \<Rightarrow> 'b world \<Rightarrow> ('b world \<times> pair_msg data_response) option" where
  "sudo_pair N env a msg w =
     call_pair a (sudo (n_pcl_crates N) (pair_asks N w) (at_contract env a) msg) w"

fun swap_along :: "'b net \<Rightarrow> env \<Rightarrow> (addr \<Rightarrow> pair_msg submsg list \<Rightarrow> 'b world \<Rightarrow> 'b world option) \<Rightarrow> addr \<Rightarrow> string
    \<Rightarrow> (u64 \<times> string) list \<Rightarrow> coin \<Rightarrow> 'b world \<Rightarrow> 'b world option" where
  \<comment> \<open>the routes of a \<open>MsgSwapExactAmountIn\<close>: the output of each is the input of the next\<close>
  "swap_along N env respond sender min_text [] token_in w = Some w"
| "swap_along N env respond sender min_text ((pool_id, denom) # routes) token_in w = do {
     a \<leftarrow> fmlookup (w_pools w) pool_id;
     fee \<leftarrow> swap_fee_of N env a w;
     w1 \<leftarrow> on_bank (n_send N sender a [token_in]) w;
     min_amount \<leftarrow> (case parse_u128 min_text of Inl _ \<Rightarrow> None | Inr n \<Rightarrow> Some n);
     (w2, r) \<leftarrow> sudo_pair N env a (SwapExactAmountIn sender token_in denom min_amount fee) w1;
     w3 \<leftarrow> respond a (resp_msgs r) w2;
     out \<leftarrow> (case resp_data r of Some (SwapExactAmountInResponseData n) \<Rightarrow> Some n | _ \<Rightarrow> None);
     swap_along N env respond sender min_text routes \<lparr>coin_denom = denom, coin_amount = out\<rparr> w3
   }"

definition swap_exact_in :: "'b net \<Rightarrow> env \<Rightarrow> (addr \<Rightarrow> pair_msg submsg list \<Rightarrow> 'b world \<Rightarrow> 'b world option) \<Rightarrow> addr
    \<Rightarrow> (u64 \<times> string) list \<Rightarrow> coin \<Rightarrow> string \<Rightarrow> 'b world \<Rightarrow> 'b world option" where
  "swap_exact_in N env respond sender routes token_in min_text w =
     (if routes = [] then None else swap_along N env respond sender min_text routes token_in w)"

definition swap_exact_out :: "'b net \<Rightarrow> env \<Rightarrow> (addr \<Rightarrow> pair_msg submsg list \<Rightarrow> 'b world \<Rightarrow> 'b world option) \<Rightarrow> addr
    \<Rightarrow> (u64 \<times> string) list \<Rightarrow> string \<Rightarrow> coin \<Rightarrow> 'b world \<Rightarrow> 'b world option" where
  "swap_exact_out N env respond sender routes max_text token_out w = (case routes of [] \<Rightarrow> None | (pool_id, denom) # _ \<Rightarrow> do {
     a \<leftarrow> fmlookup (w_pools w) pool_id;
     fee \<leftarrow> swap_fee_of N env a w;
     max_amount \<leftarrow> (case parse_u128 max_text of Inl _ \<Rightarrow> None | Inr n \<Rightarrow> Some n);
     w1 \<leftarrow> on_bank (n_send N sender a [\<lparr>coin_denom = denom, coin_amount = max_amount\<rparr>]) w;
     (w2, r) \<leftarrow> sudo_pair N env a (SwapExactAmountOut sender denom max_amount token_out fee) w1;
     w3 \<leftarrow> respond a (resp_msgs r) w2;
     charged \<leftarrow> (case resp_data r of Some (SwapExactAmountOutResponseData n) \<Rightarrow> Some n | _ \<Rightarrow> None);
     excess \<leftarrow> sub_checked max_amount charged;
     if excess = 0 then Some w3
     else on_bank (n_send N a sender [\<lparr>coin_denom = denom, coin_amount = excess\<rparr>]) w3
   })"

section \<open>The messages of a pair\<close>

definition routes_of_pair :: "Pair_State.swap_amount_in_route list \<Rightarrow> (u64 \<times> string) list" where
  "routes_of_pair = map (\<lambda>r. (Pair_State.sa_pool_id r, Pair_State.sa_token_out_denom r))"

fun pair_respond :: "nat \<Rightarrow> 'b net \<Rightarrow> env \<Rightarrow> addr \<Rightarrow> pair_msg submsg list \<Rightarrow> 'b world \<Rightarrow> 'b world option" where
  \<comment> \<open>delivers the messages of a pair's response; the number bounds the nesting of calls\<close>
  "pair_respond 0 N env a subs w = (if subs = [] then Some w else None)"
| "pair_respond (Suc n) N env a subs w =
     run_submsgs
       (\<lambda>msg w. case msg of
          MsgCreateDenom sender subdenom \<Rightarrow>
            Some (w, n_encode_denom N (''factory/'' @ sender @ ''/'' @ subdenom))
        | MsgMint sender c to \<Rightarrow> map_option (\<lambda>w. (w, [])) (on_bank (n_mint N to [c]) w)
        | MsgBurn sender c from \<Rightarrow> map_option (\<lambda>w. (w, [])) (on_bank (n_burn N sender [c]) w)
        | TransferAsset asset to \<Rightarrow>
            (case as_info asset of
               NativeToken denom \<Rightarrow>
                 map_option (\<lambda>w. (w, [])) (on_bank (n_send N a to [\<lparr>coin_denom = denom, coin_amount = as_amount asset\<rparr>]) w)
             | Token _ \<Rightarrow> None)
        | pair_msg.MsgSwapExactAmountIn sender routes token_in min_text \<Rightarrow>
            map_option (\<lambda>w. (w, []))
              (swap_exact_in N env (pair_respond n N env) sender (routes_of_pair routes) token_in min_text w))
       (\<lambda>i data w. do {
          (w', r) \<leftarrow> call_pair a (pair_reply (n_pcl_crates N) i data) w;
          pair_respond n N env a (resp_msgs r) w'
        })
       subs w"

text \<open>Two levels suffice: the swap a pair sends comes back to a pair, whose answer only pays.\<close>

abbreviation respond :: "'b net \<Rightarrow> env \<Rightarrow> addr \<Rightarrow> pair_msg submsg list \<Rightarrow> 'b world \<Rightarrow> 'b world option" where
  "respond \<equiv> pair_respond 2"

section \<open>The messages of the factory and the maker\<close>

definition new_pair_state :: pair_state where
  \<comment> \<open>the storage of a contract that is being instantiated\<close>
  "new_pair_state = \<lparr>ps_swap_params = None, ps_pool_id = None, ps_config = None, ps_ownership_proposal = None,
     ps_observations = None, ps_balances = [], ps_precisions = None, ps_precommit = None, ps_cw2 = None\<rparr>"

definition instantiate_pair :: "'b net \<Rightarrow> env \<Rightarrow> pair_instantiate_msg \<Rightarrow> 'b world \<Rightarrow> ('b world \<times> addr) option" where
  "instantiate_pair N env msg w = (let a = n_new_address N w in
     if a \<in> fmdom' (w_pairs w) \<or> a = n_factory N \<or> a = n_maker N then None else do {
     (st, r) \<leftarrow> ok_value (pair_instantiate (n_pcl_crates N) (pair_asks N w) (at_contract env a) msg new_pair_state);
     w' \<leftarrow> respond N env a (resp_msgs r) (w\<lparr>w_pairs := fmupd a st (w_pairs w)\<rparr>);
     Some (w', a)
   })"

definition create_pool :: "'b net \<Rightarrow> env \<Rightarrow> u64 \<Rightarrow> pair_instantiate_msg \<Rightarrow> 'b world \<Rightarrow> ('b world \<times> u64) option" where
  \<comment> \<open>\<open>MsgCreateCosmWasmPool\<close>: pools are numbered from 1. A pool of another code is outside this world.\<close>
  "create_pool N env code_id msg w = (if code_id \<noteq> n_pair_code N then None else do {
     (w', a) \<leftarrow> instantiate_pair N env msg w;
     next_pool_id \<leftarrow> add_checked (word_of_nat (fcard (fmdom (w_pools w')))) 1;
     Some (w'\<lparr>w_pools := fmupd next_pool_id a (w_pools w')\<rparr>, next_pool_id)
   })"

fun factory_respond :: "nat \<Rightarrow> 'b net \<Rightarrow> env \<Rightarrow> factory_msg submsg list \<Rightarrow> 'b world \<Rightarrow> 'b world option" where
  "factory_respond 0 N env subs w = (if subs = [] then Some w else None)"
| "factory_respond (Suc n) N env subs w =
     run_submsgs
       (\<lambda>msg w. case msg of
          MsgCreateCosmWasmPool code_id m _ \<Rightarrow>
            map_option (\<lambda>(w, pool_id). (w, n_encode_pool_id N pool_id)) (create_pool N env code_id m w)
        | ExecuteSetPoolId a pool_id \<Rightarrow> do {
            (w', r) \<leftarrow> call_pair a (pair_execute (n_pcl_crates N) (pair_asks N w) (at_contract env a)
              \<lparr>mi_sender = n_factory N, mi_funds = []\<rparr> (SetPoolId pool_id)) w;
            w'' \<leftarrow> respond N env a (resp_msgs r) w';
            Some (w'', [])
          }
        | DeactivatePool generator _ \<Rightarrow> map_option (\<lambda>w. (w, [])) (on_bank (n_external N generator) w))
       (\<lambda>i data w. do {
          (fs, r) \<leftarrow> ok_value (factory_reply (n_factory_crates N) (factory_asks N env w) i data (w_factory w));
          factory_respond n N env (resp_msgs r) (w\<lparr>w_factory := fs\<rparr>)
        })
       subs w"

definition routes_of_maker :: "Maker_State.swap_amount_in_route list \<Rightarrow> (u64 \<times> string) list" where
  "routes_of_maker = map (\<lambda>r. (Maker_State.sa_pool_id r, Maker_State.sa_token_out_denom r))"

fun maker_respond :: "nat \<Rightarrow> 'b net \<Rightarrow> env \<Rightarrow> maker_msg submsg list \<Rightarrow> 'b world \<Rightarrow> 'b world option" where
  "maker_respond 0 N env subs w = (if subs = [] then Some w else None)"
| "maker_respond (Suc n) N env subs w =
     run_submsgs
       (\<lambda>msg w. case msg of
          maker_msg.MsgSwapExactAmountIn sender routes token_in min_text \<Rightarrow>
            map_option (\<lambda>w. (w, []))
              (swap_exact_in N env (respond N env) sender (routes_of_maker routes) token_in min_text w)
        | TransferAstro satellite coins \<Rightarrow> do {
            w' \<leftarrow> on_bank (n_send N (n_maker N) satellite coins) w;
            w'' \<leftarrow> on_bank (n_external N satellite) w';
            Some (w'', [])
          })
       (\<lambda>i data w. do {
          (ms, r) \<leftarrow> ok_value (maker_reply (maker_asks N env w) (at_contract env (n_maker N)) i (w_maker w));
          maker_respond n N env (resp_msgs r) (w\<lparr>w_maker := ms\<rparr>)
        })
       subs w"

section \<open>Transactions\<close>

definition tx_pair :: "'b net \<Rightarrow> env \<Rightarrow> message_info \<Rightarrow> addr \<Rightarrow> pair_execute_msg \<Rightarrow> 'b world \<Rightarrow> 'b world option" where
  "tx_pair N env info a msg w = do {
     w1 \<leftarrow> pay_in N info a w;
     (w2, r) \<leftarrow> call_pair a (pair_execute (n_pcl_crates N) (pair_asks N w1) (at_contract env a) info msg) w1;
     respond N env a (resp_msgs r) w2
   }"

definition tx_factory :: "'b net \<Rightarrow> env \<Rightarrow> message_info \<Rightarrow> factory_execute_msg \<Rightarrow> 'b world \<Rightarrow> 'b world option" where
  "tx_factory N env info msg w = do {
     w1 \<leftarrow> pay_in N info (n_factory N) w;
     (fs, r) \<leftarrow> ok_value (factory_execute (n_factory_crates N) (factory_asks N env w1) (at_contract env (n_factory N))
       info msg (w_factory w1));
     factory_respond 2 N env (resp_msgs r) (w1\<lparr>w_factory := fs\<rparr>)
   }"

definition tx_maker :: "'b net \<Rightarrow> env \<Rightarrow> message_info \<Rightarrow> maker_execute_msg \<Rightarrow> 'b world \<Rightarrow> 'b world option" where
  "tx_maker N env info msg w = do {
     w1 \<leftarrow> pay_in N info (n_maker N) w;
     (ms, r) \<leftarrow> ok_value (maker_execute (n_maker_crates N) (maker_asks N env w1) (at_contract env (n_maker N))
       info msg (w_maker w1));
     maker_respond 2 N env (resp_msgs r) (w1\<lparr>w_maker := ms\<rparr>)
   }"

section \<open>The steps of the chain\<close>

definition outsider :: "'b net \<Rightarrow> 'b world \<Rightarrow> addr \<Rightarrow> bool" where
  \<comment> \<open>an account that is none of the contracts: these act only through their code\<close>
  "outsider N w a \<longleftrightarrow> a \<noteq> n_factory N \<and> a \<noteq> n_maker N \<and> a \<notin> fmdom' (w_pairs w)"

inductive chain_step :: "'b net \<Rightarrow> 'b world \<Rightarrow> 'b world \<Rightarrow> bool" for N where
  Call_pair: "outsider N w (mi_sender info) \<Longrightarrow> tx_pair N env info a msg w = Some w' \<Longrightarrow> chain_step N w w'"
| Call_factory: "outsider N w (mi_sender info) \<Longrightarrow> tx_factory N env info msg w = Some w' \<Longrightarrow> chain_step N w w'"
| Call_maker: "outsider N w (mi_sender info) \<Longrightarrow> tx_maker N env info msg w = Some w' \<Longrightarrow> chain_step N w w'"
| Dex_in: "outsider N w sender \<Longrightarrow> swap_exact_in N env (respond N env) sender routes token_in min_text w = Some w' \<Longrightarrow>
    chain_step N w w'"
| Dex_out: "outsider N w sender \<Longrightarrow> swap_exact_out N env (respond N env) sender routes max_text token_out w = Some w' \<Longrightarrow>
    chain_step N w w'"
| New_pool: "create_pool N env code_id m w = Some (w', pool_id) \<Longrightarrow> chain_step N w w'"
| New_pair: "instantiate_pair N env m w = Some (w', a) \<Longrightarrow> chain_step N w w'"
| Migrate_pair: "call_pair a pair_migrate w = Some (w', r) \<Longrightarrow> chain_step N w w'"
| Outside: "(\<And>a d. \<not> outsider N w a \<Longrightarrow> n_balance N (w_bank w) a d \<le> n_balance N b a d) \<Longrightarrow>
    chain_step N w (w\<lparr>w_bank := b\<rparr>)"
  \<comment> \<open>whatever the rest of the chain does: it does not take from the contracts\<close>

inductive reachable :: "'b net \<Rightarrow> 'b world \<Rightarrow> bool" for N where
  start: "w_pairs w = fmempty \<Longrightarrow> w_pools w = fmempty \<Longrightarrow> fs_pairs (w_factory w) = fmempty \<Longrightarrow> reachable N w"
    \<comment> \<open>no pair yet; the factory, the maker and the bank in any state\<close>
| step: "reachable N w \<Longrightarrow> chain_step N w w' \<Longrightarrow> reachable N w'"

end
