(* ===== verification/World_Laws.thy ===== *)
theory World_Laws
  imports World Factory_Laws Pair_Ledger Pair_Life
begin

text \<open>
  What the deliveries and the transactions of the world keep: a pair's answer to a swap only
  pays, so the nesting of calls is bounded; between transactions no pair holds swap parameters
  and the pool id of a pair is the id under which the pool module calls it (\<open>steady\<close>).
\<close>

section \<open>Delivering messages\<close>

lemma run_submsgs_keeps:
  assumes "run_submsgs deliver reply subs w = Some w'" and "P w"
    and "\<And>s w w' d. s \<in> set subs \<Longrightarrow> deliver (sub_msg s) w = Some (w', d) \<Longrightarrow> P w \<Longrightarrow> P w'"
    and "\<And>i d w w'. reply i d w = Some w' \<Longrightarrow> P w \<Longrightarrow> P w'"
  shows "P w'"
  using assms(1-3)
proof (induction subs arbitrary: w)
  case (Cons s subs)
  have next_one: "P w'" if "run_submsgs deliver reply subs v = Some w'" "P v" for v
    by (rule Cons.IH [OF that], rule Cons.prems(3)) simp_all
  show ?case
  proof (cases "deliver (sub_msg s) w")
    case None
    with Cons.prems(1) obtain v where "reply (sub_id s) [] w = Some v" "run_submsgs deliver reply subs v = Some w'"
      by (auto split: if_splits option.splits)
    with next_one assms(4) Cons.prems(2) show ?thesis by blast
  next
    case (Some r)
    obtain v d where r: "r = (v, d)" by (cases r)
    have "P v" by (rule Cons.prems(3) [of s w v d]) (use Cons.prems(2) Some r in simp_all)
    with Cons.prems(1) Some r next_one assms(4) show ?thesis by (auto split: if_splits option.splits)
  qed
qed simp

lemma run_submsgs_cong:
  assumes "\<And>s w. s \<in> set subs \<Longrightarrow> deliver (sub_msg s) w = deliver' (sub_msg s) w"
    and "\<And>s. s \<in> set subs \<Longrightarrow> sub_reply_on s = Never"
  shows "run_submsgs deliver reply subs w = run_submsgs deliver' reply' subs w"
  using assms by (induction subs arbitrary: w) (auto split: option.splits)

definition bank_only :: "'b world \<Rightarrow> 'b world \<Rightarrow> bool" where
  "bank_only w w' \<longleftrightarrow> w' = w\<lparr>w_bank := w_bank w'\<rparr>"

lemma bank_only_refl [simp]: "bank_only w w"
  by (simp add: bank_only_def)

lemma bank_onlyD:
  assumes "bank_only w w'"
  shows "w_pools w' = w_pools w" "w_factory w' = w_factory w" "w_pairs w' = w_pairs w" "w_maker w' = w_maker w"
  using assms unfolding bank_only_def by (metis world.select_convs world.surjective world.update_convs)+

lemma bank_only_trans: "bank_only u v \<Longrightarrow> bank_only v w \<Longrightarrow> bank_only u w"
  by (cases u; cases v; cases w) (simp add: bank_only_def)

lemma on_bank_only: "on_bank f w = Some w' \<Longrightarrow> bank_only w w'"
  by (auto simp: on_bank_def bank_only_def)

lemma pay_in_only: "pay_in N info a w = Some w' \<Longrightarrow> bank_only w w'"
  by (auto simp: pay_in_def dest: on_bank_only split: if_splits)

lemma call_pair_Some:
  "call_pair a f w = Some (w', r) \<longleftrightarrow>
     (\<exists>st st'. fmlookup (w_pairs w) a = Some st \<and> f st = Inr (st', r) \<and>
        w' = w\<lparr>w_pairs := fmupd a st' (w_pairs w)\<rparr>)"
  by (auto simp: call_pair_def split: Option.bind_splits)

section \<open>Responses that only pay\<close>

definition pays_only :: "pair_msg submsg list \<Rightarrow> bool" where
  \<comment> \<open>transfers, mints and burns, without a reply\<close>
  "pays_only subs \<longleftrightarrow> (\<forall>s \<in> set subs. sub_reply_on s = Never \<and>
     (case sub_msg s of TransferAsset _ _ \<Rightarrow> True | MsgMint _ _ _ \<Rightarrow> True | MsgBurn _ _ _ \<Rightarrow> True | _ \<Rightarrow> False))"

lemma pays_only_simps [simp]:
  "pays_only []"
  "pays_only (submsg_new (TransferAsset x y) # subs) = pays_only subs"
  "pays_only (submsg_new (MsgMint u c v) # subs) = pays_only subs"
  "pays_only (submsg_new (MsgBurn u c v) # subs) = pays_only subs"
  "pays_only (subs @ subs') = (pays_only subs \<and> pays_only subs')"
  by (auto simp: pays_only_def submsg_new_def)

lemma pays_only_transfers [simp]: "pays_only (map (\<lambda>a. submsg_new (TransferAsset a to)) xs)"
  by (induction xs) auto

lemma respond_pays:
  assumes "pays_only subs"
  shows "pair_respond (Suc n) N env a subs w = pair_respond (Suc m) N env a subs w"
  using assms unfolding pair_respond.simps pays_only_def
  by (intro run_submsgs_cong) (auto split: pair_msg.splits)

lemma respond_bank_only:
  assumes "pair_respond n N env a subs w = Some w'" and "pays_only subs"
  shows "bank_only w w'"
proof (cases n)
  case 0
  with assms(1) show ?thesis by (auto split: if_splits)
next
  case (Suc k)
  from assms have p: "pair_respond 1 N env a subs w = Some w'"
    using respond_pays [OF assms(2), of k N env a w 0] Suc by simp
  have "run_submsgs
       (\<lambda>msg w. case msg of
          MsgCreateDenom sender subdenom \<Rightarrow> Some (w, n_encode_denom N (''factory/'' @ sender @ ''/'' @ subdenom))
        | MsgMint sender c to \<Rightarrow> map_option (\<lambda>w. (w, [])) (on_bank (n_mint N to [c]) w)
        | MsgBurn sender c from \<Rightarrow> map_option (\<lambda>w. (w, [])) (on_bank (n_burn N sender [c]) w)
        | TransferAsset asset to \<Rightarrow>
            (case as_info asset of
               NativeToken denom \<Rightarrow>
                 map_option (\<lambda>w. (w, [])) (on_bank (n_send N a to [\<lparr>coin_denom = denom, coin_amount = as_amount asset\<rparr>]) w)
             | Token _ \<Rightarrow> None)
        | pair_msg.MsgSwapExactAmountIn sender routes token_in min_text \<Rightarrow> None) (\<lambda>_ _ _. None) subs w = Some w'"
    by (rule trans [OF _ p [unfolded One_nat_def pair_respond.simps]], rule run_submsgs_cong)
      (use assms(2) in \<open>auto simp: pays_only_def split: pair_msg.splits\<close>)
  then show ?thesis
    by (rule run_submsgs_keeps [where P = "bank_only w"])
      (auto split: pair_msg.splits asset_info.splits elim!: bank_only_trans dest!: on_bank_only)
qed

section \<open>What the pair's responses hold\<close>

lemma fee_messages:
  "maker_fee_payment L fees ask prec r = Inr (fee, msgs) \<Longrightarrow> pays_only (map submsg_new msgs)"
  by (auto simp: maker_fee_payment_def res_simps split: option.splits if_splits)

lemma internal_swap_pays:
  "internal_swap L Q env sender offer bp ms to st = Inr (st', r) \<Longrightarrow> pays_only (resp_msgs r)"
proof -
  have "yields (\<lambda>(st', r). pays_only (resp_msgs r)) (internal_swap L Q env sender offer bp ms to st)"
    unfolding internal_swap_def Let_def
    by (intro yields_rules; (hypsubst+)?) (auto simp: res_simps dest: fee_messages)
  then show "internal_swap L Q env sender offer bp ms to st = Inr (st', r) \<Longrightarrow> pays_only (resp_msgs r)"
    by (auto dest: yieldsD)
qed

lemma swap_out_pays:
  "swap_exact_amount_out L Q env sender denom m out st = Inr (st', r) \<Longrightarrow> pays_only (resp_msgs r)"
proof -
  have "yields (\<lambda>(st', r). pays_only (resp_msgs r)) (swap_exact_amount_out L Q env sender denom m out st)"
    unfolding swap_exact_amount_out_def Let_def
    by (intro yields_rules; (hypsubst+)?) (auto simp: res_simps dest: fee_messages)
  then show "swap_exact_amount_out L Q env sender denom m out st = Inr (st', r) \<Longrightarrow> pays_only (resp_msgs r)"
    by (auto dest: yieldsD)
qed

lemma sudo_pays: "sudo L Q env msg st = Inr (st', r) \<Longrightarrow> pays_only (resp_msgs r)"
  by (cases msg) (auto simp: sudo_def sudo_swap_in_returns dest: internal_swap_pays swap_out_pays)

lemma provide_pays:
  "provide_liquidity L Q env info assets tol receiver st = Inr (st', r) \<Longrightarrow> pays_only (resp_msgs r)"
proof -
  have "yields (\<lambda>(st', r). pays_only (resp_msgs r)) (provide_liquidity L Q env info assets tol receiver st)"
    unfolding provide_liquidity_def Let_def
    by (intro yields_rules; (hypsubst+)?) (auto simp: res_simps split: if_splits dest!: first_share_returns)
  then show "provide_liquidity L Q env info assets tol receiver st = Inr (st', r) \<Longrightarrow> pays_only (resp_msgs r)"
    by (auto dest: yieldsD)
qed

lemma withdraw_pays:
  "withdraw_liquidity L Q env info assets st = Inr (st', r) \<Longrightarrow> pays_only (resp_msgs r)"
proof -
  have "yields (\<lambda>(st', r). pays_only (resp_msgs r)) (withdraw_liquidity L Q env info assets st)"
    unfolding withdraw_liquidity_def Let_def
    by (intro yields_rules; (hypsubst+)?) (auto simp: res_simps comp_def dest!: transfers_of)
  then show "withdraw_liquidity L Q env info assets st = Inr (st', r) \<Longrightarrow> pays_only (resp_msgs r)"
    by (auto dest: yieldsD)
qed

section \<open>Between transactions\<close>

definition steady :: "addr set \<Rightarrow> 'b world \<Rightarrow> bool" where
  \<comment> \<open>no pair outside the set holds swap parameters; a pair's id is its number in the pool module,
      which counts from 1\<close>
  "steady S w \<longleftrightarrow>
     (\<forall>a st. fmlookup (w_pairs w) a = Some st \<longrightarrow> a \<notin> S \<longrightarrow> ps_swap_params st = None) \<and>
     (\<forall>a st p. fmlookup (w_pairs w) a = Some st \<longrightarrow> ps_pool_id st = Some p \<longrightarrow> fmlookup (w_pools w) p = Some a) \<and>
     (\<forall>p \<in> fmdom' (w_pools w). p \<noteq> 0 \<and> unat p \<le> fcard (fmdom (w_pools w)))"

lemma steadyD:
  assumes "steady S w"
  shows "fmlookup (w_pairs w) a = Some st \<Longrightarrow> a \<notin> S \<Longrightarrow> ps_swap_params st = None"
    and "fmlookup (w_pairs w) a = Some st \<Longrightarrow> ps_pool_id st = Some p \<Longrightarrow> fmlookup (w_pools w) p = Some a"
    and "fmlookup (w_pools w) p = Some a \<Longrightarrow> p \<noteq> 0 \<and> unat p \<le> fcard (fmdom (w_pools w))"
  using assms by (auto simp: steady_def fmlookup_dom'_iff)

lemma steady_bank: "bank_only w w' \<Longrightarrow> steady S w' = steady S w"
  by (simp add: steady_def bank_onlyD)

lemma on_bank_steady: "on_bank f w = Some w' \<Longrightarrow> steady S w \<Longrightarrow> steady S w'"
  by (drule on_bank_only) (simp add: steady_bank)

lemma steady_factory [simp]: "steady S (w\<lparr>w_factory := fs\<rparr>) = steady S w"
  by (simp add: steady_def)

lemma steady_maker [simp]: "steady S (w\<lparr>w_maker := ms\<rparr>) = steady S w"
  by (simp add: steady_def)

lemma steady_pair:
  assumes "steady S w" and "a \<notin> T \<Longrightarrow> ps_swap_params st = None" and "S - {a} \<subseteq> T"
    and "\<And>p. ps_pool_id st = Some p \<Longrightarrow> fmlookup (w_pools w) p = Some a"
  shows "steady T (w\<lparr>w_pairs := fmupd a st (w_pairs w)\<rparr>)"
  using assms unfolding steady_def by auto

lemma call_pair_steady:
  assumes "call_pair a f w = Some (w', r)" and "steady S w"
    and "\<And>st st'. fmlookup (w_pairs w) a = Some st \<Longrightarrow> f st = Inr (st', r) \<Longrightarrow>
      (a \<notin> T \<longrightarrow> ps_swap_params st' = None) \<and>
      (ps_pool_id st' = ps_pool_id st \<or> (\<exists>p. ps_pool_id st' = Some p \<and> fmlookup (w_pools w) p = Some a))"
    and "S - {a} \<subseteq> T"
  shows "steady T w' \<and> w_pools w' = w_pools w \<and> w_factory w' = w_factory w"
proof -
  from assms(1) obtain st st' where st: "fmlookup (w_pairs w) a = Some st" "f st = Inr (st', r)"
    and w': "w' = w\<lparr>w_pairs := fmupd a st' (w_pairs w)\<rparr>"
    by (auto simp: call_pair_Some)
  from assms(3) [OF st] steadyD(2) [OF assms(2) st(1)]
  have "ps_pool_id st' = Some p \<Longrightarrow> fmlookup (w_pools w) p = Some a" for p by auto
  with assms(2-4) st show ?thesis unfolding w' by (auto intro!: steady_pair [of S])
qed

lemma sudo_pool_id: "sudo L Q env msg st = Inr (st', r) \<Longrightarrow> ps_pool_id st' = ps_pool_id st"
  using sudo_effect [of L Q env msg st st' r] by (auto simp: swap_effect_def)

lemma sudo_pair_steady:
  assumes "sudo_pair N env a msg w = Some (w', r)" and "steady S w"
  shows "steady (if \<exists>sender c d m fee. msg = SwapExactAmountIn sender c d m fee then S - {a} else S) w' \<and> pays_only (resp_msgs r)"
proof -
  from assms(1) obtain st st' where st: "fmlookup (w_pairs w) a = Some st"
    "sudo (n_pcl_crates N) (pair_asks N w) (at_contract env a) msg st = Inr (st', r)"
    by (auto simp: sudo_pair_def call_pair_Some)
  from sudo_effect [OF st(2)] sudo_pool_id [OF st(2)]
  have e: "(\<exists>sender c d m fee. msg = SwapExactAmountIn sender c d m fee) \<Longrightarrow> ps_swap_params st' = None"
    "ps_swap_params st = None \<Longrightarrow> ps_swap_params st' = None" "ps_pool_id st' = ps_pool_id st"
    by (auto simp: swap_effect_def)
  note steadyD(1) [OF assms(2) st(1)]
  with assms e st sudo_pays [OF st(2)] show ?thesis
    by (auto simp: sudo_pair_def elim!: call_pair_steady [THEN conjunct1])
qed

lemma hop_steady:
  assumes "on_bank f w = Some w1" and "sudo_pair N env a msg w1 = Some (w2, r)"
    and "pair_respond n N env a (resp_msgs r) w2 = Some w3" and "steady S w"
  shows "steady (if \<exists>sender c d m fee. msg = SwapExactAmountIn sender c d m fee then S - {a} else S) w3"
proof -
  from assms(4) on_bank_only [OF assms(1)] have "steady S w1" by (simp add: steady_bank)
  from sudo_pair_steady [OF assms(2) this] respond_bank_only [OF assms(3)] show ?thesis
    by (simp add: steady_bank)
qed

lemma swap_along_Some:
  "swap_along N env resp sender m ((p, d) # routes) token_in w = Some w' \<longleftrightarrow>
     (\<exists>a fee w1 n w2 r w3 out. fmlookup (w_pools w) p = Some a \<and> swap_fee_of N env a w = Some fee \<and>
        on_bank (n_send N sender a [token_in]) w = Some w1 \<and> parse_u128 m = Inr n \<and>
        sudo_pair N env a (SwapExactAmountIn sender token_in d n fee) w1 = Some (w2, r) \<and>
        resp a (resp_msgs r) w2 = Some w3 \<and> resp_data r = Some (SwapExactAmountInResponseData out) \<and>
        swap_along N env resp sender m routes \<lparr>coin_denom = d, coin_amount = out\<rparr> w3 = Some w')"
  by (auto split: Option.bind_splits sum.splits option.splits swap_data.splits)

lemma swap_exact_out_Some:
  "swap_exact_out N env resp sender routes m token_out w = Some w' \<longleftrightarrow>
     (\<exists>p d routes' a fee n w1 w2 r w3 charged excess. routes = (p, d) # routes' \<and>
        fmlookup (w_pools w) p = Some a \<and> swap_fee_of N env a w = Some fee \<and> parse_u128 m = Inr n \<and>
        on_bank (n_send N sender a [\<lparr>coin_denom = d, coin_amount = n\<rparr>]) w = Some w1 \<and>
        sudo_pair N env a (SwapExactAmountOut sender d n token_out fee) w1 = Some (w2, r) \<and>
        resp a (resp_msgs r) w2 = Some w3 \<and> resp_data r = Some (SwapExactAmountOutResponseData charged) \<and>
        sub_checked n charged = Some excess \<and>
        (if excess = 0 then w' = w3
         else on_bank (n_send N a sender [\<lparr>coin_denom = d, coin_amount = excess\<rparr>]) w3 = Some w'))"
  by (auto simp: swap_exact_out_def split: Option.bind_splits sum.splits option.splits swap_data.splits list.splits if_splits)

lemma swap_along_clears:
  assumes "swap_along N env (pair_respond n N env) sender m ((p, d) # routes) token_in w = Some w'"
    and "steady S w" and "\<And>a. fmlookup (w_pools w) p = Some a \<Longrightarrow> S \<subseteq> {a}"
  shows "steady {} w'"
  using assms
proof (induction routes arbitrary: p d token_in w S)
  case Nil
  from Nil.prems(1) obtain a fee w1 k w2 r where a: "fmlookup (w_pools w) p = Some a"
    "on_bank (n_send N sender a [token_in]) w = Some w1"
    "sudo_pair N env a (SwapExactAmountIn sender token_in d k fee) w1 = Some (w2, r)"
    "pair_respond n N env a (resp_msgs r) w2 = Some w'"
    unfolding swap_along_Some by auto
  have "S - {a} = {}" using Nil.prems(3) [OF a(1)] by blast
  with hop_steady [OF a(2-4) Nil.prems(2)] show ?case by simp
next
  case (Cons route routes)
  from Cons.prems(1) obtain a fee w1 k w2 r w3 out where a: "fmlookup (w_pools w) p = Some a"
    "on_bank (n_send N sender a [token_in]) w = Some w1"
    "sudo_pair N env a (SwapExactAmountIn sender token_in d k fee) w1 = Some (w2, r)"
    "pair_respond n N env a (resp_msgs r) w2 = Some w3"
    "swap_along N env (pair_respond n N env) sender m (route # routes) \<lparr>coin_denom = d, coin_amount = out\<rparr> w3 = Some w'"
    unfolding swap_along_Some by blast
  have "S - {a} = {}" using Cons.prems(3) [OF a(1)] by blast
  with hop_steady [OF a(2-4) Cons.prems(2)] have "steady {} w3" by simp
  with a(5) Cons.IH [of "fst route" "snd route" _ w3 "{}"] show ?case by simp
qed

lemma swap_exact_in_steady:
  "swap_exact_in N env (pair_respond n N env) sender routes token_in m w = Some w' \<Longrightarrow> steady {} w \<Longrightarrow> steady {} w'"
  by (cases routes) (auto simp: swap_exact_in_def simp del: swap_along.simps elim: swap_along_clears split: if_splits)

lemma swap_exact_out_steady:
  assumes "swap_exact_out N env (pair_respond n N env) sender routes m token_out w = Some w'" and "steady {} w"
  shows "steady {} w'"
proof -
  from assms(1) obtain d a k w1 msg w2 r w3 where a: "on_bank (n_send N sender a [\<lparr>coin_denom = d, coin_amount = k\<rparr>]) w = Some w1"
    "sudo_pair N env a msg w1 = Some (w2, r)" "pair_respond n N env a (resp_msgs r) w2 = Some w3"
    and w': "w' = w3 \<or> (\<exists>b. on_bank b w3 = Some w')"
    unfolding swap_exact_out_Some by (fastforce split: if_splits)
  from hop_steady [OF a assms(2)] w' show ?thesis by (auto simp: steady_bank dest: on_bank_only split: if_splits)
qed

lemma other_messages:
  assumes "pair_execute L Q env info msg st = Inr (st', r)" and "\<And>offer ask bp ms to. msg \<noteq> Swap offer ask bp ms to"
  shows "ps_swap_params st' = ps_swap_params st \<and> pays_only (resp_msgs r) \<and>
    (ps_pool_id st' = ps_pool_id st \<or> mi_sender info = FACTORY_ADDRESS \<and> ps_pool_id st = None \<and>
       (\<exists>p. msg = SetPoolId p \<and> ps_pool_id st' = Some p))"
proof (cases msg)
  case (ProvideLiquidity assets tol auto receiver)
  with assms(1) have p: "provide_liquidity L Q env info assets tol receiver st = Inr (st', r)" by (simp add: pair_execute_def)
  from yieldsD [OF provide_pool_effect p] provide_pays [OF p] show ?thesis by (auto simp: pool_effect_def)
next
  case (WithdrawLiquidity assets)
  with assms(1) have p: "withdraw_liquidity L Q env info assets st = Inr (st', r)" by (simp add: pair_execute_def)
  from yieldsD [OF withdraw_pool_effect p] withdraw_pays [OF p] show ?thesis by (auto simp: pool_effect_def)
next
  case (UpdateConfig params)
  with assms(1) have "pair_update_config L Q env info params st = Inr (st', r)" by (simp add: pair_execute_def)
  from pair_update_config_returns [OF this] show ?thesis by auto
qed (use assms in \<open>auto simp: pair_execute_def set_pool_id_returns res_simps\<close>)

definition deployed :: "'b net \<Rightarrow> bool" where
  \<comment> \<open>the factory sits at the address the pairs are built with; address validation returns the
      address it is given\<close>
  "deployed N \<longleftrightarrow> n_factory N = FACTORY_ADDRESS \<and>
     (\<forall>s a. addr_validate (n_factory_crates N) s = Inr a \<longrightarrow> a = s)"

lemma tx_pair_steady:
  assumes "tx_pair N env info a msg w = Some w'" and "steady {} w" and "deployed N" and "mi_sender info \<noteq> n_factory N"
  shows "steady {} w'"
proof -
  from assms(1) obtain w1 w2 r where w1: "pay_in N info a w = Some w1"
    and w2: "call_pair a (pair_execute (n_pcl_crates N) (pair_asks N w1) (at_contract env a) info msg) w1 = Some (w2, r)"
    and w': "respond N env a (resp_msgs r) w2 = Some w'"
    by (auto simp: tx_pair_def split: Option.bind_splits)
  from assms(2) pay_in_only [OF w1] have s1: "steady {} w1" by (simp add: steady_bank)
  from w2 obtain st st' where st: "fmlookup (w_pairs w1) a = Some st"
    "pair_execute (n_pcl_crates N) (pair_asks N w1) (at_contract env a) info msg st = Inr (st', r)"
    by (auto simp: call_pair_Some)
  show ?thesis
  proof (cases "\<exists>offer ask bp ms to. msg = Swap offer ask bp ms to")
    case False
    with other_messages [OF st(2)] assms(3,4) have m: "pays_only (resp_msgs r)"
      by (auto simp: deployed_def)
    have "steady {} w2"
    proof (rule call_pair_steady [OF w2 s1, THEN conjunct1])
      fix s0 s0' assume s0: "fmlookup (w_pairs w1) a = Some s0"
        "pair_execute (n_pcl_crates N) (pair_asks N w1) (at_contract env a) info msg s0 = Inr (s0', r)"
      from other_messages [OF s0(2)] False assms(3,4) steadyD(1) [OF s1 s0(1)]
      show "(a \<notin> {} \<longrightarrow> ps_swap_params s0' = None) \<and>
          (ps_pool_id s0' = ps_pool_id s0 \<or> (\<exists>p. ps_pool_id s0' = Some p \<and> fmlookup (w_pools w1) p = Some a))"
        by (auto simp: deployed_def)
    qed simp
    with respond_bank_only [OF w' m] show ?thesis by (simp add: steady_bank)
  next
    case True
    then obtain offer ask bp ms to where msg: "msg = Swap offer ask bp ms to" by blast
    from w2 obtain x where pairs: "w_pools w2 = w_pools w1" by (auto simp: call_pair_Some)
    from st msg obtain pool_id out token_in routes where p: "ps_pool_id st = Some pool_id"
      "resp_msgs r = [submsg_new (pair_msg.MsgSwapExactAmountIn a routes token_in ''1'')]"
      "routes_of_pair routes = [(pool_id, out)]"
      by (auto simp: pair_execute_def execute_swap_returns routes_of_pair_def)
    have "steady {a} w2"
      by (rule call_pair_steady [OF w2 s1, THEN conjunct1])
        (use msg in \<open>auto simp: pair_execute_def execute_swap_returns\<close>)
    moreover have "fmlookup (w_pools w2) pool_id = Some a" using steadyD(2) [OF s1 st(1) p(1)] pairs by simp
    moreover from w' have "swap_exact_in N env (pair_respond 1 N env) a [(pool_id, out)] token_in ''1'' w2 = Some w'"
      unfolding numeral_2_eq_2 by (auto simp: p(2,3) submsg_new_def split: option.splits)
    ultimately show ?thesis by (auto simp: swap_exact_in_def simp del: swap_along.simps elim!: swap_along_clears)
  qed
qed

lemma instantiate_pair_Some:
  assumes "instantiate_pair N env m w = Some (w', a)"
  shows "\<exists>st st' r r'. a = n_new_address N w \<and> a \<notin> fmdom' (w_pairs w) \<and> a \<noteq> n_factory N \<and> a \<noteq> n_maker N \<and>
    pair_instantiate (n_pcl_crates N) (pair_asks N w) (at_contract env a) m new_pair_state = Inr (st, r) \<and>
    pair_reply (n_pcl_crates N) CREATE_DENOM_REPLY_ID
      (n_encode_denom N (''factory/'' @ a @ ''/'' @ LP_SUBDENOM)) st = Inr (st', r') \<and>
    w' = w\<lparr>w_pairs := fmupd a st' (w_pairs w)\<rparr>"
proof -
  from assms obtain st r where a: "a = n_new_address N w" "a \<notin> fmdom' (w_pairs w)" "a \<noteq> n_factory N" "a \<noteq> n_maker N"
    and st: "pair_instantiate (n_pcl_crates N) (pair_asks N w) (at_contract env a) m new_pair_state = Inr (st, r)"
    and w': "respond N env a (resp_msgs r) (w\<lparr>w_pairs := fmupd a st (w_pairs w)\<rparr>) = Some w'"
    by (auto simp: instantiate_pair_def Let_def split: Option.bind_splits if_splits)
  from pair_instantiate_returns [OF st] have msgs: "resp_msgs r = [\<lparr>sub_id = CREATE_DENOM_REPLY_ID,
      sub_msg = MsgCreateDenom a LP_SUBDENOM, sub_reply_on = OnSuccess\<rparr>]" by simp
  from w' obtain v st' r' where v: "pair_reply (n_pcl_crates N) CREATE_DENOM_REPLY_ID
      (n_encode_denom N (''factory/'' @ a @ ''/'' @ LP_SUBDENOM)) st = Inr (st', r')"
      "v = w\<lparr>w_pairs := fmupd a st' (w_pairs w)\<rparr>" "pair_respond 1 N env a (resp_msgs r') v = Some w'"
    unfolding numeral_2_eq_2 by (auto simp: msgs call_pair_Some fmupd_idem split: Option.bind_splits option.splits)
  from v(1) have "resp_msgs r' = []" by (auto simp: pair_reply_returns)
  with v a st show ?thesis by auto
qed

lemma instantiate_pair_steady:
  assumes "instantiate_pair N env m w = Some (w', a)" and "steady {} w"
  shows "steady {} w' \<and> w_pools w' = w_pools w \<and> w_factory w' = w_factory w \<and> w_maker w' = w_maker w \<and> w_bank w' = w_bank w"
proof -
  from instantiate_pair_Some [OF assms(1)] obtain st st' r r' where
    st: "pair_instantiate (n_pcl_crates N) (pair_asks N w) (at_contract env a) m new_pair_state = Inr (st, r)"
    and st': "pair_reply (n_pcl_crates N) CREATE_DENOM_REPLY_ID
      (n_encode_denom N (''factory/'' @ a @ ''/'' @ LP_SUBDENOM)) st = Inr (st', r')"
    and w': "w' = w\<lparr>w_pairs := fmupd a st' (w_pairs w)\<rparr>" by blast
  from pair_instantiate_returns [OF st] st' have "ps_swap_params st' = None" "ps_pool_id st' = None"
    by (auto simp: born_def pair_reply_returns new_pair_state_def)
  with w' steady_pair [OF assms(2), of a "{}" st'] show ?thesis by simp
qed

lemma fresh_pool_id:
  assumes "steady S w" and "add_checked (word_of_nat (fcard (fmdom (w_pools w)))) 1 = Some p"
  shows "fmlookup (w_pools w) p = None \<and> p \<noteq> 0 \<and> unat p = fcard (fmdom (w_pools w)) + 1"
proof -
  let ?n = "fcard (fmdom (w_pools w))"
  have "fset (fmdom (w_pools w)) \<subseteq> UNIV - {0}"
    using assms(1) by (auto simp: steady_def fmdom'_alt_def)
  then have "card (fset (fmdom (w_pools w))) \<le> card (UNIV - {0 :: u64})" by (intro card_mono) simp_all
  then have "?n < 2 ^ 64" by (simp add: fcard.rep_eq card_word)
  then have "unat (word_of_nat ?n :: u64) = ?n" by (simp add: unat_of_nat)
  with add_checked_Some [OF assms(2)] have p: "unat p = ?n + 1" by simp
  have "fmlookup (w_pools w) p \<noteq> Some a" for a using steadyD(3) [OF assms(1), of p a] p by auto
  with p show ?thesis by (cases "fmlookup (w_pools w) p") auto
qed

lemma create_pool_steady:
  assumes "create_pool N env code m w = Some (w', p)" and "steady {} w"
  shows "steady {} w' \<and> (\<exists>a. fmlookup (w_pools w') p = Some a) \<and> w_factory w' = w_factory w"
proof -
  from assms(1) obtain v a where v: "instantiate_pair N env m w = Some (v, a)"
    and p: "add_checked (word_of_nat (fcard (fmdom (w_pools v)))) 1 = Some p"
    and w': "w' = v\<lparr>w_pools := fmupd p a (w_pools v)\<rparr>"
    by (auto simp: create_pool_def split: Option.bind_splits if_splits)
  from instantiate_pair_steady [OF v assms(2)] have s: "steady {} v" "w_factory v = w_factory w" by simp_all
  from fresh_pool_id [OF s(1) p] have f: "fmlookup (w_pools v) p = None" "p \<noteq> 0" "unat p = fcard (fmdom (w_pools v)) + 1"
    by simp_all
  then have "fcard (fmdom (fmupd p a (w_pools v))) = fcard (fmdom (w_pools v)) + 1"
    by (simp add: fcard_finsert_disjoint fmdom_notI)
  with s f show ?thesis unfolding w' by (fastforce simp: steady_def)
qed

lemma factory_respond_steady:
  assumes "factory_respond n N env subs w = Some w'" and "steady {} w" and "deployed N"
    and "\<And>s a p. s \<in> set subs \<Longrightarrow> sub_msg s = ExecuteSetPoolId a p \<Longrightarrow> fmlookup (w_pools w) p = Some a"
    and "length subs \<le> 1"
  shows "steady {} w'"
  using assms
proof (induction n arbitrary: subs w w')
  case 0
  then show ?case by (auto split: if_splits)
next
  case (Suc n)
  have reply: "steady {} v'" if v': "ok_value (factory_reply (n_factory_crates N) (factory_asks N env v) i data (w_factory v)) = Some (fs, r)"
    "factory_respond n N env (resp_msgs r) (v\<lparr>w_factory := fs\<rparr>) = Some v'" "steady {} v" for i data v v' fs r
  proof (rule Suc.IH [OF v'(2)])
    have r: "factory_reply (n_factory_crates N) (factory_asks N env v) i data (w_factory v) = Inr (fs, r)"
      using v'(1) by simp
    show "steady {} (v\<lparr>w_factory := fs\<rparr>)" "deployed N" using v'(3) Suc.prems(3) by simp_all
    show "length (resp_msgs r) \<le> 1"
      using r by (auto simp: factory_reply_def res_simps split: if_splits)
    fix s a p assume "s \<in> set (resp_msgs r)" "sub_msg s = ExecuteSetPoolId a p"
    with r Suc.prems(3) show "fmlookup (w_pools (v\<lparr>w_factory := fs\<rparr>)) p = Some a"
      by (fastforce simp: factory_reply_def res_simps factory_asks_def pool_contract_def deployed_def split: if_splits)
  qed
  have "steady {} v'" if "s \<in> set subs" "(case sub_msg s of
          MsgCreateCosmWasmPool code_id m _ \<Rightarrow>
            map_option (\<lambda>(w, pool_id). (w, n_encode_pool_id N pool_id)) (create_pool N env code_id m w)
        | ExecuteSetPoolId a pool_id \<Rightarrow> do {
            (w', r) \<leftarrow> call_pair a (pair_execute (n_pcl_crates N) (pair_asks N w) (at_contract env a)
              \<lparr>mi_sender = n_factory N, mi_funds = []\<rparr> (SetPoolId pool_id)) w;
            w'' \<leftarrow> respond N env a (resp_msgs r) w';
            Some (w'', [])
          }
        | DeactivatePool generator _ \<Rightarrow> map_option (\<lambda>w. (w, [])) (on_bank (n_external N generator) w)) = Some (v', d)" for s v' d
  proof (cases "sub_msg s")
    case (MsgCreateCosmWasmPool code m c)
    with that(2) Suc.prems(2) show ?thesis by (auto dest: create_pool_steady)
  next
    case (ExecuteSetPoolId a p)
    with that(2) obtain v r where v: "call_pair a (pair_execute (n_pcl_crates N) (pair_asks N w) (at_contract env a)
        \<lparr>mi_sender = n_factory N, mi_funds = []\<rparr> (SetPoolId p)) w = Some (v, r)"
      "respond N env a (resp_msgs r) v = Some v'" by (auto split: Option.bind_splits)
    have "steady {} v"
      by (rule call_pair_steady [OF v(1) Suc.prems(2), THEN conjunct1])
        (use steadyD(1) [OF Suc.prems(2)] Suc.prems(4) [OF that(1) ExecuteSetPoolId] in
          \<open>auto simp: pair_execute_def set_pool_id_returns\<close>)
    moreover have "resp_msgs r = []" using v(1) by (auto simp: call_pair_Some pair_execute_def set_pool_id_returns)
    ultimately show ?thesis using v(2) by (simp add: numeral_2_eq_2)
  next
    case (DeactivatePool g lp)
    with that(2) Suc.prems(2) show ?thesis by (auto simp: steady_bank dest: on_bank_only)
  qed
  with Suc.prems(1,5) Suc.prems(2) reply show ?case
    by (cases subs) (auto split: option.splits if_splits Option.bind_splits)
qed

lemma factory_execute_messages:
  assumes "factory_execute L Q env info msg st = Inr (st', r)"
  shows "length (resp_msgs r) \<le> 1 \<and> (\<forall>s \<in> set (resp_msgs r). \<forall>a p. sub_msg s \<noteq> ExecuteSetPoolId a p)"
proof (cases msg)
  case (CreatePair pt infos ip)
  with assms show ?thesis by (auto simp: factory_execute_def create_pair_returns)
next
  case (Deregister infos)
  with assms show ?thesis
    by (auto simp: factory_execute_def deregister_def res_simps submsg_new_def Let_def split: if_splits option.splits)
next
  case (UpdateConfig a b c d e)
  with assms show ?thesis
    by (auto simp: factory_execute_def execute_update_config_def res_simps Let_def split: if_splits option.splits)
next
  case (UpdatePairConfig c)
  with assms show ?thesis
    by (auto simp: factory_execute_def execute_update_pair_config_def res_simps Let_def split: if_splits option.splits)
qed (use assms in \<open>auto simp: factory_execute_def res_simps\<close>)

lemma maker_respond_steady:
  assumes "maker_respond n N env subs w = Some w'" and "steady {} w"
  shows "steady {} w'"
  using assms
proof (induction n arbitrary: subs w w')
  case 0
  then show ?case by (auto split: if_splits)
next
  case (Suc n)
  from Suc.prems(1) show ?case
    unfolding maker_respond.simps
  proof (rule run_submsgs_keeps [where P = "steady {}", OF _ Suc.prems(2)])
    fix s v v' d assume "(case sub_msg s of
          maker_msg.MsgSwapExactAmountIn sender routes token_in min_text \<Rightarrow>
            map_option (\<lambda>w. (w, []))
              (swap_exact_in N env (respond N env) sender (routes_of_maker routes) token_in min_text v)
        | TransferAstro satellite coins \<Rightarrow> do {
            w' \<leftarrow> on_bank (n_send N (n_maker N) satellite coins) v;
            w'' \<leftarrow> on_bank (n_external N satellite) w';
            Some (w'', [])
          }) = Some (v', d)" and "steady {} v"
    then show "steady {} v'"
      by (auto split: maker_msg.splits Option.bind_splits elim: swap_exact_in_steady on_bank_steady)
  next
    fix i data v v'
    assume "do {
          (ms, r) \<leftarrow> ok_value (maker_reply (maker_asks N env v) (at_contract env (n_maker N)) i (w_maker v));
          maker_respond n N env (resp_msgs r) (v\<lparr>w_maker := ms\<rparr>)
        } = Some v'" and "steady {} v"
    then show "steady {} v'" by (auto split: Option.bind_splits intro: Suc.IH)
  qed
qed

lemma chain_step_steady:
  assumes "chain_step N w w'" and "steady {} w" and "deployed N"
  shows "steady {} w'"
  using assms(1)
proof cases
  case (Call_pair info env a msg)
  with assms(2,3) show ?thesis by (auto simp: outsider_def elim: tx_pair_steady)
next
  case (Call_factory info env msg)
  then obtain w1 fs r where w1: "pay_in N info (n_factory N) w = Some w1"
    and fs: "factory_execute (n_factory_crates N) (factory_asks N env w1) (at_contract env (n_factory N)) info msg (w_factory w1) = Inr (fs, r)"
    and w': "factory_respond 2 N env (resp_msgs r) (w1\<lparr>w_factory := fs\<rparr>) = Some w'"
    by (auto simp: tx_factory_def split: Option.bind_splits)
  have "length (resp_msgs r) \<le> 1 \<and> (\<forall>s \<in> set (resp_msgs r). \<forall>a p. sub_msg s \<noteq> ExecuteSetPoolId a p)"
    by (rule factory_execute_messages [OF fs])
  with factory_respond_steady [OF w'] assms(2,3) pay_in_only [OF w1] show ?thesis by (auto simp: steady_bank)
next
  case (Call_maker info env msg)
  then obtain w1 ms and r :: "maker_msg response" where "pay_in N info (n_maker N) w = Some w1"
    "maker_respond 2 N env (resp_msgs r) (w1\<lparr>w_maker := ms\<rparr>) = Some w'"
    by (auto simp: tx_maker_def split: Option.bind_splits)
  with assms(2) show ?thesis by (auto simp: steady_bank dest!: pay_in_only elim: maker_respond_steady)
next
  case Dex_in
  with assms(2) show ?thesis by (auto elim: swap_exact_in_steady)
next
  case Dex_out
  with assms(2) show ?thesis by (auto elim: swap_exact_out_steady)
next
  case New_pool
  with assms(2) show ?thesis by (auto dest: create_pool_steady)
next
  case New_pair
  with assms(2) show ?thesis by (auto dest: instantiate_pair_steady)
next
  case (Migrate_pair a r)
  show ?thesis
    by (rule call_pair_steady [OF Migrate_pair assms(2), THEN conjunct1])
      (use steadyD(1) [OF assms(2)] in \<open>auto simp: pair_migrate_returns\<close>)
next
  case (Outside b)
  with assms(2) show ?thesis by (simp add: steady_def)
qed

section \<open>What every reachable world has\<close>

text \<open>
  The interface between one property of worlds and the steps of the chain: the property holds
  where no pair exists yet, and every step of a reachable world keeps it, under the laws that
  are admitted for the parameters.
\<close>

locale reachable_invariant =
  fixes N :: "'b net" and admitted :: bool and inv :: "'b world \<Rightarrow> bool"
  assumes inv_start: "admitted \<Longrightarrow> w_pairs w = fmempty \<Longrightarrow> w_pools w = fmempty \<Longrightarrow> fs_pairs (w_factory w) = fmempty \<Longrightarrow> inv w"
    and inv_step: "admitted \<Longrightarrow> reachable N w \<Longrightarrow> inv w \<Longrightarrow> chain_step N w w' \<Longrightarrow> inv w'"
begin

lemma inv_reachable:
  assumes "reachable N w" and "admitted"
  shows "inv w"
  using assms by (induction rule: reachable.induct) (blast intro: inv_start inv_step)+

end

interpretation no_params: reachable_invariant N "deployed N" "steady {}" for N
proof
  fix w :: "'a world"
  assume "w_pairs w = fmempty" "w_pools w = fmempty"
  then show "steady {} w" by (simp add: steady_def)
qed (rule chain_step_steady)

lemmas reachable_steady = no_params.inv_reachable

end
