(* ===== verification/World_Swaps.thy ===== *)
theory World_Swaps
  imports World_Laws
begin

text \<open>
  Swaps as whole transactions. A user's \<open>Swap\<close> leaves the pair, passes through the pool module
  and comes back as a \<open>sudo\<close> call; \<open>direct_swap\<close> is the swap without the detour. A swap of the
  pool module runs through the \<open>sudo\<close> of each pool on its route; \<open>direct_along\<close> calls the pairs
  for the sender. The lemmas show that in a steady world each pair of definitions is equal.
\<close>

section \<open>The bank and the crates\<close>

definition amount_of :: "string \<Rightarrow> coin list \<Rightarrow> nat" where
  "amount_of d cs = sum_list (map (\<lambda>c. if coin_denom c = d then unat (coin_amount c) else 0) cs)"

lemma amount_of_simps [simp]:
  "amount_of d [] = 0"
  "amount_of d (c # cs) = (if coin_denom c = d then unat (coin_amount c) else 0) + amount_of d cs"
  by (simp_all add: amount_of_def)

lemma amount_of_member: "c \<in> set cs \<Longrightarrow> unat (coin_amount c) \<le> amount_of (coin_denom c) cs"
  by (induction cs) auto

definition bank_laws :: "'b net \<Rightarrow> bool" where
  \<comment> \<open>a send moves coins and nothing else; one may send oneself what one has; minting and burning
      change one balance\<close>
  "bank_laws N \<longleftrightarrow>
     (\<forall>a b cs k k' x d. n_send N a b cs k = Some k' \<longrightarrow>
        n_balance N k' x d + (if x = a then amount_of d cs else 0) = n_balance N k x d + (if x = b then amount_of d cs else 0)) \<and>
     (\<forall>a c k. coin_amount c \<noteq> 0 \<longrightarrow> unat (coin_amount c) \<le> n_balance N k a (coin_denom c) \<longrightarrow>
        n_send N a a [c] k = Some k) \<and>
     (\<forall>a cs k k' x d. n_mint N a cs k = Some k' \<longrightarrow>
        n_balance N k' x d = n_balance N k x d + (if x = a then amount_of d cs else 0)) \<and>
     (\<forall>a cs k k' x d. n_burn N a cs k = Some k' \<longrightarrow>
        n_balance N k' x d + (if x = a then amount_of d cs else 0) = n_balance N k x d)"

lemma bank_lawsD:
  assumes "bank_laws N"
  shows "n_send N a b cs k = Some k' \<Longrightarrow>
      n_balance N k' x d + (if x = a then amount_of d cs else 0) = n_balance N k x d + (if x = b then amount_of d cs else 0)"
    and "coin_amount c \<noteq> 0 \<Longrightarrow> unat (coin_amount c) \<le> n_balance N k a (coin_denom c) \<Longrightarrow> n_send N a a [c] k = Some k"
    and "n_mint N a cs k = Some k' \<Longrightarrow> n_balance N k' x d = n_balance N k x d + (if x = a then amount_of d cs else 0)"
    and "n_burn N a cs k = Some k' \<Longrightarrow> n_balance N k' x d + (if x = a then amount_of d cs else 0) = n_balance N k x d"
  using assms [unfolded bank_laws_def, THEN conjunct1] assms [unfolded bank_laws_def, THEN conjunct2, THEN conjunct1]
    assms [unfolded bank_laws_def, THEN conjunct2, THEN conjunct2, THEN conjunct1]
    assms [unfolded bank_laws_def, THEN conjunct2, THEN conjunct2, THEN conjunct2]
  by metis+

definition funds_laws :: "'a pcl_crates_scheme \<Rightarrow> bool" where
  \<comment> \<open>a native asset is the coin of its denom and amount, and an amount that was found sent is
      among the funds\<close>
  "funds_laws L \<longleftrightarrow>
     (\<forall>x c. as_coin L x = Inr c \<longrightarrow> as_info x = NativeToken (coin_denom c) \<and> as_amount x = coin_amount c) \<and>
     (\<forall>x d info. as_info x = NativeToken d \<longrightarrow> as_amount x \<noteq> 0 \<longrightarrow> assert_sent_native_token_balance L x info = Inr () \<longrightarrow>
        \<lparr>coin_denom = d, coin_amount = as_amount x\<rparr> \<in> set (mi_funds info))"

section \<open>A user's swap without the detour\<close>

definition direct_swap :: "'b net \<Rightarrow> env \<Rightarrow> message_info \<Rightarrow> addr \<Rightarrow> asset \<Rightarrow> decimal option \<Rightarrow> decimal option \<Rightarrow> string option
    \<Rightarrow> 'b world \<Rightarrow> 'b world option" where
  \<comment> \<open>the funds, the checks of the dispatch, the swap for the user, its payments\<close>
  "direct_swap N env info a offer bp ms to w = do {
     w1 \<leftarrow> pay_in N info a w;
     st \<leftarrow> fmlookup (w_pairs w1) a;
     _ \<leftarrow> ok_value (execute_swap (n_pcl_crates N) (at_contract env a) info offer bp ms to st);
     to' \<leftarrow> ok_value (addr_opt_validate (n_pcl_crates N) to);
     (w2, r) \<leftarrow> call_pair a (internal_swap (n_pcl_crates N) (pair_asks N w1) (at_contract env a)
       (mi_sender info) offer bp ms to') w1;
     respond N env a (resp_msgs r) w2
   }"

lemma swap_fee_of_pair [simp]:
  "fmlookup (w_pairs w) a = Some st \<Longrightarrow> swap_fee_of N env a w = Some decimal_zero"
  by (simp add: swap_fee_of_def ask_pair_def pair_query_def)

lemma internal_swap_data:
  "internal_swap L Q env sender offer bp ms to st = Inr (st', r) \<Longrightarrow>
     \<exists>n. resp_data r = Some (SwapExactAmountInResponseData n)"
proof -
  have "yields (\<lambda>(st', r). \<exists>n. resp_data r = Some (SwapExactAmountInResponseData n)) (internal_swap L Q env sender offer bp ms to st)"
    unfolding internal_swap_def Let_def by (intro yields_rules; (hypsubst+)?) auto
  then show "internal_swap L Q env sender offer bp ms to st = Inr (st', r) \<Longrightarrow> ?thesis" by (auto dest: yieldsD)
qed

lemma parse_one [simp]: "parse_u128 ''1'' = Inr 1"
  using parse_show_u128 [of 1] by (simp add: to_string_def show_nat.simps digit_char_def char_of_def bit_iff_odd)

lemma sudo_pair_in:
  assumes "fmlookup (w_pairs w) a = Some st" and "addr_validate (n_pcl_crates N) sender = Inr v"
    and "decimal_from_ratio (n_pcl_crates N) (coin_amount c) m = Some ratio"
  shows "sudo_pair N env a (SwapExactAmountIn sender c d m fee) w =
    (let (st1, sender', bp, ms, to) = (case ps_swap_params st of
          Some p \<Rightarrow> (st\<lparr>ps_swap_params := None\<rparr>, sp_sender p, sp_belief_price p, sp_max_spread p, sp_to p)
        | None \<Rightarrow> (st, v, Some ratio, Some decimal_zero, None))
     in map_option (\<lambda>(st', r). (w\<lparr>w_pairs := fmupd a st' (w_pairs w)\<rparr>,
          r\<lparr>resp_attrs := resp_attrs r @ [(''method'', ''swap_exact_amount_in'')]\<rparr>))
       (ok_value (internal_swap (n_pcl_crates N) (pair_asks N w) (at_contract env a) sender'
          \<lparr>as_info = NativeToken (coin_denom c), as_amount = coin_amount c\<rparr> bp ms to st1)))"
  using assms
  by (cases "ps_swap_params st")
    (auto simp: sudo_pair_def call_pair_def sudo_def sudo_swap_exact_amount_in_def ok_value_def and_then_def map_err_def
      or_panic_def Let_def split: sum.splits)

definition pair_addresses_valid :: "'b net \<Rightarrow> 'b world \<Rightarrow> bool" where
  "pair_addresses_valid N w \<longleftrightarrow> (\<forall>a \<in> fmdom' (w_pairs w). \<exists>v. addr_validate (n_pcl_crates N) a = Inr v)"

lemma paid_in:
  assumes "bank_laws N" and "pay_in N info a w = Some w1" and "mi_sender info \<noteq> a" and "c \<in> set (mi_funds info)"
  shows "unat (coin_amount c) \<le> n_balance N (w_bank w1) a (coin_denom c)"
proof -
  from assms(2,4) obtain k where "n_send N (mi_sender info) a (mi_funds info) (w_bank w) = Some k" "w_bank w1 = k"
    by (auto simp: pay_in_def on_bank_def split: if_splits)
  from bank_lawsD(1) [OF assms(1) this(1), of a "coin_denom c"] this(2) assms(3) amount_of_member [OF assms(4)]
  show ?thesis by simp
qed

lemma dispatch_comes_back:
  assumes "steady {} w1" and "bank_laws N" and "pair_addresses_valid N w1"
    and st: "fmlookup (w_pairs w1) a = Some st"
    and disp: "execute_swap (n_pcl_crates N) (at_contract env a) info offer bp ms to st = Inr (st1, r)"
    and c: "as_coin (n_pcl_crates N) offer = Inr c" "as_info offer = NativeToken (coin_denom c)" "as_amount offer = coin_amount c"
      "coin_amount c \<noteq> 0" "unat (coin_amount c) \<le> n_balance N (w_bank w1) a (coin_denom c)"
    and ratio: "decimal_from_ratio (n_pcl_crates N) (coin_amount c) 1 = Some ratio"
    and to': "addr_opt_validate (n_pcl_crates N) to = Inr to'"
  shows "respond N env a (resp_msgs r) (w1\<lparr>w_pairs := fmupd a st1 (w_pairs w1)\<rparr>) = do {
     (w2, r) \<leftarrow> call_pair a (internal_swap (n_pcl_crates N) (pair_asks N w1) (at_contract env a)
       (mi_sender info) offer bp ms to') w1;
     respond N env a (resp_msgs r) w2
   }"
proof -
  let ?w2 = "w1\<lparr>w_pairs := fmupd a st1 (w_pairs w1)\<rparr>"
  let ?swap = "internal_swap (n_pcl_crates N) (pair_asks N w1) (at_contract env a) (mi_sender info) offer bp ms to' st"
  from assms(3) st obtain v where v: "addr_validate (n_pcl_crates N) a = Inr v"
    using fmdom'I [OF st] by (auto simp: pair_addresses_valid_def)
  from disp c(1) to' obtain pool_id out routes where p: "ps_pool_id st = Some pool_id"
    "st1 = st\<lparr>ps_swap_params := Some \<lparr>sp_belief_price = bp, sp_max_spread = ms, sp_sender = mi_sender info, sp_to = to'\<rparr>\<rparr>"
    "resp_msgs r = [submsg_new (pair_msg.MsgSwapExactAmountIn a routes c ''1'')]" "routes_of_pair routes = [(pool_id, out)]"
    by (auto simp: execute_swap_returns routes_of_pair_def)
  have pool: "fmlookup (w_pools w1) pool_id = Some a" by (rule steadyD(2) [OF assms(1) st p(1)])
  have restored: "st1\<lparr>ps_swap_params := None\<rparr> = st" using steadyD(1) [OF assms(1) st] p(2) by simp
  have offer: "\<lparr>as_info = NativeToken (coin_denom c), as_amount = coin_amount c\<rparr> = offer"
    using c(2,3) by (cases offer) simp
  have "n_send N a a [c] (w_bank w1) = Some (w_bank w1)" by (rule bank_lawsD(2) [OF assms(2) c(4,5)])
  then have send: "on_bank (n_send N a a [c]) ?w2 = Some ?w2" by (simp add: on_bank_def)
  have sudo: "sudo_pair N env a (SwapExactAmountIn a c out 1 decimal_zero) ?w2 =
      map_option (\<lambda>(st', r). (w1\<lparr>w_pairs := fmupd a st' (w_pairs w1)\<rparr>,
        r\<lparr>resp_attrs := resp_attrs r @ [(''method'', ''swap_exact_amount_in'')]\<rparr>)) (ok_value ?swap)"
    by (subst sudo_pair_in [of _ _ st1, OF _ v ratio]) (simp_all add: restored [unfolded p(2)] p(2) offer)
  have "respond N env a (resp_msgs r) ?w2 = swap_exact_in N env (pair_respond 1 N env) a [(pool_id, out)] c ''1'' ?w2"
    unfolding numeral_2_eq_2
    by (simp add: p(3,4) submsg_new_def split: option.splits)
  also have "\<dots> = do {
     (w2, r) \<leftarrow> call_pair a (internal_swap (n_pcl_crates N) (pair_asks N w1) (at_contract env a)
       (mi_sender info) offer bp ms to') w1;
     respond N env a (resp_msgs r) w2 }"
  proof (cases ?swap)
    case (Inl e)
    then show ?thesis using pool send sudo by (simp add: swap_exact_in_def call_pair_def st)
  next
    case (Inr x)
    obtain st' r' where x: "?swap = Inr (st', r')" using Inr by (cases x) auto
    from internal_swap_data [OF x] obtain n where n: "resp_data r' = Some (SwapExactAmountInResponseData n)" by blast
    from respond_pays [OF internal_swap_pays [OF x], of 0 N env a _ 1]
    have d: "pair_respond 1 N env a (resp_msgs r') u = respond N env a (resp_msgs r') u" for u
      by (simp add: numeral_2_eq_2 del: pair_respond.simps)
    show ?thesis using pool send sudo x n
      by (simp add: swap_exact_in_def call_pair_def st d del: pair_respond.simps One_nat_def split: Option.bind_splits)
  qed
  finally show ?thesis .
qed

lemma swap_is_direct:
  assumes "steady {} w" and "bank_laws N" and "funds_laws (n_pcl_crates N)" and "pair_addresses_valid N w"
    and "mi_sender info \<noteq> a" and "as_amount offer \<noteq> 0"
    and "decimal_from_ratio (n_pcl_crates N) (as_amount offer) 1 = Some ratio"
  shows "tx_pair N env info a (Swap offer ask bp ms to) w = direct_swap N env info a offer bp ms to w"
proof (cases "pay_in N info a w")
  case None
  then show ?thesis by (simp add: tx_pair_def direct_swap_def)
next
  case (Some w1)
  from assms(1,4) pay_in_only [OF Some] have s: "steady {} w1" "pair_addresses_valid N w1"
    by (simp_all add: steady_bank pair_addresses_valid_def bank_onlyD)
  show ?thesis
  proof (cases "fmlookup (w_pairs w1) a")
    case None
    with Some show ?thesis by (simp add: tx_pair_def direct_swap_def call_pair_def)
  next
    case st: (Some st)
    show ?thesis
    proof (cases "execute_swap (n_pcl_crates N) (at_contract env a) info offer bp ms to st")
      case (Inl e)
      with Some st show ?thesis by (simp add: tx_pair_def direct_swap_def call_pair_def pair_execute_def)
    next
      case (Inr x)
      obtain st1 r where x: "execute_swap (n_pcl_crates N) (at_contract env a) info offer bp ms to st = Inr (st1, r)"
        using Inr by (cases x) auto
      then obtain c to' where c: "as_coin (n_pcl_crates N) offer = Inr c" "addr_opt_validate (n_pcl_crates N) to = Inr to'"
        "assert_sent_native_token_balance (n_pcl_crates N) offer info = Inr ()"
        by (auto simp: execute_swap_returns)
      from assms(3) c(1) have cc: "as_info offer = NativeToken (coin_denom c)" "as_amount offer = coin_amount c"
        by (auto simp: funds_laws_def)
      with assms(3,6) c(3) have "c \<in> set (mi_funds info)" by (cases c) (auto simp: funds_laws_def)
      from paid_in [OF assms(2) Some assms(5) this] assms(6,7) cc
      have rest: "coin_amount c \<noteq> 0" "unat (coin_amount c) \<le> n_balance N (w_bank w1) a (coin_denom c)"
        "decimal_from_ratio (n_pcl_crates N) (coin_amount c) 1 = Some ratio" by simp_all
      from dispatch_comes_back [OF s(1) assms(2) s(2) st x c(1) cc rest c(2)] Some st x c(2)
      show ?thesis by (simp add: tx_pair_def direct_swap_def call_pair_def pair_execute_def)
    qed
  qed
qed

section \<open>A swap of the pool module without the sudo calls\<close>

fun direct_along :: "'b net \<Rightarrow> env \<Rightarrow> addr \<Rightarrow> string \<Rightarrow> (u64 \<times> string) list \<Rightarrow> coin \<Rightarrow> 'b world \<Rightarrow> 'b world option" where
  \<comment> \<open>each pool on the route swaps for the sender, at the price of the minimum and with no spread allowed\<close>
  "direct_along N env sender min_text [] token_in w = Some w"
| "direct_along N env sender min_text ((pool_id, denom) # routes) token_in w = do {
     a \<leftarrow> fmlookup (w_pools w) pool_id;
     w1 \<leftarrow> on_bank (n_send N sender a [token_in]) w;
     min_amount \<leftarrow> (case parse_u128 min_text of Inl _ \<Rightarrow> None | Inr n \<Rightarrow> Some n);
     v \<leftarrow> ok_value (addr_validate (n_pcl_crates N) sender);
     price \<leftarrow> decimal_from_ratio (n_pcl_crates N) (coin_amount token_in) min_amount;
     (w2, r) \<leftarrow> call_pair a (internal_swap (n_pcl_crates N) (pair_asks N w1) (at_contract env a) v
       \<lparr>as_info = NativeToken (coin_denom token_in), as_amount = coin_amount token_in\<rparr> (Some price) (Some decimal_zero) None) w1;
     w3 \<leftarrow> respond N env a (resp_msgs r) w2;
     out \<leftarrow> (case resp_data r of Some (SwapExactAmountInResponseData n) \<Rightarrow> Some n | _ \<Rightarrow> None);
     direct_along N env sender min_text routes \<lparr>coin_denom = denom, coin_amount = out\<rparr> w3
   }"

lemma on_bank_selects:
  "on_bank f w = Some w' \<Longrightarrow> w_pairs w' = w_pairs w \<and> w_pools w' = w_pools w \<and> w_factory w' = w_factory w \<and>
     w_maker w' = w_maker w"
  by (auto dest!: on_bank_only simp: bank_onlyD)

lemma swap_fee_of_none [simp]: "fmlookup (w_pairs w) a = None \<Longrightarrow> swap_fee_of N env a w = None"
  by (simp add: swap_fee_of_def ask_pair_def)

lemma sudo_for_sender:
  assumes "steady {} w"
  shows "sudo_pair N env a (SwapExactAmountIn sender c d m fee) w = do {
     v \<leftarrow> ok_value (addr_validate (n_pcl_crates N) sender);
     price \<leftarrow> decimal_from_ratio (n_pcl_crates N) (coin_amount c) m;
     (w2, r) \<leftarrow> call_pair a (internal_swap (n_pcl_crates N) (pair_asks N w) (at_contract env a) v
       \<lparr>as_info = NativeToken (coin_denom c), as_amount = coin_amount c\<rparr> (Some price) (Some decimal_zero) None) w;
     Some (w2, r\<lparr>resp_attrs := resp_attrs r @ [(''method'', ''swap_exact_amount_in'')]\<rparr>)
   }"
proof (cases "fmlookup (w_pairs w) a")
  case None
  then show ?thesis by (auto simp: sudo_pair_def call_pair_def split: Option.bind_split)
next
  case st: (Some st)
  show ?thesis
  proof (cases "addr_validate (n_pcl_crates N) sender")
    case (Inl e)
    with st show ?thesis
      by (cases e) (simp_all add: sudo_pair_def call_pair_def sudo_def sudo_swap_exact_amount_in_def and_then_def map_err_def)
  next
    case v: (Inr v)
    show ?thesis
    proof (cases "decimal_from_ratio (n_pcl_crates N) (coin_amount c) m")
      case None
      with st v show ?thesis
        by (simp add: sudo_pair_def call_pair_def sudo_def sudo_swap_exact_amount_in_def and_then_def map_err_def or_panic_def)
    next
      case (Some price)
      with sudo_pair_in [OF st v Some] steadyD(1) [OF assms st] st v show ?thesis
        by (auto simp: call_pair_def ok_value_def split: sum.splits)
    qed
  qed
qed

lemma call_pair_swap_steady:
  assumes "call_pair a (internal_swap L Q env sender offer bp ms to) w = Some (w', r)" and "steady {} w"
  shows "steady {} w' \<and> pays_only (resp_msgs r)"
proof -
  have "steady {} w'"
  proof (rule call_pair_steady [OF assms, THEN conjunct1])
    fix st st' assume st: "fmlookup (w_pairs w) a = Some st" "internal_swap L Q env sender offer bp ms to st = Inr (st', r)"
    from yieldsD [OF internal_swap_effect st(2)] steadyD(1) [OF assms(2) st(1)]
    show "(a \<notin> {} \<longrightarrow> ps_swap_params st' = None) \<and>
        (ps_pool_id st' = ps_pool_id st \<or> (\<exists>p. ps_pool_id st' = Some p \<and> fmlookup (w_pools w) p = Some a))"
      by (auto simp: swap_effect_def)
  qed simp
  with assms(1) internal_swap_pays show ?thesis by (fastforce simp: call_pair_Some)
qed

lemma swap_along_is_direct:
  assumes "steady {} w"
  shows "swap_along N env (respond N env) sender m routes c w = direct_along N env sender m routes c w"
  using assms
proof (induction routes arbitrary: c w)
  case (Cons h routes)
  obtain p d where h: "h = (p, d)" by (cases h)
  show ?case
  proof (cases "fmlookup (w_pools w) p")
    case None
    then show ?thesis by (simp add: h)
  next
    case a: (Some a)
    show ?thesis
    proof (cases "on_bank (n_send N sender a [c]) w")
      case None
      then show ?thesis by (simp add: h a del: pair_respond.simps split: Option.bind_split)
    next
      case w1: (Some w1)
      show ?thesis
      proof (cases "fmlookup (w_pairs w) a")
        case None
        with on_bank_selects [OF w1] show ?thesis
          by (auto simp: h a w1 call_pair_def simp del: pair_respond.simps split: Option.bind_split)
      next
        case st: (Some st)
        have s1: "steady {} w1" using Cons.prems on_bank_only [OF w1] by (simp add: steady_bank)
        have rest: "swap_along N env (respond N env) sender m routes c' w3 = direct_along N env sender m routes c' w3"
          if "call_pair a (internal_swap (n_pcl_crates N) (pair_asks N w1) (at_contract env a) v x bp ms None) w1 = Some (w2, r)"
            "respond N env a (resp_msgs r) w2 = Some w3" for v x bp ms w2 r w3 c'
        proof (rule Cons.IH)
          from that(1) have "steady {} w2" and "pays_only (resp_msgs r)"
            using call_pair_swap_steady [OF that(1) s1] by simp_all
          with respond_bank_only [OF that(2)] show "steady {} w3" by (simp add: steady_bank)
        qed
        show ?thesis
          unfolding h swap_along.simps direct_along.simps a bind.bind_lunit w1 swap_fee_of_pair [OF st] sudo_for_sender [OF s1]
          by (auto simp: ok_value_def rest simp del: pair_respond.simps split: sum.splits Option.bind_split)
      qed
    qed
  qed
qed simp

end
