(* ===== verification/World_Moves.thy ===== *)
theory World_Moves
  imports World_Swaps
begin

text \<open>
  The chain's transactions as sequences of moves. A move changes one thing: it gives to the
  pairs' balances or changes what is not a pair, instantiates a pair, or calls one pair and
  delivers what its answer pays. Every step of the chain is a sequence of moves
  (\<open>chain_step_moves\<close>), so what every move keeps holds in every reachable world.
\<close>

section \<open>What a delivery takes\<close>

definition burned :: "string \<Rightarrow> pair_msg submsg list \<Rightarrow> nat" where
  "burned d subs = sum_list (map (\<lambda>s. case sub_msg s of MsgBurn _ c _ \<Rightarrow> amount_of d [c] | _ \<Rightarrow> 0) subs)"

lemma burned_simps [simp]:
  "burned d [] = 0"
  "burned d (s # subs) = (case sub_msg s of MsgBurn _ c _ \<Rightarrow> amount_of d [c] | _ \<Rightarrow> 0) + burned d subs"
  by (simp_all add: burned_def)

lemma paid_Cons: "paid i (s # subs) = (case sub_msg s of TransferAsset a _ \<Rightarrow>
    if as_info a = i then unat (as_amount a) else 0 | _ \<Rightarrow> 0) + paid i subs"
  by (simp add: paid_def)

definition burns_own :: "addr \<Rightarrow> string \<Rightarrow> pair_msg submsg list \<Rightarrow> bool" where
  \<comment> \<open>burns only this contract's LP tokens\<close>
  "burns_own a lp subs \<longleftrightarrow> list_all (\<lambda>s. case sub_msg s of MsgBurn u c v \<Rightarrow> u = a \<and> coin_denom c = lp | _ \<Rightarrow> True) subs"

lemma burns_own_simps [simp]:
  "burns_own a lp []"
  "burns_own a lp (submsg_new (TransferAsset x y) # subs) = burns_own a lp subs"
  "burns_own a lp (submsg_new (MsgMint u c v) # subs) = burns_own a lp subs"
  "burns_own a lp (submsg_new (MsgBurn u c v) # subs) = (u = a \<and> coin_denom c = lp \<and> burns_own a lp subs)"
  "burns_own a lp (subs @ subs') = (burns_own a lp subs \<and> burns_own a lp subs')"
  by (simp_all add: burns_own_def submsg_new_def)

lemma burns_own_transfers [simp]: "burns_own a lp (map (\<lambda>x. submsg_new (TransferAsset x to)) xs)"
  by (induction xs) auto

lemma burned_others: "burns_own a lp subs \<Longrightarrow> d \<noteq> lp \<Longrightarrow> burned d subs = 0"
proof (induction subs)
  case (Cons s subs)
  then have "burns_own a lp subs" by (simp add: burns_own_def)
  moreover have "(case sub_msg s of MsgBurn _ c _ \<Rightarrow> amount_of d [c] | _ \<Rightarrow> 0) = 0"
    using Cons.prems by (auto simp: burns_own_def split: pair_msg.splits)
  ultimately show ?case using Cons by simp
qed simp

lemma fee_burns: "maker_fee_payment L fees ask prec r = Inr (fee, msgs) \<Longrightarrow> burns_own a lp (map submsg_new msgs)"
  by (auto simp: maker_fee_payment_def res_simps split: option.splits if_splits)

lemma swap_burns:
  "yields (\<lambda>(st', r). burns_own a lp (resp_msgs r)) (internal_swap L Q env sender offer bp ms to st)"
  unfolding internal_swap_def Let_def
  by (intro yields_rules; (hypsubst+)?) (auto simp: res_simps intro: fee_burns)

lemma swap_out_burns:
  "yields (\<lambda>(st', r). burns_own a lp (resp_msgs r)) (swap_exact_amount_out L Q env sender denom m out st)"
  unfolding swap_exact_amount_out_def Let_def
  by (intro yields_rules; (hypsubst+)?) (auto simp: res_simps intro: fee_burns)

lemma provide_burns:
  "yields (\<lambda>(st', r). burns_own a lp (resp_msgs r)) (provide_liquidity L Q env info assets tol receiver st)"
  unfolding provide_liquidity_def Let_def
  by (intro yields_rules; (hypsubst+)?) (auto simp: res_simps split: if_splits dest!: first_share_returns)

lemma withdraw_burns:
  "yields (\<lambda>(st', r). \<exists>c. ps_config st = Some c \<and> burns_own (env_contract env) (lp_denom c) (resp_msgs r))
    (withdraw_liquidity L Q env info assets st)"
  unfolding withdraw_liquidity_def Let_def
  by (intro yields_rules; (hypsubst+)?) (auto simp: res_simps comp_def dest!: transfers_of)

lemma sudo_burns:
  assumes "sudo L Q env msg st = Inr (st', r)"
  shows "burns_own a lp (resp_msgs r)"
proof -
  have sw: "burns_own a lp (resp_msgs r)" if "internal_swap L Q env sender offer bp ms to st = Inr (st', r)"
    for sender offer bp ms to st st' r
    using yieldsD [OF swap_burns that] by simp
  have "burns_own a lp (resp_msgs r)" if "swap_exact_amount_out L Q env sender denom m out st = Inr (st', r)"
    for sender denom m out
    using yieldsD [OF swap_out_burns that] by simp
  with assms show ?thesis by (cases msg) (auto simp: sudo_def sudo_swap_in_returns intro: sw)
qed

lemma other_calls_burn:
  assumes "pair_call (L, Q) env info ev st = Inr (st', r)" and "\<not> moves_assets ev"
  shows "burns_own a lp (resp_msgs r)"
proof (cases ev)
  case (Execute msg)
  with assms show ?thesis
    by (cases msg) (auto simp: pair_call_def pair_execute_def execute_swap_returns set_pool_id_returns res_simps
        burns_own_def submsg_new_def dest!: pair_update_config_returns)
qed (use assms in \<open>auto simp: pair_call_def pair_reply_returns pair_migrate_returns\<close>)

lemma call_burns:
  assumes "pair_call (L, Q) env info ev st = Inr (st', r)"
  shows "\<exists>lp. burns_own (env_contract env) lp (resp_msgs r) \<and> (\<forall>c. ps_config st = Some c \<longrightarrow> lp = lp_denom c)"
proof -
  have any: ?thesis if "\<And>lp. burns_own (env_contract env) lp (resp_msgs r)"
    using that by (cases "ps_config st") auto
  show ?thesis
  proof (cases ev)
    case (Execute msg)
    show ?thesis
    proof (cases msg)
      case (ProvideLiquidity assets tol auto receiver)
      with Execute assms have "provide_liquidity L Q env info assets tol receiver st = Inr (st', r)"
        by (simp add: pair_call_def pair_execute_def)
      from yieldsD [OF provide_burns this] show ?thesis by (intro any) simp
    next
      case (WithdrawLiquidity assets)
      with Execute assms have "withdraw_liquidity L Q env info assets st = Inr (st', r)"
        by (simp add: pair_call_def pair_execute_def)
      from yieldsD [OF withdraw_burns this] show ?thesis by auto
    qed (use Execute other_calls_burn [OF assms] in \<open>intro any; simp\<close>)+
  next
    case (Sudo msg)
    with assms sudo_burns [of L Q env msg st st' r] show ?thesis by (intro any) (simp add: pair_call_def)
  qed (use other_calls_burn [OF assms] in \<open>intro any; simp\<close>)+
qed

section \<open>Payments on the bank\<close>

definition keeps_balances :: "'b net \<Rightarrow> addr set \<Rightarrow> 'b \<Rightarrow> 'b \<Rightarrow> bool" where
  "keeps_balances N A b b' \<longleftrightarrow> (\<forall>a \<in> A. \<forall>d. n_balance N b a d \<le> n_balance N b' a d)"

lemma keeps_balances_refl [simp]: "keeps_balances N A b b"
  by (simp add: keeps_balances_def)

lemma keeps_balances_trans: "keeps_balances N A b b' \<Longrightarrow> keeps_balances N A b' b'' \<Longrightarrow> keeps_balances N A b b''"
  unfolding keeps_balances_def by (meson order_trans)

lemma keeps_balances_subset: "keeps_balances N A b b' \<Longrightarrow> B \<subseteq> A \<Longrightarrow> keeps_balances N B b b'"
  by (auto simp: keeps_balances_def)

lemma send_keeps:
  assumes "bank_laws N" and "n_send N a to cs b = Some b'"
  shows "keeps_balances N (- {a}) b b'"
  unfolding keeps_balances_def
proof (intro ballI allI)
  fix x d assume "x \<in> - {a}"
  with bank_lawsD(1) [OF assms, of x d] show "n_balance N b x d \<le> n_balance N b' x d" by simp
qed

lemma send_takes:
  assumes "bank_laws N" and "n_send N a to cs b = Some b'"
  shows "n_balance N b a d \<le> n_balance N b' a d + amount_of d cs"
  using bank_lawsD(1) [OF assms, of a d] by simp

lemma send_self:
  assumes "bank_laws N" and "n_send N a a cs b = Some b'"
  shows "keeps_balances N A b b'"
  unfolding keeps_balances_def
proof (intro ballI allI)
  fix x d
  from bank_lawsD(1) [OF assms, of x d] show "n_balance N b x d \<le> n_balance N b' x d" by simp
qed

lemma mint_keeps: "bank_laws N \<Longrightarrow> n_mint N to cs b = Some b' \<Longrightarrow> keeps_balances N A b b'"
  by (simp add: keeps_balances_def bank_lawsD(3) [of N to cs b b'])

lemma burn_takes:
  assumes "bank_laws N" and "n_burn N a cs b = Some b'"
  shows "keeps_balances N (- {a}) b b' \<and> n_balance N b a d \<le> n_balance N b' a d + amount_of d cs"
proof -
  have "n_balance N b x d' \<le> n_balance N b' x d'" if "x \<noteq> a" for x d'
    using bank_lawsD(4) [OF assms, of x d'] that by simp
  with bank_lawsD(4) [OF assms, of a d] show ?thesis by (simp add: keeps_balances_def)
qed

lemma run_submsgs_one:
  "run_submsgs deliver reply (s # subs) w = Some w' \<Longrightarrow> sub_reply_on s = Never \<Longrightarrow>
     \<exists>v. run_submsgs deliver reply [s] w = Some v \<and> run_submsgs deliver reply subs v = Some w'"
  by (auto split: option.splits)

lemma payment_balances:
  assumes "pair_respond (Suc n) N env a [s] w = Some w'" and "pays_only [s]" and "burns_own a lp [s]" and "bank_laws N"
  shows "keeps_balances N (- {a}) (w_bank w) (w_bank w') \<and>
    n_balance N (w_bank w) a d \<le> n_balance N (w_bank w') a d + paid (NativeToken d) [s] + burned d [s]"
proof (cases "sub_msg s")
  case (MsgMint u c v)
  with assms(1,2) obtain b' where "n_mint N v [c] (w_bank w) = Some b'" "w_bank w' = b'"
    by (auto simp: pays_only_def on_bank_def split: option.splits if_splits)
  with mint_keeps [OF assms(4), of v "[c]" "w_bank w" b' UNIV] show ?thesis
    by (simp add: keeps_balances_def trans_le_add1)
next
  case (MsgBurn u c v)
  with assms(3) have "u = a" by (simp add: burns_own_def)
  with MsgBurn assms(1,2) obtain b' where "n_burn N a [c] (w_bank w) = Some b'" "w_bank w' = b'"
    by (auto simp: pays_only_def on_bank_def split: option.splits if_splits)
  with burn_takes [OF assms(4), of a "[c]" "w_bank w"] MsgBurn show ?thesis by (simp add: paid_Cons)
next
  case (TransferAsset x to)
  with assms(1,2) obtain d' b' where x: "as_info x = NativeToken d'"
    and b: "n_send N a to [\<lparr>coin_denom = d', coin_amount = as_amount x\<rparr>] (w_bank w) = Some b'" "w_bank w' = b'"
    by (auto simp: pays_only_def on_bank_def split: option.splits if_splits asset_info.splits)
  with send_keeps [OF assms(4) b(1)] send_takes [OF assms(4) b(1), of d] TransferAsset show ?thesis
    by (auto simp: paid_Cons)
qed (use assms(2) in \<open>simp_all add: pays_only_def\<close>)

lemma payments_balances:
  assumes "pair_respond (Suc n) N env a subs w = Some w'" and "pays_only subs" and "burns_own a lp subs" and "bank_laws N"
  shows "keeps_balances N (- {a}) (w_bank w) (w_bank w') \<and>
    n_balance N (w_bank w) a d \<le> n_balance N (w_bank w') a d + paid (NativeToken d) subs + burned d subs"
  using assms(1-3)
proof (induction subs arbitrary: w)
  case (Cons s subs)
  from Cons.prems(2,3) have s: "sub_reply_on s = Never" "pays_only [s]" "burns_own a lp [s]" "pays_only subs" "burns_own a lp subs"
    by (simp_all add: pays_only_def burns_own_def)
  from run_submsgs_one [OF Cons.prems(1) [unfolded pair_respond.simps(2)] s(1)]
  obtain v where v: "pair_respond (Suc n) N env a [s] w = Some v" "pair_respond (Suc n) N env a subs v = Some w'"
    unfolding pair_respond.simps(2) [symmetric] by (elim exE conjE)
  note one = payment_balances [OF v(1) s(2,3) assms(4), of d] and rest = Cons.IH [OF v(2) s(4,5)]
  have "keeps_balances N (- {a}) (w_bank w) (w_bank w')"
    by (rule keeps_balances_trans [OF one [THEN conjunct1] rest [THEN conjunct1]])
  moreover have "paid (NativeToken d) (s # subs) = paid (NativeToken d) [s] + paid (NativeToken d) subs"
    "burned d (s # subs) = burned d [s] + burned d subs"
    by (simp_all only: paid_Cons burned_simps paid_simps(1) add_0_right)
  ultimately show ?case using one [THEN conjunct2] rest [THEN conjunct2] by linarith
qed simp

section \<open>Moves\<close>

inductive move :: "'b net \<Rightarrow> 'b world \<Rightarrow> 'b world \<Rightarrow> bool" for N where
  Elsewhere: "w_pairs w' = w_pairs w \<Longrightarrow> keeps_balances N (fmdom' (w_pairs w)) (w_bank w) (w_bank w') \<Longrightarrow> move N w w'"
| Born: "a \<notin> fmdom' (w_pairs w) \<Longrightarrow> a \<noteq> n_factory N \<Longrightarrow> a \<noteq> n_maker N \<Longrightarrow>
    pair_instantiate (n_pcl_crates N) (pair_asks N w) (at_contract env a) m new_pair_state = Inr (st, r) \<Longrightarrow>
    move N w (w\<lparr>w_pairs := fmupd a st (w_pairs w)\<rparr>)"
| Act: "fmlookup (w_pairs w) a = Some st \<Longrightarrow>
    pair_call (n_pcl_crates N, pair_asks N w) (at_contract env a) info ev st = Inr (st', r) \<Longrightarrow>
    (\<And>i data. ev = Reply i data \<Longrightarrow> data = n_encode_denom N (''factory/'' @ a @ ''/'' @ LP_SUBDENOM)) \<Longrightarrow>
    w_pairs w' = fmupd a st' (w_pairs w) \<Longrightarrow>
    keeps_balances N (fmdom' (w_pairs w) - {a}) (w_bank w) (w_bank w') \<Longrightarrow>
    (\<And>d. n_balance N (w_bank w) a d \<le> n_balance N (w_bank w') a d + paid (NativeToken d) (resp_msgs r) +
       burned d (resp_msgs r) + given_back ev r (NativeToken d)) \<Longrightarrow>
    move N w w'"

abbreviation moves :: "'b net \<Rightarrow> 'b world \<Rightarrow> 'b world \<Rightarrow> bool" where
  "moves N \<equiv> (move N)\<^sup>*\<^sup>*"

definition apart :: "'b net \<Rightarrow> 'b world \<Rightarrow> bool" where
  \<comment> \<open>neither the factory nor the maker is a pair\<close>
  "apart N w \<longleftrightarrow> n_factory N \<notin> fmdom' (w_pairs w) \<and> n_maker N \<notin> fmdom' (w_pairs w)"

definition outside_law :: "'b net \<Rightarrow> bool" where
  \<comment> \<open>executing a contract outside the repository takes nothing from the pairs\<close>
  "outside_law N \<longleftrightarrow> (\<forall>(w :: 'b world) x b. n_external N x (w_bank w) = Some b \<longrightarrow>
     keeps_balances N (fmdom' (w_pairs w)) (w_bank w) b)"

lemma move_apart: "move N w w' \<Longrightarrow> apart N w \<Longrightarrow> apart N w'"
  by (induction rule: move.induct) (auto simp: apart_def fmdom'I)

lemma moves_apart: "moves N w w' \<Longrightarrow> apart N w \<Longrightarrow> apart N w'"
  by (induction rule: rtranclp_induct) (auto intro: move_apart)

lemma on_bank_move:
  "on_bank f w = Some w' \<Longrightarrow> (\<And>b. f (w_bank w) = Some b \<Longrightarrow> keeps_balances N (fmdom' (w_pairs w)) (w_bank w) b) \<Longrightarrow>
     move N w w'"
  by (auto simp: on_bank_def intro!: move.Elsewhere)

lemma send_move:
  "on_bank (n_send N u a cs) w = Some w' \<Longrightarrow> bank_laws N \<Longrightarrow> u \<notin> fmdom' (w_pairs w) \<or> u = a \<Longrightarrow> move N w w'"
  by (erule on_bank_move) (auto dest: send_keeps send_self elim: keeps_balances_subset)

lemma elsewhere_simps [simp]:
  "move N w (w\<lparr>w_factory := fs\<rparr>)" "move N w (w\<lparr>w_maker := ms\<rparr>)" "move N w (w\<lparr>w_pools := ps\<rparr>)"
  by (simp_all add: move.Elsewhere)

lemma act_moves:
  assumes "call_pair a (pair_call (n_pcl_crates N, pair_asks N w) (at_contract env a) info ev) w = Some (w1, r)"
    and "pair_respond (Suc n) N env a (resp_msgs r) w1 = Some w2" and "pays_only (resp_msgs r)" and "bank_laws N"
    and "\<And>i data. ev = Reply i data \<Longrightarrow> data = n_encode_denom N (''factory/'' @ a @ ''/'' @ LP_SUBDENOM)"
    and "w_pairs w3 = w_pairs w2" and "keeps_balances N (- {a}) (w_bank w2) (w_bank w3)"
    and "\<And>d. n_balance N (w_bank w2) a d \<le> n_balance N (w_bank w3) a d + given_back ev r (NativeToken d)"
  shows "move N w w3"
proof -
  from assms(1) obtain st st' where st: "fmlookup (w_pairs w) a = Some st"
    "pair_call (n_pcl_crates N, pair_asks N w) (at_contract env a) info ev st = Inr (st', r)"
    and w1: "w1 = w\<lparr>w_pairs := fmupd a st' (w_pairs w)\<rparr>"
    by (auto simp: call_pair_Some)
  from call_burns [OF st(2)] obtain lp where lp: "burns_own a lp (resp_msgs r)" by auto
  note pay = payments_balances [OF assms(2,3) lp assms(4)]
  show ?thesis
  proof (rule move.Act [OF st assms(5)])
    show "w_pairs w3 = fmupd a st' (w_pairs w)"
      using respond_bank_only [OF assms(2,3)] assms(6) w1 by (simp add: bank_onlyD)
    have "keeps_balances N (- {a}) (w_bank w) (w_bank w3)"
      using keeps_balances_trans [OF pay [THEN conjunct1] assms(7)] w1 by simp
    then show "keeps_balances N (fmdom' (w_pairs w) - {a}) (w_bank w) (w_bank w3)"
      by (rule keeps_balances_subset) blast
    show "n_balance N (w_bank w) a d \<le> n_balance N (w_bank w3) a d + paid (NativeToken d) (resp_msgs r) +
       burned d (resp_msgs r) + given_back ev r (NativeToken d)" for d
      using pay [THEN conjunct2, of d] assms(8) [of d] w1 by simp
  qed
qed

end
