(* ===== verification/World_Steps.thy ===== *)
theory World_Steps
  imports World_Moves
begin

text \<open>
  Every step of the chain is a sequence of moves: the swaps of the pool module hop by hop, the
  messages of the factory and the maker, the transactions, and so the steps of a reachable world.
\<close>

section \<open>Swaps of the pool module\<close>

lemma sudo_pair_call:
  "sudo_pair N env a msg w = call_pair a (pair_call (n_pcl_crates N, pair_asks N w) (at_contract env a) info (Sudo msg)) w"
  by (simp add: sudo_pair_def pair_call_def [abs_def] call_pair_def)

lemma call_pair_dom: "call_pair a f w = Some (w', r) \<Longrightarrow> fmdom' (w_pairs w') = fmdom' (w_pairs w)"
  by (auto simp: call_pair_Some fmdom'I)

lemma sudo_moves:
  assumes "sudo_pair N env a msg w = Some (w1, r)" and "pair_respond (Suc n) N env a (resp_msgs r) w1 = Some w2"
    and "bank_laws N" and "w_pairs w3 = w_pairs w2" and "keeps_balances N (- {a}) (w_bank w2) (w_bank w3)"
    and "\<And>d. n_balance N (w_bank w2) a d \<le> n_balance N (w_bank w3) a d + given_back (Sudo msg) r (NativeToken d)"
  shows "move N w w3"
proof (rule act_moves)
  show "call_pair a (pair_call (n_pcl_crates N, pair_asks N w) (at_contract env a) undefined (Sudo msg)) w = Some (w1, r)"
    using assms(1) by (simp add: sudo_pair_call [of N env a msg w undefined])
  from assms(1) show "pays_only (resp_msgs r)" by (auto simp: sudo_pair_def call_pair_Some dest: sudo_pays)
qed (rule assms | simp)+

lemma hop_moves:
  assumes "on_bank (n_send N sender a [c]) w = Some w1"
    and "sudo_pair N env a (SwapExactAmountIn sender c d m fee) w1 = Some (w2, r)"
    and "pair_respond (Suc n) N env a (resp_msgs r) w2 = Some w3"
    and "bank_laws N" and "sender \<notin> fmdom' (w_pairs w) \<or> sender = a"
  shows "moves N w w3 \<and> fmdom' (w_pairs w3) = fmdom' (w_pairs w)"
proof -
  have "pays_only (resp_msgs r)" using assms(2) by (auto simp: sudo_pair_def call_pair_Some dest: sudo_pays)
  from respond_bank_only [OF assms(3) this] on_bank_only [OF assms(1)]
  have "fmdom' (w_pairs w3) = fmdom' (w_pairs w)"
    using call_pair_dom [OF assms(2) [unfolded sudo_pair_def]] by (simp add: bank_onlyD)
  moreover have "move N w1 w3" by (rule sudo_moves [OF assms(2,3,4)]) simp_all
  moreover have "move N w w1" by (rule send_move [OF assms(1,4,5)])
  ultimately show ?thesis by (auto intro: rtranclp.rtrancl_into_rtrancl)
qed

lemma swap_along_moves:
  assumes "swap_along N env (pair_respond (Suc n) N env) sender m routes c w = Some w'" and "bank_laws N"
    and "sender \<notin> fmdom' (w_pairs w) \<or> (\<exists>p d. routes = [(p, d)] \<and> fmlookup (w_pools w) p = Some sender)"
  shows "moves N w w'"
  using assms(1,3)
proof (induction routes arbitrary: c w)
  case (Cons h routes)
  obtain p d where h: "h = (p, d)" by (cases h)
  from Cons.prems(1) obtain a fee w1 k w2 r w3 out where a: "fmlookup (w_pools w) p = Some a"
    "on_bank (n_send N sender a [c]) w = Some w1"
    "sudo_pair N env a (SwapExactAmountIn sender c d k fee) w1 = Some (w2, r)"
    "pair_respond (Suc n) N env a (resp_msgs r) w2 = Some w3"
    "swap_along N env (pair_respond (Suc n) N env) sender m routes \<lparr>coin_denom = d, coin_amount = out\<rparr> w3 = Some w'"
    unfolding h swap_along_Some by blast
  from Cons.prems(2) a(1) have "sender \<notin> fmdom' (w_pairs w) \<or> sender = a" by (auto simp: h)
  from hop_moves [OF a(2-4) assms(2) this] have hop: "moves N w w3" "fmdom' (w_pairs w3) = fmdom' (w_pairs w)" by simp_all
  show ?case
  proof (cases "routes = []")
    case True
    with a(5) hop(1) show ?thesis by simp
  next
    case False
    with Cons.prems(2) hop(2) have "sender \<notin> fmdom' (w_pairs w3)" by (auto simp: h)
    with Cons.IH [OF a(5)] hop(1) show ?thesis by (auto intro: rtranclp_trans)
  qed
qed simp

lemma swap_exact_in_moves:
  "swap_exact_in N env (pair_respond (Suc n) N env) sender routes c m w = Some w' \<Longrightarrow> bank_laws N \<Longrightarrow>
     sender \<notin> fmdom' (w_pairs w) \<or> (\<exists>p d. routes = [(p, d)] \<and> fmlookup (w_pools w) p = Some sender) \<Longrightarrow> moves N w w'"
  by (cases "routes = []") (simp_all add: swap_exact_in_def swap_along_moves)

lemma swap_exact_out_moves:
  assumes "swap_exact_out N env (pair_respond (Suc n) N env) sender routes m out w = Some w'" and "bank_laws N"
    and "sender \<notin> fmdom' (w_pairs w)"
  shows "moves N w w'"
proof -
  from assms(1) obtain d a k fee w1 w2 r w3 charged excess where
    a: "on_bank (n_send N sender a [\<lparr>coin_denom = d, coin_amount = k\<rparr>]) w = Some w1"
      "sudo_pair N env a (SwapExactAmountOut sender d k out fee) w1 = Some (w2, r)"
      "pair_respond (Suc n) N env a (resp_msgs r) w2 = Some w3"
      "resp_data r = Some (SwapExactAmountOutResponseData charged)" "sub_checked k charged = Some excess"
    and w': "if excess = 0 then w' = w3 else on_bank (n_send N a sender [\<lparr>coin_denom = d, coin_amount = excess\<rparr>]) w3 = Some w'"
    unfolding swap_exact_out_Some by blast
  have "move N w w1" by (rule send_move [OF a(1) assms(2)]) (use assms(3) in simp)
  moreover have "move N w1 w'"
  proof (cases "excess = 0")
    case True
    with w' show ?thesis by (intro sudo_moves [OF a(2,3) assms(2)]) simp_all
  next
    case False
    with w' obtain b where b: "n_send N a sender [\<lparr>coin_denom = d, coin_amount = excess\<rparr>] (w_bank w3) = Some b"
      "w' = w3\<lparr>w_bank := b\<rparr>" by (auto simp: on_bank_def)
    have "given_back (Sudo (SwapExactAmountOut sender d k out fee)) r (NativeToken x) = amount_of x [\<lparr>coin_denom = d, coin_amount = excess\<rparr>]" for x
      using a(4) sub_checked_Some [OF a(5)] by (auto simp: given_back_def)
    with b send_keeps [OF assms(2) b(1)] send_takes [OF assms(2) b(1)] show ?thesis
      by (intro sudo_moves [OF a(2,3) assms(2)]) simp_all
  qed
  ultimately show ?thesis by (auto intro: rtranclp.rtrancl_into_rtrancl)
qed

lemma dex_moves:
  assumes "bank_laws N"
  shows "swap_exact_in N env (respond N env) sender routes c m w = Some w' \<Longrightarrow> sender \<notin> fmdom' (w_pairs w) \<Longrightarrow> moves N w w'"
    and "swap_exact_out N env (respond N env) sender routes m out w = Some w' \<Longrightarrow> sender \<notin> fmdom' (w_pairs w) \<Longrightarrow> moves N w w'"
  unfolding numeral_2_eq_2 using swap_exact_in_moves [OF _ assms] swap_exact_out_moves [OF _ assms] by blast+

section \<open>Instantiation\<close>

lemma instantiate_pair_moves:
  assumes "instantiate_pair N env m w = Some (w', a)"
  shows "moves N w w'"
proof -
  from instantiate_pair_Some [OF assms] obtain st st' r r' where a: "a \<notin> fmdom' (w_pairs w)" "a \<noteq> n_factory N" "a \<noteq> n_maker N"
    and st: "pair_instantiate (n_pcl_crates N) (pair_asks N w) (at_contract env a) m new_pair_state = Inr (st, r)"
    and st': "pair_reply (n_pcl_crates N) CREATE_DENOM_REPLY_ID
      (n_encode_denom N (''factory/'' @ a @ ''/'' @ LP_SUBDENOM)) st = Inr (st', r')"
    and w': "w' = w\<lparr>w_pairs := fmupd a st' (w_pairs w)\<rparr>" by blast
  let ?v = "w\<lparr>w_pairs := fmupd a st (w_pairs w)\<rparr>"
  let ?ev = "Reply CREATE_DENOM_REPLY_ID (n_encode_denom N (''factory/'' @ a @ ''/'' @ LP_SUBDENOM))"
  have "move N w ?v" by (rule move.Born [OF a st])
  moreover have "move N ?v w'"
  proof (rule move.Act)
    show "fmlookup (w_pairs ?v) a = Some st" by simp
    show "pair_call (n_pcl_crates N, pair_asks N ?v) (at_contract env a) undefined ?ev st = Inr (st', r')"
      using st' by (simp add: pair_call_def)
  qed (use w' in \<open>simp_all add: fmupd_idem\<close>)
  ultimately show ?thesis by (auto intro: rtranclp.rtrancl_into_rtrancl)
qed

lemma create_pool_moves:
  assumes "create_pool N env code m w = Some (w', p)"
  shows "moves N w w'"
proof -
  from assms obtain v a ps where v: "instantiate_pair N env m w = Some (v, a)" and "w' = v\<lparr>w_pools := ps\<rparr>"
    by (auto simp: create_pool_def split: Option.bind_splits if_splits)
  then have "move N v w'" by auto
  with instantiate_pair_moves [OF v] show ?thesis by (rule rtranclp.rtrancl_into_rtrancl)
qed

section \<open>The factory and the maker\<close>

lemma moves_step: "moves N w v \<Longrightarrow> move N v u \<Longrightarrow> moves N w u"
  by (rule rtranclp.rtrancl_into_rtrancl)

lemma set_pool_id_moves:
  assumes "call_pair a (pair_execute (n_pcl_crates N) (pair_asks N w) (at_contract env a) info (SetPoolId p)) w = Some (v, r)"
    and "respond N env a (resp_msgs r) v = Some w'" and "bank_laws N"
  shows "move N w w'"
proof -
  have "resp_msgs r = []" using assms(1) by (auto simp: call_pair_Some pair_execute_def set_pool_id_returns)
  with assms(2) have "w' = v" "pays_only (resp_msgs r)" by (simp_all add: numeral_2_eq_2)
  moreover have "pair_call (n_pcl_crates N, pair_asks N w) (at_contract env a) info (Execute (SetPoolId p)) =
      pair_execute (n_pcl_crates N) (pair_asks N w) (at_contract env a) info (SetPoolId p)"
    by (simp add: pair_call_def fun_eq_iff)
  ultimately show ?thesis
    using assms by (intro act_moves [where a = a and env = env and info = info and ev = "Execute (SetPoolId p)" and
          ?w1.0 = v and ?w2.0 = v and r = r and n = 1])
      (simp_all add: numeral_2_eq_2 del: pair_respond.simps)
qed

lemma external_move:
  "on_bank (n_external N x) w = Some w' \<Longrightarrow> outside_law N \<Longrightarrow> move N w w'"
  by (erule on_bank_move) (auto simp: outside_law_def)

lemma factory_respond_moves:
  assumes "factory_respond n N env subs w = Some w'" and "bank_laws N" and "outside_law N"
  shows "moves N w w'"
  using assms(1)
proof (induction n arbitrary: subs w w')
  case 0
  then show ?case by (auto split: if_splits)
next
  case (Suc n)
  from Suc.prems show ?case
    unfolding factory_respond.simps
  proof (rule run_submsgs_keeps [where P = "moves N w"])
    fix s v v' d
    assume d: "(case sub_msg s of
          MsgCreateCosmWasmPool code_id m _ \<Rightarrow>
            map_option (\<lambda>(w, pool_id). (w, n_encode_pool_id N pool_id)) (create_pool N env code_id m v)
        | ExecuteSetPoolId a pool_id \<Rightarrow> do {
            (w', r) \<leftarrow> call_pair a (pair_execute (n_pcl_crates N) (pair_asks N v) (at_contract env a)
              \<lparr>mi_sender = n_factory N, mi_funds = []\<rparr> (SetPoolId pool_id)) v;
            w'' \<leftarrow> respond N env a (resp_msgs r) w';
            Some (w'', [])
          }
        | DeactivatePool generator _ \<Rightarrow> map_option (\<lambda>w. (w, [])) (on_bank (n_external N generator) v)) = Some (v', d)"
      and m: "moves N w v"
    have "moves N v v'"
    proof (cases "sub_msg s")
      case (MsgCreateCosmWasmPool code im c)
      with d show ?thesis by (auto dest: create_pool_moves)
    next
      case (ExecuteSetPoolId a p)
      with d obtain u r where "call_pair a (pair_execute (n_pcl_crates N) (pair_asks N v) (at_contract env a)
          \<lparr>mi_sender = n_factory N, mi_funds = []\<rparr> (SetPoolId p)) v = Some (u, r)" "respond N env a (resp_msgs r) u = Some v'"
        by (auto simp del: pair_respond.simps split: Option.bind_splits)
      then show ?thesis by (intro r_into_rtranclp set_pool_id_moves [OF _ _ assms(2)])
    next
      case (DeactivatePool g lp)
      with d show ?thesis by (auto intro: r_into_rtranclp external_move assms)
    qed
    with m show "moves N w v'" by (rule rtranclp_trans)
  next
    fix i data v v'
    assume d: "do {
          (fs, r) \<leftarrow> ok_value (factory_reply (n_factory_crates N) (factory_asks N env v) i data (w_factory v));
          factory_respond n N env (resp_msgs r) (v\<lparr>w_factory := fs\<rparr>)
        } = Some v'" and m: "moves N w v"
    from d obtain fs and r :: "factory_msg response" where "factory_respond n N env (resp_msgs r) (v\<lparr>w_factory := fs\<rparr>) = Some v'"
      by (auto simp del: factory_respond.simps split: Option.bind_splits)
    with Suc.IH have "moves N (v\<lparr>w_factory := fs\<rparr>) v'" by blast
    with moves_step [OF m elsewhere_simps(1)] show "moves N w v'" by (rule rtranclp_trans)
  qed simp
qed

definition swaps_for :: "addr \<Rightarrow> maker_msg submsg list \<Rightarrow> bool" where
  "swaps_for a subs \<longleftrightarrow> list_all (\<lambda>s. case sub_msg s of maker_msg.MsgSwapExactAmountIn u _ _ _ \<Rightarrow> u = a | _ \<Rightarrow> True) subs"

lemma collect_loop_swaps_for:
  "collect_loop L Q contract config stored assets cache messages attrs = Inr (ms, as) \<Longrightarrow>
     swaps_for contract messages \<Longrightarrow> swaps_for contract ms"
  by (induction assets arbitrary: cache messages attrs)
    (auto simp: res_simps swaps_for_def swap_submsg_def submsg_new_def split: if_splits)

lemma collect_swaps_for:
  assumes "collect L Q env assets st = Inr (st', r)"
  shows "swaps_for (env_contract env) (resp_msgs r)"
proof -
  have "swaps_for a ms \<Longrightarrow> mark_last ms = Inr ms' \<Longrightarrow> swaps_for a ms'" for a ms ms'
    by (cases ms rule: rev_cases) (auto simp: mark_last_def swaps_for_def)
  with assms show ?thesis
    by (auto simp: collect_def res_simps swaps_for_def dest!: collect_loop_swaps_for)
qed

lemma maker_messages_swaps_for:
  assumes "maker_execute L Q env info msg st = Inr (st', r)"
  shows "swaps_for (env_contract env) (resp_msgs r)"
proof (cases msg)
  case (Collect assets)
  with assms show ?thesis by (auto simp: maker_execute_def res_simps dest: collect_swaps_for)
next
  case (UpdateConfig a b c d)
  have "yields (\<lambda>(st', r). swaps_for (env_contract env) (resp_msgs r)) (maker_update_config L info a b c d st)"
    unfolding maker_update_config_def Let_def
    by (intro yields_rules; (hypsubst+)?) (simp_all add: swaps_for_def)
  from yieldsD [OF this] UpdateConfig assms show ?thesis by (fastforce simp: maker_execute_def res_simps)
next
  case (SetPoolRoutes routes)
  have "yields (\<lambda>(st', r). swaps_for (env_contract env) (resp_msgs r)) (set_pool_routes Q info routes st)"
    unfolding set_pool_routes_def Let_def
    by (intro yields_rules; (hypsubst+)?) (simp_all add: swaps_for_def)
  from yieldsD [OF this] SetPoolRoutes assms show ?thesis by (fastforce simp: maker_execute_def res_simps)
qed (use assms in \<open>auto simp: maker_execute_def res_simps swaps_for_def\<close>)

lemma maker_respond_moves:
  assumes "maker_respond n N env subs w = Some w'" and "apart N w" and "bank_laws N" and "outside_law N"
    and "swaps_for (n_maker N) subs"
  shows "moves N w w'"
  using assms(1,2,5)
proof (induction n arbitrary: subs w w')
  case 0
  then show ?case by (auto split: if_splits)
next
  case (Suc n)
  have keep: "moves N w v \<Longrightarrow> n_maker N \<notin> fmdom' (w_pairs v)" for v
    using moves_apart [OF _ Suc.prems(2)] by (simp add: apart_def)
  show ?case
  proof (rule run_submsgs_keeps [where P = "moves N w", OF Suc.prems(1) [unfolded maker_respond.simps]])
    fix s v v' d
    assume s: "s \<in> set subs" and m: "moves N w v" and d: "(case sub_msg s of
          maker_msg.MsgSwapExactAmountIn sender routes token_in min_text \<Rightarrow>
            map_option (\<lambda>w. (w, []))
              (swap_exact_in N env (respond N env) sender (routes_of_maker routes) token_in min_text v)
        | TransferAstro satellite coins \<Rightarrow> do {
            w' \<leftarrow> on_bank (n_send N (n_maker N) satellite coins) v;
            w'' \<leftarrow> on_bank (n_external N satellite) w';
            Some (w'', [])
          }) = Some (v', d)"
    have "moves N v v'"
    proof (cases "sub_msg s")
      case (MsgSwapExactAmountIn u routes c t)
      with s Suc.prems(3) have "u = n_maker N" by (auto simp: swaps_for_def list_all_iff)
      with MsgSwapExactAmountIn d have sw: "swap_exact_in N env (respond N env) (n_maker N) (routes_of_maker routes) c t v = Some v'"
        by (auto simp del: pair_respond.simps)
      show ?thesis by (rule dex_moves(1) [OF assms(3) sw keep [OF m]])
    next
      case (TransferAstro satellite coins)
      with d obtain u where u: "on_bank (n_send N (n_maker N) satellite coins) v = Some u" "on_bank (n_external N satellite) u = Some v'"
        by (auto split: Option.bind_splits)
      have "move N v u" by (rule send_move [OF u(1) assms(3)]) (use keep [OF m] in simp)
      moreover have "move N u v'" by (rule external_move [OF u(2) assms(4)])
      ultimately show ?thesis by (auto intro: rtranclp.rtrancl_into_rtrancl)
    qed
    with m show "moves N w v'" by (rule rtranclp_trans)
  next
    fix i data v v'
    assume d: "do {
          (ms, r) \<leftarrow> ok_value (maker_reply (maker_asks N env v) (at_contract env (n_maker N)) i (w_maker v));
          maker_respond n N env (resp_msgs r) (v\<lparr>w_maker := ms\<rparr>)
        } = Some v'" and m: "moves N w v"
    from d obtain ms r where r: "maker_reply (maker_asks N env v) (at_contract env (n_maker N)) i (w_maker v) = Inr (ms, r)"
      "maker_respond n N env (resp_msgs r) (v\<lparr>w_maker := ms\<rparr>) = Some v'"
      by (auto split: Option.bind_splits)
    have "apart N (v\<lparr>w_maker := ms\<rparr>)" using moves_apart [OF m Suc.prems(2)] by (simp add: apart_def)
    moreover have "swaps_for (n_maker N) (resp_msgs r)"
      using r(1) by (auto simp: maker_reply_def res_simps swaps_for_def submsg_new_def split: if_splits)
    ultimately have "moves N (v\<lparr>w_maker := ms\<rparr>) v'" by (rule Suc.IH [OF r(2)])
    moreover have "moves N w (v\<lparr>w_maker := ms\<rparr>)" by (rule moves_step [OF m]) simp
    ultimately show "moves N w v'" by (meson rtranclp_trans)
  qed simp
qed

section \<open>Transactions and steps\<close>

lemma pay_in_move: "pay_in N info a w = Some w' \<Longrightarrow> bank_laws N \<Longrightarrow> mi_sender info \<notin> fmdom' (w_pairs w) \<Longrightarrow> move N w w'"
  by (auto simp: pay_in_def intro: send_move move.Elsewhere split: if_splits)

lemma pair_execute_call:
  "pair_call (L, Q) env info (Execute msg) = pair_execute L Q env info msg"
  by (simp add: pair_call_def fun_eq_iff)

lemma tx_pair_moves:
  assumes "tx_pair N env info a msg w = Some w'" and "steady {} w" and "bank_laws N" and "outsider N w (mi_sender info)"
    and "n_factory N = FACTORY_ADDRESS"
  shows "moves N w w'"
proof -
  from assms(1) obtain w1 w2 r where w1: "pay_in N info a w = Some w1"
    and w2: "call_pair a (pair_execute (n_pcl_crates N) (pair_asks N w1) (at_contract env a) info msg) w1 = Some (w2, r)"
    and w': "respond N env a (resp_msgs r) w2 = Some w'"
    by (auto simp: tx_pair_def simp del: pair_respond.simps split: Option.bind_splits)
  have first: "move N w w1" by (rule pay_in_move [OF w1 assms(3)]) (use assms(4) in \<open>simp add: outsider_def\<close>)
  have s1: "steady {} w1" using assms(2) pay_in_only [OF w1] by (simp add: steady_bank)
  from w2 obtain st st' where st: "fmlookup (w_pairs w1) a = Some st"
    "pair_execute (n_pcl_crates N) (pair_asks N w1) (at_contract env a) info msg st = Inr (st', r)"
    by (auto simp: call_pair_Some)
  show ?thesis
  proof (cases "\<exists>offer ask bp ms to. msg = Swap offer ask bp ms to")
    case False
    with other_messages [OF st(2)] have m: "pays_only (resp_msgs r)" by blast
    have "move N w1 w'"
      by (rule act_moves [where info = info and ev = "Execute msg" and n = 1, OF _ _ m assms(3)])
        (use w2 w' in \<open>simp_all add: pair_execute_call numeral_2_eq_2 del: pair_respond.simps, simp_all\<close>)
    with first show ?thesis by (auto intro: rtranclp.rtrancl_into_rtrancl)
  next
    case True
    then obtain offer ask bp ms to where msg: "msg = Swap offer ask bp ms to" by blast
    from st msg obtain pool_id out token_in routes where p: "ps_pool_id st = Some pool_id"
      "resp_msgs r = [submsg_new (pair_msg.MsgSwapExactAmountIn a routes token_in ''1'')]"
      "routes_of_pair routes = [(pool_id, out)]"
      by (auto simp: pair_execute_def execute_swap_returns routes_of_pair_def)
    have "move N w1 w2"
      by (rule move.Act [OF st(1), where env = env and info = info and ev = "Execute msg" and st' = st' and r = r])
        (use w2 st in \<open>auto simp: pair_execute_call call_pair_Some\<close>)
    moreover have "w_pools w2 = w_pools w1" using w2 by (auto simp: call_pair_Some)
    with steadyD(2) [OF s1 st(1) p(1)] have "fmlookup (w_pools w2) pool_id = Some a" by simp
    moreover from w' have sw: "swap_exact_in N env (pair_respond (Suc 0) N env) a [(pool_id, out)] token_in ''1'' w2 = Some w'"
      unfolding numeral_2_eq_2 by (auto simp: p(2,3) submsg_new_def split: option.splits)
    ultimately have "moves N w1 w'" using swap_exact_in_moves [OF sw assms(3)] by (auto intro: converse_rtranclp_into_rtranclp)
    with first show ?thesis by (rule converse_rtranclp_into_rtranclp)
  qed
qed

lemma chain_step_moves:
  assumes "chain_step N w w'" and "steady {} w" and "apart N w" and "deployed N" and "bank_laws N" and "outside_law N"
  shows "moves N w w'"
  using assms(1)
proof cases
  case (Call_pair info env a msg)
  with assms(2,4,5) show ?thesis by (auto simp: deployed_def intro: tx_pair_moves)
next
  case (Call_factory info env msg)
  then obtain w1 fs and r :: "factory_msg response" where w1: "pay_in N info (n_factory N) w = Some w1"
    and w': "factory_respond 2 N env (resp_msgs r) (w1\<lparr>w_factory := fs\<rparr>) = Some w'"
    by (auto simp: tx_factory_def split: Option.bind_splits)
  have "move N w w1" by (rule pay_in_move [OF w1 assms(5)]) (use Call_factory in \<open>simp add: outsider_def\<close>)
  moreover have "move N w1 (w1\<lparr>w_factory := fs\<rparr>)" by simp
  moreover have "moves N (w1\<lparr>w_factory := fs\<rparr>) w'" by (rule factory_respond_moves [OF w' assms(5,6)])
  ultimately show ?thesis by (meson converse_rtranclp_into_rtranclp)
next
  case (Call_maker info env msg)
  then obtain w1 ms and r :: "maker_msg response" where w1: "pay_in N info (n_maker N) w = Some w1"
    and m: "maker_execute (n_maker_crates N) (maker_asks N env w1) (at_contract env (n_maker N)) info msg (w_maker w1) = Inr (ms, r)"
    and w': "maker_respond 2 N env (resp_msgs r) (w1\<lparr>w_maker := ms\<rparr>) = Some w'"
    by (auto simp: tx_maker_def split: Option.bind_splits)
  have "move N w w1" by (rule pay_in_move [OF w1 assms(5)]) (use Call_maker in \<open>simp add: outsider_def\<close>)
  moreover have "move N w1 (w1\<lparr>w_maker := ms\<rparr>)" by simp
  moreover have "apart N (w1\<lparr>w_maker := ms\<rparr>)" using move_apart [OF calculation(1) assms(3)] by (simp add: apart_def)
  then have "moves N (w1\<lparr>w_maker := ms\<rparr>) w'"
    using maker_messages_swaps_for [OF m] by (intro maker_respond_moves [OF w' _ assms(5,6)]) simp_all
  ultimately show ?thesis by (meson converse_rtranclp_into_rtranclp)
next
  case (Dex_in sender env routes c t)
  then have "sender \<notin> fmdom' (w_pairs w)" by (simp add: outsider_def)
  with Dex_in show ?thesis by (blast intro: dex_moves(1) [OF assms(5)])
next
  case (Dex_out sender env routes t out)
  then have "sender \<notin> fmdom' (w_pairs w)" by (simp add: outsider_def)
  with Dex_out show ?thesis by (blast intro: dex_moves(2) [OF assms(5)])
next
  case New_pool
  then show ?thesis by (rule create_pool_moves)
next
  case New_pair
  then show ?thesis by (rule instantiate_pair_moves)
next
  case (Migrate_pair a r)
  then obtain st st' where st: "fmlookup (w_pairs w) a = Some st" "pair_migrate st = Inr (st', r)" "w' = w\<lparr>w_pairs := fmupd a st' (w_pairs w)\<rparr>"
    by (auto simp: call_pair_Some)
  have "move N w w'"
    by (rule move.Act [OF st(1), where ev = Migrate and st' = st' and r = r]) (use st in \<open>simp_all add: pair_call_def\<close>)
  then show ?thesis by blast
next
  case (Outside b)
  then have "move N w w'" by (auto simp: keeps_balances_def outsider_def intro!: move.Elsewhere)
  then show ?thesis by blast
qed

lemma step_moves:
  "reachable N w \<Longrightarrow> apart N w \<Longrightarrow> deployed N \<Longrightarrow> bank_laws N \<Longrightarrow> outside_law N \<Longrightarrow> chain_step N w w' \<Longrightarrow> moves N w w'"
  by (rule chain_step_moves) (auto intro: reachable_steady)

interpretation separate: reachable_invariant N "deployed N \<and> bank_laws N \<and> outside_law N" "apart N" for N
proof
  fix w :: "'a world"
  assume "w_pairs w = fmempty"
  then show "apart N w" by (simp add: apart_def)
next
  fix w w' assume "deployed N \<and> bank_laws N \<and> outside_law N" "reachable N w" "apart N w" "chain_step N w w'"
  then show "apart N w'" by (blast intro: moves_apart step_moves)
qed

lemmas reachable_apart = separate.inv_reachable

lemma reachable_step_moves:
  assumes "deployed N \<and> bank_laws N \<and> outside_law N" and "reachable N w" and "chain_step N w w'"
  shows "moves N w w'"
  using assms reachable_apart [OF assms(2,1)] by (blast intro: step_moves)

end
