(* ===== verification/World_Invariants.thy ===== *)
theory World_Invariants
  imports World_Steps
begin

text \<open>
  What holds of every pair in every reachable world. An invariant of a single pair lifts to the
  world when instantiation establishes it and every call keeps it; the balances a pair has saved
  are covered by the bank, because every move that takes from a tracking pair saves.
\<close>

section \<open>Lifting invariants of a pair\<close>

definition lp_token :: "addr \<Rightarrow> string" where
  "lp_token a = ''factory/'' @ a @ ''/'' @ LP_SUBDENOM"

definition pairs_all :: "(addr \<Rightarrow> pair_state \<Rightarrow> bool) \<Rightarrow> 'b world \<Rightarrow> bool" where
  "pairs_all P w \<longleftrightarrow> (\<forall>a st. fmlookup (w_pairs w) a = Some st \<longrightarrow> P a st)"

lemma pairs_allD: "pairs_all P w \<Longrightarrow> fmlookup (w_pairs w) a = Some st \<Longrightarrow> P a st"
  by (simp add: pairs_all_def)

definition pair_invariant :: "'b net \<Rightarrow> (addr \<Rightarrow> pair_state \<Rightarrow> bool) \<Rightarrow> bool" where
  \<comment> \<open>instantiation establishes it and every call the chain can make keeps it\<close>
  "pair_invariant N P \<longleftrightarrow>
     (\<forall>b fs a env m st r. pair_instantiate (n_pcl_crates N) (n_pair_chain N b fs) (at_contract env a) m new_pair_state = Inr (st, r) \<longrightarrow> P a st) \<and>
     (\<forall>b fs a env info ev st st' r. P a st \<longrightarrow>
        pair_call (n_pcl_crates N, n_pair_chain N b fs) (at_contract env a) info ev st = Inr (st', r) \<longrightarrow>
        (\<forall>i data. ev = Reply i data \<longrightarrow> data = n_encode_denom N (lp_token a)) \<longrightarrow> P a st')"

lemma move_keeps_pairs:
  assumes "move N w w'" and "pair_invariant N P" and "pairs_all P w"
  shows "pairs_all P w'"
  using assms(1)
proof cases
  case (Act a st env info ev st' r)
  then have "P a st'" using assms(2) pairs_allD [OF assms(3) Act(1)] unfolding pair_invariant_def lp_token_def by metis
  with Act assms(3) show ?thesis by (simp add: pairs_all_def)
next
  case (Born a env m st r)
  then have "P a st" using assms(2) unfolding pair_invariant_def by metis
  with Born assms(3) show ?thesis by (simp add: pairs_all_def)
qed (use assms(3) in \<open>simp add: pairs_all_def\<close>)

lemma moves_keep_pairs: "moves N w w' \<Longrightarrow> pair_invariant N P \<Longrightarrow> pairs_all P w \<Longrightarrow> pairs_all P w'"
  by (induction rule: rtranclp_induct) (auto intro: move_keeps_pairs)

section \<open>Live pairs\<close>

definition registry_law :: "'b net \<Rightarrow> bool" where
  \<comment> \<open>the coin registry answers with at most 18 decimals, and lists neither LP tokens nor the empty denom\<close>
  "registry_law N \<longleftrightarrow> (\<forall>b fs infos x ps. pq_precisions (n_pair_chain N b fs) infos x = Inr ps \<longrightarrow>
     (\<forall>i p. get_precision (n_pcl_crates N) ps i = Inr p \<longrightarrow> p \<le> 18) \<and>
     NativeToken '''' \<notin> set infos \<and> (\<forall>a. NativeToken (lp_token a) \<notin> set infos))"

definition denom_law :: "'b net \<Rightarrow> bool" where
  \<comment> \<open>the token factory's answer is decoded to the denom it encodes\<close>
  "denom_law N \<longleftrightarrow> (\<forall>a. decode_create_denom (n_pcl_crates N) (n_encode_denom N (lp_token a)) = Inr (lp_token a))"

definition live :: "'b net \<Rightarrow> addr \<Rightarrow> pair_state \<Rightarrow> bool" where
  \<comment> \<open>a pair in operation at its address: two native assets of known precision, none of them its LP
      token; a log of balances of these assets, empty until the pair tracks them\<close>
  "live N a st \<longleftrightarrow> (\<exists>c ps. ps_config st = Some c \<and> ps_precisions st = Some ps \<and> two_natives (asset_infos c) \<and>
     pi_contract_addr (cc_pair_info c) = a \<and> cc_factory_addr c = FACTORY_ADDRESS \<and>
     (\<forall>i p. get_precision (n_pcl_crates N) ps i = Inr p \<longrightarrow> p \<le> 18) \<and>
     lp_denom c \<in> {'''', lp_token a} \<and> NativeToken (lp_denom c) \<notin> set (asset_infos c) \<and>
     NativeToken (lp_token a) \<notin> set (asset_infos c))"

lemma call_precisions:
  assumes "pair_call c env info ev st = Inr (st', r)"
  shows "ps_precisions st' = ps_precisions st"
  using assms
proof (cases rule: pair_call_cases)
  case (Config params)
  from pair_update_config_returns [OF Config(2)] show ?thesis by auto
qed (auto simp: pool_effect_def swap_effect_def)

lemma config_effect_tracking: "config_effect d c c' \<Longrightarrow> cc_track_asset_balances c \<Longrightarrow> cc_track_asset_balances c'"
  by (cases d) (auto simp: config_effect_def dest!: pool_changeD,
      metis pcl_config.select_convs(6) pcl_config.surjective pcl_config.update_convs(3))

lemma call_lp_denom:
  assumes "pair_call c env info ev st = Inr (st', r)" and "ps_config st = Some k"
  shows "\<exists>k'. ps_config st' = Some k' \<and> identity k' = identity k \<and> (cc_track_asset_balances k \<longrightarrow> cc_track_asset_balances k') \<and>
    (lp_denom k' = lp_denom k \<or> lp_denom k = '''' \<and>
      (\<exists>i data. ev = Reply i data \<and> decode_create_denom (fst c) data = Inr (lp_denom k')))"
  using assms(1)
proof (cases rule: pair_call_cases)
  case Liquidity
  with assms(2) show ?thesis by (auto simp: pool_effect_def dest: pool_change_identity pool_changeD)
next
  case (Config params)
  from pair_update_config_returns [OF Config(2)] assms(2) show ?thesis
    by (auto dest: config_effect_identity config_effect_tracking)
next
  case (Claim config n p attrs)
  with assms(2) show ?thesis by (auto simp: identity_def)
next
  case (Swapped sp)
  with assms(2) show ?thesis by (auto simp: swap_effect_def dest: pool_change_identity pool_changeD)
next
  case (Replied denom config i result)
  with assms(2) show ?thesis by (auto simp: identity_def with_pair_info_def)
qed (use assms(2) in auto)

lemma instantiate_live:
  assumes "pair_instantiate (n_pcl_crates N) (n_pair_chain N b fs) (at_contract env a) m new_pair_state = Inr (st, r)"
    and "registry_law N"
  shows "live N a st"
proof -
  from pair_instantiate_returns [OF assms(1)] obtain c ps where c: "ps_config st = Some c" "ps_precisions st = Some ps"
    "identity c = (pim_asset_infos m, a, Custom ''concentrated'', FACTORY_ADDRESS)" "lp_denom c = ''''"
    "two_natives (pim_asset_infos m)" "pq_precisions (n_pair_chain N b fs) (pim_asset_infos m) FACTORY_ADDRESS = Inr ps"
    by (auto simp: born_def)
  from assms(2) c(6) have "\<forall>i p. get_precision (n_pcl_crates N) ps i = Inr p \<longrightarrow> p \<le> 18"
    "NativeToken '''' \<notin> set (pim_asset_infos m)" "NativeToken (lp_token a) \<notin> set (pim_asset_infos m)"
    unfolding registry_law_def by blast+
  with c show ?thesis by (simp add: live_def identity_def)
qed

lemma live_invariant:
  assumes "registry_law N" and "denom_law N"
  shows "pair_invariant N (live N)"
  unfolding pair_invariant_def
proof (intro conjI allI impI)
  fix b fs a env m st r
  assume "pair_instantiate (n_pcl_crates N) (n_pair_chain N b fs) (at_contract env a) m new_pair_state = Inr (st, r)"
  from instantiate_live [OF this assms(1)] show "live N a st" .
next
  fix b fs a env info ev st st' r
  assume l: "live N a st" and call: "pair_call (n_pcl_crates N, n_pair_chain N b fs) (at_contract env a) info ev st = Inr (st', r)"
    and data: "\<forall>i data. ev = Reply i data \<longrightarrow> data = n_encode_denom N (lp_token a)"
  from l obtain c where c: "ps_config st = Some c" by (auto simp: live_def)
  from call_lp_denom [OF call c] data assms(2) obtain c' where c': "ps_config st' = Some c'" "identity c' = identity c"
    "lp_denom c' = lp_denom c \<or> lp_denom c' = lp_token a"
    by (fastforce simp: denom_law_def)
  with l c call_precisions [OF call] show "live N a st'"
    by (auto simp: live_def identity_def)
qed

section \<open>Saved balances are covered\<close>

definition latest :: "(asset_info \<times> u128 \<times> u64) list \<Rightarrow> asset_info \<Rightarrow> u128 option" where
  \<comment> \<open>the last entry of an asset in the balance log: what the snapshot map holds for it now\<close>
  "latest log i = map_option (\<lambda>(_, n, _). n) (find (\<lambda>(j, _, _). j = i) (rev log))"

lemma latest_Nil [simp]: "latest [] i = None"
  by (simp add: latest_def)

lemma find_append: "find P (xs @ ys) = (case find P xs of None \<Rightarrow> find P ys | Some x \<Rightarrow> Some x)"
  by (induction xs) auto

lemma find_member: "find P xs = Some x \<Longrightarrow> x \<in> set xs \<and> P x"
  by (induction xs) (auto split: if_splits)

lemma latest_append:
  "latest (log @ map (\<lambda>(i, n). (i, n, h)) bs) i =
     (case find (\<lambda>(j, _). j = i) (rev bs) of Some (_, n) \<Rightarrow> Some n | None \<Rightarrow> latest log i)"
proof -
  have "find (\<lambda>(j, _, _). j = i) (map (\<lambda>(i, n). (i, n, h)) xs) =
      map_option (\<lambda>(i, n). (i, n, h)) (find (\<lambda>(j, _). j = i) xs)" for xs :: "(asset_info \<times> u128) list"
    by (induction xs) auto
  then show ?thesis by (simp add: latest_def rev_map find_append split: option.splits prod.splits)
qed

lemma latest_member: "latest log i = Some n \<Longrightarrow> \<exists>h. (i, n, h) \<in> set log"
  by (auto simp: latest_def dest!: find_member)

definition covered :: "'b net \<Rightarrow> 'b \<Rightarrow> addr \<Rightarrow> pair_state \<Rightarrow> bool" where
  \<comment> \<open>a pair over two different assets has in the bank what it last saved of each\<close>
  "covered N b a st \<longleftrightarrow> (\<forall>c. ps_config st = Some c \<longrightarrow> distinct (asset_infos c) \<longrightarrow>
     (ps_balances st = [] \<or> cc_track_asset_balances c) \<and> fst ` set (ps_balances st) \<subseteq> set (asset_infos c) \<and>
     (\<forall>d n. latest (ps_balances st) (NativeToken d) = Some n \<longrightarrow> unat n \<le> n_balance N b a d))"

definition balance_law :: "'b net \<Rightarrow> bool" where
  \<comment> \<open>amounts in the bank are \<open>Uint128\<close>; \<open>query_pools\<close> answers with the bank's balances\<close>
  "balance_law N \<longleftrightarrow> (\<forall>b a d. n_balance N b a d < 2 ^ 128) \<and>
     (\<forall>b fs pi a. two_natives (pi_asset_infos pi) \<longrightarrow> pq_pools (n_pair_chain N b fs) pi a =
        Inr (map (\<lambda>i. \<lparr>as_info = i, as_amount = word_of_nat (case i of NativeToken d \<Rightarrow> n_balance N b a d | Token _ \<Rightarrow> 0)\<rparr>)
          (pi_asset_infos pi)))"

lemma covered_mono:
  "covered N b a st \<Longrightarrow> (\<And>d. n_balance N b a d \<le> n_balance N b' a d) \<Longrightarrow> covered N b' a st"
  unfolding covered_def by (meson order_trans)

lemma instantiate_covered:
  assumes "pair_instantiate L Q env m new_pair_state = Inr (st, r)"
  shows "covered N b a st"
proof -
  have "yields (\<lambda>(st, r). \<exists>c. ps_config st = Some c \<and> asset_infos c = pim_asset_infos m \<and>
      ps_balances st = (if cc_track_asset_balances c then map (\<lambda>i. (i, 0, env_height env)) (pim_asset_infos m) else []))
    (pair_instantiate L Q env m new_pair_state)"
    unfolding pair_instantiate_def Let_def
    by (intro yields_rules; (hypsubst+)?) (simp_all add: save_balances_def initial_config_def new_pair_state_def Let_def comp_def)
  from yieldsD [OF this assms] have "\<exists>c. ps_config st = Some c \<and> asset_infos c = pim_asset_infos m \<and>
      ps_balances st = (if cc_track_asset_balances c then map (\<lambda>i. (i, 0, env_height env)) (pim_asset_infos m) else [])" by simp
  then show ?thesis by (auto simp: covered_def dest!: latest_member)
qed

lemma other_calls_pay:
  assumes "pair_call (L, Q) env info ev st = Inr (st', r)" and "\<not> moves_assets ev"
  shows "paid i (resp_msgs r) = 0 \<and> given_back ev r i = 0"
proof (cases "\<exists>params. ev = Execute (UpdateConfig params)")
  case True
  with assms(1) show ?thesis
    by (auto simp: pair_call_def pair_execute_def given_back_def dest!: pair_update_config_returns)
next
  case False
  with other_calls_balances [OF assms] show ?thesis by auto
qed

lemma live_ledger_ready:
  assumes "live N a st" and "ps_config st = Some c" and "exact_law (n_pcl_crates N)" and "balance_law N"
    and "distinct (asset_infos c)"
  shows "\<exists>assets. ledger_ready (n_pcl_crates N) (n_pair_chain N b fs) (at_contract env a) st c assets \<and>
    map as_info assets = asset_infos c \<and>
    (\<forall>x \<in> set assets. \<forall>d. as_info x = NativeToken d \<longrightarrow> unat (as_amount x) = n_balance N b a d)"
proof -
  from assms(1,2) obtain ps where ps: "ps_precisions st = Some ps" "two_natives (asset_infos c)"
    "pi_contract_addr (cc_pair_info c) = a" "\<forall>i p. get_precision (n_pcl_crates N) ps i = Inr p \<longrightarrow> p \<le> 18"
    by (auto simp: live_def)
  let ?assets = "map (\<lambda>i. \<lparr>as_info = i, as_amount = word_of_nat (case i of NativeToken d \<Rightarrow> n_balance N b a d | Token _ \<Rightarrow> 0)\<rparr>)
          (asset_infos c) :: asset list"
  have "pq_pools (n_pair_chain N b fs) (cc_pair_info c) a = Inr ?assets"
    using assms(4) ps(2) by (simp add: balance_law_def)
  moreover have "unat (word_of_nat (n_balance N b a d) :: u128) = n_balance N b a d" for d
    using assms(4) by (simp add: balance_law_def unat_of_nat)
  ultimately show ?thesis
    using assms(2,3,5) ps by (intro exI [of _ ?assets]) (auto simp: ledger_ready_def two_natives_def comp_def)
qed

lemma call_covered:
  assumes live: "live N a st" and cov: "covered N b a st" and laws: "exact_law (n_pcl_crates N)" "balance_law N"
    and call: "pair_call (n_pcl_crates N, n_pair_chain N b fs) (at_contract env a) info ev st = Inr (st', r)"
    and bank: "\<And>d. n_balance N b a d \<le> n_balance N b' a d + paid (NativeToken d) (resp_msgs r) +
       burned d (resp_msgs r) + given_back ev r (NativeToken d)"
  shows "covered N b' a st'"
  unfolding covered_def
proof (intro allI impI)
  fix c' assume c': "ps_config st' = Some c'" and dist': "distinct (asset_infos c')"
  from live obtain c where c: "ps_config st = Some c" and lp: "NativeToken (lp_denom c) \<notin> set (asset_infos c)"
    by (auto simp: live_def)
  from call_lp_denom [OF call c] c' have same: "identity c' = identity c" and
    track: "cc_track_asset_balances c \<Longrightarrow> cc_track_asset_balances c'" by auto
  then have infos: "asset_infos c' = asset_infos c" and dist: "distinct (asset_infos c)"
    using dist' by (simp_all add: identity_def)
  from live_ledger_ready [OF live c laws dist] obtain assets where
    ready: "ledger_ready (n_pcl_crates N) (n_pair_chain N b fs) (at_contract env a) st c assets"
    and assets: "map as_info assets = asset_infos c"
      "\<forall>x \<in> set assets. \<forall>d. as_info x = NativeToken d \<longrightarrow> unat (as_amount x) = n_balance N b a d" by blast
  from call_ledger [OF ready call] c' obtain bs where
    bs: "new_balances (at_contract env a) assets (\<lambda>i. paid i (resp_msgs r) + given_back ev r i) bs st st'"
    and moved: "cc_track_asset_balances c \<and> moves_assets ev \<Longrightarrow> mset (map fst bs) = mset (map as_info assets)"
    and tracking: "bs = [] \<or> cc_track_asset_balances c'" using track by auto
  from cov c dist have old: "ps_balances st = [] \<or> cc_track_asset_balances c"
    "fst ` set (ps_balances st) \<subseteq> set (asset_infos c)"
    "\<And>d n. latest (ps_balances st) (NativeToken d) = Some n \<Longrightarrow> unat n \<le> n_balance N b a d"
    by (auto simp: covered_def)
  have log: "ps_balances st' = ps_balances st @ map (\<lambda>(i, n). (i, n, env_height env)) bs"
    and acc: "\<And>i n. (i, n) \<in> set bs \<Longrightarrow> \<exists>x \<in> set assets. as_info x = i \<and>
      unat (as_amount x) = unat n + (paid i (resp_msgs r) + given_back ev r i)"
    using bs by (auto simp: new_balances_def accounts_def)
  have in_infos: "i \<in> set (asset_infos c)" if "(i, n) \<in> set bs" for i n
    using acc [OF that] assets(1) by (metis image_eqI list.set_map)
  have burn: "burned d (resp_msgs r) = 0" if "NativeToken d \<in> set (asset_infos c)" for d
  proof -
    from call_burns [OF call] c have "burns_own a (lp_denom c) (resp_msgs r)" by auto
    moreover have "d \<noteq> lp_denom c" using that lp by auto
    ultimately show ?thesis by (rule burned_others)
  qed
  have "unat n \<le> n_balance N b' a d" if latest: "latest (ps_balances st') (NativeToken d) = Some n" for d n
  proof (cases "find (\<lambda>(j, _). j = NativeToken d) (rev bs)")
    case (Some x)
    with latest have "(NativeToken d, n) \<in> set bs" by (auto simp: log latest_append dest!: find_member split: prod.splits)
    from acc [OF this] burn [OF in_infos [OF this]] assets(2) bank [of d] show ?thesis by auto
  next
    case None
    with latest have n: "latest (ps_balances st) (NativeToken d) = Some n" by (simp add: log latest_append)
    then have d: "NativeToken d \<in> set (asset_infos c)" and t: "cc_track_asset_balances c"
      using latest_member [OF n] old(1,2) by force+
    have "\<not> moves_assets ev"
    proof
      assume "moves_assets ev"
      with moved t have "set (map fst bs) = set (asset_infos c)" using assets(1) by (metis set_mset_mset)
      with d have "NativeToken d \<in> fst ` set bs" by simp
      then obtain y where "(NativeToken d, y) \<in> set bs" by auto
      with None show False by (auto simp: find_None_iff)
    qed
    from other_calls_pay [OF call this] burn [OF d] bank [of d] old(3) [OF n] show ?thesis by simp
  qed
  moreover have "ps_balances st' = [] \<or> cc_track_asset_balances c'" using log tracking old(1) track by auto
  moreover have "fst ` set (ps_balances st') \<subseteq> set (asset_infos c')"
    using log old(2) in_infos infos by force
  ultimately show "(ps_balances st' = [] \<or> cc_track_asset_balances c') \<and> fst ` set (ps_balances st') \<subseteq> set (asset_infos c') \<and>
     (\<forall>d n. latest (ps_balances st') (NativeToken d) = Some n \<longrightarrow> unat n \<le> n_balance N b' a d)" by blast
qed

definition backed :: "'b net \<Rightarrow> 'b world \<Rightarrow> bool" where
  "backed N w \<longleftrightarrow> pairs_all (\<lambda>a st. covered N (w_bank w) a st) w"

lemma kept_covered:
  "covered N b x s \<Longrightarrow> keeps_balances N A b b' \<Longrightarrow> x \<in> A \<Longrightarrow> covered N b' x s"
  unfolding keeps_balances_def by (erule covered_mono) blast

lemma move_backed:
  assumes "move N w w'" and "backed N w" and "pairs_all (live N) w" and laws: "exact_law (n_pcl_crates N)" "balance_law N"
  shows "backed N w'"
  using assms(1)
proof cases
  case Elsewhere
  with assms(2) show ?thesis
    by (auto simp: backed_def pairs_all_def intro: kept_covered fmdom'I)
next
  case (Born a env m st r)
  with assms(2) instantiate_covered [OF Born(5)] show ?thesis by (auto simp: backed_def pairs_all_def)
next
  case (Act a st env info ev st' r)
  have "covered N (w_bank w') a st'"
    by (rule call_covered [OF pairs_allD [OF assms(3) Act(1)] _ laws Act(2) Act(6)])
      (use assms(2) Act(1) in \<open>simp add: backed_def pairs_all_def\<close>)
  moreover have "covered N (w_bank w') x s" if "fmlookup (w_pairs w) x = Some s" "x \<noteq> a" for x s
    using that assms(2) by (intro kept_covered [OF _ Act(5)]) (simp_all add: backed_def pairs_all_def fmdom'I)
  ultimately show ?thesis using Act(4) by (simp add: backed_def pairs_all_def)
qed

lemma moves_backed:
  assumes "moves N w w'" and "backed N w" and "pairs_all (live N) w" and "registry_law N" and "denom_law N"
    and laws: "exact_law (n_pcl_crates N)" "balance_law N"
  shows "backed N w' \<and> pairs_all (live N) w'"
  using assms(1)
proof induction
  case base
  show ?case using assms(2,3) by simp
next
  case (step u v)
  from step.IH move_backed [OF step.hyps(2) _ _ laws] move_keeps_pairs [OF step.hyps(2) live_invariant [OF assms(4,5)]]
  show ?case by blast
qed

interpretation books: reachable_invariant N "deployed N \<and> bank_laws N \<and> outside_law N \<and> registry_law N \<and> denom_law N \<and>
    exact_law (n_pcl_crates N) \<and> balance_law N" "\<lambda>w. backed N w \<and> pairs_all (live N) w" for N
proof
  fix w :: "'a world"
  assume "w_pairs w = fmempty"
  then show "backed N w \<and> pairs_all (live N) w" by (simp add: backed_def pairs_all_def)
next
  fix w w' assume "deployed N \<and> bank_laws N \<and> outside_law N \<and> registry_law N \<and> denom_law N \<and>
      exact_law (n_pcl_crates N) \<and> balance_law N" "reachable N w" "backed N w \<and> pairs_all (live N) w" "chain_step N w w'"
  then show "backed N w' \<and> pairs_all (live N) w'" using reachable_step_moves [of N w w'] moves_backed [of N w w'] by blast
qed

lemmas reachable_backed = books.inv_reachable

end
