(* ===== verification/World_Creation.thy ===== *)
theory World_Creation
  imports World_Invariants
begin

text \<open>
  The creation of a pair as one transaction, and the registry it leaves: \<open>created\<close> is the world
  after a successful \<open>CreatePair\<close>, and in every reachable world each registered key belongs to a
  live pair over the assets of that key, which knows its LP token and its pool id.
\<close>

section \<open>The creation transaction\<close>

definition pool_id_law :: "'b net \<Rightarrow> bool" where
  \<comment> \<open>the pool module's answer is decoded to the pool id it encodes\<close>
  "pool_id_law N \<longleftrightarrow> (\<forall>p. decode_create_pool (n_factory_crates N) (n_encode_pool_id N p) = Inr p)"

definition concentrated :: "asset_info list \<Rightarrow> addr \<Rightarrow> asset_info list \<times> addr \<times> pair_type \<times> addr" where
  "concentrated infos a = (infos, a, Custom ''concentrated'', FACTORY_ADDRESS)"

definition created :: "'b net \<Rightarrow> asset_info list \<Rightarrow> 'b world \<Rightarrow> addr \<Rightarrow> u64 \<Rightarrow> 'b world \<Rightarrow> bool" where
  \<comment> \<open>a new pair over these assets, live, registered, and numbered by the pool module\<close>
  "created N infos w a p w' \<longleftrightarrow>
     a \<notin> fmdom' (w_pairs w) \<and> distinct infos \<and> two_natives infos \<and>
     unat p = fcard (fmdom (w_pools w)) + 1 \<and> w_pools w' = fmupd p a (w_pools w) \<and>
     fmlookup (fs_pairs (w_factory w)) (pair_key (n_factory_crates N) infos) = None \<and>
     fs_pairs (w_factory w') = fmupd (pair_key (n_factory_crates N) infos) a (fs_pairs (w_factory w)) \<and>
     w_maker w' = w_maker w \<and>
     (\<exists>st. w_pairs w' = fmupd a st (w_pairs w) \<and> ps_swap_params st = None \<and>
        settled (concentrated infos a) (Some (lp_token a)) (Some p) st)"

lemma create_pool_Some:
  assumes "create_pool N env code m w = Some (w', p)"
  shows "\<exists>a st st' r r'. code = n_pair_code N \<and> a \<notin> fmdom' (w_pairs w) \<and>
    pair_instantiate (n_pcl_crates N) (pair_asks N w) (at_contract env a) m new_pair_state = Inr (st, r) \<and>
    pair_reply (n_pcl_crates N) CREATE_DENOM_REPLY_ID (n_encode_denom N (lp_token a)) st = Inr (st', r') \<and>
    add_checked (word_of_nat (fcard (fmdom (w_pools w)))) 1 = Some p \<and>
    w' = w\<lparr>w_pairs := fmupd a st' (w_pairs w), w_pools := fmupd p a (w_pools w)\<rparr>"
proof -
  from assms obtain v a where code: "code = n_pair_code N" and v: "instantiate_pair N env m w = Some (v, a)"
    and p: "add_checked (word_of_nat (fcard (fmdom (w_pools v)))) 1 = Some p"
    and w': "w' = v\<lparr>w_pools := fmupd p a (w_pools v)\<rparr>"
    by (auto simp: create_pool_def split: Option.bind_splits if_splits)
  from instantiate_pair_Some [OF v] obtain st st' r r' where s: "a \<notin> fmdom' (w_pairs w)"
    "pair_instantiate (n_pcl_crates N) (pair_asks N w) (at_contract env a) m new_pair_state = Inr (st, r)"
    "pair_reply (n_pcl_crates N) CREATE_DENOM_REPLY_ID (n_encode_denom N (lp_token a)) st = Inr (st', r')"
    "v = w\<lparr>w_pairs := fmupd a st' (w_pairs w)\<rparr>"
    unfolding lp_token_def by blast
  have "add_checked (word_of_nat (fcard (fmdom (w_pools w)))) 1 = Some p" using p s(4) by simp
  with code s(1-3) w' s(4) show ?thesis
    by (intro exI [of _ a] exI [of _ st] exI [of _ st'] exI [of _ r] exI [of _ r']) simp
qed

lemma lp_token_nonempty [simp]: "lp_token a \<noteq> ''''"
  by (simp add: lp_token_def)

lemma new_pair_settled:
  assumes "pair_instantiate L Q env m new_pair_state = Inr (st, r)"
    and "pair_reply L CREATE_DENOM_REPLY_ID data st = Inr (st', r')" and "decode_create_denom L data = Inr (lp_token a)"
  shows "two_natives (pim_asset_infos m) \<and> ps_swap_params st' = None \<and> ps_pool_id st' = None \<and>
    settled (concentrated (pim_asset_infos m) (env_contract env)) (Some (lp_token a)) None st'"
proof -
  from pair_instantiate_returns [OF assms(1)] have "born Q env m new_pair_state st" by blast
  with assms(2,3) show ?thesis
    by (auto simp: born_def pair_reply_returns settled_def concentrated_def identity_def with_pair_info_def new_pair_state_def)
qed

lemma register_and_number:
  assumes reply: "factory_reply (n_factory_crates N) (factory_asks N env v) INSTANTIATE_PAIR_REPLY_ID (n_encode_pool_id N p)
      (w_factory v) = Inr (fs, r)"
    and rest: "factory_respond (Suc 0) N env (resp_msgs r) (v\<lparr>w_factory := fs\<rparr>) = Some w'"
    and laws: "deployed N" "pool_id_law N"
    and pool: "fmlookup (w_pools v) p = Some a" and st: "fmlookup (w_pairs v) a = Some st" "ps_pool_id st = None"
  shows "\<exists>tmp. fs_tmp_pair_info (w_factory v) = Some tmp \<and> fmlookup (fs_pairs (w_factory v)) (tp_pair_key tmp) = None \<and>
    w' = v\<lparr>w_factory := (w_factory v)\<lparr>fs_pairs := fmupd (tp_pair_key tmp) a (fs_pairs (w_factory v))\<rparr>,
           w_pairs := fmupd a (st\<lparr>ps_pool_id := Some p\<rparr>) (w_pairs v)\<rparr>"
proof -
  from factory_reply_returns [OF reply] laws pool obtain tmp where tmp: "fs_tmp_pair_info (w_factory v) = Some tmp"
    "fmlookup (fs_pairs (w_factory v)) (tp_pair_key tmp) = None"
    "fs = (w_factory v)\<lparr>fs_pairs := fmupd (tp_pair_key tmp) a (fs_pairs (w_factory v))\<rparr>"
    "resp_msgs r = [\<lparr>sub_id = SET_POOL_ID_FAILED_REPLY_ID, sub_msg = ExecuteSetPoolId a p, sub_reply_on = OnError\<rparr>]"
    by (fastforce simp: INSTANTIATE_PAIR_REPLY_ID_def SET_POOL_ID_FAILED_REPLY_ID_def pool_id_law_def factory_asks_def
        pool_contract_def deployed_def res_simps)
  have set_id: "pair_execute L Q e \<lparr>mi_sender = n_factory N, mi_funds = []\<rparr> (SetPoolId p) st =
      Inr (st\<lparr>ps_pool_id := Some p\<rparr>, pair_response [(''set_pool_id'', to_string p)] [])" for L :: pcl_crates and Q e
    using laws(1) st(2) by (simp add: pair_execute_def set_pool_id_def deployed_def)
  from rest tmp(1,2) show ?thesis
    by (simp add: tmp(3,4) call_pair_def st(1) set_id numeral_2_eq_2 split: option.splits)
qed

lemma create_pair_tx:
  assumes "tx_factory N env info (CreatePair pt infos ip) w = Some w'" and "steady {} w"
    and laws: "deployed N" "pool_id_law N" "denom_law N"
  shows "\<exists>a p. created N infos w a p w'"
proof -
  from assms(1) obtain w1 f1 r1 where w1: "pay_in N info (n_factory N) w = Some w1"
    and f1: "factory_execute (n_factory_crates N) (factory_asks N env w1) (at_contract env (n_factory N)) info
        (CreatePair pt infos ip) (w_factory w1) = Inr (f1, r1)"
    and rest: "factory_respond 2 N env (resp_msgs r1) (w1\<lparr>w_factory := f1\<rparr>) = Some w'"
    by (auto simp: tx_factory_def simp del: factory_respond.simps split: Option.bind_splits)
  note same = bank_onlyD [OF pay_in_only [OF w1]]
  define im where "im = \<lparr>pim_asset_infos = infos, pim_token_code_id = 0, pim_factory_addr = n_factory N, pim_init_params = ip\<rparr>"
  from f1 obtain code x where c: "distinct infos" "pim_asset_infos im = infos"
    "fmlookup (fs_pairs (w_factory w)) (pair_key (n_factory_crates N) infos) = None"
    "f1 = (w_factory w)\<lparr>fs_tmp_pair_info := Some \<lparr>tp_pair_key = pair_key (n_factory_crates N) infos\<rparr>\<rparr>"
    "resp_msgs r1 = [\<lparr>sub_id = INSTANTIATE_PAIR_REPLY_ID, sub_msg = MsgCreateCosmWasmPool code im x, sub_reply_on = OnSuccess\<rparr>]"
    by (auto simp: factory_execute_def create_pair_returns same im_def)
  let ?w1 = "w1\<lparr>w_factory := f1\<rparr>"
  from rest obtain v p f2 r2 where v: "create_pool N env code im ?w1 = Some (v, p)"
    and f2: "factory_reply (n_factory_crates N) (factory_asks N env v) INSTANTIATE_PAIR_REPLY_ID (n_encode_pool_id N p)
      (w_factory v) = Inr (f2, r2)"
    and w': "factory_respond (Suc 0) N env (resp_msgs r2) (v\<lparr>w_factory := f2\<rparr>) = Some w'"
    unfolding numeral_2_eq_2 factory_respond.simps(2) [of "Suc 0"]
    by (auto simp: c(5) simp del: factory_respond.simps split: option.splits Option.bind_splits)
  from create_pool_Some [OF v] obtain a st0 st ra rb where a: "a \<notin> fmdom' (w_pairs w)"
    and inst: "pair_instantiate (n_pcl_crates N) (pair_asks N ?w1) (at_contract env a) im new_pair_state = Inr (st0, ra)"
      "pair_reply (n_pcl_crates N) CREATE_DENOM_REPLY_ID (n_encode_denom N (lp_token a)) st0 = Inr (st, rb)"
    and p: "add_checked (word_of_nat (fcard (fmdom (w_pools w)))) 1 = Some p"
    and vv: "v = ?w1\<lparr>w_pairs := fmupd a st (w_pairs w), w_pools := fmupd p a (w_pools w)\<rparr>"
    by (auto simp: same)
  from new_pair_settled [OF inst, of a] laws(3) have st: "two_natives infos" "ps_swap_params st = None" "ps_pool_id st = None"
    "settled (concentrated infos a) (Some (lp_token a)) None st" by (simp_all add: denom_law_def c(2))
  from register_and_number [OF f2 w' laws(1,2), of a st] vv st(3)
  have "w' = v\<lparr>w_factory := f1\<lparr>fs_pairs := fmupd (pair_key (n_factory_crates N) infos) a (fs_pairs (w_factory w))\<rparr>,
      w_pairs := fmupd a (st\<lparr>ps_pool_id := Some p\<rparr>) (w_pairs v)\<rparr>" by (auto simp: c(4))
  with vv same a c st fresh_pool_id [OF assms(2) p] have "created N infos w a p w'"
    by (auto simp: created_def settled_def fmupd_idem)
  then show ?thesis by blast
qed

section \<open>What touches neither the factory nor the maker\<close>

definition same_contracts :: "'b world \<Rightarrow> 'b world \<Rightarrow> bool" where
  "same_contracts w w' \<longleftrightarrow> w_factory w' = w_factory w \<and> w_maker w' = w_maker w"

lemma same_contracts_refl [simp]: "same_contracts w w"
  by (simp add: same_contracts_def)

lemma call_pair_factory: "call_pair a f w = Some (w', r) \<Longrightarrow> same_contracts w w'"
  by (auto simp: call_pair_Some same_contracts_def)

lemma swap_along_factory:
  assumes "swap_along N env resp sender m routes c w = Some w'"
    and "\<And>a subs v v'. resp a subs v = Some v' \<Longrightarrow> same_contracts v v'"
  shows "same_contracts w w'"
  using assms(1)
proof (induction routes arbitrary: c w)
  case (Cons h routes)
  obtain p d where h: "h = (p, d)" by (cases h)
  from Cons.prems(1) obtain a w1 msg w2 r w3 c' where a: "on_bank (n_send N sender a [c]) w = Some w1"
    "sudo_pair N env a msg w1 = Some (w2, r)" "resp a (resp_msgs r) w2 = Some w3"
    "swap_along N env resp sender m routes c' w3 = Some w'"
    unfolding h swap_along_Some by blast
  from on_bank_selects [OF a(1)] call_pair_factory [OF a(2) [unfolded sudo_pair_def]] assms(2) [OF a(3)] Cons.IH [OF a(4)]
  show ?case by (simp add: same_contracts_def)
qed simp

lemma swap_exact_in_factory:
  "swap_exact_in N env resp sender routes c m w = Some w' \<Longrightarrow>
     (\<And>a subs v v'. resp a subs v = Some v' \<Longrightarrow> same_contracts v v') \<Longrightarrow> same_contracts w w'"
  by (auto simp: swap_exact_in_def split: if_splits dest: swap_along_factory)

lemma pair_respond_factory: "pair_respond n N env a subs w = Some w' \<Longrightarrow> same_contracts w w'"
proof (induction n arbitrary: a subs w w')
  case 0
  then show ?case by (auto split: if_splits)
next
  case (Suc n)
  show ?case
  proof (rule run_submsgs_keeps [where P = "same_contracts w", OF Suc.prems [unfolded pair_respond.simps]], goal_cases)
    case (2 s v v' d)
    then show ?case
      by (auto simp: same_contracts_def split: pair_msg.splits asset_info.splits dest!: on_bank_selects swap_exact_in_factory [OF _ Suc.IH])
  next
    case (3 i d v v')
    then show ?case by (auto simp: same_contracts_def split: Option.bind_splits dest!: call_pair_factory Suc.IH)
  qed simp
qed

lemma swap_exact_out_factory:
  assumes "swap_exact_out N env (pair_respond n N env) sender routes m out w = Some w'"
  shows "same_contracts w w'"
proof -
  from assms obtain a b w1 msg w2 r w3 where a: "on_bank (n_send N sender a b) w = Some w1"
    "sudo_pair N env a msg w1 = Some (w2, r)" "pair_respond n N env a (resp_msgs r) w2 = Some w3"
    "w' = w3 \<or> (\<exists>f. on_bank f w3 = Some w')"
    unfolding swap_exact_out_Some by (fastforce split: if_splits)
  from on_bank_selects [OF a(1)] call_pair_factory [OF a(2) [unfolded sudo_pair_def]] pair_respond_factory [OF a(3)] a(4)
  show ?thesis by (auto simp: same_contracts_def dest!: on_bank_selects)
qed

lemma maker_respond_factory: "maker_respond n N env subs w = Some w' \<Longrightarrow> same_contracts w w'"
proof (induction n arbitrary: subs w w')
  case 0
  then show ?case by (auto split: if_splits)
next
  case (Suc n)
  show ?case
  proof (rule run_submsgs_keeps [where P = "same_contracts w", OF Suc.prems [unfolded maker_respond.simps]], goal_cases)
    case (2 s v v' d)
    then show ?case
      by (auto simp: same_contracts_def simp del: pair_respond.simps split: maker_msg.splits Option.bind_splits
          dest!: on_bank_selects swap_exact_in_factory [OF _ pair_respond_factory])
  next
    case (3 i d v v')
    then show ?case by (auto simp: same_contracts_def maker_reply_def res_simps simp del: maker_respond.simps split: Option.bind_splits if_splits
          dest!: Suc.IH)
  qed simp
qed

lemma step_keeps_factory:
  assumes "chain_step N w w'"
  shows "w_factory w' = w_factory w \<or> (\<exists>env info msg. outsider N w (mi_sender info) \<and> tx_factory N env info msg w = Some w')"
  using assms
proof cases
  case (Call_pair info env a msg)
  then have "w_factory w' = w_factory w"
    by (auto simp: tx_pair_def simp del: pair_respond.simps split: Option.bind_splits
        dest!: pay_in_only pair_respond_factory call_pair_factory simp: bank_onlyD same_contracts_def)
  then show ?thesis by blast
next
  case (Call_maker info env msg)
  then have "w_factory w' = w_factory w"
    by (auto simp: tx_maker_def simp del: maker_respond.simps split: Option.bind_splits
        dest!: pay_in_only maker_respond_factory simp: bank_onlyD same_contracts_def)
  then show ?thesis by blast
next
  case Dex_in
  from swap_exact_in_factory [OF this(2)] pair_respond_factory have "same_contracts w w'" by blast
  then show ?thesis by (simp add: same_contracts_def)
next
  case Dex_out
  from swap_exact_out_factory [OF this(2)] show ?thesis by (simp add: same_contracts_def)
next
  case New_pool
  then show ?thesis by (auto dest!: create_pool_Some)
next
  case New_pair
  then show ?thesis by (auto dest!: instantiate_pair_Some)
next
  case Migrate_pair
  then show ?thesis by (auto simp: same_contracts_def dest: call_pair_factory)
qed auto

section \<open>The registry\<close>

lemma move_settled:
  assumes "move N w w'" and "fmlookup (w_pairs w) a = Some st" and "settled i denom p st"
  shows "\<exists>st'. fmlookup (w_pairs w') a = Some st' \<and> settled i denom p st'"
  using assms(1)
proof cases
  case (Act b st0 env info ev st' r)
  with assms(2,3) call_settled [OF Act(2)] show ?thesis by (cases "a = b") auto
next
  case (Born b env m st0 r)
  then have "b \<noteq> a" using fmdom'I [OF assms(2)] by blast
  with Born(1) assms(2,3) show ?thesis by auto
qed (use assms(2,3) in auto)

lemma moves_settled:
  "moves N w w' \<Longrightarrow> fmlookup (w_pairs w) a = Some st \<Longrightarrow> settled i denom p st \<Longrightarrow>
     \<exists>st'. fmlookup (w_pairs w') a = Some st' \<and> settled i denom p st'"
proof (induction rule: rtranclp_induct)
  case (step v u)
  then show ?case by (meson move_settled)
qed blast

definition registered :: "'b net \<Rightarrow> 'b world \<Rightarrow> bool" where
  \<comment> \<open>every key of the registry is the key of a live pair's assets, with its LP token and its pool id\<close>
  "registered N w \<longleftrightarrow> (\<forall>k a. fmlookup (fs_pairs (w_factory w)) k = Some a \<longrightarrow>
     (\<exists>infos p st. k = pair_key (n_factory_crates N) infos \<and> fmlookup (w_pairs w) a = Some st \<and>
        settled (concentrated infos a) (Some (lp_token a)) (Some p) st))"

lemma registered_kept:
  assumes "registered N w" and "\<And>k a. fmlookup (fs_pairs (w_factory w')) k = Some a \<Longrightarrow> fmlookup (fs_pairs (w_factory w)) k = Some a"
    and "moves N w w'"
  shows "registered N w'"
  unfolding registered_def
proof (intro allI impI)
  fix k a assume "fmlookup (fs_pairs (w_factory w')) k = Some a"
  with assms(1,2) obtain infos p st where k: "k = pair_key (n_factory_crates N) infos" "fmlookup (w_pairs w) a = Some st"
    "settled (concentrated infos a) (Some (lp_token a)) (Some p) st" unfolding registered_def by blast
  from moves_settled [OF assms(3) k(2,3)] k(1)
  show "\<exists>infos p st. k = pair_key (n_factory_crates N) infos \<and> fmlookup (w_pairs w') a = Some st \<and>
        settled (concentrated infos a) (Some (lp_token a)) (Some p) st" by blast
qed

lemma created_registered: "registered N w \<Longrightarrow> created N infos w a p w' \<Longrightarrow> registered N w'"
  unfolding registered_def created_def
  by (auto simp: fmdom'I) (metis fmdom'I)+

lemma other_factory_messages:
  assumes "factory_execute L Q env info msg st = Inr (st', r)" and "\<And>pt infos ip. msg \<noteq> CreatePair pt infos ip"
  shows "(\<forall>k a. fmlookup (fs_pairs st') k = Some a \<longrightarrow> fmlookup (fs_pairs st) k = Some a) \<and>
    (resp_msgs r = [] \<or> (\<exists>g lp. resp_msgs r = [submsg_new (DeactivatePool g lp)]))"
proof -
  have "fmlookup (fs_pairs st') k = Some a \<Longrightarrow> fmlookup (fs_pairs st) k = Some a" for k a
    using call_pairs [of "(L, Q)" env info "Exec msg" st st' r] assms(1)
    by (cases "fs_pairs st' = fs_pairs st") (auto simp: factory_call_def split: if_splits)
  moreover have "resp_msgs r = [] \<or> (\<exists>g lp. resp_msgs r = [submsg_new (DeactivatePool g lp)])"
  proof (cases msg)
    case (UpdateConfig a b c d e)
    with assms(1) show ?thesis
      by (auto simp: factory_execute_def execute_update_config_def res_simps Let_def attrs_response_def split: if_splits option.splits)
  next
    case (UpdatePairConfig pc)
    with assms(1) show ?thesis by (auto simp: factory_execute_def update_pair_config_returns)
  next
    case (Deregister infos)
    with assms(1) have "deregister L Q info infos st = Inr (st', r)" by (simp add: factory_execute_def)
    from deregister_returns [OF this] show ?thesis by (auto split: option.splits)
  qed (use assms in \<open>auto simp: factory_execute_def res_simps\<close>)
  ultimately show ?thesis by blast
qed

lemma other_factory_tx:
  assumes "tx_factory N env info msg w = Some w'" and "\<And>pt infos ip. msg \<noteq> CreatePair pt infos ip"
    and "fmlookup (fs_pairs (w_factory w')) k = Some a"
  shows "fmlookup (fs_pairs (w_factory w)) k = Some a"
proof -
  from assms(1) obtain w1 fs r where w1: "pay_in N info (n_factory N) w = Some w1"
    and fs: "factory_execute (n_factory_crates N) (factory_asks N env w1) (at_contract env (n_factory N)) info msg
        (w_factory w1) = Inr (fs, r)"
    and rest: "factory_respond 2 N env (resp_msgs r) (w1\<lparr>w_factory := fs\<rparr>) = Some w'"
    by (auto simp: tx_factory_def simp del: factory_respond.simps split: Option.bind_splits)
  from other_factory_messages [OF fs assms(2)] rest have "w_factory w' = fs"
    by (auto simp: numeral_2_eq_2 submsg_new_def split: option.splits dest!: on_bank_selects)
  with other_factory_messages [OF fs assms(2)] assms(3) pay_in_only [OF w1] show ?thesis by (simp add: bank_onlyD)
qed

lemma step_registered:
  assumes "chain_step N w w'" and "reachable N w" and "registered N w"
    and laws: "deployed N" "bank_laws N" "outside_law N" "pool_id_law N" "denom_law N"
  shows "registered N w'"
proof -
  have steady: "steady {} w" by (rule reachable_steady [OF assms(2) laws(1)])
  have moves: "moves N w w'" using laws(1-3) by (intro reachable_step_moves [OF _ assms(2,1)]) simp
  from step_keeps_factory [OF assms(1)] show ?thesis
  proof
    assume "w_factory w' = w_factory w"
    with registered_kept [OF assms(3) _ moves] show ?thesis by simp
  next
    assume "\<exists>env info msg. outsider N w (mi_sender info) \<and> tx_factory N env info msg w = Some w'"
    then obtain env info msg where tx: "tx_factory N env info msg w = Some w'" by blast
    show ?thesis
    proof (cases "\<exists>pt infos ip. msg = CreatePair pt infos ip")
      case True
      with create_pair_tx [OF _ steady laws(1,4,5)] tx created_registered assms(3) show ?thesis by blast
    next
      case False
      with registered_kept [OF assms(3) other_factory_tx [OF tx] moves] show ?thesis by blast
    qed
  qed
qed

interpretation registry: reachable_invariant N "deployed N \<and> bank_laws N \<and> outside_law N \<and> pool_id_law N \<and> denom_law N"
  "registered N" for N
proof
  fix w :: "'a world"
  assume "fs_pairs (w_factory w) = fmempty"
  then show "registered N w" by (simp add: registered_def)
qed (blast intro: step_registered)

lemmas reachable_registered = registry.inv_reachable

end
