(* ===== verification/World_Settlement.thy ===== *)
theory World_Settlement
  imports World_Creation Maker_Runs
begin

text \<open>
  Whole transactions on the bank: what an exact-out swap of the pool module and a user's swap
  move between the accounts, and where the ASTRO of a collect goes.
\<close>

unbundle bit_operations_syntax

section \<open>The payments of a trade\<close>

definition held :: "bool \<Rightarrow> u128 \<Rightarrow> nat" where
  "held b n = (if b then unat n else 0)"

lemma send_one:
  assumes "bank_laws N" and "on_bank (n_send N a b [\<lparr>coin_denom = d, coin_amount = n\<rparr>]) w = Some w'"
  shows "n_balance N (w_bank w') x y + held (x = a \<and> y = d) n = n_balance N (w_bank w) x y + held (x = b \<and> y = d) n"
proof -
  from assms(2) obtain k where k: "n_send N a b [\<lparr>coin_denom = d, coin_amount = n\<rparr>] (w_bank w) = Some k" "w_bank w' = k"
    by (auto simp: on_bank_def)
  have "amount_of y [\<lparr>coin_denom = d, coin_amount = n\<rparr>] = held (y = d) n" by (simp add: held_def)
  with bank_lawsD(1) [OF assms(1) k(1), of x y] k(2) show ?thesis by (auto simp: held_def split: if_splits)
qed

definition gained :: "addr \<Rightarrow> string \<Rightarrow> pair_msg submsg list \<Rightarrow> nat" where
  \<comment> \<open>what the transfers and mints of a response bring an account in a denom\<close>
  "gained x y subs = sum_list (map (\<lambda>s. case sub_msg s of
     TransferAsset z to \<Rightarrow> held (x = to \<and> NativeToken y = as_info z) (as_amount z)
   | MsgMint _ c to \<Rightarrow> held (x = to \<and> y = coin_denom c) (coin_amount c) | _ \<Rightarrow> 0) subs)"

definition lost :: "addr \<Rightarrow> addr \<Rightarrow> string \<Rightarrow> pair_msg submsg list \<Rightarrow> nat" where
  \<comment> \<open>what the transfers and burns of a response of \<open>a\<close> take from an account\<close>
  "lost a x y subs = sum_list (map (\<lambda>s. case sub_msg s of
     TransferAsset z _ \<Rightarrow> held (x = a \<and> NativeToken y = as_info z) (as_amount z)
   | MsgBurn u c _ \<Rightarrow> held (x = u \<and> y = coin_denom c) (coin_amount c) | _ \<Rightarrow> 0) subs)"

lemma settlement_simps [simp]:
  "gained x y [] = 0" "lost a x y [] = 0"
  "gained x y (submsg_new (TransferAsset z to) # subs) = held (x = to \<and> NativeToken y = as_info z) (as_amount z) + gained x y subs"
  "gained x y (submsg_new (MsgMint u c to) # subs) = held (x = to \<and> y = coin_denom c) (coin_amount c) + gained x y subs"
  "gained x y (submsg_new (MsgBurn u c to) # subs) = gained x y subs"
  "lost a x y (submsg_new (TransferAsset z to) # subs) = held (x = a \<and> NativeToken y = as_info z) (as_amount z) + lost a x y subs"
  "lost a x y (submsg_new (MsgMint u c to) # subs) = lost a x y subs"
  "lost a x y (submsg_new (MsgBurn u c to) # subs) = held (x = u \<and> y = coin_denom c) (coin_amount c) + lost a x y subs"
  "gained x y (subs @ subs') = gained x y subs + gained x y subs'"
  "lost a x y (subs @ subs') = lost a x y subs + lost a x y subs'"
  by (simp_all add: gained_def lost_def submsg_new_def)

lemma amount_of_one: "amount_of y [c] = held (y = coin_denom c) (coin_amount c)"
  by (auto simp: held_def)

lemma payment_exact:
  assumes "pair_respond (Suc n) N env a [s] w = Some w'" and "pays_only [s]" and "bank_laws N"
  shows "n_balance N (w_bank w') x y + lost a x y [s] = n_balance N (w_bank w) x y + gained x y [s]"
proof (cases "sub_msg s")
  case (MsgMint v c to)
  with assms(1,2) obtain b' where "n_mint N to [c] (w_bank w) = Some b'" "w_bank w' = b'"
    by (auto simp: pays_only_def on_bank_def split: option.splits)
  with bank_lawsD(3) [OF assms(3)] MsgMint show ?thesis
    by (auto simp: gained_def lost_def held_def amount_of_one simp del: amount_of_simps split: if_splits)
next
  case (MsgBurn v c holder)
  with assms(1,2) obtain b' where "n_burn N v [c] (w_bank w) = Some b'" "w_bank w' = b'"
    by (auto simp: pays_only_def on_bank_def split: option.splits)
  with bank_lawsD(4) [OF assms(3) this(1), of x y] MsgBurn show ?thesis
    by (auto simp: gained_def lost_def held_def amount_of_one simp del: amount_of_simps split: if_splits)
next
  case (TransferAsset z to)
  with assms(1,2) obtain d where d: "as_info z = NativeToken d"
    "on_bank (n_send N a to [\<lparr>coin_denom = d, coin_amount = as_amount z\<rparr>]) w = Some w'"
    by (auto simp: pays_only_def split: option.splits asset_info.splits)
  from send_one [OF assms(3) d(2), of x y] d(1) TransferAsset show ?thesis by (simp add: gained_def lost_def)
qed (use assms(2) in \<open>auto simp: pays_only_def\<close>)

text \<open>A response that only pays moves exactly what its messages say.\<close>

lemma payments_exact:
  assumes "pair_respond (Suc n) N env a subs w = Some w'" and "pays_only subs" and "bank_laws N"
  shows "n_balance N (w_bank w') x y + lost a x y subs = n_balance N (w_bank w) x y + gained x y subs"
  using assms(1,2)
proof (induction subs arbitrary: w)
  case (Cons s subs)
  from Cons.prems(2) have s: "sub_reply_on s = Never" "pays_only [s]" "pays_only subs" by (auto simp: pays_only_def)
  from run_submsgs_one [OF Cons.prems(1) [unfolded pair_respond.simps(2)] s(1)]
  obtain v where v: "pair_respond (Suc n) N env a [s] w = Some v" "pair_respond (Suc n) N env a subs v = Some w'"
    unfolding pair_respond.simps(2) by blast
  from payment_exact [OF v(1) s(2) assms(3), of x y] Cons.IH [OF v(2) s(3)] show ?case by (simp add: gained_def lost_def)
qed simp

definition pays_trade :: "fee_info \<Rightarrow> asset_info \<Rightarrow> u128 \<Rightarrow> addr \<Rightarrow> pair_msg submsg list \<Rightarrow> bool" where
  \<comment> \<open>the return to the receiver, then at most one payment, to the fee address\<close>
  "pays_trade fees ask ret to msgs \<longleftrightarrow>
     (\<exists>rest. msgs = submsg_new (TransferAsset \<lparr>as_info = ask, as_amount = ret\<rparr> to) # rest \<and>
       (rest = [] \<or> (\<exists>z n. fi_fee_address fees = Some z \<and> n \<noteq> 0 \<and>
          rest = [submsg_new (TransferAsset \<lparr>as_info = ask, as_amount = n\<rparr> z)])))"

lemma trade_settles:
  assumes "pair_respond (Suc n) N env a msgs w = Some w'" and "pays_trade fees ask ret to msgs" and "bank_laws N"
  shows "\<exists>d fee fee_to. ask = NativeToken d \<and> (fee = 0 \<or> fi_fee_address fees = Some fee_to) \<and>
    (\<forall>x y. n_balance N (w_bank w') x y + held (x = a \<and> y = d) ret + held (x = a \<and> y = d) fee =
       n_balance N (w_bank w) x y + held (x = to \<and> y = d) ret + held (x = fee_to \<and> y = d) fee)"
proof -
  from assms(2) have pays: "pays_only msgs" by (auto simp: pays_trade_def)
  note moved = payments_exact [OF assms(1) this assms(3)]
  from assms(1,2) obtain d where d: "ask = NativeToken d"
    by (cases ask) (auto simp: pays_trade_def submsg_new_def split: option.splits)
  have "\<exists>fee fee_to. (fee = 0 \<or> fi_fee_address fees = Some fee_to) \<and>
    (\<forall>x y. lost a x y msgs = held (x = a \<and> y = d) ret + held (x = a \<and> y = d) fee \<and>
       gained x y msgs = held (x = to \<and> y = d) ret + held (x = fee_to \<and> y = d) fee)"
    using assms(2) unfolding pays_trade_def d
  proof (elim exE conjE disjE)
    fix rest assume "msgs = submsg_new (TransferAsset \<lparr>as_info = NativeToken d, as_amount = ret\<rparr> to) # rest" "rest = []"
    then show ?thesis by (intro exI [of _ 0]) (simp add: held_def)
  qed auto
  with moved d show ?thesis by (metis (no_types, lifting) add.assoc)
qed

section \<open>Exact-out swaps\<close>

lemma exact_out_settlement:
  assumes "swap_exact_out N env (respond N env) sender routes m_text out w = Some w'" and "bank_laws N"
  shows "\<exists>p d routes' a m charged st c b fees ret fee fee_to. routes = (p, d) # routes' \<and> fmlookup (w_pools w) p = Some a \<and>
    parse_u128 m_text = Inr m \<and> charged \<le> m \<and> d \<noteq> coin_denom out \<and>
    fmlookup (w_pairs w) a = Some st \<and> ps_config st = Some c \<and>
    pq_fee_info (n_pair_chain N b (w_factory w)) (cc_factory_addr c) (pi_pair_type (cc_pair_info c)) = Inr fees \<and>
    (fee = 0 \<or> fi_fee_address fees = Some fee_to) \<and>
    (\<forall>x y. n_balance N (w_bank w') x y + held (x = sender \<and> y = d) charged +
         held (x = a \<and> y = coin_denom out) ret + held (x = a \<and> y = coin_denom out) fee =
       n_balance N (w_bank w) x y + held (x = a \<and> y = d) charged +
         held (x = sender \<and> y = coin_denom out) ret + held (x = fee_to \<and> y = coin_denom out) fee)"
proof -
  from assms(1) obtain p d routes' a swap_fee m w1 w2 r w3 charged excess where
    route: "routes = (p, d) # routes'" "fmlookup (w_pools w) p = Some a" "parse_u128 m_text = Inr m"
    and w1: "on_bank (n_send N sender a [\<lparr>coin_denom = d, coin_amount = m\<rparr>]) w = Some w1"
    and w2: "sudo_pair N env a (SwapExactAmountOut sender d m out swap_fee) w1 = Some (w2, r)"
    and w3: "respond N env a (resp_msgs r) w2 = Some w3"
    and charged: "resp_data r = Some (SwapExactAmountOutResponseData charged)" "sub_checked m charged = Some excess"
    and w': "if excess = 0 then w' = w3 else on_bank (n_send N a sender [\<lparr>coin_denom = d, coin_amount = excess\<rparr>]) w3 = Some w'"
    unfolding swap_exact_out_Some by blast
  note same = on_bank_selects [OF w1]
  from w2 same obtain st st' where st: "fmlookup (w_pairs w) a = Some st"
    and call: "sudo (n_pcl_crates N) (pair_asks N w1) (at_contract env a) (SwapExactAmountOut sender d m out swap_fee) st = Inr (st', r)"
    and b2: "w_bank w2 = w_bank w1" by (auto simp: sudo_pair_def call_pair_Some)
  from exact_out_returns [OF call] obtain charged' ret rest c and fees :: fee_info where e0: "d \<noteq> coin_denom out" "charged' \<le> m"
    "resp_data r = Some (SwapExactAmountOutResponseData charged')" "ps_config st = Some c"
    "pq_fee_info (pair_asks N w1) (cc_factory_addr c) (pi_pair_type (cc_pair_info c)) = Inr fees"
    "resp_msgs r = submsg_new (TransferAsset \<lparr>as_info = NativeToken (coin_denom out), as_amount = ret\<rparr> sender) # rest"
    "rest = [] \<or> (\<exists>z n. fi_fee_address fees = Some z \<and> n \<noteq> 0 \<and>
          rest = [submsg_new (TransferAsset \<lparr>as_info = NativeToken (coin_denom out), as_amount = n\<rparr> z)])"
    by (elim conjE exE) (rule that; assumption)
  with charged have e: "d \<noteq> coin_denom out" "charged \<le> m" "ps_config st = Some c"
    "pq_fee_info (pair_asks N w1) (cc_factory_addr c) (pi_pair_type (cc_pair_info c)) = Inr fees"
    and pays: "pays_trade fees (NativeToken (coin_denom out)) ret sender (resp_msgs r)" by (simp_all add: pays_trade_def)
  from trade_settles [OF w3 [unfolded numeral_2_eq_2] pays assms(2)] obtain fee fee_to where
    f: "fee = 0 \<or> fi_fee_address fees = Some fee_to"
    and paid: "n_balance N (w_bank w3) x y + held (x = a \<and> y = coin_denom out) ret + held (x = a \<and> y = coin_denom out) fee =
       n_balance N (w_bank w1) x y + held (x = sender \<and> y = coin_denom out) ret + held (x = fee_to \<and> y = coin_denom out) fee" for x y
    unfolding b2 by auto
  have excess: "n_balance N (w_bank w') x y + held (x = a \<and> y = d) excess =
      n_balance N (w_bank w3) x y + held (x = sender \<and> y = d) excess" for x y
    using w' send_one [OF assms(2), of a sender d excess w3 w'] by (cases "excess = 0") (simp_all add: held_def)
  have split: "held b m = held b charged + held b excess" for b
    using sub_checked_Some [OF charged(2)] by (simp add: held_def)
  have bal: "n_balance N (w_bank w') x y + held (x = sender \<and> y = d) charged +
         held (x = a \<and> y = coin_denom out) ret + held (x = a \<and> y = coin_denom out) fee =
       n_balance N (w_bank w) x y + held (x = a \<and> y = d) charged +
         held (x = sender \<and> y = coin_denom out) ret + held (x = fee_to \<and> y = coin_denom out) fee" for x y
    using send_one [OF assms(2) w1, of x y] paid [of x y] excess [of x y]
      split [of "x = sender \<and> y = d"] split [of "x = a \<and> y = d"] by linarith
  from same e(4) have fees: "pq_fee_info (n_pair_chain N (w_bank w1) (w_factory w)) (cc_factory_addr c) (pi_pair_type (cc_pair_info c)) = Inr fees"
    by simp
  show ?thesis
    by (rule exI [of _ p], rule exI [of _ d], rule exI [of _ routes'], rule exI [of _ a], rule exI [of _ m], rule exI [of _ charged],
        rule exI [of _ st], rule exI [of _ c], rule exI [of _ "w_bank w1"], rule exI [of _ fees], rule exI [of _ ret],
        rule exI [of _ fee], rule exI [of _ fee_to]) (use route e(1-3) st fees f bal in \<open>simp\<close>)
qed

section \<open>A user's swap\<close>

lemma swap_returns:
  assumes "internal_swap L Q env sender offer bp ms to st = Inr (st', r)" and ready: "ledger_ready L Q env st c assets"
  shows "\<exists>fees ask ret. pq_fee_info Q (cc_factory_addr c) (pi_pair_type (cc_pair_info c)) = Inr fees \<and>
    ask \<in> as_info ` set assets \<and> as_info offer \<in> as_info ` set assets \<and> ask \<noteq> as_info offer \<and>
    resp_data r = Some (SwapExactAmountInResponseData ret) \<and>
    pays_trade fees ask ret (case to of None \<Rightarrow> sender | Some x \<Rightarrow> x) (resp_msgs r)"
proof -
  have "yields (\<lambda>(st', r). \<exists>fees ret i x p precs pools d. pq_fee_info Q (cc_factory_addr c) (pi_pair_type (cc_pair_info c)) = Inr fees \<and>
     ps_precisions st = Some precs \<and> get_precision L precs (as_info offer) = Inr p \<and> to_decimal_asset L offer p = Inr d \<and>
     query_pools L Q (env_contract env) c precs = Inr pools \<and> find_position (\<lambda>y. da_info y = da_info d) pools = Some i \<and>
     nth_opt pools (1 XOR i) = Some x \<and> resp_data r = Some (SwapExactAmountInResponseData ret) \<and>
     pays_trade fees (da_info x) ret (case to of None \<Rightarrow> sender | Some x \<Rightarrow> x) (resp_msgs r))
   (internal_swap L Q env sender offer bp ms to st)"
    unfolding internal_swap_def Let_def
    by (intro yields_rules; (hypsubst+)?)
      (use ready in \<open>auto simp: pays_trade_def ledger_ready_def res_simps into_msg_returns simp del: nth_opt_Some
        dest!: maker_fee_payment_returns\<close>)
  from yieldsD [OF this assms(1)] obtain fees ret i x p precs pools d where
    e: "pq_fee_info Q (cc_factory_addr c) (pi_pair_type (cc_pair_info c)) = Inr fees"
      "resp_data r = Some (SwapExactAmountInResponseData ret)"
      "pays_trade fees (da_info x) ret (case to of None \<Rightarrow> sender | Some x \<Rightarrow> x) (resp_msgs r)"
    and p: "ps_precisions st = Some precs" "get_precision L precs (as_info offer) = Inr p" "to_decimal_asset L offer p = Inr d"
    and pools: "query_pools L Q (env_contract env) c precs = Inr pools"
    and i: "find_position (\<lambda>y. da_info y = da_info d) pools = Some i" and x: "nth_opt pools (1 XOR i) = Some x" by blast
  from ready have law: "exact_law L" "\<And>i p. get_precision L precs i = Inr p \<Longrightarrow> p \<le> 18"
    and two: "pq_pools Q (cc_pair_info c) (env_contract env) = Inr assets" "distinct (map as_info assets)" "length assets = 2"
    using p(1) by (auto simp: ledger_ready_def)
  from query_pools_exact [OF pools law] two(1) have "list_all2 (reads_as L precs) assets pools" by simp
  then have infos: "map da_info pools = map as_info assets"
    by (auto simp: list_all2_conv_all_nth reads_as_def intro!: nth_equalityI)
  have d: "da_info d = as_info offer" using law(1) law(2) [OF p(2)] p(3) by (simp add: exact_law_def)
  from find_position_Some [OF i] x have at: "i < length pools" "da_info (pools ! i) = as_info offer"
    "1 XOR i < length pools" "x = pools ! (1 XOR i)" by (auto simp: d)
  have "length pools = 2" "distinct (map da_info pools)" using infos two(2,3) by (simp_all, metis length_map)
  with at have "da_info x \<noteq> as_info offer"
    by (auto simp: less_2_cases_iff distinct_conv_nth)
  moreover have "da_info x \<in> da_info ` set pools" using at(3,4) by simp
  moreover have "as_info offer \<in> da_info ` set pools" unfolding at(2) [symmetric] using at(1) by simp
  moreover have "da_info ` set pools = as_info ` set assets" using arg_cong [OF infos, of set] by simp
  ultimately show ?thesis using e by (intro exI [of _ fees] exI [of _ "da_info x"] exI [of _ ret]) simp
qed

lemma pay_in_balances:
  assumes "pay_in N info a w = Some w'" and "bank_laws N"
  shows "n_balance N (w_bank w') x y + (if x = mi_sender info then amount_of y (mi_funds info) else 0) =
    n_balance N (w_bank w) x y + (if x = a then amount_of y (mi_funds info) else 0)"
proof (cases "mi_funds info = []")
  case False
  with assms(1) obtain k where "n_send N (mi_sender info) a (mi_funds info) (w_bank w) = Some k" "w_bank w' = k"
    by (auto simp: pay_in_def on_bank_def)
  with bank_lawsD(1) [OF assms(2)] show ?thesis by blast
qed (use assms(1) in \<open>simp add: pay_in_def\<close>)

lemma swap_settlement:
  assumes "direct_swap N env info a offer bp ms to w = Some w'" and "fmlookup (w_pairs w) a = Some st"
    and "ps_config st = Some c" and "distinct (asset_infos c)" and "live N a st"
    and laws: "bank_laws N" "exact_law (n_pcl_crates N)" "balance_law N"
  shows "\<exists>b fees ask ret fee fee_to to'. pq_fee_info (n_pair_chain N b (w_factory w)) (cc_factory_addr c) (pi_pair_type (cc_pair_info c)) = Inr fees \<and>
    set (asset_infos c) = {as_info offer, NativeToken ask} \<and> as_info offer \<noteq> NativeToken ask \<and>
    (fee = 0 \<or> fi_fee_address fees = Some fee_to) \<and> addr_opt_validate (n_pcl_crates N) to = Inr to' \<and>
    (\<forall>x y. n_balance N (w_bank w') x y + (if x = mi_sender info then amount_of y (mi_funds info) else 0) +
        held (x = a \<and> y = ask) ret + held (x = a \<and> y = ask) fee =
      n_balance N (w_bank w) x y + (if x = a then amount_of y (mi_funds info) else 0) +
        held (x = (case to' of None \<Rightarrow> mi_sender info | Some z \<Rightarrow> z) \<and> y = ask) ret + held (x = fee_to \<and> y = ask) fee)"
proof -
  from assms(1) obtain w1 w2 r to' where w1: "pay_in N info a w = Some w1"
    and to': "addr_opt_validate (n_pcl_crates N) to = Inr to'"
    and w2: "call_pair a (internal_swap (n_pcl_crates N) (pair_asks N w1) (at_contract env a) (mi_sender info) offer bp ms to') w1 = Some (w2, r)"
    and w': "respond N env a (resp_msgs r) w2 = Some w'"
    by (auto simp: direct_swap_def simp del: pair_respond.simps split: Option.bind_splits)
  from w2 bank_onlyD [OF pay_in_only [OF w1]] assms(2) obtain st' where
    sw: "internal_swap (n_pcl_crates N) (pair_asks N w1) (at_contract env a) (mi_sender info) offer bp ms to' st = Inr (st', r)"
    and b2: "w_bank w2 = w_bank w1" by (auto simp: call_pair_Some)
  from live_ledger_ready [OF assms(5,3) laws(2,3) assms(4)] obtain assets where
    ready: "ledger_ready (n_pcl_crates N) (pair_asks N w1) (at_contract env a) st c assets" and infos: "map as_info assets = asset_infos c"
    by blast
  from infos have set_infos: "as_info ` set assets = set (asset_infos c)" by (metis list.set_map)
  from swap_returns [OF sw ready] obtain fees i ret where
    fees: "pq_fee_info (pair_asks N w1) (cc_factory_addr c) (pi_pair_type (cc_pair_info c)) = Inr fees"
    and i: "i \<in> set (asset_infos c)" "as_info offer \<in> set (asset_infos c)" "i \<noteq> as_info offer"
    and pays: "pays_trade fees i ret (case to' of None \<Rightarrow> mi_sender info | Some x \<Rightarrow> x) (resp_msgs r)"
    unfolding set_infos by blast
  from trade_settles [OF w' [unfolded numeral_2_eq_2] pays laws(1)] obtain d fee fee_to where
    d: "i = NativeToken d" "fee = 0 \<or> fi_fee_address fees = Some fee_to"
    and bal: "n_balance N (w_bank w') x y + held (x = a \<and> y = d) ret + held (x = a \<and> y = d) fee =
       n_balance N (w_bank w1) x y + held (x = (case to' of None \<Rightarrow> mi_sender info | Some z \<Rightarrow> z) \<and> y = d) ret + held (x = fee_to \<and> y = d) fee"
    for x y unfolding b2 by blast
  have moved: "n_balance N (w_bank w') x y + (if x = mi_sender info then amount_of y (mi_funds info) else 0) +
        held (x = a \<and> y = d) ret + held (x = a \<and> y = d) fee =
      n_balance N (w_bank w) x y + (if x = a then amount_of y (mi_funds info) else 0) +
        held (x = (case to' of None \<Rightarrow> mi_sender info | Some z \<Rightarrow> z) \<and> y = d) ret + held (x = fee_to \<and> y = d) fee" for x y
    using bal [of x y] pay_in_balances [OF w1 laws(1), of x y] by linarith
  have "length (asset_infos c) = 2" using assms(3,5) by (auto simp: live_def two_natives_def)
  with i d(1) have both: "set (asset_infos c) = {as_info offer, NativeToken d}" "as_info offer \<noteq> NativeToken d"
    by (auto simp: numeral_2_eq_2 length_Suc_conv)
  from fees have "pq_fee_info (n_pair_chain N (w_bank w1) (w_factory w)) (cc_factory_addr c) (pi_pair_type (cc_pair_info c)) = Inr fees"
    by (simp add: bank_onlyD(2) [OF pay_in_only [OF w1]])
  with both d(2) to' moved show ?thesis
    by (intro exI [of _ "w_bank w1"] exI [of _ fees] exI [of _ d] exI [of _ ret] exI [of _ fee] exI [of _ fee_to] exI [of _ to']) simp
qed
section \<open>The collect\<close>

definition maker_balance_law :: "'b net \<Rightarrow> bool" where
  \<comment> \<open>the bank answers the maker's balance queries with the balances, which are \<open>Uint128\<close>\<close>
  "maker_balance_law N \<longleftrightarrow> (\<forall>b a d. n_balance N b a d < 2 ^ 128 \<and>
     ch_balance (n_maker_chain N b) a d = Inr \<lparr>coin_denom = d, coin_amount = word_of_nat (n_balance N b a d)\<rparr>)"

lemma run_submsgs_append:
  "run_submsgs deliver reply (xs @ ys) w = Some w' \<Longrightarrow>
     \<exists>v. run_submsgs deliver reply xs w = Some v \<and> run_submsgs deliver reply ys v = Some w'"
proof (induction xs arbitrary: w)
  case (Cons x xs)
  then show ?case by (auto split: option.splits if_splits)
qed simp

lemma run_submsgs_quiet:
  assumes "run_submsgs deliver reply subs w = Some w'" and "P w" and "\<And>s. s \<in> set subs \<Longrightarrow> sub_reply_on s = Never"
    and "\<And>s w w' d. s \<in> set subs \<Longrightarrow> deliver (sub_msg s) w = Some (w', d) \<Longrightarrow> P w \<Longrightarrow> P w'"
  shows "P w'"
proof -
  have "run_submsgs deliver (\<lambda>_ _ _. None) subs w = Some w'"
    using assms(1) run_submsgs_cong [where deliver = deliver and deliver' = deliver and subs = subs and reply = reply
        and reply' = "\<lambda>_ _ _. None" and w = w] assms(3) by simp
  then show ?thesis by (rule run_submsgs_keeps [where P = P, OF _ assms(2,4)]) simp_all
qed

lemma route_keeps:
  \<comment> \<open>swapping along a route takes no ASTRO from the sender: no hop starts with it\<close>
  assumes "swap_along N env (pair_respond (Suc n) N env) sender m (routes_of_maker rs) c w = Some w'"
    and "route_path table astro (coin_denom c) rs" and "bank_laws N" and "sender \<notin> fmdom' (w_pairs w)"
  shows "n_balance N (w_bank w) sender astro \<le> n_balance N (w_bank w') sender astro \<and> sender \<notin> fmdom' (w_pairs w')"
  using assms(1,2,4)
proof (induction rs arbitrary: c w)
  case (Cons r rs)
  from Cons.prems(2) obtain s where s: "coin_denom c \<noteq> astro" "r = hop s" "route_path table astro (rs_denom_out s) rs"
    by (auto split: option.splits)
  from Cons.prems(1) obtain a fee w1 k w2 res w3 out where
    w1: "on_bank (n_send N sender a [c]) w = Some w1"
    and w2: "sudo_pair N env a (SwapExactAmountIn sender c (rs_denom_out s) k fee) w1 = Some (w2, res)"
    and w3: "pair_respond (Suc n) N env a (resp_msgs res) w2 = Some w3"
    and rest: "swap_along N env (pair_respond (Suc n) N env) sender m (routes_of_maker rs) \<lparr>coin_denom = rs_denom_out s, coin_amount = out\<rparr> w3 = Some w'"
    by (auto simp: routes_of_maker_def s(2) hop_def swap_along_Some simp del: swap_along.simps pair_respond.simps)
  from w1 obtain b where b: "n_send N sender a [c] (w_bank w) = Some b" "w_bank w1 = b" by (auto simp: on_bank_def)
  from bank_lawsD(1) [OF assms(3) b(1), of sender astro] s(1) b(2)
  have sent: "n_balance N (w_bank w) sender astro \<le> n_balance N (w_bank w1) sender astro" by (simp split: if_splits)
  from w2 obtain st st' where st: "fmlookup (w_pairs w1) a = Some st"
    "sudo (n_pcl_crates N) (pair_asks N w1) (at_contract env a) (SwapExactAmountIn sender c (rs_denom_out s) k fee) st = Inr (st', res)"
    and bank: "w_bank w2 = w_bank w1" by (auto simp: sudo_pair_def call_pair_Some)
  have "a \<noteq> sender" using st(1) Cons.prems(3) on_bank_selects [OF w1] by (auto simp: fmdom'I)
  with payments_balances [OF w3 sudo_pays [OF st(2)] sudo_burns [OF st(2)] assms(3)] bank
  have "n_balance N (w_bank w1) sender astro \<le> n_balance N (w_bank w3) sender astro" by (simp add: keeps_balances_def)
  moreover have "sender \<notin> fmdom' (w_pairs w3)"
    using hop_moves [OF w1 w2 w3 assms(3)] Cons.prems(3) by auto
  ultimately show ?case using Cons.IH [OF rest] s(3) sent by simp
qed (simp add: routes_of_maker_def)

lemma maker_swap_keeps:
  assumes "swap_exact_in N env (pair_respond (Suc n) N env) sender (routes_of_maker rs) c m w = Some w'"
    and "route_path table astro (coin_denom c) rs" and "bank_laws N" and "sender \<notin> fmdom' (w_pairs w)"
  shows "n_balance N (w_bank w) sender astro \<le> n_balance N (w_bank w') sender astro \<and> sender \<notin> fmdom' (w_pairs w')"
  using assms by (auto simp: swap_exact_in_def simp del: pair_respond.simps split: if_splits dest: route_keeps)

lemma maker_respond_append:
  "maker_respond (Suc n) N env (xs @ ys) w = Some w' \<Longrightarrow>
     \<exists>u. maker_respond (Suc n) N env xs w = Some u \<and> maker_respond (Suc n) N env ys u = Some w'"
  unfolding maker_respond.simps(2) by (rule run_submsgs_append)

lemma maker_respond_last:
  assumes "maker_respond (Suc n) N env [s] u = Some w'" and "sub_reply_on s = OnSuccess"
    and "sub_msg s = maker_msg.MsgSwapExactAmountIn sender rs c t"
  shows "\<exists>v ms r. swap_exact_in N env (respond N env) sender (routes_of_maker rs) c t u = Some v \<and> same_contracts u v \<and>
    maker_reply (maker_asks N env v) (at_contract env (n_maker N)) (sub_id s) (w_maker u) = Inr (ms, r) \<and>
    maker_respond n N env (resp_msgs r) (v\<lparr>w_maker := ms\<rparr>) = Some w'"
  using assms
  by (auto simp: same_contracts_def simp del: pair_respond.simps split: option.splits Option.bind_splits
      dest!: swap_exact_in_factory [OF _ pair_respond_factory])

lemma maker_swaps_keep:
  assumes "maker_respond (Suc n) N env subs w = Some w'" and "bank_laws N" and "n_maker N \<notin> fmdom' (w_pairs w)"
    and "\<forall>m \<in> set subs. \<exists>rs c t. sub_msg m = maker_msg.MsgSwapExactAmountIn (n_maker N) rs c t \<and>
      route_path table astro (coin_denom c) rs"
    and "\<forall>m \<in> set subs. sub_reply_on m = Never"
  shows "n_balance N (w_bank w) (n_maker N) astro \<le> n_balance N (w_bank w') (n_maker N) astro \<and> n_maker N \<notin> fmdom' (w_pairs w')"
  using assms(1) unfolding maker_respond.simps(2)
proof (rule run_submsgs_quiet)
  fix s v v' d
  assume s: "s \<in> set subs" and v: "n_balance N (w_bank w) (n_maker N) astro \<le> n_balance N (w_bank v) (n_maker N) astro \<and>
      n_maker N \<notin> fmdom' (w_pairs v)"
    and del: "(case sub_msg s of maker_msg.MsgSwapExactAmountIn sender routes token_in min_text \<Rightarrow>
          map_option (\<lambda>w. (w, [])) (swap_exact_in N env (respond N env) sender (routes_of_maker routes) token_in min_text v)
        | TransferAstro satellite coins \<Rightarrow> do {
            w' \<leftarrow> on_bank (n_send N (n_maker N) satellite coins) v;
            w'' \<leftarrow> on_bank (n_external N satellite) w';
            Some (w'', [])
          }) = Some (v', d)"
  from assms(4) s obtain rs c t where m: "sub_msg s = maker_msg.MsgSwapExactAmountIn (n_maker N) rs c t"
    "route_path table astro (coin_denom c) rs" by blast
  with del have "swap_exact_in N env (pair_respond (Suc (Suc 0)) N env) (n_maker N) (routes_of_maker rs) c t v = Some v'"
    by (auto simp: numeral_2_eq_2 simp del: pair_respond.simps)
  from maker_swap_keeps [OF this m(2) assms(2)] v
  show "n_balance N (w_bank w) (n_maker N) astro \<le> n_balance N (w_bank v') (n_maker N) astro \<and> n_maker N \<notin> fmdom' (w_pairs v')"
    by auto
qed (use assms(3,5) in auto)

lemma collect_settlement:
  assumes "tx_maker N env info (Collect assets) w = Some w'" and "mk_config (w_maker w) = Some config" and "apart N w"
    and "bank_laws N" and "maker_balance_law N" and "mc_satellite config \<noteq> n_maker N"
  shows "\<exists>v b. n_balance N (w_bank w) (n_maker N) (mc_astro_denom config) \<le> n_balance N (w_bank v) (n_maker N) (mc_astro_denom config) \<and>
    on_bank (n_send N (n_maker N) (mc_satellite config)
      [\<lparr>coin_denom = mc_astro_denom config, coin_amount = word_of_nat (n_balance N (w_bank v) (n_maker N) (mc_astro_denom config))\<rparr>]) v
      = Some (v\<lparr>w_bank := b\<rparr>) \<and>
    n_balance N b (n_maker N) (mc_astro_denom config) = 0 \<and>
    n_balance N b (mc_satellite config) (mc_astro_denom config) =
      n_balance N (w_bank v) (mc_satellite config) (mc_astro_denom config) + n_balance N (w_bank v) (n_maker N) (mc_astro_denom config) \<and>
    n_external N (mc_satellite config) b = Some (w_bank w') \<and> w' = v\<lparr>w_bank := w_bank w'\<rparr>"
proof -
  from assms(1) obtain w1 ms r where w1: "pay_in N info (n_maker N) w = Some w1"
    and ex: "maker_execute (n_maker_crates N) (maker_asks N env w1) (at_contract env (n_maker N)) info (Collect assets) (w_maker w1) = Inr (ms, r)"
    and rest: "maker_respond 2 N env (resp_msgs r) (w1\<lparr>w_maker := ms\<rparr>) = Some w'"
    by (auto simp: tx_maker_def simp del: maker_respond.simps split: Option.bind_splits)
  from ex have c: "collect (n_maker_crates N) (maker_asks N env w1) (at_contract env (n_maker N)) assets (w_maker w1) = Inr (ms, r)"
    by (simp add: maker_execute_def res_simps)
  let ?astro = "mc_astro_denom config" and ?to = "mc_satellite config" and ?me = "n_maker N"
  note same = bank_onlyD [OF pay_in_only [OF w1]]
  have conf: "mk_config (w_maker w1) = Some config" using assms(2) same by simp
  from c have ms: "mk_config ms = Some config" using conf by (auto simp: collect_returns)
  from collect_swaps [OF c conf] obtain ss where "mark_last ss = Inr (resp_msgs r)" by blast
  from mark_last_returns [OF this] obtain swaps s where msgs: "resp_msgs r = swaps @ [s]" "sub_id s = POST_COLLECT_REPLY_ID"
    "sub_reply_on s = OnSuccess" by (metis append_butlast_last_id)
  from collect_routes [OF c conf] msgs(1) obtain rs k t where
    swaps: "\<forall>m \<in> set swaps. \<exists>rs c t. sub_msg m = maker_msg.MsgSwapExactAmountIn ?me rs c t \<and>
        route_path (fmlookup (mk_routes (w_maker w1))) ?astro (coin_denom c) rs" "\<forall>m \<in> set swaps. sub_reply_on m = Never"
    and last: "sub_msg s = maker_msg.MsgSwapExactAmountIn ?me rs k t" "route_path (fmlookup (mk_routes (w_maker w1))) ?astro (coin_denom k) rs"
    by auto
  from maker_respond_append [OF rest [unfolded numeral_2_eq_2 msgs(1)]] obtain u where
    u: "maker_respond (Suc (Suc 0)) N env swaps (w1\<lparr>w_maker := ms\<rparr>) = Some u" "maker_respond (Suc (Suc 0)) N env [s] u = Some w'"
    by (elim exE conjE)
  from maker_respond_last [OF u(2) msgs(3) last(1)] obtain v ms2 r2 where
    sw: "swap_exact_in N env (respond N env) ?me (routes_of_maker rs) k t u = Some v" and v: "same_contracts u v"
    "maker_reply (maker_asks N env v) (at_contract env ?me) POST_COLLECT_REPLY_ID (w_maker u) = Inr (ms2, r2)"
    "maker_respond (Suc 0) N env (resp_msgs r2) (v\<lparr>w_maker := ms2\<rparr>) = Some w'" unfolding msgs(2) by (elim exE conjE)
  have u_keeps: "n_balance N (w_bank w1) ?me ?astro \<le> n_balance N (w_bank u) ?me ?astro" "?me \<notin> fmdom' (w_pairs u)"
    using maker_swaps_keep [OF u(1) assms(4) _ swaps] assms(3) same by (simp_all add: apart_def)
  have "n_balance N (w_bank w) ?me ?astro \<le> n_balance N (w_bank w1) ?me ?astro"
    using pay_in_balances [OF w1 assms(4), of ?me ?astro] by (simp split: if_splits)
  with u_keeps maker_swap_keeps [OF sw [unfolded numeral_2_eq_2] last(2) assms(4)]
  have kept: "n_balance N (w_bank w) ?me ?astro \<le> n_balance N (w_bank v) ?me ?astro" by linarith
  from maker_respond_factory [OF u(1)] ms have u_ms: "mk_config (w_maker u) = Some config" by (simp add: same_contracts_def)
  let ?n = "n_balance N (w_bank v) ?me ?astro"
  let ?coin = "\<lparr>coin_denom = ?astro, coin_amount = word_of_nat ?n\<rparr> :: coin"
  from v(1,2) assms(5) have r2: "ms2 = w_maker v" "resp_msgs r2 = [submsg_new (TransferAstro ?to [?coin])]"
    by (auto simp: maker_reply_def res_simps u_ms maker_asks_def maker_balance_law_def same_contracts_def)
  have full: "unat (coin_amount ?coin) = ?n" using assms(5) by (simp add: maker_balance_law_def unat_of_nat)
  from v(3) obtain b where send: "n_send N ?me ?to [?coin] (w_bank v) = Some b" and
    ext: "n_external N ?to b = Some (w_bank w')" "w' = v\<lparr>w_bank := w_bank w'\<rparr>"
    by (auto simp: r2 submsg_new_def on_bank_def split: option.splits Option.bind_splits)
  note bal = bank_lawsD(1) [OF assms(4) send]
  have "n_balance N b ?me ?astro = 0" "n_balance N b ?to ?astro = n_balance N (w_bank v) ?to ?astro + ?n"
    using bal [of ?me ?astro] bal [of ?to ?astro] assms(6) full by simp_all
  with send ext kept show ?thesis by (intro exI [of _ v] exI [of _ b]) (simp add: on_bank_def)
qed

end
