(* ===== verification/World_Liquidity.thy ===== *)
theory World_Liquidity
  imports World_Settlement Pair_Liquidity_Properties
begin

text \<open>
  Liquidity on the bank: what a whole \<open>ProvideLiquidity\<close> or \<open>WithdrawLiquidity\<close> transaction moves
  between the accounts, the tokens it mints and burns included.
\<close>

section \<open>A transaction that only pays\<close>

lemma paying_tx:
  assumes "tx_pair N env info a msg w = Some w'" and "\<And>offer ask bp ms to. msg \<noteq> Swap offer ask bp ms to" and "bank_laws N"
    and "fmlookup (w_pairs w) a = Some st"
  shows "\<exists>w1 st' r. pay_in N info a w = Some w1 \<and>
    pair_execute (n_pcl_crates N) (pair_asks N w1) (at_contract env a) info msg st = Inr (st', r) \<and>
    (\<forall>x y. n_balance N (w_bank w') x y + (if x = mi_sender info then amount_of y (mi_funds info) else 0) + lost a x y (resp_msgs r) =
       n_balance N (w_bank w) x y + (if x = a then amount_of y (mi_funds info) else 0) + gained x y (resp_msgs r))"
proof -
  from assms(1) obtain w1 w2 r where w1: "pay_in N info a w = Some w1"
    and w2: "call_pair a (pair_execute (n_pcl_crates N) (pair_asks N w1) (at_contract env a) info msg) w1 = Some (w2, r)"
    and w': "pair_respond (Suc (Suc 0)) N env a (resp_msgs r) w2 = Some w'"
    by (auto simp: tx_pair_def numeral_2_eq_2 simp del: pair_respond.simps split: Option.bind_splits)
  from w2 bank_onlyD [OF pay_in_only [OF w1]] assms(4) obtain st' where
    ex: "pair_execute (n_pcl_crates N) (pair_asks N w1) (at_contract env a) info msg st = Inr (st', r)"
    and b2: "w_bank w2 = w_bank w1" by (auto simp: call_pair_Some)
  from other_messages [OF ex assms(2)] have "pays_only (resp_msgs r)" by blast
  note paid = payments_exact [OF w' this assms(3)]
  have "n_balance N (w_bank w') x y + (if x = mi_sender info then amount_of y (mi_funds info) else 0) + lost a x y (resp_msgs r) =
       n_balance N (w_bank w) x y + (if x = a then amount_of y (mi_funds info) else 0) + gained x y (resp_msgs r)" for x y
    using paid [of x y] pay_in_balances [OF w1 assms(3), of x y] unfolding b2 by linarith
  with w1 ex show ?thesis by blast
qed

section \<open>Providing\<close>

lemma provide_settlement:
  assumes "tx_pair N env info a (ProvideLiquidity assets tol auto_stake receiver) w = Some w'" and "bank_laws N"
    and "fmlookup (w_pairs w) a = Some st" and "ps_config st = Some c"
  shows "\<exists>w1 total to' n kept. pay_in N info a w = Some w1 \<and>
    decimal_supply (n_pcl_crates N) (pair_asks N w1) (lp_denom c) = Inr total \<and>
    kept = (if total = decimal256_zero then MINIMUM_LIQUIDITY_AMOUNT (n_pcl_crates N) else 0) \<and>
    addr_opt_validate (n_pcl_crates N) receiver = Inr to' \<and>
    (\<forall>x y. n_balance N (w_bank w') x y + (if x = mi_sender info then amount_of y (mi_funds info) else 0) =
       n_balance N (w_bank w) x y + (if x = a then amount_of y (mi_funds info) else 0) +
         held (x = (case to' of None \<Rightarrow> mi_sender info | Some z \<Rightarrow> z) \<and> y = lp_denom c) n +
         held (x = a \<and> y = lp_denom c) kept)"
proof -
  from paying_tx [OF assms(1) _ assms(2,3)] obtain w1 st' r where w1: "pay_in N info a w = Some w1"
    and ex: "pair_execute (n_pcl_crates N) (pair_asks N w1) (at_contract env a) info (ProvideLiquidity assets tol auto_stake receiver) st = Inr (st', r)"
    and bal: "n_balance N (w_bank w') x y + (if x = mi_sender info then amount_of y (mi_funds info) else 0) + lost a x y (resp_msgs r) =
       n_balance N (w_bank w) x y + (if x = a then amount_of y (mi_funds info) else 0) + gained x y (resp_msgs r)" for x y
    by blast
  from provide_messages [OF ex] assms(4) obtain total to' n where
    t: "decimal_supply (n_pcl_crates N) (pair_asks N w1) (lp_denom c) = Inr total" "addr_opt_validate (n_pcl_crates N) receiver = Inr to'"
    and msgs: "resp_msgs r = map submsg_new ((if total = decimal256_zero then [MsgMint a
        \<lparr>coin_denom = lp_denom c, coin_amount = MINIMUM_LIQUIDITY_AMOUNT (n_pcl_crates N)\<rparr> a] else []) @
      [MsgMint a \<lparr>coin_denom = lp_denom c, coin_amount = n\<rparr> (case to' of None \<Rightarrow> mi_sender info | Some z \<Rightarrow> z)])"
    by auto
  let ?kept = "if total = decimal256_zero then MINIMUM_LIQUIDITY_AMOUNT (n_pcl_crates N) else 0"
  have "lost a x y (resp_msgs r) = 0" "gained x y (resp_msgs r) =
      held (x = (case to' of None \<Rightarrow> mi_sender info | Some z \<Rightarrow> z) \<and> y = lp_denom c) n + held (x = a \<and> y = lp_denom c) ?kept" for x y
    unfolding msgs by (simp_all add: held_def)
  with bal w1 t show ?thesis
    by (intro exI [of _ w1] exI [of _ total] exI [of _ to'] exI [of _ n] exI [of _ ?kept]) (simp add: add.assoc)
qed

section \<open>Withdrawing\<close>

definition payment_law :: "'a pcl_crates_scheme \<Rightarrow> bool" where
  \<comment> \<open>\<open>must_pay\<close> accepts exactly one coin, of the denom asked for\<close>
  "payment_law L \<longleftrightarrow> (\<forall>info d n. must_pay L info d = Inr n \<longrightarrow> mi_funds info = [\<lparr>coin_denom = d, coin_amount = n\<rparr>])"

definition received :: "asset list \<Rightarrow> string \<Rightarrow> nat" where
  "received assets d = sum_list (map (\<lambda>z. held (as_info z = NativeToken d) (as_amount z)) assets)"

lemma held_if: "held (p \<and> q) n = (if p then held q n else 0)"
  by (simp add: held_def)

lemma transfers_settle:
  "lost a x y (map submsg_new (map (\<lambda>z. TransferAsset z to) assets)) = (if x = a then received assets y else 0)"
  "gained x y (map submsg_new (map (\<lambda>z. TransferAsset z to) assets)) = (if x = to then received assets y else 0)"
  by (induction assets) (auto simp: received_def held_def)

lemma withdraw_settlement:
  assumes "tx_pair N env info a (WithdrawLiquidity assets) w = Some w'" and "bank_laws N"
    and "fmlookup (w_pairs w) a = Some st" and "ps_config st = Some c"
    and "refund_law (n_pcl_crates N)" and "payment_law (n_pcl_crates N)"
  shows "\<exists>w1 amount refunds. pay_in N info a w = Some w1 \<and> assets = [] \<and>
    mi_funds info = [\<lparr>coin_denom = lp_denom c, coin_amount = amount\<rparr>] \<and>
    query_share (n_pcl_crates N) (pair_asks N w1) amount st = Inr refunds \<and>
    (\<forall>x y. n_balance N (w_bank w') x y + held (x = mi_sender info \<and> y = lp_denom c) amount + (if x = a then received refunds y else 0) =
       n_balance N (w_bank w) x y + (if x = mi_sender info then received refunds y else 0))"
proof -
  from paying_tx [OF assms(1) _ assms(2,3)] obtain w1 st' r where w1: "pay_in N info a w = Some w1"
    and ex: "pair_execute (n_pcl_crates N) (pair_asks N w1) (at_contract env a) info (WithdrawLiquidity assets) st = Inr (st', r)"
    and bal: "n_balance N (w_bank w') x y + (if x = mi_sender info then amount_of y (mi_funds info) else 0) + lost a x y (resp_msgs r) =
       n_balance N (w_bank w) x y + (if x = a then amount_of y (mi_funds info) else 0) + gained x y (resp_msgs r)" for x y
    by blast
  from withdraw_returns [OF ex assms(5)] assms(4) obtain amount refunds where
    e: "assets = []" "must_pay (n_pcl_crates N) info (lp_denom c) = Inr amount"
      "query_share (n_pcl_crates N) (pair_asks N w1) amount st = Inr refunds"
    and msgs: "resp_msgs r = map submsg_new (map (\<lambda>z. TransferAsset z (mi_sender info)) refunds @
      [MsgBurn a \<lparr>coin_denom = lp_denom c, coin_amount = amount\<rparr> a])" by auto
  from e(2) assms(6) have funds: "mi_funds info = [\<lparr>coin_denom = lp_denom c, coin_amount = amount\<rparr>]" by (simp add: payment_law_def)
  have msgs': "resp_msgs r = map submsg_new (map (\<lambda>z. TransferAsset z (mi_sender info)) refunds) @
      [submsg_new (MsgBurn a \<lparr>coin_denom = lp_denom c, coin_amount = amount\<rparr> a)]" unfolding msgs by simp
  have "n_balance N (w_bank w') x y + held (x = mi_sender info \<and> y = lp_denom c) amount + (if x = a then received refunds y else 0) =
       n_balance N (w_bank w) x y + (if x = mi_sender info then received refunds y else 0)" for x y
    using bal [of x y] unfolding msgs' settlement_simps transfers_settle funds amount_of_one held_if
    by (simp add: funds split: if_splits)
  with w1 e funds show ?thesis by blast
qed

end
