(* ===== verification/World_Samples.thy ===== *)
theory World_Samples
  imports World_Liquidity Maker_Samples Factory_Samples Pair_Samples
begin

text \<open>
  A concrete chain for the witnesses of the world's properties: a ledger of \<open>Uint128\<close> balances,
  the sample crates of the contracts, one pair of \<open>uatom\<close> and \<open>uosmo\<close>. The theorems never use it.
\<close>

section \<open>A ledger\<close>

type_synonym ledger = "addr \<Rightarrow> string \<Rightarrow> u128"

definition put :: "addr \<Rightarrow> string \<Rightarrow> u128 \<Rightarrow> ledger \<Rightarrow> ledger" where
  "put a d n k = k(a := (k a)(d := n))"

definition credit :: "addr \<Rightarrow> coin \<Rightarrow> ledger \<Rightarrow> ledger option" where
  "credit a c k = map_option (\<lambda>n. put a (coin_denom c) n k) (add_checked (k a (coin_denom c)) (coin_amount c))"

definition debit :: "addr \<Rightarrow> coin \<Rightarrow> ledger \<Rightarrow> ledger option" where
  "debit a c k = map_option (\<lambda>n. put a (coin_denom c) n k) (sub_checked (k a (coin_denom c)) (coin_amount c))"

fun sample_send :: "addr \<Rightarrow> addr \<Rightarrow> coin list \<Rightarrow> ledger \<Rightarrow> ledger option" where
  "sample_send a b [] k = Some k"
| "sample_send a b (c # cs) k = do { k1 \<leftarrow> debit a c k; k2 \<leftarrow> credit b c k1; sample_send a b cs k2 }"

fun sample_mint :: "addr \<Rightarrow> coin list \<Rightarrow> ledger \<Rightarrow> ledger option" where
  "sample_mint a [] k = Some k"
| "sample_mint a (c # cs) k = do { k1 \<leftarrow> credit a c k; sample_mint a cs k1 }"

fun sample_burn :: "addr \<Rightarrow> coin list \<Rightarrow> ledger \<Rightarrow> ledger option" where
  "sample_burn a [] k = Some k"
| "sample_burn a (c # cs) k = do { k1 \<leftarrow> debit a c k; sample_burn a cs k1 }"

lemma put_apply [simp]: "put a d n k x y = (if x = a \<and> y = d then n else k x y)"
  by (simp add: put_def)

lemma credit_balance:
  "credit a c k = Some k' \<Longrightarrow> unat (k' x d) = unat (k x d) + (if x = a then amount_of d [c] else 0)"
  by (auto simp: credit_def dest: add_checked_Some)

lemma debit_balance:
  "debit a c k = Some k' \<Longrightarrow> unat (k' x d) + (if x = a then amount_of d [c] else 0) = unat (k x d)"
  by (auto simp: debit_def dest: sub_checked_Some)

lemma sample_send_balance:
  "sample_send a b cs k = Some k' \<Longrightarrow>
     unat (k' x d) + (if x = a then amount_of d cs else 0) = unat (k x d) + (if x = b then amount_of d cs else 0)"
proof (induction cs arbitrary: k)
  case (Cons c cs)
  then obtain k1 k2 where k: "debit a c k = Some k1" "credit b c k1 = Some k2" "sample_send a b cs k2 = Some k'"
    by (auto split: Option.bind_splits)
  from debit_balance [OF k(1), of x d] credit_balance [OF k(2), of x d] Cons.IH [OF k(3)]
  show ?case by (auto split: if_splits)
qed simp

lemma sample_mint_balance:
  "sample_mint a cs k = Some k' \<Longrightarrow> unat (k' x d) = unat (k x d) + (if x = a then amount_of d cs else 0)"
proof (induction cs arbitrary: k)
  case (Cons c cs)
  then obtain k1 where k: "credit a c k = Some k1" "sample_mint a cs k1 = Some k'" by (auto split: Option.bind_splits)
  from credit_balance [OF k(1), of x d] Cons.IH [OF k(2)] show ?case by (auto split: if_splits)
qed simp

lemma sample_burn_balance:
  "sample_burn a cs k = Some k' \<Longrightarrow> unat (k' x d) + (if x = a then amount_of d cs else 0) = unat (k x d)"
proof (induction cs arbitrary: k)
  case (Cons c cs)
  then obtain k1 where k: "debit a c k = Some k1" "sample_burn a cs k1 = Some k'" by (auto split: Option.bind_splits)
  from debit_balance [OF k(1), of x d] Cons.IH [OF k(2)] show ?case by (auto split: if_splits)
qed simp

lemma sample_send_self:
  assumes "unat (coin_amount c) \<le> unat (k a (coin_denom c))"
  shows "sample_send a a [c] k = Some k"
proof -
  have "sub_checked (k a (coin_denom c)) (coin_amount c) = Some (k a (coin_denom c) - coin_amount c)"
    using assms by (simp add: sub_checked_def word_le_nat_alt)
  moreover from sub_checked_Some [OF this] have "add_checked (k a (coin_denom c) - coin_amount c) (coin_amount c) = Some (k a (coin_denom c))"
    using unsigned_less [of "k a (coin_denom c)"] by (simp add: add_checked_def)
  ultimately show ?thesis by (simp add: debit_def credit_def) (simp add: put_def fun_eq_iff)
qed

section \<open>The chain\<close>

definition sample_ledger_chain :: "ledger \<Rightarrow> factory_state \<Rightarrow> pair_chain" where
  "sample_ledger_chain k fs = (sample_pair_chain 0 0 1000000)\<lparr>
     pq_pools := (\<lambda>pi a. Inr (map (\<lambda>i. \<lparr>as_info = i, as_amount = (case i of NativeToken d \<Rightarrow> k a d | Token _ \<Rightarrow> 0)\<rparr>) (pi_asset_infos pi))),
     pq_precisions := (\<lambda>infos _. if infos = [uatom, uosmo] then Inr [(uatom, 6), (uosmo, 6)] else fail_with (GenericErr ''unknown''))\<rparr>"

definition sample_net :: "ledger net" where
  "sample_net = \<lparr>n_balance = (\<lambda>k a d. unat (k a d)), n_send = sample_send, n_mint = sample_mint, n_burn = sample_burn,
     n_external = (\<lambda>_. Some), n_factory = FACTORY_ADDRESS, n_maker = ''maker'',
     n_factory_crates = sample_factory_crates\<lparr>decode_create_pool := (\<lambda>b. Inr (word_of_nat (length b)))\<rparr>,
     n_pcl_crates = sample_pcl,
     n_maker_crates = sample_maker_crates\<lparr>decimal_from_str := (\<lambda>s. case parse_u128 s of
       Inl _ \<Rightarrow> fail_with (GenericErr ''Error parsing whole'') | Inr n \<Rightarrow> Inr (Decimal n))\<rparr>,
     n_factory_chain = (\<lambda>_. sample_factory_chain), n_pair_chain = sample_ledger_chain,
     n_maker_chain = (\<lambda>k. sample_chain\<lparr>ch_balance := (\<lambda>a d. Inr \<lparr>coin_denom = d, coin_amount = k a d\<rparr>)\<rparr>),
     n_pair_code = 11, n_new_address = (\<lambda>w. ''pair'' @ replicate (fcard (fmdom (w_pairs w))) (CHR ''i'')),
     n_encode_pool_id = (\<lambda>p. replicate (unat p) (CHR ''x'')), n_encode_denom = id\<rparr>"

lemma sample_net_sel [simp]:
  "n_balance sample_net = (\<lambda>k a d. unat (k a d))" "n_send sample_net = sample_send" "n_mint sample_net = sample_mint"
  "n_burn sample_net = sample_burn" "n_external sample_net = (\<lambda>_. Some)" "n_factory sample_net = FACTORY_ADDRESS"
  "n_maker sample_net = ''maker''" "n_pcl_crates sample_net = sample_pcl"
  "n_factory_crates sample_net = sample_factory_crates\<lparr>decode_create_pool := (\<lambda>b. Inr (word_of_nat (length b)))\<rparr>"
  "n_maker_crates sample_net = sample_maker_crates\<lparr>decimal_from_str := (\<lambda>s. case parse_u128 s of
       Inl _ \<Rightarrow> fail_with (GenericErr ''Error parsing whole'') | Inr n \<Rightarrow> Inr (Decimal n))\<rparr>"
  "n_factory_chain sample_net = (\<lambda>_. sample_factory_chain)" "n_pair_chain sample_net = sample_ledger_chain"
  "n_maker_chain sample_net = (\<lambda>k. sample_chain\<lparr>ch_balance := (\<lambda>a d. Inr \<lparr>coin_denom = d, coin_amount = k a d\<rparr>)\<rparr>)"
  "n_pair_code sample_net = 11" "n_new_address sample_net = (\<lambda>w. ''pair'' @ replicate (fcard (fmdom (w_pairs w))) (CHR ''i''))"
  "n_encode_pool_id sample_net = (\<lambda>p. replicate (unat p) (CHR ''x''))" "n_encode_denom sample_net = id"
  by (simp_all add: sample_net_def)

section \<open>Its laws\<close>

lemma u128_bound: "unat (n :: u128) < 340282366920938463463374607431768211456"
  using unsigned_less [of n] by simp

lemma sample_bank_laws: "bank_laws sample_net"
  unfolding bank_laws_def sample_net_sel
  by (intro conjI allI impI; erule sample_send_balance sample_mint_balance sample_burn_balance sample_send_self)

lemma sample_deployed: "deployed sample_net"
  by (auto simp: deployed_def sample_addr_validate_def split: if_splits)

lemma sample_outside: "outside_law sample_net"
  by (simp add: outside_law_def)

lemma sample_denoms_decoded: "denom_law sample_net"
  by (simp add: denom_law_def lp_token_def)

lemma sample_pool_ids: "pool_id_law sample_net"
  by (simp add: pool_id_law_def)

lemma sample_registry: "registry_law sample_net"
  by (auto simp: registry_law_def sample_ledger_chain_def uatom_def uosmo_def lp_token_def split: if_splits option.splits)

lemma sample_balances: "balance_law sample_net"
  by (auto simp: balance_law_def sample_ledger_chain_def u128_bound split: asset_info.splits)

lemma sample_maker_balances: "maker_balance_law sample_net"
  by (simp add: maker_balance_law_def u128_bound)

section \<open>A pair on it\<close>

definition sample_ledger :: ledger where
  "sample_ledger = put ''alice'' ''uatom'' 1000000 (put ''creator'' ''uosmo'' 1000000000 (\<lambda>a d. 0))"

definition sample_collector :: maker_state where
  \<comment> \<open>a maker that collects \<open>uosmo\<close>, with a route from \<open>uatom\<close>\<close>
  "sample_collector = (sample_maker None [])\<lparr>mk_config := Some ((sample_config None)\<lparr>mc_astro_denom := ''uosmo''\<rparr>),
     mk_routes := fmupd ''uatom'' \<lparr>rs_denom_out = ''uosmo'', rs_pool_id = 1\<rparr> fmempty\<rparr>"

definition sample_start :: "ledger world" where
  "sample_start = \<lparr>w_bank = sample_ledger, w_pools = fmempty, w_factory = sample_factory [], w_pairs = fmempty,
     w_maker = sample_collector\<rparr>"

definition chain_creator :: message_info where
  "chain_creator = \<lparr>mi_sender = ''creator'', mi_funds = [\<lparr>coin_denom = ''uosmo'', coin_amount = 1000000000\<rparr>]\<rparr>"

definition chain_pair_config :: "string \<Rightarrow> pcl_config" where
  "chain_pair_config denom = with_pair_info (\<lambda>i. i\<lparr>pi_liquidity_token := denom\<rparr>)
     (initial_config sample_pcl (at_contract (sample_env 5) ''pair'') [uatom, uosmo] sample_pcl_init
       (sample_pool_params\<lparr>pm_ma_half_time := 600\<rparr>) \<lparr>ag_amp = Decimal 40, ag_gamma = Decimal 1\<rparr>)"

definition chain_pair :: "string \<Rightarrow> u64 option \<Rightarrow> pair_state" where
  "chain_pair denom pool_id = \<lparr>ps_swap_params = None, ps_pool_id = pool_id, ps_config = Some (chain_pair_config denom),
     ps_ownership_proposal = None, ps_observations = Some \<lparr>bf_capacity = 3000, bf_head = 0, bf_slots = fmempty\<rparr>,
     ps_balances = [(uatom, 0, 100), (uosmo, 0, 100)], ps_precisions = Some [(uatom, 6), (uosmo, 6)],
     ps_precommit = None, ps_cw2 = Some (CONTRACT_NAME, CONTRACT_VERSION)\<rparr>"

lemma chain_pair_born:
  "\<exists>r. pair_instantiate sample_pcl (sample_ledger_chain k fs) (at_contract (sample_env 5) ''pair'')
     \<lparr>pim_asset_infos = [uatom, uosmo], pim_token_code_id = 0, pim_factory_addr = FACTORY_ADDRESS, pim_init_params = Some ''params''\<rparr>
     new_pair_state = Inr (chain_pair '''' None, r)"
  by (simp add: pair_instantiate_def Let_def native_denoms_def denom_exists_def initial_config_def chain_pair_def chain_pair_config_def
        sample_pcl_init_def save_balances_def sample_pair_chain_def initial_updates_def sample_update_params_def or_old_def sample_pool_params_def with_pair_info_def
         sample_ledger_chain_def new_pair_state_def cong: and_then_eval_cong)


abbreviation chain_pair_msg :: pair_instantiate_msg where
  "chain_pair_msg \<equiv> \<lparr>pim_asset_infos = [uatom, uosmo], pim_token_code_id = 0, pim_factory_addr = FACTORY_ADDRESS,
     pim_init_params = Some ''params''\<rparr>"

lemma chain_pair_named:
  "pair_reply sample_pcl CREATE_DENOM_REPLY_ID (lp_token ''pair'') (chain_pair '''' None) =
     Inr (chain_pair (lp_token ''pair'') None, pair_response [(''lp_denom'', lp_token ''pair'')] [])"
  by (simp add: pair_reply_returns chain_pair_def) (simp add: chain_pair_config_def with_pair_info_def initial_config_def Let_def)

lemma fcard_none [simp]: "fcard {||} = 0"
  by (simp add: fcard.rep_eq)

lemma factory_is_apart [simp]:
  "FACTORY_ADDRESS \<noteq> ''pair''" "''pair'' \<noteq> FACTORY_ADDRESS" "FACTORY_ADDRESS \<noteq> ''creator''" "''creator'' \<noteq> FACTORY_ADDRESS"
  "FACTORY_ADDRESS \<noteq> ''alice''" "''alice'' \<noteq> FACTORY_ADDRESS" "FACTORY_ADDRESS \<noteq> ''maker''" "''maker'' \<noteq> FACTORY_ADDRESS"
  "FACTORY_ADDRESS \<noteq> ''satellite''" "''satellite'' \<noteq> FACTORY_ADDRESS"
  by (simp_all add: FACTORY_ADDRESS_def)

lemma respond_unfold: "respond N = pair_respond (Suc (Suc 0)) N"
  by (simp add: numeral_2_eq_2)

definition with_pair :: "ledger world \<Rightarrow> pair_state \<Rightarrow> ledger world" where
  "with_pair w st = w\<lparr>w_pairs := fmupd ''pair'' st fmempty, w_pools := fmupd 1 ''pair'' fmempty\<rparr>"

lemma chain_pool_created:
  assumes "w_pairs w = fmempty" and "w_pools w = fmempty"
  shows "create_pool sample_net (sample_env 5) 11 chain_pair_msg w = Some (with_pair w (chain_pair (lp_token ''pair'') None), 1)"
proof -
  from chain_pair_born [of "w_bank w" "w_factory w"] obtain r where born: "pair_instantiate sample_pcl (sample_ledger_chain (w_bank w) (w_factory w))
     (at_contract (sample_env 5) ''pair'') chain_pair_msg new_pair_state = Inr (chain_pair '''' None, r)" by blast
  from pair_instantiate_returns [OF born] have msgs: "resp_msgs r = [\<lparr>sub_id = CREATE_DENOM_REPLY_ID,
    sub_msg = MsgCreateDenom ''pair'' LP_SUBDENOM, sub_reply_on = OnSuccess\<rparr>]" by simp
  have lp: "''factory/'' @ ''pair'' @ ''/'' @ LP_SUBDENOM = lp_token ''pair''" by (simp only: lp_token_def)
  have "instantiate_pair sample_net (sample_env 5) chain_pair_msg w =
      Some (w\<lparr>w_pairs := fmupd ''pair'' (chain_pair (lp_token ''pair'') None) fmempty\<rparr>, ''pair'')"
    unfolding instantiate_pair_def Let_def respond_unfold
    by (simp add: assms born msgs call_pair_def chain_pair_named [simplified lp_token_def append.simps] lp_token_def pair_response_def)
  with assms show ?thesis by (simp add: create_pool_def with_pair_def add_checked_def)
qed

section \<open>Its creation\<close>

lemma sample_parse_fee [simp]: "parse_u128 ''1000000000'' = Inr 1000000000"
  by (simp add: parse_u128_def char_digit_def)

definition paid_ledger :: ledger where
  "paid_ledger = put FACTORY_ADDRESS ''uosmo'' 1000000000 (put ''creator'' ''uosmo'' 0 sample_ledger)"

definition registry_with_pair :: factory_state where
  "registry_with_pair = (creating ''uatom'' ''uosmo'' (sample_factory []))\<lparr>fs_pairs := fmupd ''uatomuosmo'' ''pair'' fmempty\<rparr>"

definition sample_world :: "ledger \<Rightarrow> ledger world" where
  \<comment> \<open>the world after the creation, with any ledger\<close>
  "sample_world k = \<lparr>w_bank = k, w_pools = fmupd 1 ''pair'' fmempty, w_factory = registry_with_pair,
     w_pairs = fmupd ''pair'' (chain_pair (lp_token ''pair'') (Some 1)) fmempty, w_maker = sample_collector\<rparr>"

lemma sample_accepted:
  "\<exists>r. factory_execute (n_factory_crates sample_net) (factory_asks sample_net (sample_env 5) (sample_start\<lparr>w_bank := k\<rparr>))
     (at_contract (sample_env 5) FACTORY_ADDRESS) chain_creator
     (CreatePair (Custom ''concentrated'') [uatom, uosmo] (Some ''params'')) (sample_factory [])
   = Inr (creating ''uatom'' ''uosmo'' (sample_factory []), r) \<and>
     resp_msgs r = [\<lparr>sub_id = INSTANTIATE_PAIR_REPLY_ID, sub_msg = MsgCreateCosmWasmPool 11 chain_pair_msg FACTORY_ADDRESS,
       sub_reply_on = OnSuccess\<rparr>]"
  unfolding factory_execute_def factory_execute_msg.case create_pair_returns
  by (auto simp: fee_accepted_def factory_asks_def chain_creator_def parse_fee_def factory_sample_defs creating_def
      uatom_def uosmo_def pair_key_def)

lemma sample_paid: "pay_in sample_net chain_creator FACTORY_ADDRESS sample_start = Some (sample_start\<lparr>w_bank := paid_ledger\<rparr>)"
  by (simp add: pay_in_def chain_creator_def on_bank_def sample_start_def sample_ledger_def debit_def credit_def
      sub_checked_def add_checked_def paid_ledger_def put_def fun_upd_twist)

abbreviation sample_create :: factory_execute_msg where
  "sample_create \<equiv> CreatePair (Custom ''concentrated'') [uatom, uosmo] (Some ''params'')"

lemma factory_respond_unfold: "factory_respond 2 N = factory_respond (Suc (Suc 0)) N"
  by (simp add: numeral_2_eq_2)

lemma sample_creation:
  "tx_factory sample_net (sample_env 5) chain_creator sample_create sample_start = Some (sample_world paid_ledger)"
proof -
  let ?w = "sample_start\<lparr>w_bank := paid_ledger\<rparr>" and ?f = "creating ''uatom'' ''uosmo'' (sample_factory [])"
  from sample_accepted [of paid_ledger] obtain r where r: "factory_execute (n_factory_crates sample_net)
      (factory_asks sample_net (sample_env 5) ?w) (at_contract (sample_env 5) FACTORY_ADDRESS) chain_creator sample_create
      (sample_factory []) = Inr (?f, r)"
    and msgs: "resp_msgs r = [\<lparr>sub_id = INSTANTIATE_PAIR_REPLY_ID, sub_msg = MsgCreateCosmWasmPool 11 chain_pair_msg FACTORY_ADDRESS,
       sub_reply_on = OnSuccess\<rparr>]" by blast
  let ?v = "with_pair (?w\<lparr>w_factory := ?f\<rparr>) (chain_pair (lp_token ''pair'') None)"
  have pool: "create_pool sample_net (sample_env 5) 11 chain_pair_msg (?w\<lparr>w_factory := ?f\<rparr>) = Some (?v, 1)"
    by (rule chain_pool_created) (simp_all add: sample_start_def)
  have reply: "factory_reply (n_factory_crates sample_net) (factory_asks sample_net (sample_env 5) ?v) INSTANTIATE_PAIR_REPLY_ID ''x'' ?f =
      Inr (registry_with_pair, \<lparr>resp_attrs = [(''action'', ''register''), (''pair_contract_addr'', ''pair'')],
        resp_msgs = [\<lparr>sub_id = SET_POOL_ID_FAILED_REPLY_ID, sub_msg = ExecuteSetPoolId ''pair'' 1, sub_reply_on = OnError\<rparr>]\<rparr>)"
    by (simp add: factory_reply_def creating_def factory_sample_defs pair_key_def factory_asks_def pool_contract_def with_pair_def
        registry_with_pair_def)
  have number: "set_pool_id \<lparr>mi_sender = FACTORY_ADDRESS, mi_funds = []\<rparr> 1 (chain_pair (lp_token ''pair'') None) =
      Inr (chain_pair (lp_token ''pair'') (Some 1), pair_response [(''set_pool_id'', to_string (1 :: u64))] [])"
    by (simp add: set_pool_id_def chain_pair_def)
  have "factory_respond (Suc 0) sample_net (sample_env 5)
      [\<lparr>sub_id = SET_POOL_ID_FAILED_REPLY_ID, sub_msg = ExecuteSetPoolId ''pair'' 1, sub_reply_on = OnError\<rparr>]
      (?v\<lparr>w_factory := registry_with_pair\<rparr>) = Some (sample_world paid_ledger)"
    by (simp add: call_pair_def with_pair_def pair_execute_def number respond_unfold pair_response_def sample_world_def sample_start_def)
  with pool reply have "factory_respond 2 sample_net (sample_env 5) (resp_msgs r) (?w\<lparr>w_factory := ?f\<rparr>) = Some (sample_world paid_ledger)"
    unfolding factory_respond_unfold factory_respond.simps(2) [of "Suc 0"] msgs
    by (simp add: with_pair_def del: factory_respond.simps)
  with sample_paid r show ?thesis by (simp add: tx_factory_def sample_start_def del: factory_respond.simps)
qed

lemma sample_world_reachable: "reachable sample_net (sample_world paid_ledger)"
proof (rule reachable.step [OF reachable.start])
  show "chain_step sample_net sample_start (sample_world paid_ledger)"
    by (rule chain_step.Call_factory [OF _ sample_creation]) (simp add: outsider_def chain_creator_def sample_start_def)
qed (simp_all add: sample_start_def factory_sample_defs)

lemma sample_funded:
  assumes "\<And>a d. a \<in> {FACTORY_ADDRESS, ''maker'', ''pair''} \<Longrightarrow> paid_ledger a d \<le> k a d"
  shows "reachable sample_net (sample_world k)"
proof -
  have "chain_step sample_net (sample_world paid_ledger) ((sample_world paid_ledger)\<lparr>w_bank := k\<rparr>)"
    by (rule chain_step.Outside) (use assms in \<open>auto simp: outsider_def sample_world_def word_le_nat_alt\<close>)
  with sample_world_reachable show ?thesis by (simp add: sample_world_def reachable.step)
qed

section \<open>A market on it\<close>

definition market :: ledger where
  "market = put ''pair'' ''uatom'' 1000000 (put ''pair'' ''uosmo'' 1000000 (put ''alice'' ''uatom'' 5000
     (put ''maker'' ''uatom'' 3000 paid_ledger)))"

lemma market_reachable: "reachable sample_net (sample_world market)"
  by (rule sample_funded) (auto simp: market_def paid_ledger_def sample_ledger_def)

lemma sample_funds: "funds_laws sample_pcl"
  unfolding funds_laws_def
  by (auto simp: sample_pcl_def sample_as_coin_def sample_sent_def list_ex_iff split: asset_info.splits if_splits)
    (metis (full_types) coin.cases coin.select_convs(1,2))

lemma parse_1000 [simp]: "parse_u128 ''1000'' = Inr 1000"
  by (simp add: parse_u128_def char_digit_def)

lemmas world_eval_defs = pay_in_def on_bank_def call_pair_def debit_def credit_def ask_pair_def sample_ledger_chain_def
  chain_pair_config_def with_pair_info_def initial_config_def chain_pair_def sample_pcl_init_def sample_pool_params_def
  respond_unfold sample_world_def pair_eval_defs market_def paid_ledger_def sample_ledger_def uatom_def uosmo_def
  save_balances_def sample_info_text_def pair_response_def submsg_new_def

definition alice_trades :: message_info where
  "alice_trades = \<lparr>mi_sender = ''alice'', mi_funds = [\<lparr>coin_denom = ''uatom'', coin_amount = 1000\<rparr>]\<rparr>"

lemma sample_direct_swap:
  "\<exists>w'. direct_swap sample_net (sample_env 9) alice_trades ''pair'' \<lparr>as_info = uatom, as_amount = 1000\<rparr> None None None
    (sample_world market) = Some w'"
  by (simp add: direct_swap_def alice_trades_def execute_swap_def internal_swap_def world_eval_defs cong: and_then_eval_cong)

lemma sample_exact_out:
  "\<exists>w' st c n. swap_exact_out sample_net (sample_env 9) (respond sample_net (sample_env 9)) ''alice'' [(1, ''uatom'')] ''1000''
    \<lparr>coin_denom = ''uosmo'', coin_amount = 400\<rparr> (sample_world market) = Some w' \<and> fmlookup (w_pairs w') ''pair'' = Some st \<and>
    ps_config st = Some c \<and> distinct (asset_infos c) \<and> latest (ps_balances st) uatom = Some n \<and> n \<noteq> 0"
  by (simp add: swap_exact_out_def swap_exact_amount_out_def sudo_pair_def sudo_def world_eval_defs latest_def cong: and_then_eval_cong)

lemma sample_along:
  "\<exists>w'. direct_along sample_net (sample_env 9) ''alice'' ''900'' [(1, ''uosmo'')]
    \<lparr>coin_denom = ''uatom'', coin_amount = 1000\<rparr> (sample_world market) = Some w'"
  by (simp add: parse_u128_def char_digit_def internal_swap_def world_eval_defs cong: and_then_eval_cong)

section \<open>Its liquidity\<close>

definition provider_market :: ledger where
  "provider_market = put ''alice'' ''uosmo'' 5000 (put ''alice'' (lp_token ''pair'') 5001 market)"

lemma provider_market_reachable: "reachable sample_net (sample_world provider_market)"
  by (rule sample_funded) (auto simp: provider_market_def market_def paid_ledger_def sample_ledger_def)

lemma lp_token_is_apart [simp]: "lp_token a \<noteq> ''uatom''" "lp_token a \<noteq> ''uosmo''" "''uatom'' \<noteq> lp_token a" "''uosmo'' \<noteq> lp_token a"
  by (simp_all add: lp_token_def)

definition chain_withdrawal :: message_info where
  "chain_withdrawal = \<lparr>mi_sender = ''alice'', mi_funds = [\<lparr>coin_denom = lp_token ''pair'', coin_amount = 5001\<rparr>]\<rparr>"

lemma sample_provide:
  "\<exists>w'. tx_pair sample_net (sample_env 9) alice_provides ''pair'' alice_deposit (sample_world provider_market) = Some w'"
  by (simp add: tx_pair_def provide_eval_defs alice_provides_def world_eval_defs provider_market_def cong: and_then_eval_cong)

lemma sample_withdraw:
  "\<exists>w'. tx_pair sample_net (sample_env 9) chain_withdrawal ''pair'' (WithdrawLiquidity []) (sample_world provider_market) = Some w'"
  by (simp add: tx_pair_def pair_execute_def withdraw_liquidity_def refund_of_def unwrap_def with_price_state_def withdrawn_balance_def
      chain_withdrawal_def world_eval_defs provider_market_def cong: and_then_eval_cong)

lemma sample_payments: "payment_law sample_pcl"
  by (auto simp: payment_law_def sample_pcl_def sample_must_pay_def split: list.splits if_splits)

section \<open>A maker on it\<close>

definition collector :: "ledger world" where
  "collector = sample_world market"

lemma collector_price [simp]:
  "ch_spot_price (maker_asks sample_net (sample_env 2000) collector) 1 d ''uosmo'' = Inr (to_string (1000050505050505050 :: u128))"
  by (simp add: maker_asks_def pool_contract_def collector_def world_eval_defs pair_query_def query_spot_price_def
      get_spot_price_def denom_of_def pow10_def sample_maker_crates_def cong: and_then_eval_cong)

lemma sample_maker_balance [simp]:
  "ch_balance (maker_asks sample_net env w) a d = Inr \<lparr>coin_denom = d, coin_amount = w_bank w a d\<rparr>"
  by (simp add: maker_asks_def)

lemma collector_bank [simp]: "w_bank collector = market"
  by (simp add: collector_def sample_world_def)

lemma maker_holds [simp]: "market ''maker'' ''uatom'' = 3000"
  by (simp add: market_def)

definition collector_swap :: "maker_msg submsg" where
  "collector_swap = \<lparr>sub_id = POST_COLLECT_REPLY_ID, sub_msg = maker_msg.MsgSwapExactAmountIn ''maker''
     [\<lparr>Maker_State.swap_amount_in_route.sa_pool_id = 1, Maker_State.swap_amount_in_route.sa_token_out_denom = ''uosmo''\<rparr>] \<lparr>coin_denom = ''uatom'', coin_amount = 3000\<rparr> (to_string (2700 :: u128)),
     sub_reply_on = OnSuccess\<rparr>"

lemma collector_collects:
  "\<exists>r. collect (n_maker_crates sample_net) (maker_asks sample_net (sample_env 2000) collector) (at_contract (sample_env 2000) ''maker'')
     [\<lparr>cl_denom = ''uatom'', cl_amount = None\<rparr>] (w_maker collector) =
   Inr ((w_maker collector)\<lparr>mk_last_collect_ts := Some 2000\<rparr>, r) \<and> resp_msgs r = [collector_swap]"
proof -
  have routes: "mk_routes (w_maker collector) = fmupd ''uatom'' \<lparr>rs_denom_out = ''uosmo'', rs_pool_id = 1\<rparr> fmempty"
    "mk_config (w_maker collector) = Some ((sample_config None)\<lparr>mc_astro_denom := ''uosmo''\<rparr>)"
    "mk_last_collect_ts (w_maker collector) = Some 1000"
    by (simp_all add: collector_def sample_world_def sample_collector_def sample_maker_def)
  show ?thesis
    by (simp add: routes maker_eval_defs collect_eval_defs

      DECIMAL_FRACTIONAL_def collector_swap_def submsg_new_def u128_of_def parse_show_u128 del: parse_u128_def char_digit_def cong: and_then_eval_cong)
qed

definition collector_caller :: message_info where
  "collector_caller = \<lparr>mi_sender = ''alice'', mi_funds = []\<rparr>"

lemma collector_sells:
  "\<exists>v. swap_exact_in sample_net (sample_env 2000) (respond sample_net (sample_env 2000)) ''maker'' [(1, ''uosmo'')]
     \<lparr>coin_denom = ''uatom'', coin_amount = 3000\<rparr> (to_string (2700 :: u128)) (collector\<lparr>w_maker := m\<rparr>) = Some v \<and>
     w_maker v = m \<and> w_bank v ''maker'' ''uosmo'' = 2985 \<and> w_bank v ''satellite'' ''uosmo'' = 0"
  by (simp add: collector_def swap_exact_in_def parse_show_u128 world_eval_defs sudo_pair_def sudo_def
      sudo_swap_exact_amount_in_def internal_swap_def cong: and_then_eval_cong)

lemma maker_respond_unfold: "maker_respond 2 N = maker_respond (Suc (Suc 0)) N"
  by (simp add: numeral_2_eq_2)

lemma collector_runs:
  "\<exists>w'. tx_maker sample_net (sample_env 2000) collector_caller (Collect [\<lparr>cl_denom = ''uatom'', cl_amount = None\<rparr>]) collector = Some w'"
proof -
  from collector_collects obtain r where r: "collect (n_maker_crates sample_net) (maker_asks sample_net (sample_env 2000) collector)
     (at_contract (sample_env 2000) ''maker'') [\<lparr>cl_denom = ''uatom'', cl_amount = None\<rparr>] (w_maker collector) =
     Inr ((w_maker collector)\<lparr>mk_last_collect_ts := Some 2000\<rparr>, r)" "resp_msgs r = [collector_swap]" by blast
  then have ex: "maker_execute (n_maker_crates sample_net) (maker_asks sample_net (sample_env 2000) collector)
     (at_contract (sample_env 2000) ''maker'') collector_caller (Collect [\<lparr>cl_denom = ''uatom'', cl_amount = None\<rparr>]) (w_maker collector) =
     Inr ((w_maker collector)\<lparr>mk_last_collect_ts := Some 2000\<rparr>, r)"
    by (simp add: maker_execute_def collector_caller_def sample_maker_crates_def)
  obtain v where v: "swap_exact_in sample_net (sample_env 2000) (respond sample_net (sample_env 2000)) ''maker'' [(1, ''uosmo'')]
     \<lparr>coin_denom = ''uatom'', coin_amount = 3000\<rparr> (to_string (2700 :: u128))
     (collector\<lparr>w_maker := (w_maker collector)\<lparr>mk_last_collect_ts := Some 2000\<rparr>\<rparr>) = Some v"
     "w_maker v = (w_maker collector)\<lparr>mk_last_collect_ts := Some 2000\<rparr>" "w_bank v ''maker'' ''uosmo'' = 2985" "w_bank v ''satellite'' ''uosmo'' = 0"
    using collector_sells by blast
  have conf: "mk_config (w_maker collector) = Some ((sample_config None)\<lparr>mc_astro_denom := ''uosmo''\<rparr>)"
    by (simp add: collector_def sample_world_def sample_collector_def)
  have reply: "\<exists>t. maker_reply (maker_asks sample_net (sample_env 2000) v) (at_contract (sample_env 2000) ''maker'') POST_COLLECT_REPLY_ID (w_maker v) =
      Inr (w_maker v, t) \<and> resp_msgs t = [submsg_new (TransferAstro ''satellite'' [\<lparr>coin_denom = ''uosmo'', coin_amount = 2985\<rparr>])]"
    using conf by (simp add: maker_reply_def v sample_config_def)
  have paid: "\<exists>w'. maker_respond (Suc 0) sample_net (sample_env 2000)
      [submsg_new (TransferAstro ''satellite'' [\<lparr>coin_denom = ''uosmo'', coin_amount = 2985\<rparr>])] v = Some w'"
    by (simp add: submsg_new_def on_bank_def debit_def credit_def sub_checked_def add_checked_def v)
  from reply paid obtain t w' where "maker_reply (maker_asks sample_net (sample_env 2000) v) (at_contract (sample_env 2000) ''maker'') POST_COLLECT_REPLY_ID (w_maker v) =
      Inr (w_maker v, t)" "maker_respond (Suc 0) sample_net (sample_env 2000) (resp_msgs t) v = Some w'" by metis
  then have "maker_respond 2 sample_net (sample_env 2000) [collector_swap]
      (collector\<lparr>w_maker := (w_maker collector)\<lparr>mk_last_collect_ts := Some 2000\<rparr>\<rparr>) = Some w'"
    unfolding maker_respond_unfold maker_respond.simps(2) [of "Suc 0"]
    by (simp add: collector_swap_def routes_of_maker_def v(1) del: maker_respond.simps)
  with ex show ?thesis
    by (simp add: tx_maker_def pay_in_def collector_caller_def r(2) del: maker_respond.simps pair_respond.simps)
qed

end
