(* ===== verification/World_Properties.thy ===== *)
theory World_Properties
  imports World_Samples Pair_Liquidity_Properties
begin

text \<open>
  The properties of the composed system: what holds in every world the chain can reach from an
  empty registry, and what whole transactions do. Each theorem is followed by a witness on the
  sample chain of \<open>World_Samples\<close>.
\<close>

section \<open>Creation and the registry\<close>

text \<open>
  C4. The creation of a pair is one transaction across four parties. In every reachable world, a
  successful \<open>CreatePair\<close> ran the factory's handler, the pool module, the instantiation of the
  pair, the token factory's reply, the factory's reply and the pair's \<open>SetPoolId\<close>; afterwards
  exactly one new pair exists, over the two distinct native assets asked for, with no swap
  pending; it knows its address, its LP token and the next pool id, the pool module maps that id
  to it, and the registry maps the key of the assets, which was free, to it.
\<close>

theorem pair_creation_whole:
  assumes "reachable N w" and "tx_factory N env info (CreatePair pt infos ip) w = Some w'"
    and "deployed N" and "pool_id_law N" and "denom_law N"
  shows "\<exists>a p st. a \<notin> fmdom' (w_pairs w) \<and> distinct infos \<and> two_natives infos \<and>
    w_pairs w' = fmupd a st (w_pairs w) \<and> ps_swap_params st = None \<and>
    settled (concentrated infos a) (Some (lp_token a)) (Some p) st \<and>
    unat p = fcard (fmdom (w_pools w)) + 1 \<and> w_pools w' = fmupd p a (w_pools w) \<and>
    fmlookup (fs_pairs (w_factory w)) (pair_key (n_factory_crates N) infos) = None \<and>
    fs_pairs (w_factory w') = fmupd (pair_key (n_factory_crates N) infos) a (fs_pairs (w_factory w)) \<and>
    w_maker w' = w_maker w"
  using create_pair_tx [OF assms(2) reachable_steady [OF assms(1,3)] assms(3-5)] unfolding created_def by blast

lemma sample_start_reachable: "reachable sample_net sample_start"
  by (rule reachable.start) (simp_all add: sample_start_def factory_sample_defs)

theorem pair_creation_whole_witness:
  "\<exists>w'. tx_factory sample_net (sample_env 5) chain_creator sample_create sample_start = Some w' \<and>
    (\<exists>a p st. w_pairs w' = fmupd a st fmempty \<and> w_pools w' = fmupd p a fmempty \<and> p = 1 \<and>
       settled (concentrated [uatom, uosmo] a) (Some (lp_token a)) (Some p) st)"
proof -
  from pair_creation_whole [OF sample_start_reachable sample_creation sample_deployed sample_pool_ids sample_denoms_decoded]
  obtain a p st where "w_pairs (sample_world paid_ledger) = fmupd a st (w_pairs sample_start)"
    "settled (concentrated [uatom, uosmo] a) (Some (lp_token a)) (Some p) st"
    "unat p = fcard (fmdom (w_pools sample_start)) + 1"
    "w_pools (sample_world paid_ledger) = fmupd p a (w_pools sample_start)" by blast
  moreover from this(3) have "p = 1" by (simp add: sample_start_def word_unat_eq_iff)
  ultimately show ?thesis using sample_creation by (fastforce simp: sample_start_def)
qed

text \<open>
  C3. The registry is sound in every reachable world. Whatever transactions, swaps, pool creations
  and migrations the chain has run, a key the factory has registered is the key of some assets,
  and the address it leads to is a pair of this chain over these assets, created for this
  factory, that knows its LP token; its pool id is set, and the pool module leads from it back
  to the pair.
\<close>

theorem registry_sound:
  assumes "reachable N w" and "fmlookup (fs_pairs (w_factory w)) k = Some a"
    and "deployed N" and "bank_laws N" and "outside_law N" and "pool_id_law N" and "denom_law N"
  shows "\<exists>infos p st. k = pair_key (n_factory_crates N) infos \<and> fmlookup (w_pairs w) a = Some st \<and>
    settled (concentrated infos a) (Some (lp_token a)) (Some p) st \<and> fmlookup (w_pools w) p = Some a"
proof -
  from reachable_registered [OF assms(1)] assms(2-7) obtain infos p st where
    r: "k = pair_key (n_factory_crates N) infos" "fmlookup (w_pairs w) a = Some st"
      "settled (concentrated infos a) (Some (lp_token a)) (Some p) st" unfolding registered_def by blast
  from r(3) have "ps_pool_id st = Some p" by (simp add: settled_def)
  from steadyD(2) [OF reachable_steady [OF assms(1,3)] r(2) this] r show ?thesis by blast
qed

theorem registry_sound_witness:
  "\<exists>infos p st. ''uatomuosmo'' = pair_key (n_factory_crates sample_net) infos \<and>
    fmlookup (w_pairs (sample_world market)) ''pair'' = Some st \<and>
    settled (concentrated infos ''pair'') (Some (lp_token ''pair'')) (Some p) st \<and>
    fmlookup (w_pools (sample_world market)) p = Some ''pair''"
proof -
  have "fmlookup (fs_pairs (w_factory (sample_world market))) ''uatomuosmo'' = Some ''pair''"
    by (simp add: sample_world_def registry_with_pair_def)
  from registry_sound [OF market_reachable this sample_deployed sample_bank_laws sample_outside sample_pool_ids sample_denoms_decoded]
  show ?thesis .
qed

section \<open>Every reachable world\<close>

text \<open>
  C8. No swap stays pending, and pool ids are never shared. In every reachable world no pair holds
  stored swap parameters, so the swap that a user's \<open>Swap\<close> dispatched was executed, with these
  parameters, in the same transaction, and a swap of the pool module never runs with those of
  another; and two pairs with the same pool id are the same pair, the one the pool module calls
  for it.
\<close>

theorem no_swap_pending:
  assumes "reachable N w" and "deployed N" and "fmlookup (w_pairs w) a = Some st"
  shows "ps_swap_params st = None \<and> (\<forall>p. ps_pool_id st = Some p \<longrightarrow> fmlookup (w_pools w) p = Some a \<and> p \<noteq> 0) \<and>
    (\<forall>b st2 p. fmlookup (w_pairs w) b = Some st2 \<and> ps_pool_id st = Some p \<and> ps_pool_id st2 = Some p \<longrightarrow> b = a)"
proof -
  note s = reachable_steady [OF assms(1,2)]
  from steadyD(1) [OF s assms(3)] steadyD(2) [OF s assms(3)] steadyD(2) [OF s] steadyD(3) [OF s] show ?thesis
    by (metis empty_iff option.inject)
qed

theorem no_swap_pending_witness:
  "\<exists>w' st. swap_exact_out sample_net (sample_env 9) (respond sample_net (sample_env 9)) ''alice'' [(1, ''uatom'')] ''1000''
      \<lparr>coin_denom = ''uosmo'', coin_amount = 400\<rparr> (sample_world market) = Some w' \<and>
    fmlookup (w_pairs w') ''pair'' = Some st \<and> ps_swap_params st = None"
proof -
  from sample_exact_out obtain w' st where w': "swap_exact_out sample_net (sample_env 9) (respond sample_net (sample_env 9)) ''alice''
      [(1, ''uatom'')] ''1000'' \<lparr>coin_denom = ''uosmo'', coin_amount = 400\<rparr> (sample_world market) = Some w'"
    and st: "fmlookup (w_pairs w') ''pair'' = Some st" by blast
  have "reachable sample_net w'"
    by (rule reachable.step [OF market_reachable], rule chain_step.Dex_out [OF _ w'])
      (simp add: outsider_def sample_world_def)
  from no_swap_pending [OF this sample_deployed st] w' st show ?thesis by blast
qed

text \<open>
  C2. The tracked balances are backed. In every reachable world, for every pair over two different
  assets: the balance the pair last saved of an asset in its snapshot map is at most what the
  bank holds for the pair, whatever was provided, withdrawn, swapped, collected or given to it
  since, in whatever order.
\<close>

theorem tracked_balances_backed:
  assumes "reachable N w" and "fmlookup (w_pairs w) a = Some st" and "ps_config st = Some c" and "distinct (asset_infos c)"
    and "latest (ps_balances st) (NativeToken d) = Some n"
    and "deployed N" and "bank_laws N" and "outside_law N" and "registry_law N" and "denom_law N"
    and "exact_law (n_pcl_crates N)" and "balance_law N"
  shows "unat n \<le> n_balance N (w_bank w) a d"
proof -
  from reachable_backed [OF assms(1)] assms(6-12) have "covered N (w_bank w) a st"
    using pairs_allD [OF _ assms(2)] unfolding backed_def by blast
  with assms(3-5) show ?thesis by (auto simp: covered_def)
qed

theorem tracked_balances_backed_witness:
  "\<exists>w' st n. swap_exact_out sample_net (sample_env 9) (respond sample_net (sample_env 9)) ''alice'' [(1, ''uatom'')] ''1000''
      \<lparr>coin_denom = ''uosmo'', coin_amount = 400\<rparr> (sample_world market) = Some w' \<and>
    fmlookup (w_pairs w') ''pair'' = Some st \<and> latest (ps_balances st) uatom = Some n \<and> 0 < unat n \<and>
    unat n \<le> unat (w_bank w' ''pair'' ''uatom'')"
proof -
  from sample_exact_out obtain w' st c n where w': "swap_exact_out sample_net (sample_env 9) (respond sample_net (sample_env 9)) ''alice''
      [(1, ''uatom'')] ''1000'' \<lparr>coin_denom = ''uosmo'', coin_amount = 400\<rparr> (sample_world market) = Some w'"
    and st: "fmlookup (w_pairs w') ''pair'' = Some st" "ps_config st = Some c" "distinct (asset_infos c)"
    and n: "latest (ps_balances st) uatom = Some n" "n \<noteq> 0" by blast
  have r: "reachable sample_net w'"
    by (rule reachable.step [OF market_reachable], rule chain_step.Dex_out [OF _ w'])
      (simp add: outsider_def sample_world_def)
  have "exact_law (n_pcl_crates sample_net)" by (simp add: sample_exact)
  from tracked_balances_backed [OF r st n(1) [unfolded uatom_def] sample_deployed sample_bank_laws sample_outside sample_registry
      sample_denoms_decoded this sample_balances] n w' st(1)
  show ?thesis by (auto simp: unat_gt_0)
qed

section \<open>Swaps\<close>

text \<open>
  C1. A user's swap is one direct swap. The pair answers a \<open>Swap\<close> by storing its parameters and
  sending the offer to the pool module, which sends it back to the pair and calls its \<open>sudo\<close>.
  In every reachable world this round trip, with all its messages, ends in the same world as
  the funds paid in, the checks of \<open>execute_swap\<close>, the swap for the user and its payments; and
  it fails exactly when these do. Excluded are empty offers and offers so large that the
  \<open>sudo\<close> handler panics on them (see \<open>large_dispatched_swaps_fail\<close>).
\<close>

theorem user_swap_is_direct:
  assumes "reachable N w" and "deployed N" and "bank_laws N" and "funds_laws (n_pcl_crates N)" and "pair_addresses_valid N w"
    and "mi_sender info \<noteq> a" and "as_amount offer \<noteq> 0"
    and "decimal_from_ratio (n_pcl_crates N) (as_amount offer) 1 = Some ratio"
  shows "tx_pair N env info a (Swap offer ask bp ms to) w = direct_swap N env info a offer bp ms to w"
  by (rule swap_is_direct [OF reachable_steady [OF assms(1,2)] assms(3-8)])

lemma market_addresses: "pair_addresses_valid sample_net (sample_world market)"
  by (simp add: pair_addresses_valid_def sample_world_def sample_pcl_def sample_addr_validate_def)

lemma sample_ratio_1000: "decimal_from_ratio (n_pcl_crates sample_net) (as_amount \<lparr>as_info = uatom, as_amount = 1000\<rparr>) 1 =
    Some (Decimal 1000000000000000000000)"
  by (simp add: sample_pcl_def sample_ratio_def u128_of_def)

theorem user_swap_is_direct_witness:
  "\<exists>w'. tx_pair sample_net (sample_env 9) alice_trades ''pair'' (Swap \<lparr>as_info = uatom, as_amount = 1000\<rparr> None None None None)
      (sample_world market) = Some w'"
proof -
  have f: "funds_laws (n_pcl_crates sample_net)" by (simp add: sample_funds)
  have "mi_sender alice_trades \<noteq> ''pair''" "as_amount \<lparr>as_info = uatom, as_amount = 1000\<rparr> \<noteq> 0" by (simp_all add: alice_trades_def)
  from user_swap_is_direct [OF market_reachable sample_deployed sample_bank_laws f market_addresses this sample_ratio_1000]
    sample_direct_swap show ?thesis by simp
qed

text \<open>
  C10. A route of the pool module is a chain of direct swaps. In every reachable world a
  \<open>MsgSwapExactAmountIn\<close> makes each pool of the route, in order, swap what the one before
  returned, for the sender, at the price of the minimum and with no spread allowed: the fee
  query, the \<open>sudo\<close> dispatch and the handling of stored parameters add nothing and take nothing.
\<close>

theorem module_swap_is_direct:
  assumes "reachable N w" and "deployed N"
  shows "swap_exact_in N env (respond N env) sender routes token_in min_text w =
    (if routes = [] then None else direct_along N env sender min_text routes token_in w)"
  by (simp add: swap_exact_in_def swap_along_is_direct [OF reachable_steady [OF assms]] del: pair_respond.simps)

theorem module_swap_is_direct_witness:
  "\<exists>w'. swap_exact_in sample_net (sample_env 9) (respond sample_net (sample_env 9)) ''alice'' [(1, ''uosmo'')]
     \<lparr>coin_denom = ''uatom'', coin_amount = 1000\<rparr> ''900'' (sample_world market) = Some w'"
  using sample_along by (simp add: module_swap_is_direct [OF market_reachable sample_deployed] del: pair_respond.simps direct_along.simps)

text \<open>
  C5. What a user's swap moves. After a successful \<open>Swap\<close> the funds of the message have gone from
  the sender to the pair, and the pair has paid the return to the receiver (the validated \<open>to\<close>, or
  the sender) and at most one fee, to the fee address the factory answered for the pair's type,
  both in the other asset of the pair; every other balance of every account, in every denom, is
  what it was.
\<close>

theorem user_swap_settles:
  assumes "reachable N w" and "tx_pair N env info a (Swap offer ask bp ms to) w = Some w'"
    and "fmlookup (w_pairs w) a = Some st" and "ps_config st = Some c" and "distinct (asset_infos c)"
    and "mi_sender info \<noteq> a" and "as_amount offer \<noteq> 0"
    and "decimal_from_ratio (n_pcl_crates N) (as_amount offer) 1 = Some ratio"
    and "deployed N" and "bank_laws N" and "outside_law N" and "registry_law N" and "denom_law N"
    and "exact_law (n_pcl_crates N)" and "balance_law N" and "funds_laws (n_pcl_crates N)" and "pair_addresses_valid N w"
  shows "\<exists>b fees asked ret fee fee_to to'.
    pq_fee_info (n_pair_chain N b (w_factory w)) (cc_factory_addr c) (pi_pair_type (cc_pair_info c)) = Inr fees \<and>
    set (asset_infos c) = {as_info offer, NativeToken asked} \<and> as_info offer \<noteq> NativeToken asked \<and>
    (fee = 0 \<or> fi_fee_address fees = Some fee_to) \<and> addr_opt_validate (n_pcl_crates N) to = Inr to' \<and>
    (\<forall>x y. n_balance N (w_bank w') x y + (if x = mi_sender info then amount_of y (mi_funds info) else 0) +
        held (x = a \<and> y = asked) ret + held (x = a \<and> y = asked) fee =
      n_balance N (w_bank w) x y + (if x = a then amount_of y (mi_funds info) else 0) +
        held (x = (case to' of None \<Rightarrow> mi_sender info | Some z \<Rightarrow> z) \<and> y = asked) ret + held (x = fee_to \<and> y = asked) fee)"
proof -
  from swap_is_direct [OF reachable_steady [OF assms(1,9)] assms(10,16,17,6-8)] assms(2)
  have direct: "direct_swap N env info a offer bp ms to w = Some w'" by simp
  from reachable_backed [OF assms(1)] assms(9-15) pairs_allD [OF _ assms(3)] have live: "live N a st" by blast
  from swap_settlement [OF direct assms(3-5) live assms(10,14,15)] show ?thesis .
qed

theorem user_swap_settles_witness:
  "\<exists>w'. tx_pair sample_net (sample_env 9) alice_trades ''pair'' (Swap \<lparr>as_info = uatom, as_amount = 1000\<rparr> None None None None)
      (sample_world market) = Some w' \<and> unat (w_bank w' ''alice'' ''uatom'') = 4000"
proof -
  have f: "funds_laws (n_pcl_crates sample_net)" "exact_law (n_pcl_crates sample_net)" by (simp_all add: sample_funds sample_exact)
  have i: "mi_sender alice_trades \<noteq> ''pair''" "as_amount \<lparr>as_info = uatom, as_amount = 1000\<rparr> \<noteq> 0" by (simp_all add: alice_trades_def)
  from swap_is_direct [OF reachable_steady [OF market_reachable sample_deployed] sample_bank_laws f(1) market_addresses i sample_ratio_1000]
    sample_direct_swap obtain w' where w': "tx_pair sample_net (sample_env 9) alice_trades ''pair''
      (Swap \<lparr>as_info = uatom, as_amount = 1000\<rparr> None None None None) (sample_world market) = Some w'" by metis
  let ?c = "chain_pair_config (lp_token ''pair'')"
  have p: "fmlookup (w_pairs (sample_world market)) ''pair'' = Some (chain_pair (lp_token ''pair'') (Some 1))"
    "ps_config (chain_pair (lp_token ''pair'') (Some 1)) = Some ?c" "distinct (asset_infos ?c)"
    by (simp_all add: sample_world_def chain_pair_def chain_pair_config_def with_pair_info_def initial_config_def Let_def)
  from user_swap_settles [OF market_reachable w' p i sample_ratio_1000 sample_deployed sample_bank_laws sample_outside
      sample_registry sample_denoms_decoded f(2) sample_balances f(1) market_addresses]
  obtain asked ret fee fee_to where a: "uatom \<noteq> NativeToken asked"
    and bal: "\<And>x y. n_balance sample_net (w_bank w') x y + (if x = mi_sender alice_trades then amount_of y (mi_funds alice_trades) else 0) +
        held (x = ''pair'' \<and> y = asked) ret + held (x = ''pair'' \<and> y = asked) fee =
      n_balance sample_net (w_bank (sample_world market)) x y + (if x = ''pair'' then amount_of y (mi_funds alice_trades) else 0) +
        held (x = mi_sender alice_trades \<and> y = asked) ret + held (x = fee_to \<and> y = asked) fee"
    by (auto simp: sample_pcl_def sample_addr_opt_validate_def)
  from bal [of "''alice''" "''uatom''"] a have "unat (w_bank w' ''alice'' ''uatom'') = 4000"
    by (auto simp: alice_trades_def held_def sample_world_def market_def uatom_def split: if_splits)
  with w' show ?thesis by blast
qed

text \<open>
  C9. What an exact-out swap moves. After a successful \<open>MsgSwapExactAmountOut\<close>, with the maximum
  sent in advance and the excess returned by the pool module, the sender has paid what the pair
  charged, at most the maximum, and received one payment in the denom asked for; the pair paid at
  most one fee, to the fee address the factory answered; every other balance is what it was.
\<close>

theorem exact_out_settles:
  assumes "swap_exact_out N env (respond N env) sender routes m_text out w = Some w'" and "bank_laws N"
  shows "\<exists>p d routes' a m charged st c b fees ret fee fee_to. routes = (p, d) # routes' \<and> fmlookup (w_pools w) p = Some a \<and>
    parse_u128 m_text = Inr m \<and> charged \<le> m \<and> d \<noteq> coin_denom out \<and>
    fmlookup (w_pairs w) a = Some st \<and> ps_config st = Some c \<and>
    pq_fee_info (n_pair_chain N b (w_factory w)) (cc_factory_addr c) (pi_pair_type (cc_pair_info c)) = Inr fees \<and>
    (fee = 0 \<or> fi_fee_address fees = Some fee_to) \<and>
    (\<forall>x y. n_balance N (w_bank w') x y + held (x = sender \<and> y = d) charged +
         held (x = a \<and> y = coin_denom out) ret + held (x = a \<and> y = coin_denom out) fee =
       n_balance N (w_bank w) x y + held (x = a \<and> y = d) charged +
         held (x = sender \<and> y = coin_denom out) ret + held (x = fee_to \<and> y = coin_denom out) fee)"
  by (rule exact_out_settlement [OF assms])

theorem exact_out_settles_witness:
  "\<exists>w'. swap_exact_out sample_net (sample_env 9) (respond sample_net (sample_env 9)) ''alice'' [(1, ''uatom'')] ''1000''
      \<lparr>coin_denom = ''uosmo'', coin_amount = 400\<rparr> (sample_world market) = Some w' \<and>
    4000 \<le> unat (w_bank w' ''alice'' ''uatom'')"
proof -
  from sample_exact_out obtain w' where w': "swap_exact_out sample_net (sample_env 9) (respond sample_net (sample_env 9)) ''alice''
      [(1, ''uatom'')] ''1000'' \<lparr>coin_denom = ''uosmo'', coin_amount = 400\<rparr> (sample_world market) = Some w'" by blast
  from exact_out_settles [OF w' sample_bank_laws] obtain p d routes' a m charged ret fee fee_to where
    r: "[(1 :: u64, ''uatom'')] = (p, d) # routes'" "parse_u128 ''1000'' = Inr m" "charged \<le> m" and
    bal: "\<forall>x y. n_balance sample_net (w_bank w') x y + held (x = ''alice'' \<and> y = d) charged +
         held (x = a \<and> y = coin_denom \<lparr>coin_denom = ''uosmo'', coin_amount = 400\<rparr>) ret +
         held (x = a \<and> y = coin_denom \<lparr>coin_denom = ''uosmo'', coin_amount = 400\<rparr>) fee =
       n_balance sample_net (w_bank (sample_world market)) x y + held (x = a \<and> y = d) charged +
         held (x = ''alice'' \<and> y = coin_denom \<lparr>coin_denom = ''uosmo'', coin_amount = 400\<rparr>) ret +
         held (x = fee_to \<and> y = coin_denom \<lparr>coin_denom = ''uosmo'', coin_amount = 400\<rparr>) fee"
    by (elim exE conjE) (rule that; assumption)
  with bal [THEN spec, THEN spec, of "''alice''" "''uatom''"] have "charged \<le> 1000"
    "unat (w_bank w' ''alice'' ''uatom'') + unat charged = 5000 + held (''alice'' = a) charged"
    by (auto simp: held_def sample_world_def market_def)
  then have "4000 \<le> unat (w_bank w' ''alice'' ''uatom'')" by (simp add: word_le_nat_alt)
  with w' show ?thesis by blast
qed

section \<open>Liquidity\<close>

text \<open>
  C6. What a provide moves. After a successful \<open>ProvideLiquidity\<close> the funds of the message have gone
  from the sender to the pair, one amount of the LP token has been minted to the receiver (the
  validated address, or the sender) and, when the supply found with the funds paid in was zero,
  the minimum liquidity to the pair itself; every other balance of every account is what it was.
\<close>

theorem provide_settles:
  assumes "tx_pair N env info a (ProvideLiquidity assets tol auto_stake receiver) w = Some w'" and "bank_laws N"
    and "fmlookup (w_pairs w) a = Some st" and "ps_config st = Some c"
  shows "\<exists>w1 total to' n kept. pay_in N info a w = Some w1 \<and>
    decimal_supply (n_pcl_crates N) (pair_asks N w1) (lp_denom c) = Inr total \<and>
    kept = (if total = decimal256_zero then MINIMUM_LIQUIDITY_AMOUNT (n_pcl_crates N) else 0) \<and>
    addr_opt_validate (n_pcl_crates N) receiver = Inr to' \<and>
    (\<forall>x y. n_balance N (w_bank w') x y + (if x = mi_sender info then amount_of y (mi_funds info) else 0) =
       n_balance N (w_bank w) x y + (if x = a then amount_of y (mi_funds info) else 0) +
         held (x = (case to' of None \<Rightarrow> mi_sender info | Some z \<Rightarrow> z) \<and> y = lp_denom c) n +
         held (x = a \<and> y = lp_denom c) kept)"
  by (rule provide_settlement [OF assms])

lemma market_pair:
  "fmlookup (w_pairs (sample_world k)) ''pair'' = Some (chain_pair (lp_token ''pair'') (Some 1))"
  "ps_config (chain_pair (lp_token ''pair'') (Some 1)) = Some (chain_pair_config (lp_token ''pair''))"
  "lp_denom (chain_pair_config (lp_token ''pair'')) = lp_token ''pair''"
  by (simp_all add: sample_world_def chain_pair_def chain_pair_config_def with_pair_info_def initial_config_def Let_def)

theorem provide_settles_witness:
  "\<exists>w'. tx_pair sample_net (sample_env 9) alice_provides ''pair'' alice_deposit (sample_world provider_market) = Some w' \<and>
    w_bank w' ''alice'' ''uatom'' = 0 \<and> unat (w_bank w' ''pair'' ''uosmo'') = 1005000"
proof -
  from sample_provide obtain w' where w': "tx_pair sample_net (sample_env 9) alice_provides ''pair'' alice_deposit
      (sample_world provider_market) = Some w'" by blast
  from provide_settles [OF w' sample_bank_laws market_pair(1,2)] obtain n kept to' where
    bal: "\<forall>x y. n_balance sample_net (w_bank w') x y +
        (if x = mi_sender alice_provides then amount_of y (mi_funds alice_provides) else 0) =
      n_balance sample_net (w_bank (sample_world provider_market)) x y + (if x = ''pair'' then amount_of y (mi_funds alice_provides) else 0) +
         held (x = (case to' of None \<Rightarrow> mi_sender alice_provides | Some z \<Rightarrow> z) \<and> y = lp_token ''pair'') n +
         held (x = ''pair'' \<and> y = lp_token ''pair'') kept"
    unfolding market_pair(3) by (elim exE conjE) (rule that; assumption)
  from bal [THEN spec, THEN spec, of "''alice''" "''uatom''"] bal [THEN spec, THEN spec, of "''pair''" "''uosmo''"] w' show ?thesis
    by (auto simp: alice_provides_def held_def sample_world_def provider_market_def market_def unat_eq_0)
qed

text \<open>
  C7. What a withdrawal moves. After a successful \<open>WithdrawLiquidity\<close> the LP tokens of the message,
  its only coin, have left the sender and are gone; the pair has paid the sender what
  \<open>query_share\<close> answers for that amount once the tokens have arrived; every other balance of
  every account, in every denom, is what it was.
\<close>

theorem withdraw_settles:
  assumes "tx_pair N env info a (WithdrawLiquidity assets) w = Some w'" and "bank_laws N"
    and "fmlookup (w_pairs w) a = Some st" and "ps_config st = Some c"
    and "refund_law (n_pcl_crates N)" and "payment_law (n_pcl_crates N)"
  shows "\<exists>w1 amount refunds. pay_in N info a w = Some w1 \<and> assets = [] \<and>
    mi_funds info = [\<lparr>coin_denom = lp_denom c, coin_amount = amount\<rparr>] \<and>
    query_share (n_pcl_crates N) (pair_asks N w1) amount st = Inr refunds \<and>
    (\<forall>x y. n_balance N (w_bank w') x y + held (x = mi_sender info \<and> y = lp_denom c) amount + (if x = a then received refunds y else 0) =
       n_balance N (w_bank w) x y + (if x = mi_sender info then received refunds y else 0))"
  by (rule withdraw_settlement [OF assms])

theorem withdraw_settles_witness:
  "\<exists>w'. tx_pair sample_net (sample_env 9) chain_withdrawal ''pair'' (WithdrawLiquidity []) (sample_world provider_market) = Some w' \<and>
    unat (w_bank w' ''alice'' ''uatom'') + unat (w_bank w' ''pair'' ''uatom'') = 1005000 \<and>
    unat (w_bank w' ''pair'' (lp_token ''pair'')) = 0"
proof -
  from sample_withdraw obtain w' where w': "tx_pair sample_net (sample_env 9) chain_withdrawal ''pair'' (WithdrawLiquidity [])
      (sample_world provider_market) = Some w'" by blast
  have "refund_law (n_pcl_crates sample_net)" "payment_law (n_pcl_crates sample_net)" by (simp_all add: sample_refunds sample_payments)
  from withdraw_settles [OF w' sample_bank_laws market_pair(1,2) this] obtain amount refunds where
    bal: "\<And>x y. unat (w_bank w' x y) + held (x = ''alice'' \<and> y = lp_token ''pair'') amount + (if x = ''pair'' then received refunds y else 0) =
       unat (provider_market x y) + (if x = ''alice'' then received refunds y else 0)"
    unfolding market_pair(3) by (auto simp: chain_withdrawal_def sample_world_def)
  from bal [of "''alice''" "''uatom''"] bal [of "''pair''" "''uatom''"] bal [of "''pair''" "lp_token ''pair''"] w' show ?thesis
    by (auto simp: held_def provider_market_def market_def paid_ledger_def sample_ledger_def)
qed

section \<open>The collect\<close>

lemma mock_price_ignores_base:
  \<comment> \<open>the pool module of the tests asks the pair for the price of the quote denom in itself\<close>
  "ch_spot_price (maker_asks N env w) pool_id base quote = ch_spot_price (maker_asks N env w) pool_id base' quote"
  by (simp add: maker_asks_def)

text \<open>
  C11. A collect delivers the ASTRO. In every reachable world a successful \<open>Collect\<close> ends, after all its
  swaps, in a world in which the maker has at least the ASTRO it started with (no swap spends
  any), and then its whole ASTRO balance of that moment goes to the satellite, which is
  executed; nothing of it stays, and nothing else changes any more.
\<close>

theorem collect_empties_astro:
  assumes "reachable N w" and "tx_maker N env info (Collect assets) w = Some w'" and "mk_config (w_maker w) = Some config"
    and "mc_satellite config \<noteq> n_maker N"
    and "deployed N" and "bank_laws N" and "outside_law N" and "maker_balance_law N"
  shows "\<exists>v b. n_balance N (w_bank w) (n_maker N) (mc_astro_denom config) \<le> n_balance N (w_bank v) (n_maker N) (mc_astro_denom config) \<and>
    on_bank (n_send N (n_maker N) (mc_satellite config)
      [\<lparr>coin_denom = mc_astro_denom config, coin_amount = word_of_nat (n_balance N (w_bank v) (n_maker N) (mc_astro_denom config))\<rparr>]) v
      = Some (v\<lparr>w_bank := b\<rparr>) \<and>
    n_balance N b (n_maker N) (mc_astro_denom config) = 0 \<and>
    n_balance N b (mc_satellite config) (mc_astro_denom config) =
      n_balance N (w_bank v) (mc_satellite config) (mc_astro_denom config) + n_balance N (w_bank v) (n_maker N) (mc_astro_denom config) \<and>
    n_external N (mc_satellite config) b = Some (w_bank w') \<and> w' = v\<lparr>w_bank := w_bank w'\<rparr>"
proof -
  have "apart N w" using reachable_apart [OF assms(1)] assms(5-7) by blast
  from collect_settlement [OF assms(2,3) this assms(6,8,4)] show ?thesis .
qed

theorem collect_empties_astro_witness:
  "\<exists>w'. tx_maker sample_net (sample_env 2000) collector_caller (Collect [\<lparr>cl_denom = ''uatom'', cl_amount = None\<rparr>]) collector = Some w' \<and>
    w_bank w' ''maker'' ''uosmo'' = 0"
proof -
  from collector_runs obtain w' where w': "tx_maker sample_net (sample_env 2000) collector_caller
      (Collect [\<lparr>cl_denom = ''uatom'', cl_amount = None\<rparr>]) collector = Some w'" by blast
  have c: "mk_config (w_maker collector) = Some ((sample_config None)\<lparr>mc_astro_denom := ''uosmo''\<rparr>)"
    by (simp add: collector_def sample_world_def sample_collector_def)
  have s: "mc_satellite ((sample_config None)\<lparr>mc_astro_denom := ''uosmo''\<rparr>) \<noteq> n_maker sample_net" by (simp add: sample_config_def)
  have "reachable sample_net collector" by (simp add: collector_def market_reachable)
  from collect_empties_astro [OF this w' c s sample_deployed sample_bank_laws sample_outside sample_maker_balances] w' show ?thesis
    by (auto simp: unat_eq_0)
qed

end
