(* ===== verification/Spec2Isabelle.thy ===== *)
theory Spec2Isabelle
  imports Maker_Properties Factory_Properties Pair_Swap_Properties Pair_Liquidity_Properties
    Pair_Life_Properties Pair_Creation World_Properties
begin

text \<open>
  \<^bold>\<open>Astroport on Osmosis.\<close> A verification development for the three CosmWasm contracts of the
  repository and the way they work together.

  \<^bold>\<open>The program.\<close>

  \<^item> The \<^bold>\<open>factory\<close> (src/contracts/factory/src) is the registry. \<open>CreatePair\<close> stores the key of the
    pair that is being created and asks the chain's pool module for a pool of the configured
    code; the chain instantiates the pair contract; the factory's reply registers its address
    and sends it the pool id.
  \<^item> A \<^bold>\<open>pair\<close> (src/contracts/pair_concentrated/src) is a concentrated-liquidity pool. Liquidity is
    provided and withdrawn with \<open>execute\<close>. A user's \<open>Swap\<close> is not executed at once: the pair stores
    the user's parameters and sends the swap to the chain's pool module, which calls back the
    pair's \<open>sudo\<close> entry point; swaps sent to the pool module directly arrive there as well.
  \<^item> The \<^bold>\<open>maker\<close> (src/contracts/maker/src, messages in src/packages/astroport_on_osmosis/src/maker.rs)
    collects fees: it swaps its balances to ASTRO along routes its owner registered, and passes
    the ASTRO on in a reply.

  \<^bold>\<open>How the code is modelled.\<close> The storage of a contract is one record (\<open>maker_state\<close>,
  \<open>factory_state\<close>, \<open>pair_state\<close>): a \<open>cw_storage_plus::Item\<close> is an option, a \<open>Map\<close> a finite map read in
  the byte order of its keys (theory Storage), a snapshot map the list of its writes with their
  heights. Every handler is one definition. It takes the third-party functions, the answers of
  the chain, the environment, the message and the storage, and returns the new storage and the
  response, or a fault: \<open>Err\<close> with a value of the contract's error enum, or \<open>Panic\<close> (an overflow,
  an \<open>unwrap\<close>, an index out of range). The fault of the code is kept in its order of evaluation.
  Amounts, times and ids are words of the width they have in the code, with checked or panicking
  arithmetic written out (theories Prelude and Numerals); \<open>Decimal\<close> and \<open>Decimal256\<close> are their atomics.

  \<^bold>\<open>Theories.\<close>

  \<^item> \<^bold>\<open>Prelude, Numerals, Chain\<close>: results, iterators, words, decimals, the vocabulary of a call
    (coins, assets, environment, messages, responses) and the record \<open>crates\<close> of the third-party
    functions that every contract calls.
  \<^item> \<^bold>\<open>Storage, Runs, Ownership\<close>: the interfaces. \<open>paged_listing\<close> (a page is the next entries after
    a key; walking the pages lists everything once), \<open>kept_invariant\<close> (what every admitted call
    keeps, every sequence of calls keeps; a failed call changes nothing) and its extension
    \<open>two_step_ownership\<close> (the owner changes only to a proposed address that claims in time; by
    two further instances of \<open>kept_invariant\<close>, outsiders never own and an owner has called).
  \<^item> \<^bold>\<open>Maker_State\<close> (state.rs, error.rs and the package's messages), \<^bold>\<open>Maker_Routes\<close> (\<open>RoutesBuilder\<close> of
    utils.rs; the locale \<open>step_source\<close> is the interface between its loop and the lookup of a step,
    interpreted on the cached lookup and on the storage), \<^bold>\<open>Maker\<close> (instantiate.rs, execute.rs,
    reply.rs, query.rs, migrate.rs), \<^bold>\<open>Maker_Laws\<close> and \<^bold>\<open>Maker_Runs\<close> (when a handler returns, the
    interpretations), \<^bold>\<open>Maker_Properties\<close>.
  \<^item> \<^bold>\<open>Factory\<close> (state.rs, error.rs, contract.rs), \<^bold>\<open>Factory_Laws\<close>, \<^bold>\<open>Factory_Properties\<close>. Executions and
    replies are the events of one machine, \<open>factory_call\<close>.
  \<^item> \<^bold>\<open>Pair_State\<close> (state.rs, error.rs and the messages of pair_pcl.rs), \<^bold>\<open>Pair\<close> (utils.rs, contract.rs,
    sudo.rs), \<^bold>\<open>Pair_Queries\<close> (queries.rs), \<^bold>\<open>Pair_Laws\<close> (when a handler returns, what it changes;
    executions, sudo calls, replies and migrations are the events of \<open>pair_call\<close>), \<^bold>\<open>Pair_Ledger\<close>
    (what a call receives, pays and tracks), \<^bold>\<open>Pair_Provide\<close> (what a provide computes),
    \<^bold>\<open>Pair_Life\<close> (storage invariants, observations), and
    the properties in \<^bold>\<open>Pair_Swap_Properties\<close>, \<^bold>\<open>Pair_Liquidity_Properties\<close>, \<^bold>\<open>Pair_Life_Properties\<close>.
  \<^item> \<^bold>\<open>Pair_Creation\<close>: the factory and a pair together, message by message.
  \<^item> \<^bold>\<open>World\<close>: the three contracts on their chain. The chain is the one of the repository's own
    integration tests (\<open>OsmosisStargate\<close> in src/contracts/maker/tests/common/osmosis_ext.rs): the pool
    module (\<open>create_pool\<close>, \<open>swap_exact_in\<close> over \<open>swap_along\<close>, \<open>swap_exact_out\<close>, its queries in
    \<open>pool_contract\<close>, \<open>factory_asks\<close>, \<open>maker_asks\<close>) and the token factory (in \<open>pair_respond\<close>). A \<open>world\<close> is
    the bank, the pool numbers, the factory, the pairs at their addresses and the maker; the
    messages of a response are delivered in order with their replies (\<open>run_submsgs\<close>), a
    transaction (\<open>tx_pair\<close>, \<open>tx_factory\<close>, \<open>tx_maker\<close>) is undone when anything in it fails, and
    \<open>chain_step\<close> and \<open>reachable\<close> are the worlds that any sequence of transactions, swaps, pool
    creations, migrations and changes elsewhere on the chain leads to.
  \<^item> \<^bold>\<open>World_Laws\<close> (no swap parameters stay behind, pool ids are the pool module's), \<^bold>\<open>World_Swaps\<close> (the
    round trip of a swap through the pool module is one direct swap), \<^bold>\<open>World_Moves\<close> and
    \<^bold>\<open>World_Steps\<close> (every step of the chain is a sequence of moves, each of which runs one call of
    one pair and takes nothing from the others), \<^bold>\<open>World_Invariants\<close> (what every move keeps, so every
    reachable world has: pairs are live, their tracked balances are in the bank), \<^bold>\<open>World_Creation\<close>
    (the creation transaction and the registry), \<^bold>\<open>World_Settlement\<close> (the balances a swap or a
    collect moves, from one lemma on responses that only pay, \<open>payments_exact\<close>),
    \<^bold>\<open>World_Liquidity\<close> (the balances a provide or a withdrawal moves), and \<^bold>\<open>World_Properties\<close>. What
    holds in every reachable world goes through the locale \<open>reachable_invariant\<close> of World_Laws,
    interpreted for the swap parameters and pool ids, for the addresses of the contracts, for the
    ledgers and for the registry.
  \<^item> \<^bold>\<open>Samples, Maker_Samples, Factory_Samples, Pair_Samples, World_Samples\<close>: concrete third-party
    functions and chain answers, and a chain with a ledger, one pair and a maker. The theorems do not use them;
    the witnesses evaluate the definitions on them and show that the named hypotheses can hold.

  \<^bold>\<open>What is shown.\<close>

  \<^item> \<^bold>\<open>Swaps of a pair.\<close> A swap that leaves the pair comes back with the user's parameters, once; it
    pays what its simulation said, and the exact-out swap charges what the reverse simulation
    said and (lemma \<open>exact_out_within_max\<close>) no more than the maximum. The price that \<open>sudo\<close> computes from the constant minimum
    of a dispatched swap panics on large offers.
  \<^item> \<^bold>\<open>Liquidity and the ledger.\<close> What a provide checks and the share it mints, the first one included; a
    withdrawal pays what \<open>query_share\<close> announces; every balance a call tracks is the balance on the
    chain after the call's payments.
  \<^item> \<^bold>\<open>Life of a pair.\<close> Its storage stays well formed, its identity, LP denom and pool id are set once,
    both setup steps succeed in either order, only the owner configures it, ownership is safe, a
    pending trade that is due is observed, once, migration is possible once (lemma \<open>pair_migrates_once\<close>).
  \<^item> \<^bold>\<open>Factory.\<close> When a creation succeeds; the round trip from a creation over the reply to the query;
    outsiders only add pairs; keys that collide; fee bounds; listing and deregistration.
  \<^item> \<^bold>\<open>Maker.\<close> Route building is the bounded walk through the stored steps, and it ends on cyclic
    tables too; registered routes reach ASTRO for ever, though not always within the depth limit;
    a collect refines its loop-free specification and sends only safe swaps, at least a cooldown
    after any one before it; the limits hold for ever; anyone but the owner can only collect, and
    the proposed owner claim.
  \<^item> \<^bold>\<open>The contracts together.\<close> In every reachable world: no swap is pending; a registered key leads
    to a live pair over its assets that knows its LP token and its pool id; what a pair tracks
    is in the bank. A creation transaction leaves exactly one new pair, settled and registered. A
    user's \<open>Swap\<close>, for all its detour, is one direct swap, moves the funds, the return and at most
    one fee, and nothing else; so does an exact-out swap of the pool module; a provide moves the
    funds and mints LP tokens, a withdrawal burns the LP tokens paid and moves what \<open>query_share\<close>
    answers, and no other balance changes; a route of the pool module is a chain of direct swaps.
    A collect spends no ASTRO in its swaps and ends with all ASTRO sent to the satellite.
  \<^item> \<^bold>\<open>Two contracts, message by message.\<close> A creation accepted by the factory leads to a registered pair over the assets
    asked for, which takes the pool id exactly when the factory sits at the address the pair was
    built with.

  \<^bold>\<open>Bounds.\<close> The bounded loop of \<open>RoutesBuilder\<close> has the code's bound \<open>MAX_SWAPS_DEPTH = 5\<close>; every other
  loop of the contracts goes over a list or a finite map. The delivery of messages
  (\<open>pair_respond\<close>, \<open>factory_respond\<close>, \<open>maker_respond\<close>) carries a bound on the nesting of calls and is
  used with 2. That is enough: the deepest responses are a \<open>Swap\<close> (the pair's message reaches the
  pool module, whose \<open>sudo\<close> call of a pair answers with payments only, lemma \<open>sudo_pays\<close>), a creation
  (the factory's reply sends \<open>SetPoolId\<close>, which answers with nothing) and a collect (the maker's
  reply sends one transfer); with payments only the bound does not matter (\<open>respond_pays\<close>).
  \<open>user_swap_is_direct\<close> and the witnesses of \<open>pair_creation_whole\<close> and \<open>collect_empties_astro\<close> show such
  transactions run to their end. Every definition is total, so every call ends, with a result or
  a fault.

  \<^bold>\<open>Third-party code\<close> is not under src/ and is never defined: the astroport crate, the pool
  mathematics (\<open>astroport_pcl_common\<close>), the observation buffer, the fixed-point arithmetic of
  cosmwasm_std, and the chain. Its functions are the fields of \<open>crates\<close>, \<open>maker_crates\<close>, \<open>factory_crates\<close>
  and \<open>pcl_crates\<close>, its answers to queries those of \<open>maker_chain\<close>, \<open>factory_chain\<close> and \<open>pair_chain\<close>. A
  function of a crate may return, fail or panic. The few theorems that rely on more name it:
  \<open>ownership_laws\<close> (who may propose, drop and claim), \<open>version_laws\<close> (the stored contract version),
  \<open>decimal_laws\<close> (fixed-point subtraction and multiplication), \<open>payment_law\<close> (\<open>must_pay\<close> accepts exactly one
  coin, of the denom asked for), \<open>decimal_law\<close> and \<open>refund_law\<close> (\<open>to_decimal_asset\<close> is \<open>to_decimal256\<close> of the amount, \<open>into_asset\<close> is \<open>to_uint\<close> of it), \<open>ratio_law\<close> (the
  value of a ratio that fits), \<open>exact_law\<close> (with at most 18 decimals conversions lose nothing,
  checked subtraction and addition are inverse, a share is a share of each asset),
  \<open>buffer_law\<close> (a pushed observation is read back), \<open>fee_bps_law\<close> (what \<open>valid_fee_bps\<close> accepts). For the
  world, whose unknown parts are the fields of \<open>net\<close>: \<open>deployed\<close> (the factory sits at the address
  compiled into the pair, address validation returns its input), \<open>bank_laws\<close> (what sends, mints
  and burns do to balances), \<open>funds_laws\<close> (the native asset is the coin, an amount found sent is
  among the funds), \<open>outside_law\<close> (a contract outside the repository takes nothing from the
  pairs), \<open>registry_law\<close> (at most 18 decimals; LP tokens are not in the coin registry), \<open>denom_law\<close> and
  \<open>pool_id_law\<close> (answers are decoded to what was encoded), \<open>balance_law\<close> and \<open>maker_balance_law\<close> (the bank
  answers queries with its balances, which are \<open>Uint128\<close>). \<open>World_Samples\<close> proves all of them of
  one chain.

  \<^bold>\<open>Not modelled.\<close> The JSON encoding of query answers and messages; gas; the inside of the bank and
  of the other contracts of the chain (the generator, the satellite, pools of another code); the
  crate roots and binaries that print schemas; the assertions of the contract tests and the
  end-to-end tests, which drive a test chain and hold no logic of the contracts (of the tests
  only the chain they run on is modelled). The table of pools in those tests is not undone when
  a transaction fails; in the model it is, as on the chain.
\<close>

end
